(* ===== verification/Mail_Prelude.thy ===== *)
theory Mail_Prelude
  imports Main "HOL-Library.Char_ord" "HOL-Library.List_Lexorder"
begin

text \<open>
  Shared vocabulary of the development: instants, Python strings, exceptions,
  the effect type of the service functions, and database tables as lists of
  rows. The three named collections carry the component proofs:
  \<open>effect_simps\<close> (exceptions and state passing), \<open>table_simps\<close> (row selection
  and update) and \<open>py_simps\<close> (Python string helpers).

  Strings are ASCII: a \<open>char\<close> is a code point below 128, where the Python
  methods modelled here (\<open>lower\<close>, \<open>upper\<close>, \<open>strip\<close>, \<open>isdigit\<close>) coincide with
  their ASCII versions. Instants are PostgreSQL \<open>timestamptz\<close> values: integers
  that count microseconds.
\<close>

named_theorems effect_simps "state passing with exceptions"
named_theorems table_simps "rows selected and updated by SQL statements"
named_theorems py_simps "Python string helpers"

section \<open>Instants\<close>

type_synonym instant = int

definition seconds :: "int \<Rightarrow> instant" where
  "seconds n = n * 1000000"

definition days :: "int \<Rightarrow> instant" where
  "days n = seconds (n * 86400)"

lemma seconds_mono [simp]: "seconds m \<le> seconds n \<longleftrightarrow> m \<le> n"
  by (simp add: seconds_def)

lemma seconds_less [simp]: "seconds m < seconds n \<longleftrightarrow> m < n"
  by (simp add: seconds_def)

lemma seconds_0 [simp]: "seconds 0 = 0"
  by (simp add: seconds_def)

lemma seconds_nonneg [simp]: "0 \<le> seconds n \<longleftrightarrow> 0 \<le> n"
  by (simp add: seconds_def)

lemma seconds_pos [simp]: "0 < seconds n \<longleftrightarrow> 0 < n"
  by (simp add: seconds_def)

section \<open>Exceptions\<close>

text \<open>
  One constructor per exception class the modelled functions raise or inspect.
  \<open>HttpError\<close> carries \<open>exc.resp.status\<close> where it is present and numeric;
  \<open>OtherError\<close> carries the class name of any other exception.
\<close>

datatype exn =
    UserMailWorkBlocked
  | AdvisoryLockUnavailable
  | ValueError string
  | RuntimeError string
  | LookupError string
  | KeyError
  | TypeError
  | IntegrityError
  | GoogleCredentialsUnavailable
  | HttpError "int option"
  | TimeoutError
  | ConnectionError
  | MultipleSentGmailMessagesFound
  | MailSendConfirmationPending
  | MailSendIdempotencyConflict
  | AccountWriteIdempotencyConflict
  | ThreadActionIdempotencyConflict
  | HTTPException int string
  | OtherError string

section \<open>Effects: state passing with exceptions\<close>

type_synonym ('s, 'a) eff = "'s \<Rightarrow> (exn + 'a) \<times> 's"

definition ereturn :: "'a \<Rightarrow> ('s, 'a) eff" where
  "ereturn x = (\<lambda>s. (Inr x, s))"

definition eraise :: "exn \<Rightarrow> ('s, 'a) eff" where
  "eraise e = (\<lambda>s. (Inl e, s))"

definition ebind :: "('s, 'a) eff \<Rightarrow> ('a \<Rightarrow> ('s, 'b) eff) \<Rightarrow> ('s, 'b) eff" where
  "ebind m f = (\<lambda>s. case m s of (Inl e, s') \<Rightarrow> (Inl e, s') | (Inr x, s') \<Rightarrow> f x s')"

text \<open>\<open>try: m except e: h\<close>, where the handler sees the state the body left.\<close>

definition etry :: "('s, 'a) eff \<Rightarrow> (exn \<Rightarrow> ('s, 'a) eff) \<Rightarrow> ('s, 'a) eff" where
  "etry m h = (\<lambda>s. case m s of (Inl e, s') \<Rightarrow> h e s' | (Inr x, s') \<Rightarrow> (Inr x, s'))"

text \<open>\<open>with engine.begin()\<close>: an exception rolls every statement back.\<close>

definition etransaction :: "('s, 'a) eff \<Rightarrow> ('s, 'a) eff" where
  "etransaction m = (\<lambda>s. case m s of (Inl e, _) \<Rightarrow> (Inl e, s) | (Inr x, s') \<Rightarrow> (Inr x, s'))"

text \<open>\<open>try: m finally: fin\<close>: an exception of the cleanup replaces the outcome.\<close>

definition efinally :: "('s, 'a) eff \<Rightarrow> ('s, unit) eff \<Rightarrow> ('s, 'a) eff" where
  "efinally m fin =
     (\<lambda>s. case m s of (r, s') \<Rightarrow>
        (case fin s' of (Inl e, s'') \<Rightarrow> (Inl e, s'') | (Inr _, s'') \<Rightarrow> (r, s'')))"

definition eget :: "('s \<Rightarrow> 'a) \<Rightarrow> ('s, 'a) eff" where
  "eget f = (\<lambda>s. (Inr (f s), s))"

definition eupdate :: "('s \<Rightarrow> 's) \<Rightarrow> ('s, unit) eff" where
  "eupdate f = (\<lambda>s. (Inr (), f s))"

definition eassert :: "bool \<Rightarrow> exn \<Rightarrow> ('s, unit) eff" where
  "eassert b e = (if b then ereturn () else eraise e)"

fun emap :: "('x \<Rightarrow> ('s, 'a) eff) \<Rightarrow> 'x list \<Rightarrow> ('s, 'a list) eff" where
  "emap f [] = ereturn []"
| "emap f (x # xs) = ebind (f x) (\<lambda>y. ebind (emap f xs) (\<lambda>ys. ereturn (y # ys)))"

lemma ereturn_apply [simp, effect_simps]: "ereturn x s = (Inr x, s)"
  by (simp add: ereturn_def)

lemma eraise_apply [simp, effect_simps]: "eraise e s = (Inl e, s)"
  by (simp add: eraise_def)

lemma eget_apply [simp, effect_simps]: "eget f s = (Inr (f s), s)"
  by (simp add: eget_def)

lemma eupdate_apply [simp, effect_simps]: "eupdate f s = (Inr (), f s)"
  by (simp add: eupdate_def)

lemma eassert_apply [simp, effect_simps]:
  "eassert b e s = (if b then (Inr (), s) else (Inl e, s))"
  by (simp add: eassert_def)

lemma ebind_apply [effect_simps]:
  "ebind m f s = (case m s of (Inl e, s') \<Rightarrow> (Inl e, s') | (Inr x, s') \<Rightarrow> f x s')"
  by (simp add: ebind_def)

lemma etry_apply [effect_simps]:
  "etry m h s = (case m s of (Inl e, s') \<Rightarrow> h e s' | (Inr x, s') \<Rightarrow> (Inr x, s'))"
  by (simp add: etry_def)

lemma efinally_apply [effect_simps]:
  "efinally m fin s =
     (case m s of (r, s') \<Rightarrow>
        (case fin s' of (Inl e, s'') \<Rightarrow> (Inl e, s'') | (Inr _, s'') \<Rightarrow> (r, s'')))"
  by (simp add: efinally_def)

lemma etransaction_apply [effect_simps]:
  "etransaction m s = (case m s of (Inl e, _) \<Rightarrow> (Inl e, s) | (Inr x, s') \<Rightarrow> (Inr x, s'))"
  by (simp add: etransaction_def)

lemmas outcome_splits = prod.splits sum.splits

text \<open>
  An effect preserves a predicate on the state when every outcome does. The
  combinators preserve what their parts preserve, so an invariant of a composed
  handler follows from its statements.
\<close>

definition epreserves :: "('s \<Rightarrow> bool) \<Rightarrow> ('s, 'a) eff \<Rightarrow> bool" where
  "epreserves P m \<longleftrightarrow> (\<forall>s. P s \<longrightarrow> P (snd (m s)))"

named_theorems preserve_intros "effects that preserve a predicate on the state"

lemma epreservesD: "epreserves P m \<Longrightarrow> P s \<Longrightarrow> P (snd (m s))"
  by (simp add: epreserves_def)

lemma epreserves_outcome: "epreserves P m \<Longrightarrow> P s \<Longrightarrow> m s = (r, s') \<Longrightarrow> P s'"
  by (metis epreservesD snd_conv)

lemma epreserves_return [preserve_intros]: "epreserves P (ereturn x)"
  by (simp add: epreserves_def)

lemma epreserves_raise [preserve_intros]: "epreserves P (eraise e)"
  by (simp add: epreserves_def)

lemma epreserves_get [preserve_intros]: "epreserves P (eget f)"
  by (simp add: epreserves_def)

lemma epreserves_assert [preserve_intros]: "epreserves P (eassert b e)"
  by (simp add: epreserves_def)

lemma epreserves_update [preserve_intros]:
  "(\<And>s. P s \<Longrightarrow> P (f s)) \<Longrightarrow> epreserves P (eupdate f)"
  by (simp add: epreserves_def)

lemma epreserves_bind [preserve_intros]:
  assumes "epreserves P m" and "\<And>x. epreserves P (f x)"
  shows "epreserves P (ebind m f)"
  unfolding epreserves_def ebind_apply
proof (intro allI impI)
  fix s assume "P s"
  then show "P (snd (case m s of (Inl e, s') \<Rightarrow> (Inl e, s') | (Inr x, s') \<Rightarrow> f x s'))"
    using epreserves_outcome [OF assms(1)] epreservesD [OF assms(2)]
    by (auto split: prod.split sum.split)
qed

lemma epreserves_try [preserve_intros]:
  assumes "epreserves P m" and "\<And>e. epreserves P (h e)"
  shows "epreserves P (etry m h)"
  unfolding epreserves_def etry_apply
proof (intro allI impI)
  fix s assume "P s"
  then show "P (snd (case m s of (Inl e, s') \<Rightarrow> h e s' | (Inr x, s') \<Rightarrow> (Inr x, s')))"
    using epreserves_outcome [OF assms(1)] epreservesD [OF assms(2)]
    by (auto split: prod.split sum.split)
qed

lemma epreserves_finally [preserve_intros]:
  assumes "epreserves P m" and "epreserves P fin"
  shows "epreserves P (efinally m fin)"
  unfolding epreserves_def
proof (intro allI impI)
  fix s assume P: "P s"
  obtain r s' where m: "m s = (r, s')" by (cases "m s")
  obtain q s'' where fin: "fin s' = (q, s'')" by (cases "fin s'")
  from epreserves_outcome [OF assms(1) P m] have "P s'" .
  from epreserves_outcome [OF assms(2) this fin] have "P s''" .
  then show "P (snd (efinally m fin s))" by (simp add: efinally_apply m fin split: sum.split)
qed

lemma epreserves_transaction [preserve_intros]:
  assumes "epreserves P m"
  shows "epreserves P (etransaction m)"
  unfolding epreserves_def etransaction_apply
proof (intro allI impI)
  fix s assume "P s"
  then show "P (snd (case m s of (Inl e, _) \<Rightarrow> (Inl e, s) | (Inr x, s') \<Rightarrow> (Inr x, s')))"
    using epreserves_outcome [OF assms] by (auto split: prod.split sum.split)
qed

lemma epreserves_if [preserve_intros]:
  "epreserves P m \<Longrightarrow> epreserves P n \<Longrightarrow> epreserves P (if b then m else n)"
  by simp

lemma epreserves_option [preserve_intros]:
  "epreserves P m \<Longrightarrow> (\<And>x. epreserves P (f x)) \<Longrightarrow>
   epreserves P (case v of None \<Rightarrow> m | Some x \<Rightarrow> f x)"
  by (simp split: option.split)

lemma epreserves_map [preserve_intros]:
  "(\<And>x. epreserves P (f x)) \<Longrightarrow> epreserves P (emap f xs)"
  by (induction xs) (simp_all add: preserve_intros)

text \<open>A statement that depends on the state it reads.\<close>

lemma epreserves_at: "(\<And>s. epreserves P (m s)) \<Longrightarrow> epreserves P (\<lambda>s. m s s)"
  by (simp add: epreserves_def)

text \<open>An operation of a run: its answer is not looked at.\<close>

definition edrop :: "('s, 'a) eff \<Rightarrow> ('s, unit) eff" where
  "edrop m = (\<lambda>s. (Inr (), snd (m s)))"

lemma edrop_snd [simp]: "snd (edrop m s) = snd (m s)"
  by (simp add: edrop_def)

lemma epreserves_drop [preserve_intros]: "epreserves P m \<Longrightarrow> epreserves P (edrop m)"
  by (simp add: epreserves_def)

text \<open>
  Total correctness triples with a separate postcondition for exceptions. Every
  effect is a total function, so a triple describes what happens, not only what
  holds if nothing goes wrong.
\<close>

definition ehoare ::
    "('s \<Rightarrow> bool) \<Rightarrow> ('s, 'a) eff \<Rightarrow> ('a \<Rightarrow> 's \<Rightarrow> bool) \<Rightarrow> (exn \<Rightarrow> 's \<Rightarrow> bool) \<Rightarrow> bool" where
  "ehoare P m Q E \<longleftrightarrow>
     (\<forall>s. P s \<longrightarrow> (case m s of (Inl e, s') \<Rightarrow> E e s' | (Inr x, s') \<Rightarrow> Q x s'))"

named_theorems hoare_intros "triples of the combinators"

lemma ehoareI:
  "(\<And>s e s'. P s \<Longrightarrow> m s = (Inl e, s') \<Longrightarrow> E e s') \<Longrightarrow>
   (\<And>s x s'. P s \<Longrightarrow> m s = (Inr x, s') \<Longrightarrow> Q x s') \<Longrightarrow> ehoare P m Q E"
  by (auto simp: ehoare_def split: outcome_splits)

lemma ehoareD:
  assumes "ehoare P m Q E" and "P s"
  shows "m s = (Inl e, s') \<Longrightarrow> E e s'" and "m s = (Inr x, s') \<Longrightarrow> Q x s'"
  using assms by (auto simp: ehoare_def)

lemma ehoare_weaken:
  "ehoare P' m Q' E' \<Longrightarrow> (\<And>s. P s \<Longrightarrow> P' s) \<Longrightarrow> (\<And>x s. Q' x s \<Longrightarrow> Q x s) \<Longrightarrow>
   (\<And>e s. E' e s \<Longrightarrow> E e s) \<Longrightarrow> ehoare P m Q E"
  by (fastforce simp: ehoare_def split: outcome_splits)

lemma ehoare_return [hoare_intros]: "(\<And>s. P s \<Longrightarrow> Q x s) \<Longrightarrow> ehoare P (ereturn x) Q E"
  by (simp add: ehoare_def)

lemma ehoare_raise [hoare_intros]: "(\<And>s. P s \<Longrightarrow> E e s) \<Longrightarrow> ehoare P (eraise e) Q E"
  by (simp add: ehoare_def)

lemma ehoare_get [hoare_intros]: "(\<And>s. P s \<Longrightarrow> Q (f s) s) \<Longrightarrow> ehoare P (eget f) Q E"
  by (simp add: ehoare_def)

lemma ehoare_bind:
  assumes "ehoare P m R E" and "\<And>x. ehoare (R x) (f x) Q E"
  shows "ehoare P (ebind m f) Q E"
  unfolding ehoare_def ebind_apply
proof (intro allI impI)
  fix s assume "P s"
  then show "case (case m s of (Inl e, s') \<Rightarrow> (Inl e, s') | (Inr x, s') \<Rightarrow> f x s') of
      (Inl e, s') \<Rightarrow> E e s' | (Inr x, s') \<Rightarrow> Q x s'"
    using ehoareD [OF assms(1)] assms(2)
    by (cases "m s") (auto simp: ehoare_def split: sum.splits)
qed

lemma ehoare_try:
  assumes "ehoare P m Q F" and "\<And>e. ehoare (F e) (h e) Q E"
  shows "ehoare P (etry m h) Q E"
  unfolding ehoare_def etry_apply
proof (intro allI impI)
  fix s assume "P s"
  then show "case (case m s of (Inl e, s') \<Rightarrow> h e s' | (Inr x, s') \<Rightarrow> (Inr x, s')) of
      (Inl e, s') \<Rightarrow> E e s' | (Inr x, s') \<Rightarrow> Q x s'"
    using ehoareD [OF assms(1)] assms(2)
    by (cases "m s") (auto simp: ehoare_def split: sum.splits)
qed

lemma ehoare_preserves: "epreserves P m \<Longrightarrow> ehoare P m (\<lambda>_. P) (\<lambda>_. P)"
  by (fastforce simp: epreserves_def ehoare_def split: outcome_splits)

section \<open>Python strings\<close>

definition is_space :: "char \<Rightarrow> bool" where
  "is_space c \<longleftrightarrow> (let n = of_char c :: nat in (9 \<le> n \<and> n \<le> 13) \<or> (28 \<le> n \<and> n \<le> 32))"

definition is_digit :: "char \<Rightarrow> bool" where
  "is_digit c \<longleftrightarrow> (let n = of_char c :: nat in 48 \<le> n \<and> n \<le> 57)"

definition upper_char :: "char \<Rightarrow> char" where
  "upper_char c = (let n = of_char c :: nat in if 97 \<le> n \<and> n \<le> 122 then char_of (n - 32) else c)"

definition lower_char :: "char \<Rightarrow> char" where
  "lower_char c = (let n = of_char c :: nat in if 65 \<le> n \<and> n \<le> 90 then char_of (n + 32) else c)"

definition upper :: "string \<Rightarrow> string" where
  "upper s = map upper_char s"

definition lower :: "string \<Rightarrow> string" where
  "lower s = map lower_char s"

definition lstrip :: "string \<Rightarrow> string" where
  "lstrip s = dropWhile is_space s"

definition rstrip :: "string \<Rightarrow> string" where
  "rstrip s = rev (dropWhile is_space (rev s))"

definition strip :: "string \<Rightarrow> string" where
  "strip s = rstrip (lstrip s)"

definition startswith :: "string \<Rightarrow> string \<Rightarrow> bool" where
  "startswith s p \<longleftrightarrow> take (length p) s = p"

text \<open>\<open>str.isdigit\<close>, and the SQL test \<open>~ '^[0-9]+$'\<close> on texts without a line break.\<close>

definition isdigit :: "string \<Rightarrow> bool" where
  "isdigit s \<longleftrightarrow> s \<noteq> [] \<and> list_all is_digit s"

text \<open>\<open>int(s)\<close> and \<open>s::NUMERIC\<close> of a string of decimal digits.\<close>

definition digit_val :: "char \<Rightarrow> nat" where
  "digit_val c = of_char c - 48"

definition numeral_of :: "string \<Rightarrow> nat" where
  "numeral_of s = foldl (\<lambda>n c. 10 * n + digit_val c) 0 s"

fun nat_str_rev :: "nat \<Rightarrow> string" where
  "nat_str_rev n =
     (if n < 10 then [char_of (48 + n)] else char_of (48 + n mod 10) # nat_str_rev (n div 10))"

declare nat_str_rev.simps [simp del]

definition nat_str :: "nat \<Rightarrow> string" where
  "nat_str n = rev (nat_str_rev n)"

definition int_str :: "int \<Rightarrow> string" where
  "int_str i = (if i < 0 then CHR ''-'' # nat_str (nat (- i)) else nat_str (nat i))"

text \<open>\<open>str(value or "")\<close> and \<open>value or None\<close> on optional strings.\<close>

definition str_or_empty :: "string option \<Rightarrow> string" where
  "str_or_empty v = (case v of None \<Rightarrow> '''' | Some s \<Rightarrow> s)"

definition nonempty :: "string \<Rightarrow> string option" where
  "nonempty s = (if s = '''' then None else Some s)"

definition truthy_str :: "string option \<Rightarrow> bool" where
  "truthy_str v \<longleftrightarrow> str_or_empty v \<noteq> ''''"

text \<open>\<open>list(dict.fromkeys(xs))\<close>: the first occurrence of every element, in order.\<close>

definition dict_fromkeys :: "'a list \<Rightarrow> 'a list" where
  "dict_fromkeys xs = rev (remdups (rev xs))"

text \<open>\<open>a or b\<close> on optional values, and SQL's \<open>COALESCE\<close>.\<close>

definition coalesce :: "'a option \<Rightarrow> 'a option \<Rightarrow> 'a option" where
  "coalesce a b = (case a of None \<Rightarrow> b | Some x \<Rightarrow> Some x)"

lemma coalesce_simps [simp, table_simps]:
  "coalesce None b = b" "coalesce (Some x) b = Some x" "coalesce a None = a"
  by (simp_all add: coalesce_def split: option.split)

lemma set_dict_fromkeys [simp, py_simps]: "set (dict_fromkeys xs) = set xs"
  by (simp add: dict_fromkeys_def)

lemma distinct_dict_fromkeys [simp, py_simps]: "distinct (dict_fromkeys xs)"
  by (simp add: dict_fromkeys_def)

lemma dict_fromkeys_distinct [py_simps]: "distinct xs \<Longrightarrow> dict_fromkeys xs = xs"
  by (simp add: dict_fromkeys_def distinct_remdups_id)

lemma upper_char_idem [simp, py_simps]: "upper_char (upper_char c) = upper_char c"
proof (cases "97 \<le> (of_char c :: nat) \<and> (of_char c :: nat) \<le> 122")
  case True
  then have "(of_char c - 32 :: nat) < 256" by linarith
  with True show ?thesis by (auto simp: upper_char_def Let_def)
next
  case False
  then have "upper_char c = c" by (auto simp: upper_char_def Let_def)
  then show ?thesis by simp
qed

lemma lower_char_idem [simp, py_simps]: "lower_char (lower_char c) = lower_char c"
proof (cases "65 \<le> (of_char c :: nat) \<and> (of_char c :: nat) \<le> 90")
  case True
  then show ?thesis by (simp add: lower_char_def Let_def)
next
  case False
  then have "lower_char c = c" by (auto simp: lower_char_def Let_def)
  then show ?thesis by simp
qed

lemma upper_idem [simp, py_simps]: "upper (upper s) = upper s"
  by (simp add: upper_def)

lemma lower_idem [simp, py_simps]: "lower (lower s) = lower s"
  by (simp add: lower_def)

lemma length_upper [simp]: "length (upper s) = length s"
  by (simp add: upper_def)

lemma str_or_empty_simps [simp, py_simps]:
  "str_or_empty None = ''''" "str_or_empty (Some s) = s"
  by (simp_all add: str_or_empty_def)

lemma nonempty_eq_None [simp]: "nonempty s = None \<longleftrightarrow> s = ''''"
  by (simp add: nonempty_def)

lemma nonempty_eq_Some [simp]: "nonempty s = Some t \<longleftrightarrow> s = t \<and> t \<noteq> ''''"
  by (auto simp: nonempty_def)

lemma truthy_str_simps [simp, py_simps]:
  "\<not> truthy_str None" "truthy_str (Some s) \<longleftrightarrow> s \<noteq> ''''"
  by (simp_all add: truthy_str_def)

lemma startswith_append [simp, py_simps]: "startswith (p @ s) p"
  by (simp add: startswith_def)

section \<open>Tables as lists of rows\<close>

text \<open>
  A table is the list of its rows. \<open>update_where p f\<close> is an \<open>UPDATE\<close> whose
  \<open>WHERE\<close> clause is \<open>p\<close> and whose \<open>SET\<close> clause is \<open>f\<close>; \<open>returning\<close> lists the
  rows its \<open>RETURNING\<close> clause yields, and \<open>row_first\<close> is \<open>.first()\<close>.
  \<open>SELECT .. ORDER BY .. LIMIT 1\<close> takes the first row that no other row
  strictly precedes; where the code leaves a tie open, table order decides.
\<close>

definition update_where :: "('r \<Rightarrow> bool) \<Rightarrow> ('r \<Rightarrow> 'r) \<Rightarrow> 'r list \<Rightarrow> 'r list" where
  "update_where p f rows = map (\<lambda>r. if p r then f r else r) rows"

definition returning :: "('r \<Rightarrow> bool) \<Rightarrow> ('r \<Rightarrow> 'r) \<Rightarrow> 'r list \<Rightarrow> 'r list" where
  "returning p f rows = map f (filter p rows)"

definition delete_where :: "('r \<Rightarrow> bool) \<Rightarrow> 'r list \<Rightarrow> 'r list" where
  "delete_where p rows = filter (\<lambda>r. \<not> p r) rows"

definition row_first :: "'r list \<Rightarrow> 'r option" where
  "row_first rows = (case rows of [] \<Rightarrow> None | r # _ \<Rightarrow> Some r)"

definition select_first :: "('r \<Rightarrow> bool) \<Rightarrow> 'r list \<Rightarrow> 'r option" where
  "select_first p rows = row_first (filter p rows)"

fun best_row :: "('r \<Rightarrow> 'r \<Rightarrow> bool) \<Rightarrow> 'r list \<Rightarrow> 'r option" where
  "best_row before [] = None"
| "best_row before (r # rows) =
     (case best_row before rows of None \<Rightarrow> Some r
      | Some r' \<Rightarrow> if before r' r then Some r' else Some r)"

definition limit_rows :: "int \<Rightarrow> 'r list \<Rightarrow> 'r list" where
  "limit_rows n rows = take (nat n) rows"

lemma update_where_Nil [simp]: "update_where p f [] = []"
  by (simp add: update_where_def)

lemma update_where_Cons [simp]:
  "update_where p f (r # rows) = (if p r then f r else r) # update_where p f rows"
  by (simp add: update_where_def)

lemma length_update_where [simp, table_simps]: "length (update_where p f rows) = length rows"
  by (simp add: update_where_def)

lemma in_update_where [table_simps]:
  "r' \<in> set (update_where p f rows) \<longleftrightarrow> (\<exists>r \<in> set rows. r' = (if p r then f r else r))"
  by (auto simp: update_where_def)

lemma map_update_where [table_simps]:
  "(\<And>r. r \<in> set rows \<Longrightarrow> p r \<Longrightarrow> k (f r) = k r) \<Longrightarrow> map k (update_where p f rows) = map k rows"
  by (auto simp: update_where_def)

lemma update_where_no_match [table_simps]:
  "(\<And>r. r \<in> set rows \<Longrightarrow> \<not> p r) \<Longrightarrow> update_where p f rows = rows"
  by (auto simp: update_where_def intro: map_idI)

lemma filter_Nil_update_where: "filter p rows = [] \<Longrightarrow> update_where p f rows = rows"
  by (auto simp: filter_empty_conv update_where_no_match)

lemma row_first_simps [simp, table_simps]:
  "row_first [] = None" "row_first (r # rows) = Some r"
  by (simp_all add: row_first_def)

lemma row_first_eq_None [simp, table_simps]: "row_first rows = None \<longleftrightarrow> rows = []"
  by (cases rows) simp_all

lemma row_first_map [table_simps]: "row_first (map f rows) = map_option f (row_first rows)"
  by (cases rows) simp_all

lemma row_first_in: "row_first rows = Some r \<Longrightarrow> r \<in> set rows"
  by (cases rows) auto

lemma returning_first [table_simps]:
  "row_first (returning p f rows) = map_option f (select_first p rows)"
  by (simp add: returning_def select_first_def row_first_map)

lemma select_first_None [table_simps]:
  "select_first p rows = None \<longleftrightarrow> (\<forall>r \<in> set rows. \<not> p r)"
  by (simp add: select_first_def filter_empty_conv)

lemma select_first_Some: "select_first p rows = Some r \<Longrightarrow> r \<in> set rows \<and> p r"
  by (auto simp: select_first_def dest: row_first_in)

lemma select_first_Nil [simp]: "select_first p [] = None"
  by (simp add: select_first_def)

lemma select_first_Cons [simp]:
  "select_first p (r # rows) = (if p r then Some r else select_first p rows)"
  by (simp add: select_first_def)

text \<open>With a key that is unique in the table, the selected row is the row with that key.\<close>

lemma select_first_unique:
  assumes "distinct (map key rows)" and "r \<in> set rows" and "p r"
    and "\<And>r'. p r' \<Longrightarrow> key r' = key r"
  shows "select_first p rows = Some r"
proof (cases "select_first p rows")
  case None
  with assms(2,3) show ?thesis by (auto simp: select_first_None)
next
  case (Some r')
  from select_first_Some [OF Some] assms(4) have "r' \<in> set rows" "key r' = key r" by auto
  with assms(1,2) have "r' = r" by (metis distinct_map inj_onD)
  with Some show ?thesis by simp
qed

lemma best_row_None [simp]: "best_row before rows = None \<longleftrightarrow> rows = []"
  by (cases rows) (auto split: option.splits)

lemma best_row_in: "best_row before rows = Some r \<Longrightarrow> r \<in> set rows"
  by (induction rows arbitrary: r) (auto split: option.splits if_splits)

text \<open>No row strictly precedes the selected one, for a transitive, irreflexive order.\<close>

lemma best_row_minimal:
  assumes "transp before" and "asymp before" and negtrans: "\<And>a b c. before a c \<Longrightarrow> before a b \<or> before b c"
    and "best_row before rows = Some r" and "x \<in> set rows"
  shows "\<not> before x r"
  using assms(4,5)
proof (induction rows arbitrary: r x)
  case Nil
  then show ?case by simp
next
  case (Cons y rows)
  show ?case
  proof (cases "best_row before rows")
    case None
    with Cons.prems assms(2) show ?thesis by (auto dest: asympD)
  next
    case (Some r')
    have below: "\<And>z. z \<in> set rows \<Longrightarrow> \<not> before z r'" using Cons.IH [OF Some] by blast
    show ?thesis
    proof (cases "before r' y")
      case True
      with Some Cons.prems(1) have "r = r'" by simp
      with below True Cons.prems(2) assms(2) show ?thesis by (auto dest: asympD)
    next
      case False
      with Some Cons.prems(1) have r: "r = y" by simp
      show ?thesis
      proof (cases "x = y")
        case True
        with r assms(2) show ?thesis by (auto dest: asympD)
      next
        case x: False
        with Cons.prems(2) have "\<not> before x r'" using below by auto
        with False r negtrans [of x y r'] show ?thesis by blast
      qed
    qed
  qed
qed

lemma delete_where_subset: "set (delete_where p rows) \<subseteq> set rows"
  by (auto simp: delete_where_def)

lemma in_delete_where [table_simps]: "r \<in> set (delete_where p rows) \<longleftrightarrow> r \<in> set rows \<and> \<not> p r"
  by (auto simp: delete_where_def)

lemma distinct_map_delete_where: "distinct (map k rows) \<Longrightarrow> distinct (map k (delete_where p rows))"
  by (simp add: delete_where_def distinct_map_filter)

section \<open>Unique indexes\<close>

text \<open>
  A unique index over \<open>key\<close>, partial when \<open>indexed\<close> is not constantly true. A
  change of rows that brings no new row into the index and keeps the key of the
  indexed rows keeps the index, and so does deletion.
\<close>

definition unique_index :: "('r \<Rightarrow> 'k) \<Rightarrow> ('r \<Rightarrow> bool) \<Rightarrow> 'r list \<Rightarrow> bool" where
  "unique_index key indexed rows \<longleftrightarrow> distinct (map key (filter indexed rows))"

lemma unique_index_Nil [simp]: "unique_index key indexed []"
  by (simp add: unique_index_def)

lemma unique_index_delete:
  assumes "unique_index key indexed rows"
  shows "unique_index key indexed (delete_where p rows)"
proof -
  have "filter indexed (delete_where p rows) = filter (\<lambda>r. \<not> p r) (filter indexed rows)"
    by (simp add: delete_where_def conj_commute)
  moreover have "distinct (map key (filter (\<lambda>r. \<not> p r) (filter indexed rows)))"
    using assms unfolding unique_index_def by (rule distinct_map_filter)
  ultimately show ?thesis by (simp only: unique_index_def)
qed

lemma unique_index_append:
  assumes "unique_index key indexed rows"
    and "\<And>r. r \<in> set rows \<Longrightarrow> indexed r \<Longrightarrow> indexed new \<Longrightarrow> key r \<noteq> key new"
  shows "unique_index key indexed (rows @ [new])"
  using assms by (force simp: unique_index_def)

lemma unique_indexD:
  "unique_index key indexed rows \<Longrightarrow> r \<in> set rows \<Longrightarrow> r' \<in> set rows \<Longrightarrow>
   indexed r \<Longrightarrow> indexed r' \<Longrightarrow> key r = key r' \<Longrightarrow> r = r'"
  by (auto simp: unique_index_def distinct_map inj_on_def)

lemma unique_index_True: "unique_index key (\<lambda>_. True) rows \<longleftrightarrow> distinct (map key rows)"
  by (simp add: unique_index_def)

locale row_change =
  fixes key :: "'r \<Rightarrow> 'k" and indexed :: "'r \<Rightarrow> bool" and affected :: "'r \<Rightarrow> bool" and change :: "'r \<Rightarrow> 'r"
  assumes enters_no_row: "affected r \<Longrightarrow> indexed (change r) \<Longrightarrow> indexed r"
    and keeps_key: "affected r \<Longrightarrow> indexed (change r) \<Longrightarrow> key (change r) = key r"
begin

lemma index_row: "indexed (if affected r then change r else r) \<Longrightarrow> indexed r"
  by (simp add: enters_no_row split: if_splits)

lemma keys_subset: "set (map key (filter indexed (update_where affected change rows))) \<subseteq> set (map key (filter indexed rows))"
  by (auto simp: in_update_where enters_no_row keeps_key split: if_splits)

lemma keeps_index: "unique_index key indexed rows \<Longrightarrow> unique_index key indexed (update_where affected change rows)"
proof (induction rows)
  case Nil
  then show ?case by simp
next
  case (Cons r rows)
  from Cons.prems have "unique_index key indexed rows" by (auto simp: unique_index_def split: if_splits)
  with Cons.IH have tail: "distinct (map key (filter indexed (update_where affected change rows)))"
    by (simp add: unique_index_def)
  let ?r = "if affected r then change r else r"
  show ?case
  proof (cases "indexed ?r")
    case True
    then have "indexed r" and key: "key ?r = key r" using enters_no_row keeps_key by (auto split: if_splits)
    with Cons.prems have "key r \<notin> set (map key (filter indexed rows))" by (simp add: unique_index_def)
    with keys_subset [of rows] have "key r \<notin> set (map key (filter indexed (update_where affected change rows)))"
      by blast
    with True tail key show ?thesis by (simp add: unique_index_def split: if_splits)
  next
    case False
    with tail show ?thesis by (simp add: unique_index_def split: if_splits)
  qed
qed

end

text \<open>An update by primary key changes the one row that has it.\<close>

lemma update_by_key:
  assumes "distinct (map key rows)" and "c \<in> set rows"
  shows "update_where (\<lambda>r. key r = key c) f rows = update_where (\<lambda>r. r = c) f rows"
  unfolding update_where_def
  using assms by (auto simp: distinct_map inj_on_def)

lemma filter_by_key:
  assumes "distinct (map key rows)" and "c \<in> set rows"
  shows "filter (\<lambda>r. key r = key c) rows = [c]"
  using assms
proof (induction rows)
  case Nil
  then show ?case by simp
next
  case (Cons r rows)
  then show ?case
    by (cases "r = c") (auto simp: filter_empty_conv image_iff)
qed

end
