(* ===== verification/Py_Encoding.thy ===== *)
theory Py_Encoding
  imports Mail_Prelude "HOL-Library.Word"
begin

text \<open>
  The encodings of the Python standard library that the mail backend relies on:
  JSON values and \<open>json.dumps\<close> (default and canonical separators), SHA-256 with
  \<open>hexdigest\<close>, and the base64 acceptance test of \<open>b64decode(validate=True)\<close>.
  Every definition is executable; the digest agrees with the published test
  vector for \<open>abc\<close>.
\<close>

unbundle bit_operations_syntax

section \<open>JSON values\<close>

text \<open>
  The values that \<open>json.loads\<close> yields in a job payload: the producers under
  \<open>src/\<close> write only null, booleans, integers, strings, arrays and objects.
\<close>

datatype json =
    JNull
  | JBool bool
  | JInt int
  | JStr string
  | JArr "json list"
  | JObj "(string \<times> json) list"

text \<open>Python truth value of a decoded JSON value.\<close>

fun truthy :: "json \<Rightarrow> bool" where
  "truthy JNull = False"
| "truthy (JBool b) = b"
| "truthy (JInt i) = (i \<noteq> 0)"
| "truthy (JStr s) = (s \<noteq> '''')"
| "truthy (JArr xs) = (xs \<noteq> [])"
| "truthy (JObj xs) = (xs \<noteq> [])"

text \<open>\<open>payload.get(key)\<close> on a dict (a key occurs at most once; the last one wins in \<open>json.loads\<close>).\<close>

definition jget :: "(string \<times> json) list \<Rightarrow> string \<Rightarrow> json" where
  "jget fields key = (case map_of (rev fields) key of None \<Rightarrow> JNull | Some v \<Rightarrow> v)"

definition jhas :: "(string \<times> json) list \<Rightarrow> string \<Rightarrow> bool" where
  "jhas fields key \<longleftrightarrow> key \<in> set (map fst fields)"

definition jor :: "json \<Rightarrow> json \<Rightarrow> json" where
  "jor a b = (if truthy a then a else b)"

definition jstr_opt :: "string option \<Rightarrow> json" where
  "jstr_opt v = (case v of None \<Rightarrow> JNull | Some s \<Rightarrow> JStr s)"

fun is_jstr :: "json \<Rightarrow> bool" where
  "is_jstr (JStr s) = True"
| "is_jstr _ = False"

text \<open>
  \<open>str(value or "")\<close> on a decoded value: the callers read identifiers and texts.
\<close>

fun json_str_or_empty :: "json \<Rightarrow> string" where
  "json_str_or_empty (JStr s) = s"
| "json_str_or_empty (JInt i) = (if i = 0 then '''' else int_str i)"
| "json_str_or_empty (JBool b) = (if b then ''True'' else '''')"
| "json_str_or_empty _ = ''''"

fun jfields :: "json \<Rightarrow> (string \<times> json) list option" where
  "jfields (JObj fs) = Some fs"
| "jfields _ = None"

text \<open>Keys of a dictionary.\<close>

lemma jhas_lookup: "jhas fs key \<longleftrightarrow> map_of (rev fs) key \<noteq> None"
  by (auto simp: jhas_def map_of_eq_None_iff)

lemma jget_append: "jget (xs @ ys) k = (if jhas ys k then jget ys k else jget xs k)"
  by (cases "map_of (rev ys) k") (simp_all add: jget_def jhas_lookup map_add_def)

lemma jget_Cons: "jget ((k, v) # fs) key = (if jhas fs key then jget fs key else if k = key then v else JNull)"
  by (cases "map_of (rev fs) key") (simp_all add: jget_def jhas_lookup map_add_def)

lemma jget_Nil [simp]: "jget [] k = JNull"
  by (simp add: jget_def)

lemma jhas_pairs: "jhas (xs @ ys) k \<longleftrightarrow> jhas xs k \<or> jhas ys k" "\<not> jhas [] k" "jhas ((j, v) # xs) k \<longleftrightarrow> k = j \<or> jhas xs k"
  by (auto simp: jhas_def)

lemmas jget_simps = jget_append jget_Cons jget_Nil jhas_pairs

text \<open>
  \<open>int(text, 10)\<close>: surrounding white space, one sign, and decimal digits that
  single underscores may separate.
\<close>

fun digit_groups :: "string \<Rightarrow> bool" where
  "digit_groups [] = False"
| "digit_groups [c] = is_digit c"
| "digit_groups (c # d # s) =
     (is_digit c \<and> (if d = CHR ''_'' then digit_groups s else digit_groups (d # s)))"

definition digits_value :: "string \<Rightarrow> nat" where
  "digits_value s = numeral_of (filter is_digit s)"

definition int_of_string :: "string \<Rightarrow> exn + int" where
  "int_of_string s =
     (let bad = Inl (ValueError ''invalid literal for int()'') in
      case strip s of
        [] \<Rightarrow> bad
      | c # r \<Rightarrow>
          if c = CHR ''-'' then (if digit_groups r then Inr (- int (digits_value r)) else bad)
          else if c = CHR ''+'' then (if digit_groups r then Inr (int (digits_value r)) else bad)
          else if digit_groups (c # r) then Inr (int (digits_value (c # r))) else bad)"

text \<open>\<open>int(value)\<close>: integers and booleans convert, digit strings parse, the rest raises.\<close>

fun jint :: "json \<Rightarrow> exn + int" where
  "jint (JInt i) = Inr i"
| "jint (JBool b) = Inr (if b then 1 else 0)"
| "jint (JStr s) = int_of_string s"
| "jint _ = Inl TypeError"

section \<open>JSON text\<close>

definition hex_digit :: "nat \<Rightarrow> char" where
  "hex_digit n = (if n < 10 then char_of (48 + n) else char_of (87 + n))"

definition json_escape :: "char \<Rightarrow> string" where
  "json_escape c =
     (let n = of_char c :: nat in
      if n = 34 then [char_of (92::nat), c]
      else if n = 92 then [c, c]
      else if n = 10 then [char_of (92::nat), CHR ''n'']
      else if n = 13 then [char_of (92::nat), CHR ''r'']
      else if n = 9 then [char_of (92::nat), CHR ''t'']
      else if n = 8 then [char_of (92::nat), CHR ''b'']
      else if n = 12 then [char_of (92::nat), CHR ''f'']
      else if 32 \<le> n \<and> n < 127 then [c]
      else char_of (92::nat) # ''u00'' @ [hex_digit (n div 16), hex_digit (n mod 16)])"

definition json_string :: "string \<Rightarrow> string" where
  "json_string s = char_of (34::nat) # concat (map json_escape s) @ [char_of (34::nat)]"

fun join_with :: "string \<Rightarrow> string list \<Rightarrow> string" where
  "join_with sep [] = ''''"
| "join_with sep [x] = x"
| "join_with sep (x # y # xs) = x @ sep @ join_with sep (y # xs)"

text \<open>\<open>json.dumps(v, ensure_ascii=True, separators=(item, key))\<close>.\<close>

fun json_dumps_sep :: "string \<Rightarrow> string \<Rightarrow> json \<Rightarrow> string" where
  "json_dumps_sep si sk JNull = ''null''"
| "json_dumps_sep si sk (JBool b) = (if b then ''true'' else ''false'')"
| "json_dumps_sep si sk (JInt i) = int_str i"
| "json_dumps_sep si sk (JStr s) = json_string s"
| "json_dumps_sep si sk (JArr xs) = ''['' @ join_with si (map (json_dumps_sep si sk) xs) @ '']''"
| "json_dumps_sep si sk (JObj xs) =
     CHR ''{'' # join_with si (map (\<lambda>(k, v). json_string k @ sk @ json_dumps_sep si sk v) xs) @ ''}''"

definition json_dumps :: "json \<Rightarrow> string" where
  "json_dumps = json_dumps_sep '', '' '': ''"

text \<open>\<open>sort_keys=True\<close> orders the fields of every object by key.\<close>

fun json_sort_keys :: "json \<Rightarrow> json" where
  "json_sort_keys (JArr xs) = JArr (map json_sort_keys xs)"
| "json_sort_keys (JObj xs) = JObj (sort_key fst (map (\<lambda>(k, v). (k, json_sort_keys v)) xs))"
| "json_sort_keys v = v"

definition json_dumps_canonical :: "json \<Rightarrow> string" where
  "json_dumps_canonical v = json_dumps_sep '','' '':'' (json_sort_keys v)"

section \<open>SHA-256\<close>

type_synonym w32 = "32 word"

text \<open>
  The constants of the standard are the first 32 bits of the fractional parts of
  the cube roots of the first 64 primes (rounds) and of the square roots of the
  first 8 primes (initial state). \<open>root_floor k n\<close> finds the greatest \<open>x < 2 ^ 40\<close>
  with \<open>x ^ k \<le> n\<close> bit by bit, and \<open>word_of_int\<close> drops the integer part.
\<close>

definition primes_below :: "int \<Rightarrow> int list" where
  "primes_below n = filter (\<lambda>p. list_all (\<lambda>d. p mod d \<noteq> 0) [2..p - 1]) [2..n - 1]"

definition root_floor :: "nat \<Rightarrow> int \<Rightarrow> int" where
  "root_floor k n = foldr (\<lambda>b x. if (x + 2 ^ b) ^ k \<le> n then x + 2 ^ b else x) [0..<40] 0"

definition sha_k :: "w32 list" where
  "sha_k = map (\<lambda>p. word_of_int (root_floor 3 (p * 2 ^ 96))) (primes_below 312)"

definition sha_init :: "w32 list" where
  "sha_init = map (\<lambda>p. word_of_int (root_floor 2 (p * 2 ^ 64))) (primes_below 20)"

definition rotr :: "nat \<Rightarrow> w32 \<Rightarrow> w32" where
  "rotr n x = drop_bit n x OR push_bit (32 - n) x"

definition be_word :: "int list \<Rightarrow> w32" where
  "be_word bs = word_of_int (foldl (\<lambda>a b. 256 * a + b) 0 bs)"

fun chunks :: "nat \<Rightarrow> 'a list \<Rightarrow> 'a list list" where
  "chunks n xs = (if n = 0 \<or> xs = [] then [] else take n xs # chunks n (drop n xs))"

declare chunks.simps [simp del]

text \<open>The message schedule, newest word first.\<close>

fun sha_extend :: "nat \<Rightarrow> w32 list \<Rightarrow> w32 list" where
  "sha_extend 0 ws = ws"
| "sha_extend (Suc n) ws =
     (let w15 = ws ! 14; w2 = ws ! 1; w16 = ws ! 15; w7 = ws ! 6;
          s0 = rotr 7 w15 XOR rotr 18 w15 XOR drop_bit 3 w15;
          s1 = rotr 17 w2 XOR rotr 19 w2 XOR drop_bit 10 w2
      in sha_extend n ((w16 + s0 + w7 + s1) # ws))"

definition sha_round :: "w32 list \<Rightarrow> w32 \<times> w32 \<Rightarrow> w32 list" where
  "sha_round st kw =
     (let a = st ! 0; b = st ! 1; c = st ! 2; d = st ! 3; e = st ! 4; f = st ! 5; g = st ! 6; h = st ! 7;
          s1 = rotr 6 e XOR rotr 11 e XOR rotr 25 e;
          ch = (e AND f) XOR (NOT e AND g);
          t1 = h + s1 + ch + fst kw + snd kw;
          s0 = rotr 2 a XOR rotr 13 a XOR rotr 22 a;
          maj = (a AND b) XOR (a AND c) XOR (b AND c);
          t2 = s0 + maj
      in [t1 + t2, a, b, c, d + t1, e, f, g])"

definition sha_block :: "w32 list \<Rightarrow> int list \<Rightarrow> w32 list" where
  "sha_block st block =
     (let ws = rev (sha_extend 48 (rev (map be_word (chunks 4 block))))
      in map2 (+) st (foldl sha_round st (zip sha_k ws)))"

definition be_bytes :: "nat \<Rightarrow> int \<Rightarrow> int list" where
  "be_bytes width n = map (\<lambda>i. n div 256 ^ (width - 1 - i) mod 256) [0..<width]"

definition sha_pad :: "int list \<Rightarrow> int list" where
  "sha_pad msg =
     (let l = length msg
      in msg @ [128] @ replicate ((119 - l mod 64) mod 64) 0 @ be_bytes 8 (8 * int l))"

text \<open>\<open>hashlib.sha256(s.encode("utf-8")).digest()\<close>, as bytes.\<close>

definition sha256 :: "string \<Rightarrow> int list" where
  "sha256 s =
     concat (map (\<lambda>w. be_bytes 4 (uint w)) (foldl sha_block sha_init (chunks 64 (sha_pad (map of_char s)))))"

definition sha256_hex :: "string \<Rightarrow> string" where
  "sha256_hex s = concat (map (\<lambda>b. [hex_digit (nat (b div 16)), hex_digit (nat (b mod 16))]) (sha256 s))"

lemma length_be_bytes [simp]: "length (be_bytes n i) = n"
  by (simp add: be_bytes_def)

lemma length_rounds: "length st = 8 \<Longrightarrow> length (foldl sha_round st kws) = 8"
  by (induction kws arbitrary: st) (simp_all add: sha_round_def Let_def)

lemma length_blocks: "length st = 8 \<Longrightarrow> length (foldl sha_block st blocks) = 8"
  by (induction blocks arbitrary: st) (simp_all add: sha_block_def Let_def length_rounds)

lemma length_sha_init: "length sha_init = 8"
  by (simp add: sha_init_def primes_below_def upto.simps)

lemma length_sha256: "length (sha256 s) = 32"
proof -
  have "length (concat (map (\<lambda>w. be_bytes 4 (uint w)) ws)) = 4 * length ws" for ws :: "w32 list"
    by (induction ws) simp_all
  then show ?thesis by (simp add: sha256_def length_blocks length_sha_init)
qed

lemma length_sha256_hex [simp]: "length (sha256_hex s) = 64"
proof -
  have "length (concat (map (\<lambda>b. [hex_digit (nat (b div 16)), hex_digit (nat (b mod 16))]) bs)) = 2 * length bs"
    for bs :: "int list"
    by (induction bs) simp_all
  then show ?thesis by (simp add: sha256_hex_def length_sha256)
qed

lemma sha256_hex_nonempty [simp]: "sha256_hex s \<noteq> ''''"
  using length_sha256_hex [of s] by (metis list.size(3) zero_neq_numeral)

section \<open>Base64\<close>

definition is_b64_char :: "char \<Rightarrow> bool" where
  "is_b64_char c \<longleftrightarrow>
     (let n = of_char c :: nat in
      (65 \<le> n \<and> n \<le> 90) \<or> (97 \<le> n \<and> n \<le> 122) \<or> (48 \<le> n \<and> n \<le> 57) \<or> n = 43 \<or> n = 47)"

text \<open>
  \<open>base64.b64decode(s, validate=True)\<close>: the length of the decoded bytes, or None
  where it raises: foreign characters, more than two pads, a lone last
  character, or missing padding.
\<close>

definition b64_decoded_length :: "string \<Rightarrow> nat option" where
  "b64_decoded_length s =
     (let data = takeWhile is_b64_char s; pads = dropWhile is_b64_char s; n = length data; p = length pads
      in if list_all (\<lambda>c. c = CHR ''='') pads \<and> p \<le> 2
            \<and> n mod 4 \<noteq> 1 \<and> (n mod 4 = 2 \<longrightarrow> p = 2) \<and> (n mod 4 = 3 \<longrightarrow> 1 \<le> p)
         then Some (3 * (n div 4) + (if n mod 4 = 0 then 0 else n mod 4 - 1))
         else None)"

lemma truthy_jstr_opt [simp]: "truthy (jstr_opt v) \<longleftrightarrow> truthy_str v"
  by (cases v) (simp_all add: jstr_opt_def)

end
