(* ===== verification/Mail_Guard.thy ===== *)
theory Mail_Guard
  imports Py_Encoding
begin

text \<open>
  \<open>backend/app/db/user_mail_guard.py\<close>: the durable guard that every mail write
  re-checks, the transaction that carries it, and the PostgreSQL advisory locks
  that serialise provider work with destructive work. The state is the part of
  the database the guard reads (users, tokens, linked accounts), the table of
  held session locks, and the two context variables: the active account scope
  and the active lock session.

  A wait on an advisory lock either ends with the lock free, and then the
  statement succeeds, or with \<open>lock_timeout\<close>: a function here sees the lock
  table at the end of its wait.
\<close>

section \<open>Rows\<close>

record user_row =
  usr_id :: string
  usr_email :: string
  usr_display_name :: "string option"
  usr_google_sub :: string
  access_enabled :: bool
  google_disconnected_at :: "instant option"
  google_data_delete_requested_at :: "instant option"
  google_data_deleted_at :: "instant option"
  primary_gmail_account_id :: string
  usr_created_at :: instant
  usr_updated_at :: instant

record token_row =
  tok_user_id :: string
  tok_gmail_account_id :: string
  token_json_encrypted :: string
  tok_updated_at :: instant

datatype account_state =
  Connecting | Importing | Ready | Reauth_required | Disconnected | Deleting

record account_row =
  acc_id :: string
  acc_user_id :: string
  acc_email :: string
  acc_display_name :: "string option"
  acc_google_sub :: string
  acc_state :: account_state
  acc_initial_ready_at :: "instant option"
  acc_disconnected_at :: "instant option"
  acc_delete_requested_at :: "instant option"
  acc_deleted_at :: "instant option"
  acc_created_at :: instant
  acc_updated_at :: instant

datatype lock_mode = Shared | Exclusive

record lock_row =
  lk_session :: nat
  lk_key :: int
  lk_mode :: lock_mode

record guard_db =
  users :: "user_row list"
  google_oauth_tokens :: "token_row list"
  gmail_accounts :: "account_row list"
  advisory_locks :: "lock_row list"
  next_session :: nat
  active_lock_session :: "(nat \<times> bool) option"
  active_gmail_account :: "string option"

text \<open>A connection carries the transaction-local settings of \<open>set_config(.., TRUE)\<close>.\<close>

record connection =
  set_gmail_account_id :: string
  set_write_user_id :: string

section \<open>Account scope and row isolation\<close>

text \<open>\<open>gmail_account_scope\<close>: the scope of a \<open>with\<close> block, restored on the way out.\<close>

definition gmail_account_scope ::
    "string \<Rightarrow> ('a guard_db_scheme, 'b) eff \<Rightarrow> ('a guard_db_scheme, 'b) eff" where
  "gmail_account_scope account body =
     (if strip account = '''' then eraise (ValueError ''Gmail account ID is required'')
      else (\<lambda>db. efinally
              (ebind (eupdate (active_gmail_account_update (\<lambda>_. Some (strip account)))) (\<lambda>_. body))
              (eupdate (active_gmail_account_update (\<lambda>_. active_gmail_account db))) db))"

text \<open>The engine hook copies the active scope into every new transaction.\<close>

definition begin_connection :: "'a guard_db_scheme \<Rightarrow> connection" where
  "begin_connection db =
     \<lparr>set_gmail_account_id = str_or_empty (active_gmail_account db), set_write_user_id = ''''\<rparr>"

definition primary_account :: "'a guard_db_scheme \<Rightarrow> string \<Rightarrow> string option" where
  "primary_account db user =
     map_option primary_gmail_account_id (select_first (\<lambda>u. usr_id u = user) (users db))"

text \<open>
  The account a row of a mail table belongs to when the statement names none
  (the insert trigger), which is also the account whose rows the row-level
  security policy lets the transaction see.
\<close>

definition scoped_account :: "'a guard_db_scheme \<Rightarrow> connection \<Rightarrow> string \<Rightarrow> string option" where
  "scoped_account db conn user =
     coalesce (nonempty (set_gmail_account_id conn)) (primary_account db user)"

definition row_visible :: "'a guard_db_scheme \<Rightarrow> connection \<Rightarrow> string \<Rightarrow> string \<Rightarrow> bool" where
  "row_visible db conn user account \<longleftrightarrow> scoped_account db conn user = Some account"

section \<open>Lock keys\<close>

definition advisory_lock_key :: "string \<Rightarrow> string \<Rightarrow> int" where
  "advisory_lock_key namespace identity =
     (let n = foldl (\<lambda>a b. 256 * a + b) 0 (take 8 (sha256 (''electronic-mail:'' @ namespace @ '':'' @ identity)))
      in if 2 ^ 63 \<le> n then n - 2 ^ 64 else n)"

definition user_mail_lock_key :: "string \<Rightarrow> int" where
  "user_mail_lock_key user = advisory_lock_key ''user-mail'' user"

definition user_mail_provider_lock_key :: "string \<Rightarrow> int" where
  "user_mail_provider_lock_key user = advisory_lock_key ''user-mail-provider'' user"

definition client_draft_lock_key :: "string \<Rightarrow> string \<Rightarrow> int" where
  "client_draft_lock_key user draft = advisory_lock_key ''gmail-client-draft'' (user @ '':'' @ draft)"

definition gmail_draft_lock_key :: "string \<Rightarrow> string \<Rightarrow> int" where
  "gmail_draft_lock_key user draft = advisory_lock_key ''gmail-provider-draft'' (user @ '':'' @ draft)"

definition gmail_body_fetch_lock_key :: "string \<Rightarrow> int" where
  "gmail_body_fetch_lock_key user = advisory_lock_key ''gmail-body-fetch'' user"

definition google_subject_tombstone_hash :: "string \<Rightarrow> exn + string" where
  "google_subject_tombstone_hash google_sub =
     (let subject = strip google_sub in
      if subject = '''' then Inl (ValueError ''Google subject is required for account deletion'')
      else Inr (''sha256:v1:'' @ sha256_hex (''electronic-mail:google-subject:v1:'' @ subject)))"

definition google_subject_lock_key :: "string \<Rightarrow> int" where
  "google_subject_lock_key subject_hash = advisory_lock_key ''google-subject'' subject_hash"

section \<open>The durable guard\<close>

definition user_mail_work_allowed :: "'a guard_db_scheme \<Rightarrow> string \<Rightarrow> bool" where
  "user_mail_work_allowed db user \<longleftrightarrow>
     list_ex (\<lambda>u. usr_id u = user
        \<and> list_ex (\<lambda>t. tok_user_id t = usr_id u) (google_oauth_tokens db)
        \<and> access_enabled u
        \<and> google_disconnected_at u = None
        \<and> google_data_delete_requested_at u = None
        \<and> google_data_deleted_at u = None) (users db)"

definition gmail_account_work_allowed :: "'a guard_db_scheme \<Rightarrow> string \<Rightarrow> string \<Rightarrow> bool" where
  "gmail_account_work_allowed db user account \<longleftrightarrow>
     list_ex (\<lambda>a. acc_id a = account
        \<and> acc_user_id a = user
        \<and> list_ex (\<lambda>t. tok_gmail_account_id t = acc_id a \<and> tok_user_id t = acc_user_id a)
            (google_oauth_tokens db)
        \<and> (acc_state a = Importing \<or> acc_state a = Ready)
        \<and> acc_disconnected_at a = None
        \<and> acc_delete_requested_at a = None
        \<and> acc_deleted_at a = None) (gmail_accounts db)"

definition require_user_mail_work_allowed :: "string \<Rightarrow> ('a guard_db_scheme, unit) eff" where
  "require_user_mail_work_allowed user =
     ebind (eget (\<lambda>db. user_mail_work_allowed db user)) (\<lambda>ok. eassert ok UserMailWorkBlocked)"

definition require_gmail_account_work_allowed ::
    "string \<Rightarrow> string \<Rightarrow> ('a guard_db_scheme, unit) eff" where
  "require_gmail_account_work_allowed user account =
     ebind (eget (\<lambda>db. gmail_account_work_allowed db user account)) (\<lambda>ok. eassert ok UserMailWorkBlocked)"

text \<open>
  \<open>pg_advisory_xact_lock_shared\<close> on the transaction's own pooled connection:
  every exclusive holder of the key is another session.
\<close>

definition exclusively_held :: "'a guard_db_scheme \<Rightarrow> int \<Rightarrow> bool" where
  "exclusively_held db key \<longleftrightarrow>
     list_ex (\<lambda>l. lk_key l = key \<and> lk_mode l = Exclusive) (advisory_locks db)"

definition guard_user_mail_write ::
    "string \<Rightarrow> string option \<Rightarrow> ('a guard_db_scheme, connection) eff" where
  "guard_user_mail_write user account =
     ebind (eget (\<lambda>db. exclusively_held db (user_mail_lock_key user))) (\<lambda>held.
     ebind (eassert (\<not> held) AdvisoryLockUnavailable) (\<lambda>_.
     ebind (require_user_mail_work_allowed user) (\<lambda>_.
     ebind (eget begin_connection) (\<lambda>conn.
     ebind (case account of None \<Rightarrow> ereturn conn
            | Some a \<Rightarrow> ebind (require_gmail_account_work_allowed user a)
                (\<lambda>_. ereturn (conn\<lparr>set_gmail_account_id := a\<rparr>))) (\<lambda>conn.
     ereturn (conn\<lparr>set_write_user_id := user\<rparr>))))))"

definition user_mail_write_transaction ::
    "string \<Rightarrow> string option \<Rightarrow> (connection \<Rightarrow> ('a guard_db_scheme, 'b) eff) \<Rightarrow> ('a guard_db_scheme, 'b) eff" where
  "user_mail_write_transaction user account body =
     etransaction (ebind (guard_user_mail_write user account) body)"

definition update_connected_google_oauth_token ::
    "instant \<Rightarrow> string \<Rightarrow> string option \<Rightarrow> string \<Rightarrow> ('a guard_db_scheme, unit) eff" where
  "update_connected_google_oauth_token now user account encrypted =
     user_mail_write_transaction user None (\<lambda>_ db.
       let target = (\<lambda>t. tok_user_id t = user
             \<and> coalesce account (primary_account db user) = Some (tok_gmail_account_id t));
           tokens = update_where target
             (\<lambda>t. t\<lparr>token_json_encrypted := encrypted, tok_updated_at := now\<rparr>) (google_oauth_tokens db)
       in if list_ex target (google_oauth_tokens db)
          then (Inr (), db\<lparr>google_oauth_tokens := tokens\<rparr>)
          else (Inl UserMailWorkBlocked, db))"

section \<open>Session advisory locks\<close>

definition lock_compatible :: "nat \<Rightarrow> lock_mode \<Rightarrow> int \<Rightarrow> lock_row list \<Rightarrow> bool" where
  "lock_compatible session mode key locks \<longleftrightarrow>
     list_all (\<lambda>l. lk_key l = key \<and> lk_session l \<noteq> session \<longrightarrow> mode = Shared \<and> lk_mode l = Shared) locks"

definition discard_advisory_lock_connection :: "nat \<Rightarrow> 'a guard_db_scheme \<Rightarrow> 'a guard_db_scheme" where
  "discard_advisory_lock_connection session db =
     db\<lparr>advisory_locks := filter (\<lambda>l. lk_session l \<noteq> session) (advisory_locks db),
        active_lock_session :=
          (case active_lock_session db of
             Some (s, bad) \<Rightarrow> if s = session then Some (s, True) else Some (s, bad)
           | None \<Rightarrow> None)\<rparr>"

text \<open>\<open>_release_advisory_locks\<close> takes the acquired locks in reverse order of acquisition.\<close>

fun release_advisory_locks ::
    "nat \<Rightarrow> (lock_mode \<times> int) list \<Rightarrow> ('a guard_db_scheme, unit) eff" where
  "release_advisory_locks session [] db = (Inr (), db)"
| "release_advisory_locks session ((mode, key) # rest) db =
     (let l = \<lparr>lk_session = session, lk_key = key, lk_mode = mode\<rparr> in
      if l \<in> set (advisory_locks db)
      then release_advisory_locks session rest (db\<lparr>advisory_locks := remove1 l (advisory_locks db)\<rparr>)
      else (Inl AdvisoryLockUnavailable, discard_advisory_lock_connection session db))"

text \<open>Acquire in order; a timeout releases what was acquired and raises.\<close>

fun acquire_advisory_locks ::
    "nat \<Rightarrow> (lock_mode \<times> int) list \<Rightarrow> (lock_mode \<times> int) list \<Rightarrow> ('a guard_db_scheme, unit) eff" where
  "acquire_advisory_locks session acquired [] db = (Inr (), db)"
| "acquire_advisory_locks session acquired ((mode, key) # rest) db =
     (if lock_compatible session mode key (advisory_locks db)
      then acquire_advisory_locks session ((mode, key) # acquired) rest
             (db\<lparr>advisory_locks := \<lparr>lk_session = session, lk_key = key, lk_mode = mode\<rparr> # advisory_locks db\<rparr>)
      else (Inl AdvisoryLockUnavailable, snd (release_advisory_locks session acquired db)))"

definition advisory_lock_connection ::
    "(nat \<Rightarrow> ('a guard_db_scheme, 'b) eff) \<Rightarrow> ('a guard_db_scheme, 'b) eff" where
  "advisory_lock_connection body =
     (\<lambda>db. case active_lock_session db of
        Some (session, invalidated) \<Rightarrow>
          (if invalidated then (Inl AdvisoryLockUnavailable, db) else body session db)
      | None \<Rightarrow>
          efinally (body (next_session db)) (eupdate (active_lock_session_update (\<lambda>_. None)))
            (db\<lparr>active_lock_session := Some (next_session db, False),
                next_session := Suc (next_session db)\<rparr>))"

definition advisory_lock_scope ::
    "(lock_mode \<times> int) list \<Rightarrow> ('a guard_db_scheme, 'b) eff \<Rightarrow> ('a guard_db_scheme, 'b) eff" where
  "advisory_lock_scope locks body =
     advisory_lock_connection (\<lambda>session.
       ebind (acquire_advisory_locks session [] locks)
         (\<lambda>_. efinally body (release_advisory_locks session (rev locks))))"

definition advisory_session_lock ::
    "int \<Rightarrow> bool \<Rightarrow> ('a guard_db_scheme, 'b) eff \<Rightarrow> ('a guard_db_scheme, 'b) eff" where
  "advisory_session_lock key shared body =
     advisory_lock_scope [(if shared then Shared else Exclusive, key)] body"

definition advisory_session_locks ::
    "int list \<Rightarrow> ('a guard_db_scheme, 'b) eff \<Rightarrow> ('a guard_db_scheme, 'b) eff" where
  "advisory_session_locks keys body =
     advisory_lock_scope (map (Pair Exclusive) (dict_fromkeys keys)) body"

definition shared_user_mail_lock ::
    "string \<Rightarrow> ('a guard_db_scheme, 'b) eff \<Rightarrow> ('a guard_db_scheme, 'b) eff" where
  "shared_user_mail_lock user body =
     advisory_lock_scope [(Shared, user_mail_provider_lock_key user)]
       (ebind (require_user_mail_work_allowed user) (\<lambda>_. body))"

definition shared_gmail_account_mail_lock ::
    "string \<Rightarrow> string \<Rightarrow> ('a guard_db_scheme, 'b) eff \<Rightarrow> ('a guard_db_scheme, 'b) eff" where
  "shared_gmail_account_mail_lock user account body =
     advisory_lock_scope
       [(Shared, user_mail_provider_lock_key user), (Shared, user_mail_provider_lock_key account)]
       (ebind (require_user_mail_work_allowed user) (\<lambda>_.
        ebind (require_gmail_account_work_allowed user account) (\<lambda>_. body)))"

definition exclusive_user_mail_lock ::
    "string \<Rightarrow> ('a guard_db_scheme, 'b) eff \<Rightarrow> ('a guard_db_scheme, 'b) eff" where
  "exclusive_user_mail_lock user body =
     advisory_lock_scope
       [(Exclusive, user_mail_provider_lock_key user), (Exclusive, user_mail_lock_key user)] body"

definition exclusive_google_subject_lock ::
    "string \<Rightarrow> ('a guard_db_scheme, 'b) eff \<Rightarrow> ('a guard_db_scheme, 'b) eff" where
  "exclusive_google_subject_lock subject_hash body =
     advisory_lock_scope [(Exclusive, google_subject_lock_key subject_hash)] body"

section \<open>Guarded transactions\<close>

lemma guard_outcome [effect_simps]:
  "guard_user_mail_write user account db =
     (if exclusively_held db (user_mail_lock_key user) then (Inl AdvisoryLockUnavailable, db)
      else if \<not> user_mail_work_allowed db user then (Inl UserMailWorkBlocked, db)
      else (case account of
              None \<Rightarrow> (Inr ((begin_connection db)\<lparr>set_write_user_id := user\<rparr>), db)
            | Some a \<Rightarrow>
                if gmail_account_work_allowed db user a
                then (Inr ((begin_connection db)\<lparr>set_gmail_account_id := a, set_write_user_id := user\<rparr>), db)
                else (Inl UserMailWorkBlocked, db)))"
  by (auto simp: guard_user_mail_write_def require_user_mail_work_allowed_def
      require_gmail_account_work_allowed_def ebind_apply split: option.splits)

text \<open>What a committed guarded transaction tells about the state it started in.\<close>

definition guard_passes :: "'a guard_db_scheme \<Rightarrow> string \<Rightarrow> string option \<Rightarrow> bool" where
  "guard_passes db user account \<longleftrightarrow>
     \<not> exclusively_held db (user_mail_lock_key user)
     \<and> user_mail_work_allowed db user
     \<and> (case account of None \<Rightarrow> True | Some a \<Rightarrow> gmail_account_work_allowed db user a)"

definition guard_connection :: "'a guard_db_scheme \<Rightarrow> string \<Rightarrow> string option \<Rightarrow> connection" where
  "guard_connection db user account =
     \<lparr>set_gmail_account_id = (case account of None \<Rightarrow> str_or_empty (active_gmail_account db) | Some a \<Rightarrow> a),
      set_write_user_id = user\<rparr>"

lemma guard_passes_outcome:
  "guard_passes db user account \<Longrightarrow>
   guard_user_mail_write user account db = (Inr (guard_connection db user account), db)"
  by (auto simp: guard_passes_def guard_outcome guard_connection_def begin_connection_def split: option.splits)

lemma guard_blocks_outcome:
  "\<not> guard_passes db user account \<Longrightarrow>
   \<exists>e. guard_user_mail_write user account db = (Inl e, db)
     \<and> (e = AdvisoryLockUnavailable \<or> e = UserMailWorkBlocked)"
  by (auto simp: guard_passes_def guard_outcome split: option.splits)

lemma write_transaction_passes [effect_simps]:
  "guard_passes db user account \<Longrightarrow>
   user_mail_write_transaction user account body db =
     etransaction (body (guard_connection db user account)) db"
  by (simp add: user_mail_write_transaction_def etransaction_apply ebind_apply guard_passes_outcome)

lemma write_transaction_blocks:
  assumes "\<not> guard_passes db user account"
  obtains e where "user_mail_write_transaction user account body db = (Inl e, db)"
    and "e = AdvisoryLockUnavailable \<or> e = UserMailWorkBlocked"
  using guard_blocks_outcome [OF assms]
  by (auto simp: user_mail_write_transaction_def etransaction_apply ebind_apply)

lemma write_transaction_cases:
  obtains (blocked) e where "\<not> guard_passes db user account"
      "user_mail_write_transaction user account body db = (Inl e, db)"
      "e = AdvisoryLockUnavailable \<or> e = UserMailWorkBlocked"
  | (failed) e s where "guard_passes db user account"
      "body (guard_connection db user account) db = (Inl e, s)"
      "user_mail_write_transaction user account body db = (Inl e, db)"
  | (committed) x s where "guard_passes db user account"
      "body (guard_connection db user account) db = (Inr x, s)"
      "user_mail_write_transaction user account body db = (Inr x, s)"
proof (cases "guard_passes db user account")
  case False
  then show thesis using write_transaction_blocks blocked by metis
next
  case True
  obtain r s where rs: "body (guard_connection db user account) db = (r, s)"
    by (cases "body (guard_connection db user account) db")
  show thesis
  proof (cases r)
    case (Inl e)
    with True rs failed [of e s] show thesis by (simp add: write_transaction_passes etransaction_apply)
  next
    case (Inr x)
    with True rs committed [of x s] show thesis by (simp add: write_transaction_passes etransaction_apply)
  qed
qed

lemma write_transaction_Inl: "user_mail_write_transaction user account body db = (Inl e, db') \<Longrightarrow> db' = db"
  by (cases rule: write_transaction_cases [of db user account body]) auto

lemma write_transaction_Inr:
  "user_mail_write_transaction user account body db = (Inr x, db') \<Longrightarrow>
   guard_passes db user account \<and> body (guard_connection db user account) db = (Inr x, db')"
  by (cases rule: write_transaction_cases [of db user account body]) auto

text \<open>A body that cannot fail leaves the refusals of the guard as the only errors.\<close>

lemma write_transaction_refused:
  assumes "user_mail_write_transaction user account body db = (Inl e, db')"
    and "\<And>conn. \<exists>x s. body conn db = (Inr x, s)"
  shows "e = AdvisoryLockUnavailable \<or> e = UserMailWorkBlocked"
proof (cases rule: write_transaction_cases [of db user account body])
  case (failed e' s)
  with assms(2) [of "guard_connection db user account"] show ?thesis by auto
qed (use assms(1) in auto)

lemma epreserves_guard [preserve_intros]: "epreserves P (guard_user_mail_write user account)"
  by (auto simp: epreserves_def guard_outcome split: option.splits)

lemma epreserves_write_transaction [preserve_intros]:
  "(\<And>conn. epreserves P (body conn)) \<Longrightarrow> epreserves P (user_mail_write_transaction user account body)"
  unfolding user_mail_write_transaction_def by (intro preserve_intros)

lemma guard_passes_frame:
  assumes "users db' = users db" "google_oauth_tokens db' = google_oauth_tokens db"
    "gmail_accounts db' = gmail_accounts db" "advisory_locks db' = advisory_locks db"
  shows "guard_passes db' user account = guard_passes db user account"
  using assms
  by (auto simp: guard_passes_def exclusively_held_def user_mail_work_allowed_def
      gmail_account_work_allowed_def split: option.splits)

section \<open>Advisory locks are balanced and exclusive\<close>

abbreviation session_locks :: "nat \<Rightarrow> (lock_mode \<times> int) list \<Rightarrow> lock_row list" where
  "session_locks s locks \<equiv> map (\<lambda>(m, k). \<lparr>lk_session = s, lk_key = k, lk_mode = m\<rparr>) locks"

lemma release_acquired:
  "release_advisory_locks s acquired (db\<lparr>advisory_locks := session_locks s acquired @ L\<rparr>)
     = (Inr (), db\<lparr>advisory_locks := L\<rparr>)"
  by (induction acquired arbitrary: db) (auto simp: Let_def)

lemma acquire_cases:
  assumes "advisory_locks db = session_locks s acquired @ L"
  shows "acquire_advisory_locks s acquired locks db
           = (Inr (), db\<lparr>advisory_locks := session_locks s (rev locks @ acquired) @ L\<rparr>)
       \<or> acquire_advisory_locks s acquired locks db
           = (Inl AdvisoryLockUnavailable, db\<lparr>advisory_locks := L\<rparr>)"
  using assms
proof (induction locks arbitrary: acquired db)
  case Nil
  then show ?case by simp
next
  case (Cons l locks)
  obtain m k where l: "l = (m, k)" by (cases l)
  show ?case
  proof (cases "lock_compatible s m k (advisory_locks db)")
    case True
    let ?db = "db\<lparr>advisory_locks := \<lparr>lk_session = s, lk_key = k, lk_mode = m\<rparr> # advisory_locks db\<rparr>"
    have "advisory_locks ?db = session_locks s ((m, k) # acquired) @ L" using Cons.prems by simp
    from Cons.IH [OF this] True show ?thesis by (auto simp: l)
  next
    case False
    have "db = db\<lparr>advisory_locks := session_locks s acquired @ L\<rparr>" using Cons.prems by simp
    with release_acquired [of s acquired L db] False show ?thesis by (simp add: l)
  qed
qed

definition locks_consistent :: "lock_row list \<Rightarrow> bool" where
  "locks_consistent locks \<longleftrightarrow>
     (\<forall>l \<in> set locks. \<forall>l' \<in> set locks. lk_key l = lk_key l' \<and> lk_session l \<noteq> lk_session l' \<longrightarrow>
        lk_mode l = Shared \<and> lk_mode l' = Shared)"

lemma locks_consistent_subset: "locks_consistent L \<Longrightarrow> set L' \<subseteq> set L \<Longrightarrow> locks_consistent L'"
  unfolding locks_consistent_def by blast

lemma locks_consistent_grant:
  "locks_consistent L \<Longrightarrow> lock_compatible s m k L \<Longrightarrow>
   locks_consistent (\<lparr>lk_session = s, lk_key = k, lk_mode = m\<rparr> # L)"
  by (auto simp: locks_consistent_def lock_compatible_def list_all_iff)

lemma release_subset:
  "set (advisory_locks (snd (release_advisory_locks s locks db))) \<subseteq> set (advisory_locks db)"
proof (induction s locks db rule: release_advisory_locks.induct)
  case (1 session db)
  then show ?case by simp
next
  case (2 session mode key rest db)
  show ?case
  proof (cases "\<lparr>lk_session = session, lk_key = key, lk_mode = mode\<rparr> \<in> set (advisory_locks db)")
    case True
    from "2.IH" [OF refl True] True show ?thesis
      by (simp add: Let_def) (meson set_remove1_subset subset_trans)
  next
    case False
    then show ?thesis by (auto simp: discard_advisory_lock_connection_def)
  qed
qed

lemma acquire_consistent:
  "locks_consistent (advisory_locks db) \<Longrightarrow>
   locks_consistent (advisory_locks (snd (acquire_advisory_locks s acquired locks db)))"
proof (induction s acquired locks db rule: acquire_advisory_locks.induct)
  case (1 session acquired db)
  then show ?case by simp
next
  case (2 session acquired mode key rest db)
  show ?case
  proof (cases "lock_compatible session mode key (advisory_locks db)")
    case True
    with "2.IH" [OF True] "2.prems" show ?thesis by (simp add: locks_consistent_grant)
  next
    case False
    with "2.prems" locks_consistent_subset [OF _ release_subset] show ?thesis by simp
  qed
qed

text \<open>
  The lock scope as a whole. A body that leaves the lock table and the session
  as it found them gets both back: every exit, including a timeout half way
  through the list of locks and an exception of the body, releases exactly what
  was acquired.
\<close>

definition keeps_locks :: "('a guard_db_scheme, 'b) eff \<Rightarrow> bool" where
  "keeps_locks body \<longleftrightarrow>
     (\<forall>db. advisory_locks (snd (body db)) = advisory_locks db
         \<and> active_lock_session (snd (body db)) = active_lock_session db)"

lemma keeps_locksD:
  "keeps_locks body \<Longrightarrow> body db = (r, db') \<Longrightarrow>
   advisory_locks db' = advisory_locks db \<and> active_lock_session db' = active_lock_session db"
  by (metis keeps_locks_def snd_conv)

lemma scope_in_session:
  assumes "keeps_locks body"
  shows "keeps_locks (ebind (acquire_advisory_locks s [] locks)
            (\<lambda>_. efinally body (release_advisory_locks s (rev locks))))"
  unfolding keeps_locks_def
proof
  fix db :: "'a guard_db_scheme"
  let ?m = "ebind (acquire_advisory_locks s [] locks)
            (\<lambda>_. efinally body (release_advisory_locks s (rev locks)))"
  have "advisory_locks db = session_locks s [] @ advisory_locks db" by simp
  from acquire_cases [OF this, of locks]
  consider (got) "acquire_advisory_locks s [] locks db
        = (Inr (), db\<lparr>advisory_locks := session_locks s (rev locks) @ advisory_locks db\<rparr>)"
    | (busy) "acquire_advisory_locks s [] locks db = (Inl AdvisoryLockUnavailable, db)"
    by auto
  then show "advisory_locks (snd (?m db)) = advisory_locks db
      \<and> active_lock_session (snd (?m db)) = active_lock_session db"
  proof cases
    case busy
    then show ?thesis by (simp add: ebind_apply)
  next
    case got
    let ?held = "db\<lparr>advisory_locks := session_locks s (rev locks) @ advisory_locks db\<rparr>"
    obtain r db' where body: "body ?held = (r, db')" by (cases "body ?held")
    from keeps_locksD [OF assms body]
    have locks: "advisory_locks db' = session_locks s (rev locks) @ advisory_locks db"
      and active: "active_lock_session db' = active_lock_session db" by simp_all
    then have "db' = db'\<lparr>advisory_locks := session_locks s (rev locks) @ advisory_locks db\<rparr>" by simp
    with release_acquired [of s "rev locks" "advisory_locks db" db']
    have "release_advisory_locks s (rev locks) db' = (Inr (), db'\<lparr>advisory_locks := advisory_locks db\<rparr>)"
      by metis
    with got body active show ?thesis by (simp add: ebind_apply efinally_apply)
  qed
qed

lemma scope_balanced:
  assumes "keeps_locks body"
  shows "keeps_locks (advisory_lock_scope locks body)"
proof -
  let ?m = "\<lambda>session. ebind (acquire_advisory_locks session [] locks)
       (\<lambda>_. efinally body (release_advisory_locks session (rev locks)))"
  have kept: "advisory_locks (snd (?m s db)) = advisory_locks db
      \<and> active_lock_session (snd (?m s db)) = active_lock_session db" for s db
    using scope_in_session [OF assms, of s locks] by (simp add: keeps_locks_def)
  have "advisory_locks (snd (advisory_lock_scope locks body db)) = advisory_locks db
      \<and> active_lock_session (snd (advisory_lock_scope locks body db)) = active_lock_session db" for db
  proof (cases "active_lock_session db")
    case None
    let ?db = "db\<lparr>active_lock_session := Some (next_session db, False),
                  next_session := Suc (next_session db)\<rparr>"
    obtain r db' where run: "?m (next_session db) ?db = (r, db')" by (cases "?m (next_session db) ?db")
    with kept [of "next_session db" ?db] have "advisory_locks db' = advisory_locks db" by simp
    with None run show ?thesis
      by (simp add: advisory_lock_scope_def advisory_lock_connection_def efinally_apply)
  next
    case (Some a)
    obtain s bad where a: "a = (s, bad)" by (cases a)
    with Some kept [of s db] show ?thesis
      by (simp add: advisory_lock_scope_def advisory_lock_connection_def)
  qed
  then show ?thesis by (simp add: keeps_locks_def)
qed

lemma keeps_locks_require [preserve_intros]:
  assumes "keeps_locks body"
  shows "keeps_locks (ebind (eget f) (\<lambda>ok. ebind (eassert ok e) (\<lambda>_. body)))"
  using assms by (simp add: keeps_locks_def ebind_apply)

lemma keeps_locks_user_check:
  assumes "keeps_locks body"
  shows "keeps_locks (ebind (require_user_mail_work_allowed user) (\<lambda>_. body))"
  using assms by (simp add: keeps_locks_def ebind_apply require_user_mail_work_allowed_def)

lemma keeps_locks_account_check:
  assumes "keeps_locks body"
  shows "keeps_locks (ebind (require_gmail_account_work_allowed user account) (\<lambda>_. body))"
  using assms by (simp add: keeps_locks_def ebind_apply require_gmail_account_work_allowed_def)

text \<open>C17: every advisory-lock scope is balanced. A body that keeps the lock table
  still keeps it inside the shared, account, exclusive and subject scopes: on
  success, on an exception of the body or of the durable guard, and on a lock
  timeout half way through an ordered list of locks, the scope releases exactly
  the session locks it acquired and restores the active lock session.\<close>

theorem lock_scopes_balanced:
  assumes "keeps_locks body"
  shows "keeps_locks (shared_user_mail_lock user body)
    \<and> keeps_locks (shared_gmail_account_mail_lock user account body)
    \<and> keeps_locks (exclusive_user_mail_lock user body)
    \<and> keeps_locks (exclusive_google_subject_lock subject body)
    \<and> keeps_locks (advisory_session_locks keys body)"
  unfolding shared_user_mail_lock_def shared_gmail_account_mail_lock_def exclusive_user_mail_lock_def
    exclusive_google_subject_lock_def advisory_session_locks_def
  using assms by (intro conjI scope_balanced keeps_locks_user_check keeps_locks_account_check)

theorem lock_scopes_balanced_witness:
  "advisory_locks (snd (exclusive_user_mail_lock ''u1''
      (eraise TimeoutError :: (guard_db, unit) eff)
      \<lparr>users = [], google_oauth_tokens = [], gmail_accounts = [], advisory_locks = [],
       next_session = 3, active_lock_session = None, active_gmail_account = None\<rparr>)) = []"
proof -
  have "keeps_locks (eraise TimeoutError :: (guard_db, unit) eff)" by (simp add: keeps_locks_def)
  from lock_scopes_balanced [OF this, of "''u1''" "''a1''" "''h''" "[]"]
  show ?thesis by (simp add: keeps_locks_def)
qed

lemma scope_consistent:
  assumes "epreserves (\<lambda>db. locks_consistent (advisory_locks db)) body"
  shows "epreserves (\<lambda>db. locks_consistent (advisory_locks db)) (advisory_lock_scope locks body)"
proof -
  let ?P = "\<lambda>db. locks_consistent (advisory_locks db)"
  have acq: "epreserves ?P (acquire_advisory_locks s [] locks)" for s
    by (simp add: epreserves_def acquire_consistent)
  have rel: "epreserves ?P (release_advisory_locks s ls)" for s ls
    unfolding epreserves_def using locks_consistent_subset [OF _ release_subset] by blast
  have inner: "epreserves ?P (ebind (acquire_advisory_locks s [] locks)
       (\<lambda>_. efinally body (release_advisory_locks s (rev locks))))" for s
    by (intro preserve_intros acq rel assms)
  have fin: "epreserves ?P (efinally m (eupdate (active_lock_session_update (\<lambda>_. None))))"
    if "epreserves ?P m" for m :: "('a guard_db_scheme, 'b) eff"
    using that by (intro preserve_intros) auto
  show ?thesis
    unfolding epreserves_def advisory_lock_scope_def advisory_lock_connection_def
    using epreservesD [OF inner] epreservesD [OF fin [OF inner]]
    by (auto split: option.splits)
qed

text \<open>
  A scope runs its body, if at all, in a state that differs only in the locks and
  the lock session; a triple over predicates that do not look at them carries over.
\<close>

definition lock_blind :: "('a guard_db_scheme \<Rightarrow> bool) \<Rightarrow> bool" where
  "lock_blind P \<longleftrightarrow>
     (\<forall>db L n a. P (db\<lparr>advisory_locks := L, next_session := n, active_lock_session := a\<rparr>) = P db)"

lemma lock_blindD:
  assumes "lock_blind P"
  shows "P (db\<lparr>advisory_locks := L\<rparr>) = P db" and "P (db\<lparr>active_lock_session := a\<rparr>) = P db"
    and "P (db\<lparr>active_lock_session := a, next_session := n\<rparr>) = P db"
    and "P (discard_advisory_lock_connection s db) = P db"
proof -
  have blind: "P (db\<lparr>advisory_locks := M, next_session := k, active_lock_session := b\<rparr>) = P db" for M k b
    using assms by (simp add: lock_blind_def)
  show "P (db\<lparr>advisory_locks := L\<rparr>) = P db"
    using blind [where M = L and k = "next_session db" and b = "active_lock_session db"] by simp
  show "P (db\<lparr>active_lock_session := a\<rparr>) = P db"
    using blind [where M = "advisory_locks db" and k = "next_session db" and b = a] by simp
  show "P (db\<lparr>active_lock_session := a, next_session := n\<rparr>) = P db"
  proof -
    have "db\<lparr>active_lock_session := a, next_session := n\<rparr>
        = db\<lparr>advisory_locks := advisory_locks db, next_session := n, active_lock_session := a\<rparr>" by simp
    then show ?thesis by (simp only: blind)
  qed
  show "P (discard_advisory_lock_connection s db) = P db"
    using blind [where M = "advisory_locks (discard_advisory_lock_connection s db)" and k = "next_session db" and b = "active_lock_session (discard_advisory_lock_connection s db)"]
    by (simp add: discard_advisory_lock_connection_def)
qed

lemma release_blind:
  assumes "lock_blind P"
  shows "P (snd (release_advisory_locks s locks db)) = P db"
    and "fst (release_advisory_locks s locks db) = Inr () \<or> fst (release_advisory_locks s locks db) = Inl AdvisoryLockUnavailable"
  by (induction s locks db rule: release_advisory_locks.induct) (auto simp: Let_def lock_blindD [OF assms])

lemma acquire_blind:
  assumes "lock_blind P"
  shows "P (snd (acquire_advisory_locks s acquired locks db)) = P db"
    and "fst (acquire_advisory_locks s acquired locks db) = Inr ()
      \<or> fst (acquire_advisory_locks s acquired locks db) = Inl AdvisoryLockUnavailable"
  by (induction s acquired locks db rule: acquire_advisory_locks.induct)
    (auto simp: lock_blindD [OF assms] release_blind [OF assms])

lemma ehoare_connection:
  assumes inner: "\<And>session. ehoare P (inner session) Q E"
    and blind: "lock_blind P" "\<And>x. lock_blind (Q x)" "\<And>e. lock_blind (E e)"
    and unavailable: "\<And>s. P s \<Longrightarrow> E AdvisoryLockUnavailable s"
  shows "ehoare P (advisory_lock_connection inner) Q E"
  unfolding ehoare_def
proof (intro allI impI)
  fix db assume P: "P db"
  show "case advisory_lock_connection inner db of (Inl e, s') \<Rightarrow> E e s' | (Inr x, s') \<Rightarrow> Q x s'"
  proof (cases "active_lock_session db")
    case None
    let ?db = "db\<lparr>active_lock_session := Some (next_session db, False), next_session := Suc (next_session db)\<rparr>"
    have "P ?db" using P lock_blindD(3) [OF blind(1)] by blast
    then show ?thesis
      using None ehoareD [OF inner [of "next_session db"], of ?db]
      by (cases "inner (next_session db) ?db")
        (auto simp: advisory_lock_connection_def efinally_apply
          lock_blindD(2) [OF blind(2)] lock_blindD(2) [OF blind(3)] split: sum.split)
  next
    case (Some a)
    then show ?thesis
      using P unavailable inner [of "fst a"]
      by (auto simp: advisory_lock_connection_def ehoare_def split: prod.splits)
  qed
qed

lemma ehoare_scope:
  assumes body: "ehoare P body Q E"
    and blind: "lock_blind P" "\<And>x. lock_blind (Q x)" "\<And>e. lock_blind (E e)"
    and unavailable: "\<And>s. P s \<Longrightarrow> E AdvisoryLockUnavailable s"
      "\<And>x s. Q x s \<Longrightarrow> E AdvisoryLockUnavailable s" "\<And>e s. E e s \<Longrightarrow> E AdvisoryLockUnavailable s"
  shows "ehoare P (advisory_lock_scope locks body) Q E"
proof -
  let ?inner = "\<lambda>s. ebind (acquire_advisory_locks s [] locks)
       (\<lambda>_. efinally body (release_advisory_locks s (rev locks)))"
  have rel: "ehoare P (efinally body (release_advisory_locks s (rev locks))) Q E" for s
    unfolding ehoare_def efinally_apply
  proof (intro allI impI)
    fix db assume "P db"
    obtain r db' where run: "body db = (r, db')" by (cases "body db")
    obtain q db'' where fin: "release_advisory_locks s (rev locks) db' = (q, db'')"
      by (cases "release_advisory_locks s (rev locks) db'")
    have q: "q = Inr () \<or> q = Inl AdvisoryLockUnavailable"
      using release_blind(2) [OF blind(1), of s "rev locks" db'] fin by simp
    have "Q x db'' = Q x db'" "E e db'' = E e db'" for x e
      using release_blind(1) [OF blind(2), of x s "rev locks" db'] release_blind(1) [OF blind(3), of e s "rev locks" db'] fin
      by simp_all
    with q ehoareD [OF body \<open>P db\<close>] run fin unavailable
    show "case (case body db of (r, s') \<Rightarrow>
            (case release_advisory_locks s (rev locks) s' of (Inl e, s'') \<Rightarrow> (Inl e, s'') | (Inr _, s'') \<Rightarrow> (r, s''))) of
        (Inl e, s') \<Rightarrow> E e s' | (Inr x, s') \<Rightarrow> Q x s'"
      by (cases r) auto
  qed
  have acq: "ehoare P (acquire_advisory_locks s [] locks) (\<lambda>_. P) E" for s
  proof (rule ehoareI)
    fix db e db' assume "P db" "acquire_advisory_locks s [] locks db = (Inl e, db')"
    with acquire_blind [OF blind(1), of s "[]" locks db] unavailable(1) show "E e db'" by force
  next
    fix db x db' assume "P db" "acquire_advisory_locks s [] locks db = (Inr x, db')"
    with acquire_blind(1) [OF blind(1), of s "[]" locks db] show "P db'" by simp
  qed
  have inner: "ehoare P (?inner s) Q E" for s by (rule ehoare_bind [OF acq]) (rule rel)
  show ?thesis
    unfolding advisory_lock_scope_def by (rule ehoare_connection [OF inner blind unavailable(1)])
qed

lemma preserves_ehoare: "ehoare P m (\<lambda>_. P) (\<lambda>_. P) \<Longrightarrow> epreserves P m"
  unfolding epreserves_def
proof (intro allI impI)
  fix s assume "ehoare P m (\<lambda>_. P) (\<lambda>_. P)" "P s"
  from ehoareD [OF this] show "P (snd (m s))" by (cases "fst (m s)"; cases "m s") auto
qed

lemma epreserves_scope:
  assumes "lock_blind P" and "epreserves P body"
  shows "epreserves P (advisory_lock_scope locks body)"
proof -
  have "ehoare P (advisory_lock_scope locks body) (\<lambda>_. P) (\<lambda>_. P)"
    by (rule ehoare_scope [OF ehoare_preserves [OF assms(2)]]) (simp_all add: assms(1))
  then show ?thesis by (rule preserves_ehoare)
qed

text \<open>C16: destructive work and mail work exclude each other. While some other session
  holds the two exclusive locks of \<open>exclusive_user_mail_lock\<close> for a user, no
  guarded write transaction and no provider operation of that user runs: each
  raises \<open>AdvisoryLockUnavailable\<close> whatever its body is, and leaves every table
  of the database unchanged.\<close>

theorem destructive_scope_excludes_mail_work:
  assumes "\<lparr>lk_session = s, lk_key = user_mail_provider_lock_key user, lk_mode = Exclusive\<rparr> \<in> set (advisory_locks db)"
    and "\<lparr>lk_session = s, lk_key = user_mail_lock_key user, lk_mode = Exclusive\<rparr> \<in> set (advisory_locks db)"
    and "s < next_session db" and "\<forall>bad. active_lock_session db \<noteq> Some (s, bad)"
  shows "user_mail_write_transaction user account write db = (Inl AdvisoryLockUnavailable, db)
    \<and> (\<exists>n a. shared_user_mail_lock user provider db
           = (Inl AdvisoryLockUnavailable, db\<lparr>next_session := n, active_lock_session := a\<rparr>))
    \<and> (\<exists>n a. shared_gmail_account_mail_lock user acct provider db
           = (Inl AdvisoryLockUnavailable, db\<lparr>next_session := n, active_lock_session := a\<rparr>))"
proof (intro conjI)
  have "exclusively_held db (user_mail_lock_key user)"
    using assms(2) by (force simp: exclusively_held_def list_ex_iff)
  then show "user_mail_write_transaction user account write db = (Inl AdvisoryLockUnavailable, db)"
    by (simp add: user_mail_write_transaction_def etransaction_apply ebind_apply guard_outcome)
  have busy: "\<not> lock_compatible s' Shared (user_mail_provider_lock_key user) (advisory_locks db)"
    if "s' \<noteq> s" for s'
    using assms(1) that by (force simp: lock_compatible_def list_all_iff)
  have blocked: "\<exists>n a. advisory_lock_scope ((Shared, user_mail_provider_lock_key user) # rest) body db
           = (Inl AdvisoryLockUnavailable, db\<lparr>next_session := n, active_lock_session := a\<rparr>)"
    for rest and body :: "('a guard_db_scheme, 'd) eff"
  proof (cases "active_lock_session db")
    case None
    have "\<not> lock_compatible (next_session db) Shared (user_mail_provider_lock_key user) (advisory_locks db)"
      using busy [of "next_session db"] assms(3) by simp
    with None show ?thesis
      by (auto simp: advisory_lock_scope_def advisory_lock_connection_def efinally_apply ebind_apply)
  next
    case (Some a)
    obtain s' bad where a: "a = (s', bad)" by (cases a)
    with Some assms(4) busy [of s'] have "\<not> lock_compatible s' Shared (user_mail_provider_lock_key user) (advisory_locks db)"
      by auto
    then have "advisory_lock_scope ((Shared, user_mail_provider_lock_key user) # rest) body db
        = (Inl AdvisoryLockUnavailable, db)"
      using Some a by (simp add: advisory_lock_scope_def advisory_lock_connection_def ebind_apply)
    moreover have "db = db\<lparr>next_session := next_session db, active_lock_session := active_lock_session db\<rparr>"
      by simp
    ultimately show ?thesis by metis
  qed
  show "\<exists>n a. shared_user_mail_lock user provider db
           = (Inl AdvisoryLockUnavailable, db\<lparr>next_session := n, active_lock_session := a\<rparr>)"
    unfolding shared_user_mail_lock_def by (rule blocked)
  show "\<exists>n a. shared_gmail_account_mail_lock user acct provider db
           = (Inl AdvisoryLockUnavailable, db\<lparr>next_session := n, active_lock_session := a\<rparr>)"
    unfolding shared_gmail_account_mail_lock_def by (rule blocked)
qed

theorem destructive_scope_excludes_mail_work_witness:
  "let db = \<lparr>users = [], google_oauth_tokens = [], gmail_accounts = [],
       advisory_locks =
         [\<lparr>lk_session = 1, lk_key = user_mail_lock_key ''u1'', lk_mode = Exclusive\<rparr>,
          \<lparr>lk_session = 1, lk_key = user_mail_provider_lock_key ''u1'', lk_mode = Exclusive\<rparr>],
       next_session = 2, active_lock_session = None, active_gmail_account = None\<rparr>
   in user_mail_write_transaction ''u1'' None (\<lambda>_. ereturn ()) db = (Inl AdvisoryLockUnavailable, db)"
proof -
  define db where "db = \<lparr>users = [], google_oauth_tokens = [], gmail_accounts = [],
       advisory_locks =
         [\<lparr>lk_session = 1, lk_key = user_mail_lock_key ''u1'', lk_mode = Exclusive\<rparr>,
          \<lparr>lk_session = 1, lk_key = user_mail_provider_lock_key ''u1'', lk_mode = Exclusive\<rparr>],
       next_session = 2, active_lock_session = None, active_gmail_account = None\<rparr>"
  have "user_mail_write_transaction ''u1'' None (\<lambda>_. ereturn ()) db = (Inl AdvisoryLockUnavailable, db)"
    using destructive_scope_excludes_mail_work
      [of 1 "''u1''" db None "\<lambda>_. ereturn ()" "ereturn ()" "''a1''"] by (simp add: db_def)
  then show ?thesis by (simp add: db_def Let_def)
qed

end
