(* ===== verification/Identity_Store.thy ===== *)
theory Identity_Store
  imports Mail_Guard
begin

text \<open>
  \<open>backend/app/db/repository.py\<close>: users, linked Gmail accounts and their credentials, app
  sessions, and the one-time rows of a login (OAuth state, mobile codes, mobile handoffs),
  with the triggers of the migrations that order OAuth grants and revocations.

  OAuth starts and revocations of a Google identity draw their epochs from one sequence. A
  revocation leaves a tombstone of the identity; the triggers reject an OAuth flow whose epoch
  is not later. The epoch of a flow is a transaction-local setting: an argument here, \<open>None\<close>
  where a function does not set it. Rows of the mail tables that fall with a user belong to
  the components that own them. Epochs of transactions that roll back are used again here,
  which only closes gaps.
\<close>

section \<open>Rows\<close>

record session_row =
  as_id :: string
  as_user_id :: string
  as_token_hash :: string
  as_platform :: string
  as_expires_at :: instant
  as_revoked_at :: "instant option"
  as_last_seen_at :: "instant option"
  as_created_at :: instant

record oauth_login_row =
  ol_state :: string
  ol_code_verifier :: string
  ol_redirect_to :: "string option"
  ol_expires_at :: instant
  ol_created_at :: instant
  ol_started_epoch :: int
  ol_intent :: string
  ol_initiating_user_id :: "string option"

record login_code_row =
  lc_code_hash :: string
  lc_user_id :: string
  lc_expires_at :: instant
  lc_consumed_at :: "instant option"
  lc_created_at :: instant

record handoff_row =
  ho_handoff_id :: string
  ho_login_code_encrypted :: "string option"
  ho_login_code_hash :: "string option"
  ho_exchange_code_challenge :: "string option"
  ho_status :: string
  ho_error :: "string option"
  ho_expires_at :: instant
  ho_consumed_at :: "instant option"
  ho_created_at :: instant
  ho_delivered_count :: nat

record tombstone_row =
  ts_subject_hash :: string
  ts_deleted_epoch :: int
  ts_deleted_at :: instant

record bucket_row =
  rl_rule :: string
  rl_identity :: string
  rl_window_start :: int
  rl_request_count :: int

record identity_db = guard_db +
  app_sessions :: "session_row list"
  oauth_login_sessions :: "oauth_login_row list"
  mobile_login_codes :: "login_code_row list"
  mobile_oauth_handoffs :: "handoff_row list"
  google_subject_tombstones :: "tombstone_row list"
  identity_epoch :: int
  rate_limit_buckets :: "bucket_row list"
  allowed_emails :: "(string \<times> bool) list"
  migration_audits :: "(string \<times> string) list"

section \<open>Revocation epochs\<close>

text \<open>\<open>electronic_mail_google_subject_key\<close>\<close>

definition subject_key :: "string \<Rightarrow> string" where
  "subject_key subject = ''sha256:v1:'' @ sha256_hex (''electronic-mail:google-subject:v1:'' @ subject)"

definition revocation_epoch :: "'a identity_db_scheme \<Rightarrow> string \<Rightarrow> int option" where
  "revocation_epoch db subject_hash =
     map_option ts_deleted_epoch (select_first (\<lambda>t. ts_subject_hash t = subject_hash) (google_subject_tombstones db))"

text \<open>The setting is compared as a number only if it is a string of digits.\<close>

definition fresh_oauth :: "'a identity_db_scheme \<Rightarrow> int option \<Rightarrow> string \<Rightarrow> bool" where
  "fresh_oauth db epoch subject \<longleftrightarrow>
     (case revocation_epoch db (subject_key subject) of None \<Rightarrow> True
      | Some r \<Rightarrow> (case epoch of None \<Rightarrow> False | Some e \<Rightarrow> 0 \<le> e \<and> r < e))"

definition stale_oauth :: exn where
  "stale_oauth = OtherError ''OperationalError''"

definition record_google_subject_revocation :: "instant \<Rightarrow> string \<Rightarrow> ('a identity_db_scheme, int) eff" where
  "record_google_subject_revocation now subject_hash db =
     (let e = identity_epoch db + 1;
          known = list_ex (\<lambda>t. ts_subject_hash t = subject_hash) (google_subject_tombstones db);
          stone = \<lparr>ts_subject_hash = subject_hash, ts_deleted_epoch = e, ts_deleted_at = now\<rparr>
      in (Inr e, db\<lparr>identity_epoch := e,
            google_subject_tombstones := (if known
              then update_where (\<lambda>t. ts_subject_hash t = subject_hash) (\<lambda>_. stone) (google_subject_tombstones db)
              else google_subject_tombstones db @ [stone])\<rparr>))"

text \<open>The tombstone that a trigger writes for the identity of a user.\<close>

definition tombstone_user :: "instant \<Rightarrow> user_row \<Rightarrow> 'a identity_db_scheme \<Rightarrow> 'a identity_db_scheme" where
  "tombstone_user now u db = snd (record_google_subject_revocation now (subject_key (usr_google_sub u)) db)"

definition find_user :: "'a guard_db_scheme \<Rightarrow> string \<Rightarrow> user_row option" where
  "find_user db user = select_first (\<lambda>u. usr_id u = user) (users db)"

definition google_guarded :: "user_row \<Rightarrow> bool" where
  "google_guarded u \<longleftrightarrow>
     google_disconnected_at u \<noteq> None \<or> google_data_delete_requested_at u \<noteq> None \<or> google_data_deleted_at u \<noteq> None"

text \<open>\<open>trg_users_tombstone_google_guard\<close>: a guard is set that was not set.\<close>

definition guard_set_trigger :: "instant \<Rightarrow> user_row \<Rightarrow> user_row \<Rightarrow> 'a identity_db_scheme \<Rightarrow> 'a identity_db_scheme" where
  "guard_set_trigger now old new db =
     (if (google_disconnected_at old = None \<and> google_disconnected_at new \<noteq> None)
         \<or> (google_data_delete_requested_at old = None \<and> google_data_delete_requested_at new \<noteq> None)
      then tombstone_user now new db else db)"

text \<open>An update of one user's guards, with the trigger.\<close>

definition set_google_guard :: "instant \<Rightarrow> string \<Rightarrow> (user_row \<Rightarrow> user_row) \<Rightarrow> 'a identity_db_scheme \<Rightarrow> 'a identity_db_scheme" where
  "set_google_guard now user f db =
     (let db' = db\<lparr>users := update_where (\<lambda>u. usr_id u = user) f (users db)\<rparr> in
      case find_user db user of None \<Rightarrow> db' | Some u \<Rightarrow> guard_set_trigger now u (f u) db')"

text \<open>\<open>trg_users_require_fresh_guard_clear\<close>\<close>

definition cleared_row :: "instant \<Rightarrow> user_row \<Rightarrow> user_row" where
  "cleared_row now u =
     u\<lparr>google_disconnected_at := None, google_data_delete_requested_at := None, google_data_deleted_at := None,
       usr_updated_at := now\<rparr>"

definition clear_guards :: "instant \<Rightarrow> int option \<Rightarrow> string \<Rightarrow> ('a identity_db_scheme, unit) eff" where
  "clear_guards now epoch user db =
     (if list_ex (\<lambda>u. usr_id u = user \<and> google_guarded u \<and> \<not> fresh_oauth db epoch (usr_google_sub u)) (users db)
      then (Inl stale_oauth, db)
      else (Inr (), db\<lparr>users := update_where (\<lambda>u. usr_id u = user) (cleared_row now) (users db)\<rparr>))"

definition clear_google_guard_state :: "instant \<Rightarrow> string \<Rightarrow> int \<Rightarrow> ('a identity_db_scheme, unit) eff" where
  "clear_google_guard_state now user epoch = etransaction (clear_guards now (Some epoch) user)"

section \<open>Credentials\<close>

definition account_guarded :: "account_row \<Rightarrow> bool" where
  "account_guarded a \<longleftrightarrow> acc_disconnected_at a \<noteq> None \<or> acc_delete_requested_at a \<noteq> None \<or> acc_deleted_at a \<noteq> None"

text \<open>\<open>trg_google_tokens_require_guard\<close>, and the insert or update that it allows. The second argument is the
  user of a guarded mail transaction; the repository writes outside one.\<close>

definition token_trigger ::
    "int option \<Rightarrow> string option \<Rightarrow> string \<Rightarrow> string \<Rightarrow> 'a identity_db_scheme \<Rightarrow> exn option" where
  "token_trigger epoch writing_user user account db =
     (case (find_user db user, select_first (\<lambda>a. acc_id a = account \<and> acc_user_id a = user) (gmail_accounts db)) of
        (Some owner, Some a) \<Rightarrow>
          if \<not> access_enabled owner \<or> account_guarded a \<or> google_guarded owner then Some stale_oauth
          else if fresh_oauth db epoch (acc_google_sub a) \<or> writing_user = Some user then None
          else Some stale_oauth
      | _ \<Rightarrow> Some IntegrityError)"

definition write_token ::
    "instant \<Rightarrow> int option \<Rightarrow> string \<Rightarrow> string \<Rightarrow> string \<Rightarrow> ('a identity_db_scheme, token_row) eff" where
  "write_token now epoch user account encrypted db =
     (case token_trigger epoch None user account db of
        Some e \<Rightarrow> (Inl e, db)
      | None \<Rightarrow>
          (let row = \<lparr>tok_user_id = user, tok_gmail_account_id = account, token_json_encrypted = encrypted,
                      tok_updated_at = now\<rparr>;
               known = list_ex (\<lambda>t. tok_gmail_account_id t = account) (google_oauth_tokens db)
           in (Inr row, db\<lparr>google_oauth_tokens := (if known
                 then update_where (\<lambda>t. tok_gmail_account_id t = account) (\<lambda>_. row) (google_oauth_tokens db)
                 else google_oauth_tokens db @ [row])\<rparr>)))"

definition upsert_google_oauth_token ::
    "instant \<Rightarrow> string \<Rightarrow> string \<Rightarrow> int option \<Rightarrow> string option \<Rightarrow> ('a identity_db_scheme, token_row) eff" where
  "upsert_google_oauth_token now user encrypted epoch account =
     etransaction (write_token now epoch user (if truthy_str account then str_or_empty account else user) encrypted)"

definition reconnect_google_oauth_token ::
    "instant \<Rightarrow> string \<Rightarrow> string \<Rightarrow> int \<Rightarrow> string option \<Rightarrow> ('a identity_db_scheme, token_row) eff" where
  "reconnect_google_oauth_token now user encrypted epoch account =
     etransaction (ebind (clear_guards now (Some epoch) user) (\<lambda>_.
       write_token now (Some epoch) user (if truthy_str account then str_or_empty account else user) encrypted))"

definition own_token :: "'a guard_db_scheme \<Rightarrow> string \<Rightarrow> string option \<Rightarrow> token_row \<Rightarrow> bool" where
  "own_token db user account t \<longleftrightarrow>
     tok_user_id t = user \<and> coalesce account (primary_account db user) = Some (tok_gmail_account_id t)"

definition get_google_oauth_token :: "'a guard_db_scheme \<Rightarrow> string \<Rightarrow> string option \<Rightarrow> token_row option" where
  "get_google_oauth_token db user account = select_first (own_token db user account) (google_oauth_tokens db)"

definition delete_google_oauth_token :: "string \<Rightarrow> string option \<Rightarrow> ('a guard_db_scheme, unit) eff" where
  "delete_google_oauth_token user account db =
     (Inr (), db\<lparr>google_oauth_tokens := delete_where (own_token db user account) (google_oauth_tokens db)\<rparr>)"

section \<open>Users and Gmail accounts\<close>

definition identity_conflict :: exn where
  "identity_conflict = OtherError ''IdentityConflictError''"

definition user_upsert_row ::
    "instant \<Rightarrow> string \<Rightarrow> string \<Rightarrow> string option \<Rightarrow> string \<Rightarrow> bool \<Rightarrow> instant \<Rightarrow> user_row" where
  "user_upsert_row now user email name google_sub enabled created =
     \<lparr>usr_id = user, usr_email = email, usr_display_name = name, usr_google_sub = google_sub, access_enabled = enabled,
      google_disconnected_at = None, google_data_delete_requested_at = None, google_data_deleted_at = None,
      primary_gmail_account_id = user, usr_created_at = created, usr_updated_at = now\<rparr>"

definition user_updated_row :: "user_row \<Rightarrow> user_row \<Rightarrow> user_row" where
  "user_updated_row new u =
     u\<lparr>usr_email := usr_email new, usr_display_name := usr_display_name new, usr_google_sub := usr_google_sub new,
       access_enabled := access_enabled new, usr_updated_at := usr_updated_at new\<rparr>"

definition primary_account_row :: "user_row \<Rightarrow> bool \<Rightarrow> account_row" where
  "primary_account_row u is_new =
     \<lparr>acc_id = usr_id u, acc_user_id = usr_id u, acc_email = usr_email u, acc_display_name = usr_display_name u,
      acc_google_sub = usr_google_sub u, acc_state = (if is_new then Importing else Ready),
      acc_initial_ready_at = (if is_new then None else Some (usr_created_at u)),
      acc_disconnected_at = None, acc_delete_requested_at = None, acc_deleted_at = None,
      acc_created_at = usr_created_at u, acc_updated_at = usr_updated_at u\<rparr>"

text \<open>The three statements of the \<open>WITH\<close> clause; identities are unique among users and among accounts.\<close>

definition insert_user :: "int option \<Rightarrow> user_row \<Rightarrow> bool \<Rightarrow> ('a identity_db_scheme, user_row) eff" where
  "insert_user epoch new is_new db =
     (let same = (\<lambda>u. usr_id u = usr_id new); same_account = (\<lambda>a. acc_id a = usr_id new);
          us = (if list_ex same (users db) then update_where same (user_updated_row new) (users db) else users db @ [new]);
          row = (case select_first same (users db) of None \<Rightarrow> new | Some u \<Rightarrow> user_updated_row new u);
          account = primary_account_row row is_new;
          accounts = (if list_ex same_account (gmail_accounts db)
            then update_where same_account (\<lambda>a. a\<lparr>acc_email := acc_email account, acc_display_name := acc_display_name account,
                   acc_google_sub := acc_google_sub account, acc_updated_at := acc_updated_at account\<rparr>) (gmail_accounts db)
            else gmail_accounts db @ [account])
      in if \<not> fresh_oauth db epoch (usr_google_sub new) then (Inl stale_oauth, db)
         else if list_ex (\<lambda>a. acc_google_sub a = usr_google_sub row \<and> acc_id a \<noteq> usr_id row) (gmail_accounts db)
         then (Inl IntegrityError, db)
         else (Inr row, db\<lparr>users := us, gmail_accounts := accounts,
                migration_audits := (if usr_id row \<in> set (map fst (migration_audits db)) then migration_audits db
                  else migration_audits db @ [(usr_id row, usr_id row)])\<rparr>))"

definition upsert_user ::
    "instant \<Rightarrow> string \<Rightarrow> string \<Rightarrow> string \<Rightarrow> string option \<Rightarrow> bool \<Rightarrow> int option \<Rightarrow> ('a identity_db_scheme, user_row) eff" where
  "upsert_user now fresh_id email google_sub name enabled epoch =
     etransaction (\<lambda>db.
       let normalized = lower (strip email);
           by_sub = select_first (\<lambda>u. usr_google_sub u = google_sub) (users db);
           by_email = select_first (\<lambda>u. usr_email u = normalized) (users db) in
       if by_email \<noteq> None \<and> map_option usr_id by_email \<noteq> map_option usr_id by_sub
       then (Inl identity_conflict, db)
       else insert_user epoch
         (case by_sub of
            None \<Rightarrow> user_upsert_row now fresh_id normalized name google_sub enabled now
          | Some u \<Rightarrow> user_upsert_row now (usr_id u) normalized name google_sub (access_enabled u) (usr_created_at u))
         (by_sub = None) db)"

definition get_user_by_google_subject :: "'a guard_db_scheme \<Rightarrow> string \<Rightarrow> user_row option" where
  "get_user_by_google_subject db google_sub =
     (case select_first (\<lambda>a. acc_google_sub a = strip google_sub) (gmail_accounts db) of
        None \<Rightarrow> None | Some a \<Rightarrow> find_user db (acc_user_id a))"

definition get_user_by_email :: "'a guard_db_scheme \<Rightarrow> string \<Rightarrow> user_row option" where
  "get_user_by_email db email = select_first (\<lambda>u. usr_email u = lower (strip email)) (users db)"

definition list_gmail_accounts :: "'a guard_db_scheme \<Rightarrow> string \<Rightarrow> account_row list" where
  "list_gmail_accounts db user =
     sort_key acc_created_at (sort_key acc_id
       (filter (\<lambda>a. acc_user_id a = user \<and> acc_state a \<noteq> Deleting) (gmail_accounts db)))"

definition get_gmail_account_by_google_subject :: "'a guard_db_scheme \<Rightarrow> string \<Rightarrow> account_row option" where
  "get_gmail_account_by_google_subject db google_sub =
     select_first (\<lambda>a. acc_google_sub a = strip google_sub) (gmail_accounts db)"

definition get_gmail_account :: "'a guard_db_scheme \<Rightarrow> string \<Rightarrow> string \<Rightarrow> account_row option" where
  "get_gmail_account db user account = select_first (\<lambda>a. acc_id a = account \<and> acc_user_id a = user) (gmail_accounts db)"

definition relinked_row :: "instant \<Rightarrow> string \<Rightarrow> string option \<Rightarrow> account_row \<Rightarrow> account_row" where
  "relinked_row now email name a =
     a\<lparr>acc_email := email, acc_display_name := name,
       acc_state := (if acc_state a = Ready \<or> acc_state a = Importing then acc_state a else Connecting),
       acc_disconnected_at := None, acc_delete_requested_at := None, acc_deleted_at := None, acc_updated_at := now\<rparr>"

definition linked_row :: "instant \<Rightarrow> string \<Rightarrow> string \<Rightarrow> string \<Rightarrow> string \<Rightarrow> string option \<Rightarrow> account_row" where
  "linked_row now account user email google_sub name =
     \<lparr>acc_id = account, acc_user_id = user, acc_email = email, acc_display_name = name, acc_google_sub = google_sub,
      acc_state = Connecting, acc_initial_ready_at = None, acc_disconnected_at = None, acc_delete_requested_at = None,
      acc_deleted_at = None, acc_created_at = now, acc_updated_at = now\<rparr>"

definition attach_account ::
    "instant \<Rightarrow> string \<Rightarrow> string \<Rightarrow> string \<Rightarrow> string \<Rightarrow> string option \<Rightarrow> nat \<Rightarrow> ('a identity_db_scheme, string) eff" where
  "attach_account now fresh_id user email google_sub name max_accounts db =
     (case select_first (\<lambda>a. acc_google_sub a = google_sub) (gmail_accounts db) of
        Some a \<Rightarrow>
          if acc_user_id a \<noteq> user then (Inl (OtherError ''GmailAccountOwnershipConflictError''), db)
          else (Inr (acc_id a), db\<lparr>gmail_accounts := update_where (\<lambda>b. acc_id b = acc_id a \<and> acc_user_id b = user)
                 (relinked_row now email name) (gmail_accounts db)\<rparr>)
      | None \<Rightarrow>
          if max_accounts \<le> length (filter (\<lambda>a. acc_user_id a = user \<and> acc_state a \<noteq> Deleting) (gmail_accounts db))
          then (Inl (OtherError ''GmailAccountLimitError''), db)
          else if fresh_id \<in> set (map acc_id (gmail_accounts db)) then (Inl IntegrityError, db)
          else (Inr fresh_id, db\<lparr>gmail_accounts := gmail_accounts db @ [linked_row now fresh_id user email google_sub name]\<rparr>))"

definition link_gmail_account ::
    "instant \<Rightarrow> string \<Rightarrow> string \<Rightarrow> string \<Rightarrow> string \<Rightarrow> string option \<Rightarrow> string \<Rightarrow> int \<Rightarrow> nat
      \<Rightarrow> ('a identity_db_scheme, account_row) eff" where
  "link_gmail_account now fresh_id user email google_sub name encrypted epoch max_accounts =
     (let normalized = lower (strip email); verified = strip google_sub in
      if normalized = '''' \<or> verified = '''' then eraise (ValueError ''Verified Gmail email and Google subject are required'')
      else etransaction
        (ebind (eget (\<lambda>db. find_user db user)) (\<lambda>owner.
         ebind (eassert (owner \<noteq> None) (ValueError ''App user does not exist'')) (\<lambda>_.
         ebind (attach_account now fresh_id user normalized verified name max_accounts) (\<lambda>account.
         ebind (write_token now (Some epoch) user account encrypted) (\<lambda>_.
         ebind (eget (\<lambda>db. get_gmail_account db user account)) (\<lambda>row.
         case row of None \<Rightarrow> eraise (RuntimeError ''Failed to link Gmail account'') | Some a \<Rightarrow> ereturn a)))))))"

text \<open>\<open>UPDATE gmail_accounts .. RETURNING *\<close> on an owned account.\<close>

definition update_account ::
    "exn \<Rightarrow> string \<Rightarrow> string \<Rightarrow> (account_row \<Rightarrow> bool) \<Rightarrow> (account_row \<Rightarrow> account_row) \<Rightarrow> ('a guard_db_scheme, account_row) eff" where
  "update_account missing user account p f db =
     (let target = (\<lambda>a. acc_id a = account \<and> acc_user_id a = user \<and> p a) in
      case row_first (returning target f (gmail_accounts db)) of
        None \<Rightarrow> (Inl missing, db)
      | Some a \<Rightarrow> (Inr a, db\<lparr>gmail_accounts := update_where target f (gmail_accounts db)\<rparr>))"

definition mark_gmail_account_ready :: "instant \<Rightarrow> string \<Rightarrow> string \<Rightarrow> ('a guard_db_scheme, account_row) eff" where
  "mark_gmail_account_ready now user account =
     update_account (ValueError ''Gmail account is not available for setup'') user account
       (\<lambda>a. acc_state a \<in> {Connecting, Importing, Ready})
       (\<lambda>a. a\<lparr>acc_state := Ready, acc_initial_ready_at := coalesce (acc_initial_ready_at a) (Some now), acc_updated_at := now\<rparr>)"

definition mark_gmail_account_importing :: "instant \<Rightarrow> string \<Rightarrow> string \<Rightarrow> ('a guard_db_scheme, account_row) eff" where
  "mark_gmail_account_importing now user account =
     update_account (ValueError ''Gmail account cannot begin importing'') user account
       (\<lambda>a. acc_state a \<in> {Connecting, Importing, Ready})
       (\<lambda>a. a\<lparr>acc_state := Importing, acc_initial_ready_at := None, acc_updated_at := now\<rparr>)"

definition mark_gmail_account_reauth_required :: "instant \<Rightarrow> string \<Rightarrow> string \<Rightarrow> ('a guard_db_scheme, account_row) eff" where
  "mark_gmail_account_reauth_required now user account =
     update_account (LookupError ''Gmail account not found'') user account (\<lambda>_. True)
       (\<lambda>a. a\<lparr>acc_state := Reauth_required, acc_updated_at := now\<rparr>)"

definition multi_account_migration_verified :: "'a identity_db_scheme \<Rightarrow> string \<Rightarrow> bool" where
  "multi_account_migration_verified db user \<longleftrightarrow>
     (case find_user db user of None \<Rightarrow> False
      | Some u \<Rightarrow> (user, primary_gmail_account_id u) \<in> set (migration_audits db)
          \<and> list_ex (\<lambda>a. acc_id a = primary_gmail_account_id u \<and> acc_user_id a = user) (gmail_accounts db))"

definition is_allowed_email :: "'a identity_db_scheme \<Rightarrow> string \<Rightarrow> bool option" where
  "is_allowed_email db email = map_of (allowed_emails db) (lower (strip email))"

text \<open>The rows of this record that fall with a user.\<close>

definition drop_user :: "string \<Rightarrow> 'a identity_db_scheme \<Rightarrow> 'a identity_db_scheme" where
  "drop_user user db =
     db\<lparr>users := delete_where (\<lambda>u. usr_id u = user) (users db),
        google_oauth_tokens := delete_where (\<lambda>t. tok_user_id t = user) (google_oauth_tokens db),
        gmail_accounts := delete_where (\<lambda>a. acc_user_id a = user) (gmail_accounts db),
        app_sessions := delete_where (\<lambda>s. as_user_id s = user) (app_sessions db),
        oauth_login_sessions := delete_where (\<lambda>s. ol_initiating_user_id s = Some user) (oauth_login_sessions db),
        mobile_login_codes := delete_where (\<lambda>c. lc_user_id c = user) (mobile_login_codes db),
        migration_audits := delete_where (\<lambda>(u, _). u = user) (migration_audits db)\<rparr>"

definition delete_user_account_with_google_subject_tombstone ::
    "instant \<Rightarrow> string \<Rightarrow> ('a identity_db_scheme, bool) eff" where
  "delete_user_account_with_google_subject_tombstone now user db =
     (case find_user db user of
        None \<Rightarrow> (Inr False, db)
      | Some u \<Rightarrow> (Inr True, drop_user user (tombstone_user now u db)))"

section \<open>App sessions\<close>

definition create_app_session ::
    "instant \<Rightarrow> string \<Rightarrow> string \<Rightarrow> string \<Rightarrow> string \<Rightarrow> instant \<Rightarrow> ('a identity_db_scheme, session_row) eff" where
  "create_app_session now fresh_id user token_hash platform expires db =
     (let row = \<lparr>as_id = fresh_id, as_user_id = user, as_token_hash = token_hash, as_platform = platform,
            as_expires_at = expires, as_revoked_at = None, as_last_seen_at = Some now, as_created_at = now\<rparr> in
      if find_user db user = None \<or> list_ex (\<lambda>s. as_token_hash s = token_hash \<or> as_id s = fresh_id) (app_sessions db)
      then (Inl IntegrityError, db)
      else (Inr row, db\<lparr>app_sessions := app_sessions db @ [row]\<rparr>))"

definition session_active :: "instant \<Rightarrow> string \<Rightarrow> session_row \<Rightarrow> bool" where
  "session_active now token_hash s \<longleftrightarrow> as_token_hash s = token_hash \<and> as_revoked_at s = None \<and> now < as_expires_at s"

definition get_active_app_session :: "instant \<Rightarrow> string \<Rightarrow> ('a identity_db_scheme, session_row option) eff" where
  "get_active_app_session now token_hash db =
     (case select_first (session_active now token_hash) (app_sessions db) of
        None \<Rightarrow> (Inr None, db)
      | Some s \<Rightarrow> (Inr (Some s), db\<lparr>app_sessions := update_where (\<lambda>r. as_id r = as_id s) (\<lambda>r. r\<lparr>as_last_seen_at := Some now\<rparr>)
            (app_sessions db)\<rparr>))"

definition revoke_sessions :: "instant \<Rightarrow> (session_row \<Rightarrow> bool) \<Rightarrow> ('a identity_db_scheme, nat) eff" where
  "revoke_sessions now p db =
     (let target = (\<lambda>s. p s \<and> as_revoked_at s = None) in
      (Inr (length (filter target (app_sessions db))),
       db\<lparr>app_sessions := update_where target (\<lambda>s. s\<lparr>as_revoked_at := Some now\<rparr>) (app_sessions db)\<rparr>))"

definition revoke_app_session :: "instant \<Rightarrow> string \<Rightarrow> ('a identity_db_scheme, bool) eff" where
  "revoke_app_session now token_hash =
     ebind (revoke_sessions now (\<lambda>s. as_token_hash s = token_hash)) (\<lambda>n. ereturn (0 < n))"

definition revoke_user_app_sessions :: "instant \<Rightarrow> string \<Rightarrow> ('a identity_db_scheme, nat) eff" where
  "revoke_user_app_sessions now user = revoke_sessions now (\<lambda>s. as_user_id s = user)"

section \<open>OAuth state\<close>

definition save_oauth_login_session ::
    "instant \<Rightarrow> string \<Rightarrow> string \<Rightarrow> string option \<Rightarrow> instant \<Rightarrow> string \<Rightarrow> string option \<Rightarrow> ('a identity_db_scheme, unit) eff" where
  "save_oauth_login_session now state verifier redirect expires intent initiating db =
     (let e = identity_epoch db + 1;
          row = \<lparr>ol_state = state, ol_code_verifier = verifier, ol_redirect_to = redirect, ol_expires_at = expires,
            ol_created_at = now, ol_started_epoch = e, ol_intent = intent, ol_initiating_user_id = initiating\<rparr>;
          known = list_ex (\<lambda>r. ol_state r = state) (oauth_login_sessions db) in
      if intent \<notin> {''login'', ''link'', ''reauthorize'', ''merge_verify''}
         \<or> (intent = ''login'') \<noteq> (initiating = None)
         \<or> (case initiating of None \<Rightarrow> False | Some u \<Rightarrow> find_user db u = None)
      then (Inl IntegrityError, db)
      else (Inr (), db\<lparr>identity_epoch := e, oauth_login_sessions := (if known
              then update_where (\<lambda>r. ol_state r = state) (\<lambda>_. row) (oauth_login_sessions db)
              else oauth_login_sessions db @ [row])\<rparr>))"

definition get_oauth_login_session :: "'a identity_db_scheme \<Rightarrow> string \<Rightarrow> instant \<Rightarrow> oauth_login_row option" where
  "get_oauth_login_session db state now =
     select_first (\<lambda>r. ol_state r = state \<and> now < ol_expires_at r) (oauth_login_sessions db)"

definition delete_oauth_login_session :: "string \<Rightarrow> ('a identity_db_scheme, unit) eff" where
  "delete_oauth_login_session state =
     eupdate (\<lambda>db. db\<lparr>oauth_login_sessions := delete_where (\<lambda>r. ol_state r = state) (oauth_login_sessions db)\<rparr>)"

definition oauth_session_is_after_google_subject_deletion :: "'a identity_db_scheme \<Rightarrow> string \<Rightarrow> int \<Rightarrow> bool" where
  "oauth_session_is_after_google_subject_deletion db subject_hash epoch \<longleftrightarrow>
     \<not> list_ex (\<lambda>t. ts_subject_hash t = subject_hash \<and> epoch \<le> ts_deleted_epoch t) (google_subject_tombstones db)"

section \<open>Mobile login\<close>

definition create_mobile_login_code ::
    "instant \<Rightarrow> string \<Rightarrow> string \<Rightarrow> instant \<Rightarrow> ('a identity_db_scheme, login_code_row) eff" where
  "create_mobile_login_code now code_hash user expires db =
     (let row = \<lparr>lc_code_hash = code_hash, lc_user_id = user, lc_expires_at = expires, lc_consumed_at = None, lc_created_at = now\<rparr> in
      if find_user db user = None \<or> list_ex (\<lambda>c. lc_code_hash c = code_hash) (mobile_login_codes db)
      then (Inl IntegrityError, db)
      else (Inr row, db\<lparr>mobile_login_codes := mobile_login_codes db @ [row]\<rparr>))"

definition code_usable :: "instant \<Rightarrow> string \<Rightarrow> login_code_row \<Rightarrow> bool" where
  "code_usable now code_hash c \<longleftrightarrow> lc_code_hash c = code_hash \<and> lc_consumed_at c = None \<and> now < lc_expires_at c"

definition consume_code :: "instant \<Rightarrow> login_code_row \<Rightarrow> login_code_row" where
  "consume_code now c = c\<lparr>lc_consumed_at := Some now\<rparr>"

definition consume_mobile_login_code :: "instant \<Rightarrow> string \<Rightarrow> ('a identity_db_scheme, login_code_row option) eff" where
  "consume_mobile_login_code now code_hash db =
     (Inr (row_first (returning (code_usable now code_hash) (consume_code now) (mobile_login_codes db))),
      db\<lparr>mobile_login_codes := update_where (code_usable now code_hash) (consume_code now) (mobile_login_codes db)\<rparr>)"

definition create_mobile_oauth_handoff ::
    "instant \<Rightarrow> string \<Rightarrow> string option \<Rightarrow> instant \<Rightarrow> string option \<Rightarrow> string option \<Rightarrow> string \<Rightarrow> string option
      \<Rightarrow> ('a identity_db_scheme, handoff_row) eff" where
  "create_mobile_oauth_handoff now handoff encrypted expires code_hash challenge status error db =
     (let same = (\<lambda>h. ho_handoff_id h = handoff);
          row = \<lparr>ho_handoff_id = handoff, ho_login_code_encrypted = encrypted, ho_login_code_hash = code_hash,
            ho_exchange_code_challenge = challenge, ho_status = status, ho_error = error, ho_expires_at = expires,
            ho_consumed_at = None, ho_created_at = now, ho_delivered_count = 0\<rparr>;
          hs = (if list_ex same (mobile_oauth_handoffs db)
            then update_where same (\<lambda>h. row\<lparr>ho_delivered_count := ho_delivered_count h\<rparr>) (mobile_oauth_handoffs db)
            else mobile_oauth_handoffs db @ [row])
      in (Inr (case select_first same hs of None \<Rightarrow> row | Some h \<Rightarrow> h), db\<lparr>mobile_oauth_handoffs := hs\<rparr>))"

definition handoff_open :: "instant \<Rightarrow> string \<Rightarrow> handoff_row \<Rightarrow> bool" where
  "handoff_open now handoff h \<longleftrightarrow> ho_handoff_id h = handoff \<and> ho_consumed_at h = None \<and> now < ho_expires_at h"

definition consume_mobile_oauth_handoff :: "instant \<Rightarrow> string \<Rightarrow> ('a identity_db_scheme, handoff_row option) eff" where
  "consume_mobile_oauth_handoff now handoff db =
     (Inr (row_first (returning (handoff_open now handoff) (\<lambda>h. h\<lparr>ho_consumed_at := Some now\<rparr>) (mobile_oauth_handoffs db))),
      db\<lparr>mobile_oauth_handoffs := update_where (handoff_open now handoff) (\<lambda>h. h\<lparr>ho_consumed_at := Some now\<rparr>)
           (mobile_oauth_handoffs db)\<rparr>)"

text \<open>The verifier-bound exchange: one statement consumes the code and its handoff, or nothing.\<close>

definition consume_bound_mobile_login_code ::
    "instant \<Rightarrow> string \<Rightarrow> string \<Rightarrow> string \<Rightarrow> ('a identity_db_scheme, login_code_row option) eff" where
  "consume_bound_mobile_login_code now handoff challenge code_hash db =
     (let eligible = list_ex (\<lambda>h. handoff_open now handoff h \<and> ho_status h = ''ready''
            \<and> ho_exchange_code_challenge h = Some challenge \<and> ho_login_code_hash h = Some code_hash) (mobile_oauth_handoffs db);
          consumed = row_first (returning (code_usable now code_hash) (consume_code now) (mobile_login_codes db)) in
      if eligible \<and> consumed \<noteq> None
      then (Inr consumed,
            db\<lparr>mobile_login_codes := update_where (code_usable now code_hash) (consume_code now) (mobile_login_codes db),
               mobile_oauth_handoffs := update_where (\<lambda>h. ho_handoff_id h = handoff) (\<lambda>h. h\<lparr>ho_consumed_at := Some now\<rparr>)
                 (mobile_oauth_handoffs db)\<rparr>)
      else (Inr None, db))"

definition note_mobile_oauth_handoff_delivery :: "string \<Rightarrow> ('a identity_db_scheme, nat option) eff" where
  "note_mobile_oauth_handoff_delivery handoff db =
     (let target = (\<lambda>h. ho_handoff_id h = handoff \<and> ho_status h = ''ready'' \<and> ho_consumed_at h = None);
          count = (\<lambda>h. h\<lparr>ho_delivered_count := Suc (ho_delivered_count h)\<rparr>) in
      (Inr (map_option ho_delivered_count (row_first (returning target count (mobile_oauth_handoffs db)))),
       db\<lparr>mobile_oauth_handoffs := update_where target count (mobile_oauth_handoffs db)\<rparr>))"

definition get_mobile_oauth_handoff :: "'a identity_db_scheme \<Rightarrow> string \<Rightarrow> instant \<Rightarrow> handoff_row option" where
  "get_mobile_oauth_handoff db handoff now = select_first (handoff_open now handoff) (mobile_oauth_handoffs db)"

section \<open>Shared rate-limit buckets\<close>

definition consume_rate_limit_bucket ::
    "int \<Rightarrow> string \<Rightarrow> string \<Rightarrow> int \<Rightarrow> int \<Rightarrow> ('a identity_db_scheme, bool \<times> int) eff" where
  "consume_rate_limit_bucket now rule identity maximum window db =
     (let start = now - now mod window; retry = max 1 (window - now mod window);
          same = (\<lambda>b. rl_rule b = rule \<and> rl_identity b = identity \<and> rl_window_start b = start);
          known = list_ex same (rate_limit_buckets db);
          bs = (if known then update_where same (\<lambda>b. b\<lparr>rl_request_count := rl_request_count b + 1\<rparr>) (rate_limit_buckets db)
                else rate_limit_buckets db @ [\<lparr>rl_rule = rule, rl_identity = identity, rl_window_start = start, rl_request_count = 1\<rparr>]);
          count = (case select_first same bs of None \<Rightarrow> maximum + 1 | Some b \<Rightarrow> rl_request_count b)
      in (Inr (if maximum < count then (False, retry) else (True, 0)), db\<lparr>rate_limit_buckets := bs\<rparr>))"

end
