(* ===== verification/Job_Queue.thy ===== *)
theory Job_Queue
  imports Identity_Store
begin

text \<open>
  \<open>backend/app/db/jobs.py\<close>: the durable background job queue. The state extends
  the guard database with the job table, the job events and the worker
  heartbeats. Every operation is one transaction; \<open>now\<close> is its transaction time
  and a new job id is a parameter.

  A row keeps the decoded payload object of its \<open>payload_json\<close> column. The id of
  an event row is a fresh uuid that no statement reads, and is left out.

  READ COMMITTED lets other transactions commit between two statements of
  \<open>enqueue_job\<close>: its first \<open>SELECT\<close> sees the table \<open>snapshot\<close>, its later
  statements the current table. Without a race \<open>snapshot\<close> is the current table.
  \<open>FOR UPDATE SKIP LOCKED\<close> skips the ids other transactions have locked, an
  argument of \<open>claim_job\<close>.
\<close>

section \<open>Rows and state\<close>

datatype job_status = Queued | Running | Succeeded | Dead | Cancelled

record job_row =
  bj_id :: string
  bj_kind :: string
  bj_queue :: string
  bj_status :: job_status
  bj_user_id :: "string option"
  bj_gmail_account_id :: "string option"
  bj_dedupe_key :: "string option"
  bj_priority :: int
  bj_payload_version :: int
  bj_payload :: "(string \<times> json) list"
  bj_attempt_count :: int
  bj_max_attempts :: int
  bj_run_after :: instant
  bj_lease_owner :: "string option"
  bj_lease_expires_at :: "instant option"
  bj_last_error :: "string option"
  bj_trace_id :: "string option"
  bj_created_at :: instant
  bj_started_at :: "instant option"
  bj_completed_at :: "instant option"
  bj_updated_at :: instant

datatype event_type =
  Queued_event | Progress_event | Claimed_event | Succeeded_event | Dead_event | Retry_event | Cancelled_event

record job_event =
  ev_job_id :: string
  ev_type :: event_type
  ev_message :: "string option"
  ev_metadata :: "(string \<times> json) list"
  ev_created_at :: instant

record heartbeat_row =
  hb_worker_id :: string
  hb_queues :: "string list"
  hb_current_job_id :: "string option"
  hb_release_sha :: string
  hb_last_seen_at :: instant

record job_db = identity_db +
  background_jobs :: "job_row list"
  background_job_events :: "job_event list"
  worker_heartbeats :: "heartbeat_row list"

definition active_job :: "job_row \<Rightarrow> bool" where
  "active_job r \<longleftrightarrow> bj_status r = Queued \<or> bj_status r = Running"

definition update_jobs ::
    "(job_row \<Rightarrow> bool) \<Rightarrow> (job_row \<Rightarrow> job_row) \<Rightarrow> 'a job_db_scheme \<Rightarrow> 'a job_db_scheme" where
  "update_jobs p f db = db\<lparr>background_jobs := update_where p f (background_jobs db)\<rparr>"

definition insert_event ::
    "instant \<Rightarrow> string \<Rightarrow> event_type \<Rightarrow> string option \<Rightarrow> (string \<times> json) list
      \<Rightarrow> 'a job_db_scheme \<Rightarrow> 'a job_db_scheme" where
  "insert_event now job_id type message metadata db =
     db\<lparr>background_job_events := background_job_events db @
         [\<lparr>ev_job_id = job_id, ev_type = type, ev_message = message,
           ev_metadata = metadata, ev_created_at = now\<rparr>]\<rparr>"

section \<open>Enqueueing\<close>

record job_request =
  rq_kind :: string
  rq_payload :: "(string \<times> json) list"
  rq_user_id :: "string option"
  rq_gmail_account_id :: "string option"
  rq_dedupe_key :: "string option"
  rq_queue :: string
  rq_priority :: int
  rq_max_attempts :: int
  rq_payload_version :: int
  rq_run_after_seconds :: int
  rq_wake_existing :: bool

text \<open>The defaults of the keyword arguments.\<close>

definition job_request_of :: "string \<Rightarrow> job_request" where
  "job_request_of kind =
     \<lparr>rq_kind = kind, rq_payload = [], rq_user_id = None, rq_gmail_account_id = None,
      rq_dedupe_key = None, rq_queue = ''default'', rq_priority = 0, rq_max_attempts = 5,
      rq_payload_version = 1, rq_run_after_seconds = 0, rq_wake_existing = True\<rparr>"

definition resolved_account :: "'a job_db_scheme \<Rightarrow> job_request \<Rightarrow> string option" where
  "resolved_account db rq =
     (let account = coalesce (rq_gmail_account_id rq) (active_gmail_account db)
      in if truthy_str account then account else rq_user_id rq)"

definition same_dedupe :: "string option \<Rightarrow> string \<Rightarrow> string option \<Rightarrow> job_row \<Rightarrow> bool" where
  "same_dedupe account kind dedupe r \<longleftrightarrow>
     bj_gmail_account_id r = account \<and> bj_kind r = kind
     \<and> dedupe \<noteq> None \<and> bj_dedupe_key r = dedupe \<and> active_job r"

text \<open>\<open>ORDER BY created_at DESC LIMIT 1\<close>\<close>

definition newest_active :: "string option \<Rightarrow> string \<Rightarrow> string option \<Rightarrow> job_row list \<Rightarrow> job_row option" where
  "newest_active account kind dedupe rows =
     best_row (\<lambda>a b. bj_created_at b < bj_created_at a) (filter (same_dedupe account kind dedupe) rows)"

definition wake_row :: "instant \<Rightarrow> int \<Rightarrow> int \<Rightarrow> job_row \<Rightarrow> job_row" where
  "wake_row now delay priority r =
     r\<lparr>bj_run_after := min (bj_run_after r) (now + seconds delay),
       bj_priority := max (bj_priority r) priority, bj_updated_at := now\<rparr>"

definition raise_priority_row :: "instant \<Rightarrow> int \<Rightarrow> job_row \<Rightarrow> job_row" where
  "raise_priority_row now priority r = r\<lparr>bj_priority := priority, bj_updated_at := now\<rparr>"

definition new_job_row :: "instant \<Rightarrow> string \<Rightarrow> string option \<Rightarrow> int \<Rightarrow> job_request \<Rightarrow> job_row" where
  "new_job_row now job_id account delay rq =
     \<lparr>bj_id = job_id, bj_kind = rq_kind rq, bj_queue = rq_queue rq, bj_status = Queued,
      bj_user_id = rq_user_id rq, bj_gmail_account_id = account, bj_dedupe_key = rq_dedupe_key rq,
      bj_priority = rq_priority rq, bj_payload_version = rq_payload_version rq,
      bj_payload = rq_payload rq, bj_attempt_count = 0, bj_max_attempts = rq_max_attempts rq,
      bj_run_after = now + seconds delay, bj_lease_owner = None, bj_lease_expires_at = None,
      bj_last_error = None, bj_trace_id = None, bj_created_at = now, bj_started_at = None,
      bj_completed_at = None, bj_updated_at = now\<rparr>"

text \<open>
  The unique indexes that \<open>ON CONFLICT DO NOTHING\<close> obeys: the primary key and the
  two partial indexes on active deduplicated jobs, for a named account and for
  system jobs. A violated check constraint raises instead.
\<close>

definition insert_conflicts :: "job_row \<Rightarrow> job_row list \<Rightarrow> bool" where
  "insert_conflicts new rows \<longleftrightarrow>
     list_ex (\<lambda>r. bj_id r = bj_id new
        \<or> same_dedupe (bj_gmail_account_id new) (bj_kind new) (bj_dedupe_key new) r) rows"

definition dedupe_existing ::
    "instant \<Rightarrow> int \<Rightarrow> job_request \<Rightarrow> job_row \<Rightarrow> ('a job_db_scheme, job_row) eff" where
  "dedupe_existing now delay rq existing db =
     (let target = (\<lambda>r. bj_id r = bj_id existing) in
      if bj_status existing \<noteq> Queued then (Inr existing, db)
      else if rq_wake_existing rq then
        (case row_first (returning target (wake_row now delay (rq_priority rq)) (background_jobs db)) of
           None \<Rightarrow> (Inl TypeError, db)
         | Some r \<Rightarrow>
             (Inr r, insert_event now (bj_id r) Progress_event None [(''reason'', JStr ''dedupe_woke_queued_job'')]
                (update_jobs target (wake_row now delay (rq_priority rq)) db)))
      else if bj_priority existing < rq_priority rq then
        (case row_first (returning target (raise_priority_row now (rq_priority rq)) (background_jobs db)) of
           None \<Rightarrow> (Inl TypeError, db)
         | Some r \<Rightarrow> (Inr r, update_jobs target (raise_priority_row now (rq_priority rq)) db))
      else (Inr existing, db))"

definition insert_job :: "instant \<Rightarrow> string \<Rightarrow> string option \<Rightarrow> int \<Rightarrow> job_request \<Rightarrow> ('a job_db_scheme, job_row) eff" where
  "insert_job now job_id account delay rq db =
     (let new = new_job_row now job_id account delay rq in
      if (rq_user_id rq = None) \<noteq> (account = None) then (Inl IntegrityError, db)
      else if \<not> insert_conflicts new (background_jobs db) then
        (Inr new, insert_event now job_id Queued_event None []
           (db\<lparr>background_jobs := background_jobs db @ [new]\<rparr>))
      else if \<not> truthy_str (rq_dedupe_key rq) then (Inl (RuntimeError ''Job enqueue failed''), db)
      else (case newest_active account (rq_kind rq) (rq_dedupe_key rq) (background_jobs db) of
              None \<Rightarrow> (Inl (RuntimeError ''Job enqueue failed''), db)
            | Some r \<Rightarrow> (Inr r, insert_event now (bj_id r) Queued_event None [] db)))"

definition enqueue_body ::
    "job_row list \<Rightarrow> instant \<Rightarrow> string \<Rightarrow> string option \<Rightarrow> int \<Rightarrow> job_request \<Rightarrow> ('a job_db_scheme, job_row) eff" where
  "enqueue_body snapshot now job_id account delay rq db =
     (case (if truthy_str (rq_dedupe_key rq)
            then newest_active account (rq_kind rq) (rq_dedupe_key rq) snapshot else None) of
        Some existing \<Rightarrow> dedupe_existing now delay rq existing db
      | None \<Rightarrow> insert_job now job_id account delay rq db)"

definition enqueue_job ::
    "job_row list \<Rightarrow> instant \<Rightarrow> string \<Rightarrow> job_request \<Rightarrow> ('a job_db_scheme, job_row) eff" where
  "enqueue_job snapshot now job_id rq db =
     (let account = resolved_account db rq;
          delay = max 0 (rq_run_after_seconds rq);
          body = enqueue_body snapshot now job_id account delay rq
      in case rq_user_id rq of
           Some user \<Rightarrow> user_mail_write_transaction user account (\<lambda>_. body) db
         | None \<Rightarrow> etransaction body db)"

section \<open>Reading\<close>

definition get_job :: "'a job_db_scheme \<Rightarrow> string \<Rightarrow> job_row option" where
  "get_job db job_id = select_first (\<lambda>r. bj_id r = job_id) (background_jobs db)"

definition count_active_jobs :: "'a job_db_scheme \<Rightarrow> string \<Rightarrow> string list \<Rightarrow> nat" where
  "count_active_jobs db user kinds =
     length (filter (\<lambda>r. bj_user_id r = Some user \<and> active_job r
        \<and> (kinds = [] \<or> bj_kind r \<in> set kinds)) (background_jobs db))"

text \<open>\<open>payload ->> key\<close>: the text of a scalar; the producers write no nested value there.\<close>

fun json_text :: "json \<Rightarrow> string option" where
  "json_text JNull = None"
| "json_text (JStr s) = Some s"
| "json_text v = Some (json_dumps v)"

definition pending_revocation :: "string \<Rightarrow> job_row \<Rightarrow> bool" where
  "pending_revocation subject_hash r \<longleftrightarrow>
     bj_kind r = ''google_token_revoke'' \<and> active_job r
     \<and> json_text (jget (bj_payload r) ''subject_hash'') = Some subject_hash"

definition has_active_google_token_revocation :: "string \<Rightarrow> ('a job_db_scheme, bool) eff" where
  "has_active_google_token_revocation subject_hash db =
     (if strip subject_hash = '''' then (Inl (ValueError ''Google subject hash is required''), db)
      else (Inr (list_ex (pending_revocation (strip subject_hash)) (background_jobs db)), db))"

section \<open>Ending, claiming and renewing jobs\<close>

definition end_row :: "instant \<Rightarrow> job_status \<Rightarrow> job_row \<Rightarrow> job_row" where
  "end_row now status r =
     r\<lparr>bj_status := status, bj_completed_at := Some now, bj_lease_owner := None,
       bj_lease_expires_at := None, bj_updated_at := now\<rparr>"

definition held_by :: "string \<Rightarrow> string \<Rightarrow> job_row \<Rightarrow> bool" where
  "held_by job_id worker r \<longleftrightarrow>
     bj_id r = job_id \<and> bj_status r = Running \<and> bj_lease_owner r = Some worker"

definition complete_google_token_revocations_for_subject ::
    "instant \<Rightarrow> string \<Rightarrow> ('a job_db_scheme, nat) eff" where
  "complete_google_token_revocations_for_subject now subject_hash db =
     (if strip subject_hash = '''' then (Inl (ValueError ''Google subject hash is required''), db)
      else let pending = pending_revocation (strip subject_hash);
               ids = map bj_id (returning pending (end_row now Succeeded) (background_jobs db))
           in (Inr (length ids),
               fold (\<lambda>i. insert_event now i Succeeded_event None [(''reason'', JStr ''google_subject_revoked'')])
                 ids (update_jobs pending (end_row now Succeeded) db)))"

definition complete_google_token_revocation_job :: "instant \<Rightarrow> string \<Rightarrow> ('a job_db_scheme, bool) eff" where
  "complete_google_token_revocation_job now job_id db =
     (if strip job_id = '''' then (Inl (ValueError ''Google token revocation job ID is required''), db)
      else let target = (\<lambda>r. bj_id r = strip job_id \<and> bj_kind r = ''google_token_revoke'' \<and> active_job r)
           in case row_first (returning target (end_row now Succeeded) (background_jobs db)) of
                None \<Rightarrow> (Inr False, db)
              | Some r \<Rightarrow>
                  (Inr True, insert_event now (bj_id r) Succeeded_event None
                     [(''reason'', JStr ''google_credential_already_invalid'')]
                     (update_jobs target (end_row now Succeeded) db)))"

definition claimable :: "instant \<Rightarrow> string list \<Rightarrow> job_row \<Rightarrow> bool" where
  "claimable now queues r \<longleftrightarrow>
     bj_queue r \<in> set queues
     \<and> ((bj_status r = Queued \<and> bj_run_after r \<le> now)
        \<or> (bj_status r = Running
            \<and> (case bj_lease_expires_at r of None \<Rightarrow> False | Some t \<Rightarrow> t < now)))"

text \<open>\<open>ORDER BY priority DESC, run_after ASC, created_at ASC\<close>\<close>

definition claim_before :: "job_row \<Rightarrow> job_row \<Rightarrow> bool" where
  "claim_before a b \<longleftrightarrow>
     bj_priority b < bj_priority a
     \<or> (bj_priority a = bj_priority b \<and> (bj_run_after a < bj_run_after b
         \<or> (bj_run_after a = bj_run_after b \<and> bj_created_at a < bj_created_at b)))"

definition claim_row :: "instant \<Rightarrow> string \<Rightarrow> int \<Rightarrow> job_row \<Rightarrow> job_row" where
  "claim_row now worker lease r =
     r\<lparr>bj_status := Running, bj_lease_owner := Some worker,
       bj_lease_expires_at := Some (now + seconds lease),
       bj_started_at := coalesce (bj_started_at r) (Some now),
       bj_attempt_count := bj_attempt_count r + 1, bj_updated_at := now\<rparr>"

definition claim_job ::
    "string list \<Rightarrow> instant \<Rightarrow> string \<Rightarrow> string list \<Rightarrow> int \<Rightarrow> ('a job_db_scheme, job_row option) eff" where
  "claim_job locked now worker queues lease db =
     (if queues = [] then (Inr None, db)
      else case best_row claim_before
             (filter (\<lambda>r. claimable now queues r \<and> bj_id r \<notin> set locked) (background_jobs db)) of
             None \<Rightarrow> (Inr None, db)
           | Some candidate \<Rightarrow>
               (let target = (\<lambda>r. bj_id r = bj_id candidate) in
                (Inr (row_first (returning target (claim_row now worker lease) (background_jobs db))),
                 insert_event now (bj_id candidate) Claimed_event None [(''worker_id'', JStr worker)]
                   (update_jobs target (claim_row now worker lease) db))))"

definition renew_heartbeat ::
    "instant \<Rightarrow> string \<Rightarrow> string list \<Rightarrow> string \<Rightarrow> string option \<Rightarrow> int \<Rightarrow> ('a job_db_scheme, unit) eff" where
  "renew_heartbeat now worker queues release current lease db =
     (let beat = \<lparr>hb_worker_id = worker, hb_queues = queues, hb_current_job_id = current,
                  hb_release_sha = release, hb_last_seen_at = now\<rparr>;
          known = list_ex (\<lambda>h. hb_worker_id h = worker) (worker_heartbeats db);
          db = db\<lparr>worker_heartbeats :=
                   (if known then update_where (\<lambda>h. hb_worker_id h = worker) (\<lambda>_. beat) (worker_heartbeats db)
                    else worker_heartbeats db @ [beat])\<rparr>
      in (Inr (),
          case current of None \<Rightarrow> db
          | Some job_id \<Rightarrow>
              update_jobs (held_by job_id worker)
                (\<lambda>r. r\<lparr>bj_lease_expires_at := Some (now + seconds lease), bj_updated_at := now\<rparr>) db))"

definition complete_job :: "instant \<Rightarrow> string \<Rightarrow> string \<Rightarrow> ('a job_db_scheme, bool) eff" where
  "complete_job now job_id worker db =
     (if \<not> list_ex (held_by job_id worker) (background_jobs db) then (Inr False, db)
      else (Inr True, insert_event now job_id Succeeded_event None []
              (update_jobs (held_by job_id worker) (end_row now Succeeded) db)))"

definition retry_backoff_seconds :: "int \<Rightarrow> int" where
  "retry_backoff_seconds attempt_count =
     [0, 30, 120, 600, 3600] ! nat (min (max attempt_count 0) 4)"

definition dead_row :: "instant \<Rightarrow> string \<Rightarrow> job_row \<Rightarrow> job_row" where
  "dead_row now error r = (end_row now Dead r)\<lparr>bj_last_error := Some (take 4000 error)\<rparr>"

definition retry_row :: "instant \<Rightarrow> string \<Rightarrow> int \<Rightarrow> job_row \<Rightarrow> job_row" where
  "retry_row now error delay r =
     r\<lparr>bj_status := Queued, bj_last_error := Some (take 4000 error),
       bj_run_after := now + seconds delay, bj_lease_owner := None,
       bj_lease_expires_at := None, bj_updated_at := now\<rparr>"

definition retry_delay :: "job_row \<Rightarrow> int option \<Rightarrow> int" where
  "retry_delay job requested =
     (case requested of None \<Rightarrow> retry_backoff_seconds (bj_attempt_count job)
      | Some n \<Rightarrow> max (retry_backoff_seconds (bj_attempt_count job)) (max 0 n))"

definition fail_job ::
    "instant \<Rightarrow> job_row \<Rightarrow> string \<Rightarrow> string \<Rightarrow> int option \<Rightarrow> ('a job_db_scheme, bool) eff" where
  "fail_job now job error worker requested db =
     (let held = held_by (bj_id job) worker; delay = retry_delay job requested in
      if \<not> list_ex held (background_jobs db) then (Inr False, db)
      else if bj_max_attempts job \<le> bj_attempt_count job then
        (Inr True, insert_event now (bj_id job) Dead_event (Some error) []
           (update_jobs held (dead_row now error) db))
      else
        (Inr True, insert_event now (bj_id job) Retry_event (Some error) [(''delay_seconds'', JInt delay)]
           (update_jobs held (retry_row now error delay) db)))"

definition cancel_claimed_job :: "instant \<Rightarrow> string \<Rightarrow> string \<Rightarrow> ('a job_db_scheme, bool) eff" where
  "cancel_claimed_job now job_id worker db =
     (if \<not> list_ex (held_by job_id worker) (background_jobs db) then (Inr False, db)
      else (Inr True, insert_event now job_id Cancelled_event None [(''reason'', JStr ''user_mail_guard'')]
              (update_jobs (held_by job_id worker) (end_row now Cancelled) db)))"

definition cancel_user_jobs :: "instant \<Rightarrow> string \<Rightarrow> ('a job_db_scheme, nat) eff" where
  "cancel_user_jobs now user db =
     (let target = (\<lambda>r. bj_user_id r = Some user \<and> active_job r) in
      (Inr (length (filter target (background_jobs db))), update_jobs target (end_row now Cancelled) db))"

text \<open>The part of \<open>cleanup_old_jobs\<close> that deletes jobs: their events go with them.\<close>

definition expired_job :: "instant \<Rightarrow> int \<Rightarrow> int \<Rightarrow> job_row \<Rightarrow> bool" where
  "expired_job now succeeded_days dead_days r \<longleftrightarrow>
     (case bj_completed_at r of None \<Rightarrow> False
      | Some t \<Rightarrow>
          ((bj_status r = Succeeded \<or> bj_status r = Cancelled) \<and> t < now - days succeeded_days)
          \<or> (bj_status r = Dead \<and> t < now - days dead_days))"

definition delete_expired_jobs :: "instant \<Rightarrow> int \<Rightarrow> int \<Rightarrow> 'a job_db_scheme \<Rightarrow> nat \<times> 'a job_db_scheme" where
  "delete_expired_jobs now succeeded_days dead_days db =
     (let expired = expired_job now succeeded_days dead_days;
          ids = map bj_id (filter expired (background_jobs db));
          old_event = (\<lambda>e. ev_job_id e \<in> set ids)
      in (length (filter old_event (background_job_events db)) + length ids,
          db\<lparr>background_job_events := delete_where old_event (background_job_events db),
             background_jobs := delete_where expired (background_jobs db)\<rparr>))"

section \<open>Queue health\<close>

record worker_health =
  wh_worker_id :: string
  wh_queues :: "string list"
  wh_current_job_id :: "string option"
  wh_release_sha :: string
  wh_last_seen_at :: instant
  wh_age_seconds :: int
  wh_fresh :: bool
  wh_release_matches_expected :: bool

record queue_health =
  qh_queue_depth :: "(string \<times> nat) list"
  qh_dead_jobs :: nat
  qh_stale_running_jobs :: nat
  qh_oldest_queued_age_seconds :: "int option"
  qh_workers :: "worker_health list"
  qh_worker_online :: bool
  qh_worker_releases_match :: bool
  qh_required_queues_ready :: bool

definition required_runtime_queues :: "string list" where
  "required_runtime_queues = [''critical'', ''reader'', ''default'', ''slow'', ''ai'', ''gmail_poll'']"

definition fresh_worker_seconds :: int where
  "fresh_worker_seconds = 120"

text \<open>\<open>int(EXTRACT(EPOCH FROM ..))\<close> truncates towards zero.\<close>

definition whole_seconds :: "instant \<Rightarrow> int" where
  "whole_seconds d = (if d < 0 then - ((- d) div 1000000) else d div 1000000)"

definition worker_health_of :: "instant \<Rightarrow> string \<Rightarrow> heartbeat_row \<Rightarrow> worker_health" where
  "worker_health_of now expected h =
     \<lparr>wh_worker_id = hb_worker_id h, wh_queues = hb_queues h,
      wh_current_job_id = hb_current_job_id h, wh_release_sha = hb_release_sha h,
      wh_last_seen_at = hb_last_seen_at h,
      wh_age_seconds = whole_seconds (now - hb_last_seen_at h),
      wh_fresh = (whole_seconds (now - hb_last_seen_at h) \<le> fresh_worker_seconds),
      wh_release_matches_expected = (hb_release_sha h = expected)\<rparr>"

definition get_queue_health :: "instant \<Rightarrow> string \<Rightarrow> 'a job_db_scheme \<Rightarrow> queue_health" where
  "get_queue_health now expected db =
     (let queued = filter (\<lambda>r. bj_status r = Queued) (background_jobs db);
          workers = map (worker_health_of now expected)
                      (sort_key (\<lambda>h. - hb_last_seen_at h) (worker_heartbeats db));
          fresh = filter wh_fresh workers;
          matching = concat (map wh_queues (filter wh_release_matches_expected fresh))
      in \<lparr>qh_queue_depth = map (\<lambda>q. (q, length (filter (\<lambda>r. bj_queue r = q) queued)))
            (dict_fromkeys (map bj_queue queued)),
          qh_dead_jobs = length (filter (\<lambda>r. bj_status r = Dead) (background_jobs db)),
          qh_stale_running_jobs = length (filter (\<lambda>r. bj_status r = Running
             \<and> (case bj_lease_expires_at r of None \<Rightarrow> False | Some t \<Rightarrow> t < now)) (background_jobs db)),
          qh_oldest_queued_age_seconds =
            (case map bj_created_at queued of [] \<Rightarrow> None
             | t # ts \<Rightarrow> Some (whole_seconds (now - foldl min t ts))),
          qh_workers = workers,
          qh_worker_online = list_ex (\<lambda>w. wh_queues w \<noteq> []) fresh,
          qh_worker_releases_match = (fresh \<noteq> [] \<and> list_all wh_release_matches_expected fresh),
          qh_required_queues_ready = list_all (\<lambda>q. q \<in> set matching) required_runtime_queues\<rparr>)"

end
