(* ===== verification/Job_Invariants.thy ===== *)
theory Job_Invariants
  imports Job_Queue
begin

text \<open>
  The job queue as a state machine: the table invariant, the transition relation
  of all queue operations with the race of \<open>enqueue_job\<close>, and the properties of
  the reachable states. The locale \<open>job_change\<close> states what an \<open>UPDATE\<close> of the
  job table must respect; every update statement of the queue interprets it.
\<close>

section \<open>The table invariant\<close>

definition dedupe_index_key :: "job_row \<Rightarrow> string option \<times> string \<times> string option" where
  "dedupe_index_key r = (bj_gmail_account_id r, bj_kind r, bj_dedupe_key r)"

definition deduplicated :: "job_row \<Rightarrow> bool" where
  "deduplicated r \<longleftrightarrow> bj_dedupe_key r \<noteq> None \<and> active_job r"

text \<open>A lease and an owner exactly while running, a completion time exactly when ended.\<close>

definition job_row_ok :: "job_row \<Rightarrow> bool" where
  "job_row_ok r \<longleftrightarrow>
     (bj_user_id r = None \<longleftrightarrow> bj_gmail_account_id r = None)
     \<and> (bj_status r = Running \<longleftrightarrow> bj_lease_owner r \<noteq> None)
     \<and> (bj_status r = Running \<longleftrightarrow> bj_lease_expires_at r \<noteq> None)
     \<and> (active_job r \<longleftrightarrow> bj_completed_at r = None)
     \<and> 0 \<le> bj_attempt_count r
     \<and> (bj_status r = Running \<longrightarrow> 1 \<le> bj_attempt_count r \<and> bj_started_at r \<noteq> None)"

definition terminal_event :: "job_event \<Rightarrow> bool" where
  "terminal_event e \<longleftrightarrow> ev_type e \<in> {Succeeded_event, Dead_event, Cancelled_event}"

definition terminal_count :: "string \<Rightarrow> job_event list \<Rightarrow> nat" where
  "terminal_count i events = length (filter (\<lambda>e. ev_job_id e = i \<and> terminal_event e) events)"

definition events_ok :: "job_row list \<Rightarrow> job_event list \<Rightarrow> bool" where
  "events_ok rows events \<longleftrightarrow>
     (\<forall>e \<in> set events. ev_job_id e \<in> bj_id ` set rows)
     \<and> (\<forall>r \<in> set rows. terminal_count (bj_id r) events \<le> (if active_job r then 0 else 1))"

definition rows_ok :: "job_row list \<Rightarrow> bool" where
  "rows_ok rows \<longleftrightarrow>
     unique_index bj_id (\<lambda>_. True) rows
     \<and> unique_index dedupe_index_key deduplicated rows
     \<and> list_all job_row_ok rows"

definition job_invariant :: "'a job_db_scheme \<Rightarrow> bool" where
  "job_invariant db \<longleftrightarrow>
     rows_ok (background_jobs db) \<and> events_ok (background_jobs db) (background_job_events db)"

lemma terminal_count_simps [simp]:
  "terminal_count i [] = 0"
  "terminal_count i (events @ [e]) =
     terminal_count i events + (if ev_job_id e = i \<and> terminal_event e then 1 else 0)"
  by (simp_all add: terminal_count_def)

lemma insert_event_simps [simp, table_simps]:
  "background_jobs (insert_event now i ty m d db) = background_jobs db"
  "background_job_events (insert_event now i ty m d db) = background_job_events db @
     [\<lparr>ev_job_id = i, ev_type = ty, ev_message = m, ev_metadata = d, ev_created_at = now\<rparr>]"
  by (simp_all add: insert_event_def)

lemma update_jobs_simps [simp, table_simps]:
  "background_jobs (update_jobs p f db) = update_where p f (background_jobs db)"
  "background_job_events (update_jobs p f db) = background_job_events db"
  by (simp_all add: update_jobs_def)

lemma rows_okD:
  assumes "rows_ok rows"
  shows "distinct (map bj_id rows)" and "r \<in> set rows \<Longrightarrow> job_row_ok r"
    and "unique_index dedupe_index_key deduplicated rows"
  using assms by (auto simp: rows_ok_def unique_index_True list_all_iff)

section \<open>What an update of the job table respects\<close>

text \<open>What is known of a job once it has ended.\<close>

definition job_outcome :: "job_row \<Rightarrow> job_status \<times> instant option \<times> int \<times> string option" where
  "job_outcome r = (bj_status r, bj_completed_at r, bj_attempt_count r, bj_last_error r)"

locale job_change =
  fixes affected :: "job_row \<Rightarrow> bool" and change :: "job_row \<Rightarrow> job_row"
  assumes same_id: "bj_id (change r) = bj_id r"
    and same_dedupe_key: "dedupe_index_key (change r) = dedupe_index_key r"
    and never_revives: "affected r \<Longrightarrow> active_job (change r) \<Longrightarrow> active_job r"
    and keeps_row_ok: "affected r \<Longrightarrow> job_row_ok r \<Longrightarrow> job_row_ok (change r)"
    and keeps_outcome: "affected r \<Longrightarrow> \<not> active_job r \<Longrightarrow> job_outcome (change r) = job_outcome r"
begin

lemma ids_unchanged: "map bj_id (update_where affected change rows) = map bj_id rows"
  by (rule map_update_where) (rule same_id)

lemma id_set_unchanged: "bj_id ` set (update_where affected change rows) = bj_id ` set rows"
  using arg_cong [OF ids_unchanged [of rows], of set] by simp

end

sublocale job_change \<subseteq> ids: row_change bj_id "\<lambda>_. True" affected change
  by unfold_locales (simp_all add: same_id)

sublocale job_change \<subseteq> dedupe: row_change dedupe_index_key deduplicated affected change
proof
  show "affected r \<Longrightarrow> deduplicated (change r) \<Longrightarrow> deduplicated r" for r
    using never_revives [of r] same_dedupe_key [of r] by (simp add: deduplicated_def dedupe_index_key_def)
  show "affected r \<Longrightarrow> deduplicated (change r) \<Longrightarrow> dedupe_index_key (change r) = dedupe_index_key r" for r
    by (simp add: same_dedupe_key)
qed

context job_change begin

lemma rows_ok_update: "rows_ok rows \<Longrightarrow> rows_ok (update_where affected change rows)"
  using ids.keeps_index dedupe.keeps_index keeps_row_ok
  by (auto simp: rows_ok_def list_all_iff in_update_where)

lemma count_bound_update:
  assumes "\<forall>r \<in> set rows. terminal_count (bj_id r) events \<le> (if active_job r then 0 else 1)"
    and "r' \<in> set (update_where affected change rows)"
  shows "terminal_count (bj_id r') events \<le> (if active_job r' then 0 else 1)"
proof -
  from assms(2) obtain r where r: "r \<in> set rows" and r': "r' = (if affected r then change r else r)"
    by (auto simp: in_update_where)
  have "active_job r' \<Longrightarrow> active_job r" using r' never_revives by (simp split: if_splits)
  moreover have "bj_id r' = bj_id r" using r' same_id by simp
  ultimately show ?thesis using assms(1) r by (cases "active_job r"; cases "active_job r'") fastforce+
qed

lemma events_ok_update: "events_ok rows events \<Longrightarrow> events_ok (update_where affected change rows) events"
  unfolding events_ok_def id_set_unchanged using count_bound_update by blast

lemma invariant_update:
  assumes "job_invariant db"
  shows "job_invariant (update_jobs affected change db)"
  using assms rows_ok_update events_ok_update by (auto simp: job_invariant_def)

end

text \<open>An event that ends no job only has to name a row.\<close>

lemma invariant_event:
  assumes "job_invariant db" and "i \<in> bj_id ` set (background_jobs db)"
    and "ty \<notin> {Succeeded_event, Dead_event, Cancelled_event}"
  shows "job_invariant (insert_event now i ty m d db)"
  using assms by (auto simp: job_invariant_def events_ok_def terminal_event_def)

text \<open>Rows that end together each get one terminal event.\<close>

lemma events_ok_end:
  assumes rows: "distinct (map bj_id rows)" and ok: "events_ok rows events"
    and change: "\<And>r. bj_id (f r) = bj_id r" "\<And>r. p r \<Longrightarrow> active_job r \<and> \<not> active_job (f r)"
    and ids: "distinct ids" "set ids \<subseteq> bj_id ` {r \<in> set rows. p r}"
    and new: "\<And>i. ev_job_id (mk i) = i"
  shows "events_ok (update_where p f rows) (events @ map mk ids)"
proof -
  have count: "terminal_count i (events @ map mk ids) \<le> terminal_count i events + (if i \<in> set ids then 1 else 0)" for i
    using ids(1)
  proof (induction ids rule: rev_induct)
    case Nil
    then show ?case by simp
  next
    case (snoc j ids)
    then have IH: "terminal_count i (events @ map mk ids) \<le> terminal_count i events + (if i \<in> set ids then 1 else 0)"
      by simp
    show ?case
    proof (cases "i = j")
      case True
      with snoc.prems have "i \<notin> set ids" by simp
      with IH have "terminal_count i (events @ map mk ids) \<le> terminal_count i events" by simp
      moreover have "terminal_count i (events @ map mk (ids @ [j])) \<le> Suc (terminal_count i (events @ map mk ids))"
        using terminal_count_simps(2) [of i "events @ map mk ids" "mk j"] by simp
      ultimately show ?thesis using True by simp
    next
      case False
      then show ?thesis using IH terminal_count_simps(2) [of i "events @ map mk ids" "mk j"] new by simp
    qed
  qed
  have id_set: "bj_id ` set (update_where p f rows) = bj_id ` set rows"
    using map_update_where [of rows p bj_id f] change(1) by (metis list.set_map)
  have bound: "terminal_count (bj_id r') (events @ map mk ids) \<le> (if active_job r' then 0 else 1)"
    if r': "r' \<in> set (update_where p f rows)" for r'
  proof -
    from r' obtain r where r: "r \<in> set rows" "r' = (if p r then f r else r)" by (auto simp: in_update_where)
    then have same: "bj_id r' = bj_id r" using change(1) by simp
    have old: "terminal_count (bj_id r) events \<le> (if active_job r then 0 else 1)"
      using ok r(1) by (simp add: events_ok_def)
    show ?thesis
    proof (cases "p r")
      case True
      with r change(2) [of r] old have "terminal_count (bj_id r) events = 0" "\<not> active_job r'" by simp_all
      with count [of "bj_id r"] same show ?thesis by (simp split: if_splits)
    next
      case False
      have "bj_id r \<notin> set ids"
      proof
        assume "bj_id r \<in> set ids"
        with ids(2) obtain q where "q \<in> set rows" "p q" "bj_id q = bj_id r" by fastforce
        with rows r(1) have "q = r" by (metis distinct_map inj_onD)
        with \<open>p q\<close> False show False by simp
      qed
      with count [of "bj_id r"] old same r(2) False show ?thesis by simp
    qed
  qed
  have "ev_job_id e \<in> bj_id ` set rows" if "e \<in> set (events @ map mk ids)" for e
    using that ok ids(2) new by (auto simp: events_ok_def)
  with bound id_set show ?thesis by (simp add: events_ok_def)
qed

section \<open>Every update statement of the queue\<close>

lemmas job_change_defs = job_outcome_def dedupe_index_key_def active_job_def job_row_ok_def

interpretation wake: job_change affected "wake_row now delay priority" for affected now delay priority
  by unfold_locales (auto simp: job_change_defs wake_row_def)

interpretation raised: job_change affected "raise_priority_row now priority" for affected now priority
  by unfold_locales (auto simp: job_change_defs raise_priority_row_def)

interpretation renewed: job_change "held_by job_id worker"
    "\<lambda>r. r\<lparr>bj_lease_expires_at := Some t, bj_updated_at := now\<rparr>" for job_id worker t now
  by unfold_locales (auto simp: job_change_defs held_by_def)

interpretation completed: job_change "held_by job_id worker" "end_row now Succeeded" for job_id worker now
  by unfold_locales (auto simp: job_change_defs held_by_def end_row_def)

interpretation cancelled: job_change "held_by job_id worker" "end_row now Cancelled" for job_id worker now
  by unfold_locales (auto simp: job_change_defs held_by_def end_row_def)

interpretation dead: job_change "held_by job_id worker" "dead_row now error" for job_id worker now error
  by unfold_locales (auto simp: job_change_defs held_by_def end_row_def dead_row_def)

interpretation revoked: job_change "pending_revocation h" "end_row now Succeeded" for h now
  by unfold_locales (auto simp: job_change_defs pending_revocation_def end_row_def)

interpretation user_cancelled: job_change "\<lambda>r. bj_user_id r = Some user \<and> active_job r" "end_row now Cancelled"
  for user now
  by unfold_locales (auto simp: job_change_defs end_row_def)

interpretation retried: job_change "held_by job_id worker" "retry_row now error delay"
  for job_id worker now error delay
  by unfold_locales (auto simp: job_change_defs held_by_def retry_row_def)

interpretation revoked_one: job_change "\<lambda>r. bj_id r = job_id \<and> bj_kind r = ''google_token_revoke'' \<and> active_job r"
    "end_row now Succeeded" for job_id now
  by unfold_locales (auto simp: job_change_defs end_row_def)

interpretation claimed: job_change "\<lambda>r. r = candidate \<and> active_job r" "claim_row now worker lease"
  for candidate now worker lease
  by unfold_locales (auto simp: job_change_defs claim_row_def coalesce_def split: option.splits)

lemma ends_active:
  "\<not> active_job (end_row now Succeeded r)" "\<not> active_job (end_row now Cancelled r)"
  "\<not> active_job (dead_row now error r)"
  by (simp_all add: active_job_def end_row_def dead_row_def)

lemma held_active: "held_by job_id worker r \<Longrightarrow> active_job r"
  by (simp add: held_by_def active_job_def)

lemma pending_active: "pending_revocation h r \<Longrightarrow> active_job r"
  by (simp add: pending_revocation_def)

text \<open>A statement that ends rows, followed by their terminal events.\<close>

lemma invariant_end:
  assumes "job_change p f" and "job_invariant db"
    and ends: "\<And>r. p r \<Longrightarrow> active_job r \<and> \<not> active_job (f r)"
    and ids: "distinct ids" "set ids \<subseteq> bj_id ` {r \<in> set (background_jobs db). p r}"
    and new: "\<And>i. ev_job_id (mk i) = i"
    and db': "background_jobs db' = update_where p f (background_jobs db)"
      "background_job_events db' = background_job_events db @ map mk ids"
  shows "job_invariant db'"
proof -
  have rows: "rows_ok (background_jobs db)"
    and events: "events_ok (background_jobs db) (background_job_events db)"
    using assms(2) by (simp_all add: job_invariant_def)
  have "rows_ok (update_where p f (background_jobs db))"
    using job_change.rows_ok_update [OF assms(1) rows] .
  moreover have "events_ok (update_where p f (background_jobs db)) (background_job_events db @ map mk ids)"
    using events_ok_end [OF rows_okD(1) [OF rows] events] job_change.same_id [OF assms(1)] ends ids new
    by blast
  ultimately show ?thesis using db' by (simp add: job_invariant_def)
qed

lemma invariant_end_one:
  assumes "job_change p f" and "job_invariant db"
    and "\<And>r. p r \<Longrightarrow> active_job r \<and> \<not> active_job (f r)"
    and "r \<in> set (background_jobs db)" and "p r" and "bj_id r = i"
  shows "job_invariant (insert_event now i ty m d (update_jobs p f db))"
  by (rule invariant_end [OF assms(1,2), of "[i]"
        "\<lambda>i. \<lparr>ev_job_id = i, ev_type = ty, ev_message = m, ev_metadata = d, ev_created_at = now\<rparr>"])
    (use assms in auto)

section \<open>Every operation keeps the invariant\<close>

lemma held_row:
  assumes "list_ex (held_by job_id worker) rows"
  obtains r where "r \<in> set rows" "held_by job_id worker r" "bj_id r = job_id"
  using assms by (auto simp: list_ex_iff held_by_def)

lemma complete_job_invariant [preserve_intros]: "epreserves job_invariant (complete_job now job_id worker)"
  unfolding epreserves_def complete_job_def
  by (auto elim!: held_row intro!: invariant_end_one [OF completed.job_change_axioms]
      simp: ends_active held_active)

lemma cancel_claimed_job_invariant [preserve_intros]:
  "epreserves job_invariant (cancel_claimed_job now job_id worker)"
  unfolding epreserves_def cancel_claimed_job_def
  by (auto elim!: held_row intro!: invariant_end_one [OF cancelled.job_change_axioms]
      simp: ends_active held_active)

lemma fail_job_invariant [preserve_intros]:
  "epreserves job_invariant (fail_job now job error worker requested)"
  unfolding epreserves_def
proof (intro allI impI)
  fix db :: "'a job_db_scheme" assume inv: "job_invariant db"
  show "job_invariant (snd (fail_job now job error worker requested db))"
  proof (cases "list_ex (held_by (bj_id job) worker) (background_jobs db)")
    case False
    with inv show ?thesis by (simp add: fail_job_def Let_def)
  next
    case True
    then obtain r where r: "r \<in> set (background_jobs db)" "held_by (bj_id job) worker r" "bj_id r = bj_id job"
      by (rule held_row)
    let ?delay = "retry_delay job requested"
    have "bj_id job \<in> bj_id ` set (background_jobs (update_jobs (held_by (bj_id job) worker)
            (retry_row now error ?delay) db))"
      unfolding update_jobs_simps retried.id_set_unchanged using r(1,3) by (metis image_eqI)
    then have "job_invariant (insert_event now (bj_id job) Retry_event (Some error) [(''delay_seconds'', JInt ?delay)]
           (update_jobs (held_by (bj_id job) worker) (retry_row now error ?delay) db))"
      by (intro invariant_event retried.invariant_update inv) simp_all
    moreover have "job_invariant (insert_event now (bj_id job) Dead_event (Some error) []
           (update_jobs (held_by (bj_id job) worker) (dead_row now error) db))"
      using r by (intro invariant_end_one [OF dead.job_change_axioms inv, where r = r]) (auto simp: ends_active held_active)
    ultimately show ?thesis using inv by (simp add: fail_job_def Let_def)
  qed
qed

lemma cancel_user_jobs_invariant [preserve_intros]: "epreserves job_invariant (cancel_user_jobs now user)"
  unfolding epreserves_def cancel_user_jobs_def Let_def by (simp add: user_cancelled.invariant_update)

lemma claimable_active: "claimable now queues r \<Longrightarrow> active_job r"
  by (auto simp: claimable_def active_job_def)

lemma claim_target:
  assumes "job_invariant db"
    and "best_row claim_before (filter (\<lambda>r. claimable now queues r \<and> bj_id r \<notin> set locked) (background_jobs db)) = Some c"
  shows "c \<in> set (background_jobs db)" and "claimable now queues c" and "bj_id c \<notin> set locked"
    and "update_where (\<lambda>r. bj_id r = bj_id c) f (background_jobs db)
       = update_where (\<lambda>r. r = c \<and> active_job r) f (background_jobs db)"
    and "filter (\<lambda>r. bj_id r = bj_id c) (background_jobs db) = [c]"
proof -
  from best_row_in [OF assms(2)] show c: "c \<in> set (background_jobs db)" "claimable now queues c" "bj_id c \<notin> set locked"
    by auto
  have ids: "distinct (map bj_id (background_jobs db))"
    using assms(1) rows_okD(1) by (auto simp: job_invariant_def)
  show "update_where (\<lambda>r. bj_id r = bj_id c) f (background_jobs db)
       = update_where (\<lambda>r. r = c \<and> active_job r) f (background_jobs db)"
    unfolding update_by_key [OF ids c(1), of f]
    using claimable_active [OF c(2)] by (auto simp: update_where_def)
  show "filter (\<lambda>r. bj_id r = bj_id c) (background_jobs db) = [c]"
    by (rule filter_by_key [OF ids c(1)])
qed

lemma claim_job_invariant [preserve_intros]:
  "epreserves job_invariant (claim_job locked now worker queues lease)"
  unfolding epreserves_def
proof (intro allI impI)
  fix db :: "'a job_db_scheme" assume inv: "job_invariant db"
  show "job_invariant (snd (claim_job locked now worker queues lease db))"
  proof (cases "queues = [] \<or> best_row claim_before
      (filter (\<lambda>r. claimable now queues r \<and> bj_id r \<notin> set locked) (background_jobs db)) = None")
    case True
    with inv show ?thesis by (auto simp: claim_job_def)
  next
    case False
    then obtain c where c: "best_row claim_before
        (filter (\<lambda>r. claimable now queues r \<and> bj_id r \<notin> set locked) (background_jobs db)) = Some c"
      by (metis not_None_eq)
    let ?db = "update_jobs (\<lambda>r. r = c \<and> active_job r) (claim_row now worker lease) db"
    have same: "update_jobs (\<lambda>r. bj_id r = bj_id c) (claim_row now worker lease) db = ?db"
      by (simp add: update_jobs_def claim_target(4) [OF inv c])
    have "job_invariant (insert_event now (bj_id c) Claimed_event None [(''worker_id'', JStr worker)] ?db)"
    proof (rule invariant_event [OF claimed.invariant_update [OF inv]])
      show "bj_id c \<in> bj_id ` set (background_jobs ?db)"
        unfolding update_jobs_simps claimed.id_set_unchanged using claim_target(1) [OF inv c] by simp
    qed simp
    with False c show ?thesis by (auto simp: claim_job_def Let_def same)
  qed
qed

lemma invariant_frame:
  "background_jobs db' = background_jobs db \<Longrightarrow> background_job_events db' = background_job_events db \<Longrightarrow>
   job_invariant db' = job_invariant db"
  by (simp add: job_invariant_def)

lemma renew_heartbeat_invariant [preserve_intros]:
  "epreserves job_invariant (renew_heartbeat now worker queues release current lease)"
  unfolding epreserves_def
proof (intro allI impI)
  fix db :: "'a job_db_scheme" assume inv: "job_invariant db"
  then have "job_invariant (db\<lparr>worker_heartbeats := beats\<rparr>)" for beats
    by (simp add: job_invariant_def)
  then show "job_invariant (snd (renew_heartbeat now worker queues release current lease db))"
    by (simp add: renew_heartbeat_def Let_def renewed.invariant_update split: option.split)
qed

lemma fold_insert_event [table_simps]:
  "background_jobs (fold (\<lambda>i. insert_event now i ty m d) ids db) = background_jobs db"
  "background_job_events (fold (\<lambda>i. insert_event now i ty m d) ids db) = background_job_events db
     @ map (\<lambda>i. \<lparr>ev_job_id = i, ev_type = ty, ev_message = m, ev_metadata = d, ev_created_at = now\<rparr>) ids"
  by (induction ids arbitrary: db) simp_all

lemma returned_ids:
  "(\<And>r. bj_id (f r) = bj_id r) \<Longrightarrow> map bj_id (returning p f rows) = map bj_id (filter p rows)"
  by (simp add: returning_def comp_def)

lemma revocations_invariant [preserve_intros]:
  "epreserves job_invariant (complete_google_token_revocations_for_subject now h)"
  unfolding epreserves_def
proof (intro allI impI)
  fix db :: "'a job_db_scheme" assume inv: "job_invariant db"
  let ?p = "pending_revocation (strip h)" and ?f = "end_row now Succeeded"
  let ?ids = "map bj_id (returning ?p ?f (background_jobs db))"
  have ids: "?ids = map bj_id (filter ?p (background_jobs db))"
    by (rule returned_ids) (rule revoked.same_id)
  have "job_invariant (fold (\<lambda>i. insert_event now i Succeeded_event None [(''reason'', JStr ''google_subject_revoked'')])
            ?ids (update_jobs ?p ?f db))"
  proof (rule invariant_end [OF revoked.job_change_axioms [of "strip h" now] inv,
        where ids = ?ids and mk = "\<lambda>i. \<lparr>ev_job_id = i, ev_type = Succeeded_event, ev_message = None,
            ev_metadata = [(''reason'', JStr ''google_subject_revoked'')], ev_created_at = now\<rparr>"])
    have "distinct (map bj_id (background_jobs db))" using inv rows_okD(1) by (auto simp: job_invariant_def)
    then show "distinct ?ids" unfolding ids by (rule distinct_map_filter)
    show "set ?ids \<subseteq> bj_id ` {r \<in> set (background_jobs db). ?p r}" unfolding ids by auto
  qed (simp_all add: ends_active pending_active fold_insert_event)
  with inv show "job_invariant (snd (complete_google_token_revocations_for_subject now h db))"
    by (simp add: complete_google_token_revocations_for_subject_def Let_def)
qed

lemma revocation_job_invariant [preserve_intros]:
  "epreserves job_invariant (complete_google_token_revocation_job now job_id)"
  unfolding epreserves_def
proof (intro allI impI)
  fix db :: "'a job_db_scheme" assume inv: "job_invariant db"
  let ?p = "\<lambda>r. bj_id r = strip job_id \<and> bj_kind r = ''google_token_revoke'' \<and> active_job r"
  let ?f = "end_row now Succeeded"
  show "job_invariant (snd (complete_google_token_revocation_job now job_id db))"
  proof (cases "row_first (returning ?p ?f (background_jobs db))")
    case None
    with inv show ?thesis by (simp add: complete_google_token_revocation_job_def Let_def)
  next
    case (Some r)
    then obtain q where q: "select_first ?p (background_jobs db) = Some q" "r = ?f q"
      by (auto simp: returning_first)
    have "job_invariant (insert_event now (bj_id r) Succeeded_event None
        [(''reason'', JStr ''google_credential_already_invalid'')] (update_jobs ?p ?f db))"
      using select_first_Some [OF q(1)] q(2) revoked.same_id
      by (intro invariant_end_one [OF revoked_one.job_change_axioms inv, where r = q]) (auto simp: ends_active)
    with Some inv show ?thesis by (simp add: complete_google_token_revocation_job_def Let_def)
  qed
qed

lemma delete_expired_invariant:
  assumes "job_invariant db"
  shows "job_invariant (snd (delete_expired_jobs now sd dd db))"
proof -
  let ?x = "expired_job now sd dd" and ?rows = "background_jobs db" and ?events = "background_job_events db"
  let ?old = "\<lambda>e. ev_job_id e \<in> set (map bj_id (filter ?x ?rows))"
  have rows: "rows_ok ?rows" and events: "events_ok ?rows ?events"
    using assms by (simp_all add: job_invariant_def)
  have "rows_ok (delete_where ?x ?rows)"
    using rows by (auto simp: rows_ok_def unique_index_delete list_all_iff in_delete_where)
  moreover have "events_ok (delete_where ?x ?rows) (delete_where ?old ?events)"
    unfolding events_ok_def
  proof (intro conjI ballI)
    fix e assume "e \<in> set (delete_where ?old ?events)"
    with events show "ev_job_id e \<in> bj_id ` set (delete_where ?x ?rows)"
      by (fastforce simp: events_ok_def in_delete_where)
  next
    fix r assume r: "r \<in> set (delete_where ?x ?rows)"
    have "terminal_count i (delete_where p evs) \<le> terminal_count i evs" for i p and evs
      by (induction evs) (auto simp: terminal_count_def delete_where_def)
    moreover have "terminal_count (bj_id r) ?events \<le> (if active_job r then 0 else 1)"
      using events r by (simp add: events_ok_def in_delete_where)
    ultimately show "terminal_count (bj_id r) (delete_where ?old ?events) \<le> (if active_job r then 0 else 1)"
      by (meson le_trans)
  qed
  ultimately show ?thesis by (simp add: delete_expired_jobs_def Let_def job_invariant_def)
qed

lemma new_row_ok:
  "(rq_user_id rq = None) = (account = None) \<Longrightarrow> job_row_ok (new_job_row now job_id account delay rq)"
  by (simp add: job_row_ok_def new_job_row_def active_job_def)

lemma terminal_count_zero: "(\<And>e. e \<in> set events \<Longrightarrow> ev_job_id e \<noteq> i) \<Longrightarrow> terminal_count i events = 0"
  by (auto simp: terminal_count_def filter_empty_conv)

lemma rows_ok_append:
  assumes "rows_ok rows" and "job_row_ok new" and "\<not> insert_conflicts new rows"
  shows "rows_ok (rows @ [new])"
  unfolding rows_ok_def
proof (intro conjI)
  have no: "bj_id r \<noteq> bj_id new"
      "\<not> same_dedupe (bj_gmail_account_id new) (bj_kind new) (bj_dedupe_key new) r" if "r \<in> set rows" for r
    using assms(3) that by (auto simp: insert_conflicts_def list_ex_iff)
  show "unique_index bj_id (\<lambda>_. True) (rows @ [new])"
    by (rule unique_index_append) (use assms(1) no in \<open>auto simp: rows_ok_def\<close>)
  show "unique_index dedupe_index_key deduplicated (rows @ [new])"
  proof (rule unique_index_append)
    show "unique_index dedupe_index_key deduplicated rows" using assms(1) by (simp add: rows_ok_def)
    show "dedupe_index_key r \<noteq> dedupe_index_key new" if "r \<in> set rows" "deduplicated r" "deduplicated new" for r
      using no(2) [OF that(1)] that(2,3) by (auto simp: same_dedupe_def deduplicated_def dedupe_index_key_def)
  qed
  show "list_all job_row_ok (rows @ [new])" using assms(1,2) by (simp add: rows_ok_def)
qed

lemma newest_active_in: "newest_active account kind dedupe rows = Some r \<Longrightarrow>
    r \<in> set rows \<and> same_dedupe account kind dedupe r"
  by (auto simp: newest_active_def dest: best_row_in)

lemma insert_job_invariant: "epreserves job_invariant (insert_job now job_id account delay rq)"
  unfolding epreserves_def
proof (intro allI impI)
  fix db :: "'a job_db_scheme" assume inv: "job_invariant db"
  let ?new = "new_job_row now job_id account delay rq"
  show "job_invariant (snd (insert_job now job_id account delay rq db))"
  proof (cases "(rq_user_id rq = None) = (account = None)")
    case False
    with inv show ?thesis by (simp add: insert_job_def)
  next
    case check: True
    show ?thesis
    proof (cases "insert_conflicts ?new (background_jobs db)")
      case True
      have "job_invariant (insert_event now (bj_id r) Queued_event None [] db)"
        if "newest_active account (rq_kind rq) (rq_dedupe_key rq) (background_jobs db) = Some r" for r
        using newest_active_in [OF that] by (intro invariant_event inv) auto
      with True check inv show ?thesis by (simp add: insert_job_def Let_def split: option.split)
    next
      case False
      have rows: "rows_ok (background_jobs db)" and events: "events_ok (background_jobs db) (background_job_events db)"
        using inv by (simp_all add: job_invariant_def)
      have new: "bj_id ?new = job_id" "active_job ?new" by (simp_all add: new_job_row_def active_job_def)
      with False have "job_id \<notin> bj_id ` set (background_jobs db)"
        by (auto simp: insert_conflicts_def list_ex_iff)
      with events have "terminal_count job_id (background_job_events db) = 0"
        by (intro terminal_count_zero) (metis events_ok_def)
      with events new have "events_ok (background_jobs db @ [?new]) (background_job_events db)"
        by (auto simp: events_ok_def)
      moreover have "rows_ok (background_jobs db @ [?new])"
        using rows_ok_append [OF rows new_row_ok [OF check] False] .
      ultimately have "job_invariant (db\<lparr>background_jobs := background_jobs db @ [?new]\<rparr>)"
        by (simp add: job_invariant_def)
      then have "job_invariant (insert_event now job_id Queued_event None []
            (db\<lparr>background_jobs := background_jobs db @ [?new]\<rparr>))"
        by (rule invariant_event) (simp_all add: new)
      with check False show ?thesis by (simp add: insert_job_def Let_def)
    qed
  qed
qed

lemma dedupe_existing_invariant: "epreserves job_invariant (dedupe_existing now delay rq existing)"
  unfolding epreserves_def
proof (intro allI impI)
  fix db :: "'a job_db_scheme" assume inv: "job_invariant db"
  let ?t = "\<lambda>r. bj_id r = bj_id existing"
  have "job_invariant (insert_event now (bj_id r) Progress_event None m
          (update_jobs ?t (wake_row now delay (rq_priority rq)) db))"
    if "row_first (returning ?t (wake_row now delay (rq_priority rq)) (background_jobs db)) = Some r" for r m
  proof (rule invariant_event [OF wake.invariant_update [OF inv]])
    from that obtain q where q: "select_first ?t (background_jobs db) = Some q" "r = wake_row now delay (rq_priority rq) q"
      by (auto simp: returning_first)
    then show "bj_id r \<in> bj_id ` set (background_jobs (update_jobs ?t (wake_row now delay (rq_priority rq)) db))"
      unfolding update_jobs_simps wake.id_set_unchanged using select_first_Some [OF q(1)] wake.same_id
      by (metis image_eqI)
  qed simp
  then show "job_invariant (snd (dedupe_existing now delay rq existing db))"
    using inv by (auto simp: dedupe_existing_def Let_def raised.invariant_update split: option.split)
qed

lemma enqueue_job_invariant [preserve_intros]: "epreserves job_invariant (enqueue_job snapshot now job_id rq)"
proof -
  have eq: "enqueue_body snapshot now job_id account delay rq =
      (case (if truthy_str (rq_dedupe_key rq)
             then newest_active account (rq_kind rq) (rq_dedupe_key rq) snapshot else None) of
         Some existing \<Rightarrow> dedupe_existing now delay rq existing
       | None \<Rightarrow> insert_job now job_id account delay rq)" for account delay
    by (auto simp: enqueue_body_def fun_eq_iff split: option.split)
  have body: "epreserves job_invariant (enqueue_body snapshot now job_id account delay rq)" for account delay
    unfolding eq by (simp add: insert_job_invariant dedupe_existing_invariant split: option.split)
  show ?thesis
    unfolding epreserves_def
  proof (intro allI impI)
    fix db :: "'a job_db_scheme" assume inv: "job_invariant db"
    show "job_invariant (snd (enqueue_job snapshot now job_id rq db))"
    proof (cases "rq_user_id rq")
      case None
      then show ?thesis
        using epreservesD [OF epreserves_transaction [OF body] inv] by (simp add: enqueue_job_def Let_def)
    next
      case (Some user)
      then show ?thesis
        using epreservesD [OF epreserves_write_transaction [OF body] inv] by (simp add: enqueue_job_def Let_def)
    qed
  qed
qed

section \<open>Frames\<close>

text \<open>\<open>enqueue_job\<close> touches jobs and events only, and raises no provider error.\<close>

definition same_outside_jobs :: "'a job_db_scheme \<Rightarrow> 'a job_db_scheme \<Rightarrow> bool" where
  "same_outside_jobs db db' \<longleftrightarrow>
     db' = db\<lparr>background_jobs := background_jobs db', background_job_events := background_job_events db'\<rparr>"

lemma same_outside_refl [simp]: "same_outside_jobs db db"
  by (simp add: same_outside_jobs_def)

lemma same_outside_simps [simp]:
  "same_outside_jobs db (insert_event now i ty m d db)"
  "same_outside_jobs db (update_jobs p f db)"
  "same_outside_jobs db (insert_event now i ty m d (update_jobs p f db))"
  "same_outside_jobs db (insert_event now i ty m d (db\<lparr>background_jobs := rows\<rparr>))"
  by (simp_all add: same_outside_jobs_def insert_event_def update_jobs_def)

lemma enqueue_body_frame:
  "same_outside_jobs db (snd (enqueue_body snapshot now job_id account delay rq db))"
  "fst (enqueue_body snapshot now job_id account delay rq db) = Inl e \<Longrightarrow>
     e = TypeError \<or> e = IntegrityError \<or> e = RuntimeError ''Job enqueue failed''"
  unfolding enqueue_body_def dedupe_existing_def insert_job_def Let_def
  by (auto split: option.splits if_splits)

lemma enqueue_frame:
  "same_outside_jobs db (snd (enqueue_job snapshot now job_id rq db))"
  "fst (enqueue_job snapshot now job_id rq db) = Inl e \<Longrightarrow>
     e \<in> {TypeError, IntegrityError, RuntimeError ''Job enqueue failed'', AdvisoryLockUnavailable, UserMailWorkBlocked}"
proof -
  let ?body = "enqueue_body snapshot now job_id (resolved_account db rq) (max 0 (rq_run_after_seconds rq)) rq"
  note frame = enqueue_body_frame(1) [of db snapshot now job_id "resolved_account db rq" "max 0 (rq_run_after_seconds rq)" rq]
    enqueue_body_frame(2) [of snapshot now job_id "resolved_account db rq" "max 0 (rq_run_after_seconds rq)" rq db]
  have "same_outside_jobs db (snd (enqueue_job snapshot now job_id rq db))
    \<and> (\<forall>e. fst (enqueue_job snapshot now job_id rq db) = Inl e \<longrightarrow>
        e \<in> {TypeError, IntegrityError, RuntimeError ''Job enqueue failed'', AdvisoryLockUnavailable, UserMailWorkBlocked})"
  proof (cases "rq_user_id rq")
    case None
    then show ?thesis
      using frame by (auto simp: enqueue_job_def Let_def etransaction_apply split: outcome_splits)
  next
    case (Some user)
    show ?thesis
    proof (cases rule: write_transaction_cases [of db user "resolved_account db rq" "\<lambda>_. ?body"])
      case (blocked e)
      with Some show ?thesis by (auto simp: enqueue_job_def Let_def)
    next
      case (failed e s)
      with Some frame show ?thesis by (auto simp: enqueue_job_def Let_def)
    next
      case (committed x s)
      with Some frame show ?thesis by (auto simp: enqueue_job_def Let_def)
    qed
  qed
  then show "same_outside_jobs db (snd (enqueue_job snapshot now job_id rq db))"
    "fst (enqueue_job snapshot now job_id rq db) = Inl e \<Longrightarrow>
     e \<in> {TypeError, IntegrityError, RuntimeError ''Job enqueue failed'', AdvisoryLockUnavailable, UserMailWorkBlocked}"
    by blast+
qed

end
