(* ===== verification/Job_Lifecycle.thy ===== *)
theory Job_Lifecycle
  imports Job_Invariants
begin

text \<open>
  The job queue as a transition system, labelled with the worker of a claim, and
  what holds on all of its runs: the table invariant, ended jobs stay ended, a
  worker that lost its lease can no longer end the job, and which job a claim
  takes. The last theorem shows that reclaiming expired leases has no bound.
\<close>

section \<open>The four ways the job table changes\<close>

text \<open>A lease is only ever granted to the worker that claims.\<close>

definition grants_to :: "string option \<Rightarrow> (job_row \<Rightarrow> job_row) \<Rightarrow> bool" where
  "grants_to label f \<longleftrightarrow>
     (\<forall>r i w. held_by i w (f r) \<longrightarrow> held_by i w r \<or> label = Some w)"

lemma grants_to_changes [simp]:
  "grants_to label (wake_row now delay priority)"
  "grants_to label (raise_priority_row now priority)"
  "grants_to label (\<lambda>r. r\<lparr>bj_lease_expires_at := t, bj_updated_at := now\<rparr>)"
  "grants_to label (end_row now status)"
  "grants_to label (dead_row now error)"
  "grants_to label (retry_row now error delay)"
  "grants_to (Some worker) (claim_row now worker lease)"
  by (auto simp: grants_to_def held_by_def wake_row_def raise_priority_row_def end_row_def dead_row_def
      retry_row_def claim_row_def)

inductive table_step :: "string option \<Rightarrow> job_row list \<Rightarrow> job_row list \<Rightarrow> bool" for label where
  same: "table_step label rows rows"
| update: "job_change p f \<Longrightarrow> grants_to label f \<Longrightarrow> table_step label rows (update_where p f rows)"
| insert: "\<not> insert_conflicts new rows \<Longrightarrow> bj_status new = Queued \<Longrightarrow> table_step label rows (rows @ [new])"
| delete: "table_step label rows (delete_where p rows)"

lemma table_step_holder:
  assumes "table_step label rows rows'" and "label \<noteq> Some w" and "\<not> list_ex (held_by i w) rows"
  shows "\<not> list_ex (held_by i w) rows'"
  using assms(1)
proof cases
  case (update p f)
  then have "\<And>r. held_by i w (f r) \<Longrightarrow> held_by i w r" using assms(2) unfolding grants_to_def by blast
  with assms(3) show ?thesis unfolding update(1) list_ex_iff by (metis in_update_where)
next
  case (insert new)
  with assms(3) show ?thesis by (simp add: held_by_def)
qed (use assms(3) in \<open>auto simp: list_ex_iff in_delete_where\<close>)

lemma table_step_outcome:
  assumes "table_step label rows rows'" and "distinct (map bj_id rows)"
    and "r \<in> set rows" and "\<not> active_job r" and "r' \<in> set rows'" and "bj_id r' = bj_id r"
  shows "job_outcome r' = job_outcome r"
  using assms(1)
proof cases
  case same
  with assms show ?thesis by (metis distinct_map inj_onD)
next
  case (update p f)
  from assms(5) update(1) obtain q where q: "q \<in> set rows" "r' = (if p q then f q else q)"
    by (auto simp: in_update_where)
  with assms(6) job_change.same_id [OF update(2)] have "bj_id q = bj_id r" by (auto split: if_splits)
  with assms(2,3) q(1) have "q = r" by (metis distinct_map inj_onD)
  with q(2) assms(4) job_change.keeps_outcome [OF update(2)] show ?thesis by simp
next
  case (insert new)
  have "r' = r"
  proof (cases "r' = new")
    case True
    with assms(3,6) insert(2) show ?thesis by (auto simp: insert_conflicts_def list_ex_iff)
  next
    case False
    with assms(5) insert(1) have "r' \<in> set rows" by simp
    with assms(2,3,6) show ?thesis by (metis distinct_map inj_onD)
  qed
  then show ?thesis by simp
next
  case (delete p)
  with assms(5) have "r' \<in> set rows" by (simp add: in_delete_where)
  with assms(2,3,6) have "r' = r" by (metis distinct_map inj_onD)
  then show ?thesis by simp
qed

section \<open>Transitions\<close>

text \<open>The label is the worker of a claim, \<open>None\<close> for every other operation.\<close>

inductive job_step :: "string option \<Rightarrow> 'a job_db_scheme \<Rightarrow> 'a job_db_scheme \<Rightarrow> bool" where
  enqueue: "enqueue_job snapshot now job_id rq db = (res, db') \<Longrightarrow> job_step None db db'"
| claim: "claim_job locked now worker queues lease db = (res, db') \<Longrightarrow> job_step (Some worker) db db'"
| heartbeat: "renew_heartbeat now worker queues release current lease db = (res, db') \<Longrightarrow> job_step None db db'"
| complete: "complete_job now job_id worker db = (res, db') \<Longrightarrow> job_step None db db'"
| fail: "fail_job now job error worker requested db = (res, db') \<Longrightarrow> job_step None db db'"
| cancel: "cancel_claimed_job now job_id worker db = (res, db') \<Longrightarrow> job_step None db db'"
| cancel_user: "cancel_user_jobs now user db = (res, db') \<Longrightarrow> job_step None db db'"
| revoked_subject: "complete_google_token_revocations_for_subject now h db = (res, db') \<Longrightarrow> job_step None db db'"
| revoked_job: "complete_google_token_revocation_job now job_id db = (res, db') \<Longrightarrow> job_step None db db'"
| cleanup: "delete_expired_jobs now sd dd db = (n, db') \<Longrightarrow> job_step None db db'"
| other: "background_jobs db' = background_jobs db \<Longrightarrow>
    background_job_events db' = background_job_events db \<Longrightarrow> job_step None db db'"

inductive job_reachable :: "'a job_db_scheme \<Rightarrow> bool" where
  empty: "background_jobs db = [] \<Longrightarrow> background_job_events db = [] \<Longrightarrow> job_reachable db"
| step: "job_reachable db \<Longrightarrow> job_step label db db' \<Longrightarrow> job_reachable db'"

inductive_cases job_stepE: "job_step label db db'"

lemma step_invariant: "job_step label db db' \<Longrightarrow> job_invariant db \<Longrightarrow> job_invariant db'"
proof (induction label db db' rule: job_step.induct)
  case (cleanup now sd dd db n db')
  then show ?case using delete_expired_invariant by (metis snd_conv)
next
  case (other db' db)
  then show ?case using invariant_frame by blast
next
  case enqueue
  from epreserves_outcome [OF enqueue_job_invariant, OF enqueue(2,1)] show ?case .
next
  case claim
  from epreserves_outcome [OF claim_job_invariant, OF claim(2,1)] show ?case .
next
  case heartbeat
  from epreserves_outcome [OF renew_heartbeat_invariant, OF heartbeat(2,1)] show ?case .
next
  case complete
  from epreserves_outcome [OF complete_job_invariant, OF complete(2,1)] show ?case .
next
  case fail
  from epreserves_outcome [OF fail_job_invariant, OF fail(2,1)] show ?case .
next
  case cancel
  from epreserves_outcome [OF cancel_claimed_job_invariant, OF cancel(2,1)] show ?case .
next
  case cancel_user
  from epreserves_outcome [OF cancel_user_jobs_invariant, OF cancel_user(2,1)] show ?case .
next
  case revoked_subject
  from epreserves_outcome [OF revocations_invariant, OF revoked_subject(2,1)] show ?case .
next
  case revoked_job
  from epreserves_outcome [OF revocation_job_invariant, OF revoked_job(2,1)] show ?case .
qed

lemma reachable_invariant: "job_reachable db \<Longrightarrow> job_invariant db"
proof (induction rule: job_reachable.induct)
  case (empty db)
  then show ?case by (simp add: job_invariant_def rows_ok_def events_ok_def)
next
  case (step db label db')
  then show ?case using step_invariant by blast
qed

lemma transaction_table_step:
  assumes "\<And>s. table_step label (background_jobs s) (background_jobs (snd (m s)))"
  shows "table_step label (background_jobs db) (background_jobs (snd (etransaction m db)))"
  using assms [of db] by (auto simp: etransaction_apply table_step.same split: outcome_splits)

lemma body_table_step:
  "table_step label (background_jobs db) (background_jobs (snd (enqueue_body snapshot now job_id account delay rq db)))"
  unfolding enqueue_body_def dedupe_existing_def insert_job_def Let_def
  by (auto intro!: table_step.intros wake.job_change_axioms raised.job_change_axioms
      simp: new_job_row_def split: option.split)

lemma enqueue_table_step:
  "table_step label (background_jobs db) (background_jobs (snd (enqueue_job snapshot now job_id rq db)))"
proof (cases "rq_user_id rq")
  case None
  then show ?thesis using transaction_table_step [OF body_table_step] by (simp add: enqueue_job_def Let_def)
next
  case (Some user)
  let ?body = "enqueue_body snapshot now job_id (resolved_account db rq) (max 0 (rq_run_after_seconds rq)) rq"
  have "table_step label (background_jobs db) (background_jobs (snd (user_mail_write_transaction user account (\<lambda>_. ?body) db)))" for account
  proof (cases rule: write_transaction_cases [of db user account "\<lambda>_. ?body"])
    case (committed x s)
    with body_table_step [of label db snapshot now job_id "resolved_account db rq" "max 0 (rq_run_after_seconds rq)" rq]
    show ?thesis by simp
  qed (simp_all add: table_step.same)
  with Some show ?thesis by (simp add: enqueue_job_def Let_def)
qed

lemma claim_table_step:
  assumes "job_invariant db"
  shows "table_step (Some worker) (background_jobs db) (background_jobs (snd (claim_job locked now worker queues lease db)))"
proof (cases "best_row claim_before
      (filter (\<lambda>r. claimable now queues r \<and> bj_id r \<notin> set locked) (background_jobs db))")
  case None
  then show ?thesis by (simp add: claim_job_def table_step.same)
next
  case (Some c)
  show ?thesis
    unfolding claim_job_def Some
    by (simp add: Let_def table_step.same claim_target(4) [OF assms Some]
        table_step.update [OF claimed.job_change_axioms])
qed

lemma step_table_step:
  "job_step label db db' \<Longrightarrow> job_invariant db \<Longrightarrow> table_step label (background_jobs db) (background_jobs db')"
proof (induction label db db' rule: job_step.induct)
  case (enqueue snapshot now job_id rq db res db')
  then show ?case using enqueue_table_step by (metis snd_conv)
next
  case (claim locked now worker queues lease db res db')
  then show ?case using claim_table_step by (metis snd_conv)
next
  case (heartbeat now worker queues release current lease db res db')
  then show ?case
    by (auto simp: renew_heartbeat_def Let_def table_step.same
        intro!: table_step.update [OF renewed.job_change_axioms] split: option.splits if_splits)
next
  case (complete now job_id worker db res db')
  then show ?case
    by (auto simp: complete_job_def table_step.same
        intro!: table_step.update [OF completed.job_change_axioms] split: if_splits)
next
  case (fail now job error worker requested db res db')
  then show ?case
    by (auto simp: fail_job_def Let_def table_step.same split: if_splits
        intro!: table_step.update [OF dead.job_change_axioms] table_step.update [OF retried.job_change_axioms])
next
  case (cancel now job_id worker db res db')
  then show ?case
    by (auto simp: cancel_claimed_job_def table_step.same
        intro!: table_step.update [OF cancelled.job_change_axioms] split: if_splits)
next
  case (cancel_user now user db res db')
  then show ?case
    by (auto simp: cancel_user_jobs_def Let_def intro!: table_step.update [OF user_cancelled.job_change_axioms])
next
  case (revoked_subject now h db res db')
  then show ?case
    by (auto simp: complete_google_token_revocations_for_subject_def Let_def fold_insert_event table_step.same
        intro!: table_step.update [OF revoked.job_change_axioms] split: if_splits)
next
  case (revoked_job now job_id db res db')
  then show ?case
    by (auto simp: complete_google_token_revocation_job_def Let_def table_step.same
        intro!: table_step.update [OF revoked_one.job_change_axioms] split: if_splits option.splits)
next
  case (cleanup now sd dd db n db')
  then show ?case by (auto simp: delete_expired_jobs_def Let_def intro!: table_step.delete)
next
  case (other db' db)
  then show ?case by (simp add: table_step.same)
qed

section \<open>Invariant and outcomes\<close>

text \<open>C3: in every reachable state of the queue, whatever the interleaving of
  enqueues (with their lost races), claims, heartbeats, results, cancellations
  and clean-ups: job ids are unique, no two queued or running jobs share account,
  kind and dedupe key, a job has an owner and a lease exactly while it runs and a
  completion time exactly when it ended, and at most one terminal event
  (succeeded, dead, cancelled) was ever recorded for a job.\<close>

theorem reachable_queue_is_consistent:
  assumes "job_reachable db"
  shows "distinct (map bj_id (background_jobs db))
    \<and> (\<forall>r \<in> set (background_jobs db). \<forall>r' \<in> set (background_jobs db).
          active_job r \<and> active_job r' \<and> bj_dedupe_key r \<noteq> None \<and> dedupe_index_key r = dedupe_index_key r' \<longrightarrow> r = r')
    \<and> (\<forall>r \<in> set (background_jobs db). job_row_ok r
          \<and> terminal_count (bj_id r) (background_job_events db) \<le> 1)"
proof (intro conjI)
  have inv: "job_invariant db" using assms by (rule reachable_invariant)
  then have rows: "rows_ok (background_jobs db)" by (simp add: job_invariant_def)
  show "distinct (map bj_id (background_jobs db))" by (rule rows_okD(1) [OF rows])
  show "\<forall>r \<in> set (background_jobs db). \<forall>r' \<in> set (background_jobs db).
          active_job r \<and> active_job r' \<and> bj_dedupe_key r \<noteq> None \<and> dedupe_index_key r = dedupe_index_key r' \<longrightarrow> r = r'"
    using unique_indexD [OF rows_okD(3) [OF rows]] by (auto simp: deduplicated_def dedupe_index_key_def)
  show "\<forall>r \<in> set (background_jobs db). job_row_ok r \<and> terminal_count (bj_id r) (background_job_events db) \<le> 1"
    using inv rows_okD(2) [OF rows] by (fastforce simp: job_invariant_def events_ok_def split: if_splits)
qed

definition empty_job_db :: job_db where
  "empty_job_db = \<lparr>users = [], google_oauth_tokens = [], gmail_accounts = [], advisory_locks = [],
     next_session = 0, active_lock_session = None, active_gmail_account = None,
     app_sessions = [], oauth_login_sessions = [], mobile_login_codes = [],
     mobile_oauth_handoffs = [], google_subject_tombstones = [], identity_epoch = 0, rate_limit_buckets = [],
     allowed_emails = [], migration_audits = [], background_jobs = [], background_job_events = [], worker_heartbeats = []\<rparr>"

text \<open>One system job, enqueued at time 0, then claimed by \<open>w1\<close> and completed.\<close>

definition queued_db :: job_db where
  "queued_db = snd (enqueue_job [] 0 ''j1'' (job_request_of ''cleanup'') empty_job_db)"

definition claimed_db :: job_db where
  "claimed_db = snd (claim_job [] 5 ''w1'' [''default''] 300 queued_db)"

definition completed_db :: job_db where
  "completed_db = snd (complete_job 9 ''j1'' ''w1'' claimed_db)"

lemmas sample_job_db_simps = queued_db_def empty_job_db_def enqueue_job_def enqueue_body_def insert_job_def
  insert_conflicts_def resolved_account_def job_request_of_def new_job_row_def etransaction_apply insert_event_def
  claimed_db_def claim_job_def claimable_def claim_row_def returning_def update_jobs_def completed_db_def
  complete_job_def held_by_def end_row_def seconds_def Let_def

lemma sample_reachable: "job_reachable queued_db" "job_reachable claimed_db" "job_reachable completed_db"
proof -
  have "job_reachable empty_job_db" by (rule job_reachable.empty) (simp_all add: empty_job_db_def)
  then show q: "job_reachable queued_db"
    unfolding queued_db_def by (rule job_reachable.step [OF _ job_step.enqueue [OF surjective_pairing]])
  then show c: "job_reachable claimed_db"
    unfolding claimed_db_def by (rule job_reachable.step [OF _ job_step.claim [OF surjective_pairing]])
  then show "job_reachable completed_db"
    unfolding completed_db_def by (rule job_reachable.step [OF _ job_step.complete [OF surjective_pairing]])
qed

theorem reachable_queue_is_consistent_witness:
  "map bj_status (background_jobs claimed_db) = [Running] \<and> distinct (map bj_id (background_jobs claimed_db))"
  using reachable_queue_is_consistent [OF sample_reachable(2)] by (simp add: sample_job_db_simps)

text \<open>C5: a job that has ended stays as it ended. No operation of the queue changes
  the status, completion time, attempt count or error of a succeeded, dead or
  cancelled job: not a late completion or failure of a worker, not a wake-up by
  an enqueue that lost a race, not a claim.\<close>

theorem ended_jobs_stay_ended:
  assumes "job_reachable db" and "job_step label db db'"
    and "r \<in> set (background_jobs db)" and "\<not> active_job r"
    and "r' \<in> set (background_jobs db')" and "bj_id r' = bj_id r"
  shows "bj_status r' = bj_status r \<and> bj_completed_at r' = bj_completed_at r
    \<and> bj_attempt_count r' = bj_attempt_count r \<and> bj_last_error r' = bj_last_error r"
proof -
  have inv: "job_invariant db" using assms(1) by (rule reachable_invariant)
  have "distinct (map bj_id (background_jobs db))" using inv rows_okD(1) by (auto simp: job_invariant_def)
  from table_step_outcome [OF step_table_step [OF assms(2) inv] this assms(3-6)]
  show ?thesis by (simp add: job_outcome_def)
qed

theorem ended_jobs_stay_ended_witness:
  "map (\<lambda>r. (bj_status r, bj_completed_at r)) (background_jobs (snd (complete_job 20 ''j1'' ''w1'' completed_db)))
     = [(Succeeded, Some 9)]"
proof -
  obtain r where r: "background_jobs completed_db = [r]" "bj_id r = ''j1''" "bj_status r = Succeeded"
      "bj_completed_at r = Some 9"
    by (simp add: sample_job_db_simps)
  then have "\<not> active_job r" by (simp add: active_job_def)
  moreover obtain r' where r': "background_jobs (snd (complete_job 20 ''j1'' ''w1'' completed_db)) = [r']" "bj_id r' = ''j1''"
    by (simp add: sample_job_db_simps)
  ultimately have "bj_status r' = Succeeded \<and> bj_completed_at r' = Some 9"
    using r ended_jobs_stay_ended [OF sample_reachable(3) job_step.complete [OF surjective_pairing [of
        "complete_job 20 ''j1'' ''w1'' completed_db"]], of r r'] by simp
  with r' show ?thesis by simp
qed

section \<open>Leases\<close>

text \<open>A run in which one worker claims nothing.\<close>

inductive run_without :: "string \<Rightarrow> 'a job_db_scheme \<Rightarrow> 'a job_db_scheme \<Rightarrow> bool" for w where
  stay: "run_without w db db"
| more: "run_without w db db' \<Longrightarrow> job_step label db' db'' \<Longrightarrow> label \<noteq> Some w \<Longrightarrow> run_without w db db''"

lemma run_without_holder:
  "run_without w db db' \<Longrightarrow> job_invariant db \<Longrightarrow> \<not> list_ex (held_by i w) (background_jobs db) \<Longrightarrow>
   job_invariant db' \<and> \<not> list_ex (held_by i w) (background_jobs db')"
proof (induction rule: run_without.induct)
  case (stay db)
  then show ?case by simp
next
  case (more db db' label db'')
  then have inv: "job_invariant db'" and free: "\<not> list_ex (held_by i w) (background_jobs db')" by simp_all
  from step_invariant [OF more.hyps(2) inv] table_step_holder [OF step_table_step [OF more.hyps(2) inv] more.hyps(3) free]
  show ?case by blast
qed

text \<open>C4: a worker that lost a job is fenced off. Once another worker holds the lease
  (or the job ended), then however the queue goes on, as long as the worker claims
  nothing itself, its late \<open>complete_job\<close>, \<open>fail_job\<close> and \<open>cancel_claimed_job\<close>
  return \<open>False\<close> and change nothing.\<close>

theorem stale_worker_is_fenced:
  assumes "job_reachable db" and "r \<in> set (background_jobs db)" and "bj_id r = job_id"
    and "bj_status r \<noteq> Running \<or> bj_lease_owner r \<noteq> Some w"
    and "run_without w db db'" and "bj_id job = job_id"
  shows "complete_job now job_id w db' = (Inr False, db')
    \<and> fail_job now job error w delay db' = (Inr False, db')
    \<and> cancel_claimed_job now job_id w db' = (Inr False, db')"
proof -
  have inv: "job_invariant db" using assms(1) by (rule reachable_invariant)
  then have "distinct (map bj_id (background_jobs db))" using rows_okD(1) by (auto simp: job_invariant_def)
  with assms(2-4) have "\<not> list_ex (held_by job_id w) (background_jobs db)"
    by (auto simp: list_ex_iff held_by_def) (metis distinct_map inj_onD)+
  with run_without_holder [OF assms(5) inv] have "\<not> list_ex (held_by job_id w) (background_jobs db')" by blast
  with assms(6) show ?thesis by (simp add: complete_job_def fail_job_def cancel_claimed_job_def Let_def)
qed

theorem stale_worker_is_fenced_witness:
  "complete_job 30 ''j1'' ''w2'' claimed_db = (Inr False, claimed_db)"
proof -
  obtain r where r: "background_jobs claimed_db = [r]" "bj_id r = ''j1''" "bj_lease_owner r = Some ''w1''"
    by (simp add: sample_job_db_simps)
  with stale_worker_is_fenced [OF sample_reachable(2), of r "''j1''" "''w2''" claimed_db r 30]
  show ?thesis by (simp add: run_without.stay)
qed

section \<open>Claiming\<close>

lemma claim_before_order: "transp claim_before" "asymp claim_before"
    "claim_before a c \<Longrightarrow> claim_before a b \<or> claim_before b c"
  by (auto simp: claim_before_def transp_def asymp_on_def)

text \<open>C13: \<open>claim_job\<close> takes the right job. A returned job was claimable (queued and
  due, or running with an expired lease) in one of the worker's queues and not
  locked by another claim; no other such job has a higher priority, or an earlier
  due time, or was created earlier at equal priority and due time; only its row
  changes, to running under this worker with a new lease and one more attempt.
  Nothing is returned only when no unlocked job is claimable.\<close>

theorem claim_takes_the_first_claimable:
  assumes "job_reachable db" and "queues \<noteq> []"
    and "claim_job locked now worker queues lease db = (res, db')"
  shows "(res = Inr None \<and> db' = db
           \<and> (\<forall>r \<in> set (background_jobs db). claimable now queues r \<longrightarrow> bj_id r \<in> set locked))
    \<or> (\<exists>c \<in> set (background_jobs db). claimable now queues c \<and> bj_id c \<notin> set locked
        \<and> (\<forall>r \<in> set (background_jobs db). claimable now queues r \<and> bj_id r \<notin> set locked \<longrightarrow> \<not> claim_before r c)
        \<and> res = Inr (Some (claim_row now worker lease c))
        \<and> background_jobs db' = update_where (\<lambda>r. r = c) (claim_row now worker lease) (background_jobs db))"
proof -
  have inv: "job_invariant db" using assms(1) by (rule reachable_invariant)
  let ?ok = "\<lambda>r. claimable now queues r \<and> bj_id r \<notin> set locked"
  show ?thesis
  proof (cases "best_row claim_before (filter ?ok (background_jobs db))")
    case None
    with assms(2,3) show ?thesis by (auto simp: claim_job_def filter_empty_conv)
  next
    case (Some c)
    note target = claim_target [OF inv Some]
    have "\<forall>r \<in> set (background_jobs db). ?ok r \<longrightarrow> \<not> claim_before r c"
      using best_row_minimal [OF claim_before_order Some] by simp
    moreover have "update_where (\<lambda>r. r = c \<and> active_job r) f (background_jobs db)
        = update_where (\<lambda>r. r = c) f (background_jobs db)" for f
      using claimable_active [OF target(2)] by (auto simp: update_where_def)
    moreover have "row_first (returning (\<lambda>r. bj_id r = bj_id c) (claim_row now worker lease) (background_jobs db))
        = Some (claim_row now worker lease c)"
      by (simp add: returning_def target(5))
    ultimately show ?thesis
      using assms(2,3) Some target by (auto simp: claim_job_def Let_def)
  qed
qed

theorem claim_takes_the_first_claimable_witness:
  "\<exists>c \<in> set (background_jobs queued_db).
     fst (claim_job [] 5 ''w1'' [''default''] 300 queued_db) = Inr (Some (claim_row 5 ''w1'' 300 c))"
proof -
  have "fst (claim_job [] 5 ''w1'' [''default''] 300 queued_db) \<noteq> Inr None"
    by (simp add: sample_job_db_simps)
  with claim_takes_the_first_claimable [OF sample_reachable(1) _ surjective_pairing,
      of "[''default'']" "[]" 5 "''w1''" 300]
  show ?thesis by auto
qed

end
