(* ===== verification/Job_Outcomes.thy ===== *)
theory Job_Outcomes
  imports Job_Lifecycle
begin

text \<open>
  The functional behaviour of the queue operations: retry and dead-letter
  decisions with their backoff, deduplicating and fresh enqueues, bulk
  cancellation, queue health, and the unbounded reclaim of expired leases.
\<close>

section \<open>Failing a job\<close>

lemma retry_backoff_cases:
  "retry_backoff_seconds n =
     (if n \<le> 0 then 0 else if n = 1 then 30 else if n = 2 then 120 else if n = 3 then 600 else 3600)"
proof -
  consider "n \<le> 0" | "n = 1" | "n = 2" | "n = 3" | "4 \<le> n" by linarith
  then show ?thesis by cases (simp_all add: retry_backoff_seconds_def)
qed

lemma retry_backoff_bounds: "0 \<le> retry_backoff_seconds n" "retry_backoff_seconds n \<le> 3600"
  by (simp_all add: retry_backoff_cases)

lemma retry_backoff_mono: "m \<le> n \<Longrightarrow> retry_backoff_seconds m \<le> retry_backoff_seconds n"
  by (auto simp: retry_backoff_cases)

text \<open>C14: a failed attempt ends or delays the job. For the worker that holds the job,
  \<open>fail_job\<close> returns \<open>True\<close> and changes only that row. The last permitted attempt
  makes the job dead, without a lease. An earlier attempt queues it again, due no
  earlier than the backoff of its attempt count and than the requested delay, with
  a backoff that is at least 30 seconds and at most an hour. The error text is
  kept up to 4000 characters.\<close>

theorem failed_attempt_retries_or_dies:
  assumes "job_reachable db" and "job \<in> set (background_jobs db)" and "held_by (bj_id job) w job"
    and "fail_job now job error w requested db = (res, db')"
  shows "res = Inr True
    \<and> (\<exists>r. background_jobs db' = update_where (\<lambda>q. q = job) (\<lambda>_. r) (background_jobs db)
        \<and> bj_id r = bj_id job \<and> bj_lease_owner r = None \<and> bj_last_error r = Some (take 4000 error)
        \<and> (if bj_max_attempts job \<le> bj_attempt_count job
           then bj_status r = Dead \<and> bj_completed_at r = Some now
           else bj_status r = Queued
             \<and> now + seconds (max 30 (retry_backoff_seconds (bj_attempt_count job))) \<le> bj_run_after r
             \<and> (\<forall>n. requested = Some n \<longrightarrow> now + seconds n \<le> bj_run_after r)
             \<and> (requested = None \<longrightarrow> bj_run_after r \<le> now + seconds 3600)))"
proof -
  have inv: "job_invariant db" using assms(1) by (rule reachable_invariant)
  then have ids: "distinct (map bj_id (background_jobs db))" and ok: "job_row_ok job"
    using rows_okD assms(2) by (auto simp: job_invariant_def)
  have held: "list_ex (held_by (bj_id job) w) (background_jobs db)"
    using assms(2,3) by (auto simp: list_ex_iff)
  have one: "update_where (held_by (bj_id job) w) f (background_jobs db)
      = update_where (\<lambda>q. q = job) (\<lambda>_. f job) (background_jobs db)" for f
  proof -
    have "q \<in> set (background_jobs db) \<Longrightarrow> held_by (bj_id job) w q = (q = job)" for q
      using ids assms(2,3) by (auto simp: held_by_def) (metis distinct_map inj_onD)
    then show ?thesis by (auto simp: update_where_def)
  qed
  have attempts: "1 \<le> bj_attempt_count job" using ok assms(3) by (simp add: job_row_ok_def held_by_def)
  then have backoff: "30 \<le> retry_backoff_seconds (bj_attempt_count job)" by (simp add: retry_backoff_cases)
  show ?thesis
  proof (cases "bj_max_attempts job \<le> bj_attempt_count job")
    case True
    then have "res = Inr True" "background_jobs db' = update_where (\<lambda>q. q = job) (\<lambda>_. dead_row now error job) (background_jobs db)"
      using assms(4) held one by (auto simp: fail_job_def Let_def)
    then show ?thesis
      using True by (intro conjI exI [of _ "dead_row now error job"]) (simp_all add: dead_row_def end_row_def)
  next
    case False
    let ?d = "retry_delay job requested"
    have d: "max 30 (retry_backoff_seconds (bj_attempt_count job)) \<le> ?d"
        "\<forall>n. requested = Some n \<longrightarrow> n \<le> ?d" "requested = None \<longrightarrow> ?d \<le> 3600"
      using backoff retry_backoff_bounds by (auto simp: retry_delay_def split: option.split)
    have "res = Inr True" "background_jobs db' = update_where (\<lambda>q. q = job) (\<lambda>_. retry_row now error ?d job) (background_jobs db)"
      using False assms(4) held one by (auto simp: fail_job_def Let_def)
    then show ?thesis
      using False d by (intro conjI exI [of _ "retry_row now error ?d job"]) (simp_all add: retry_row_def)
  qed
qed

theorem failed_attempt_retries_or_dies_witness:
  "\<exists>r. background_jobs (snd (fail_job 9 (hd (background_jobs claimed_db)) ''boom'' ''w1'' (Some 77) claimed_db)) = [r]
     \<and> bj_status r = Queued \<and> 9 + seconds 77 \<le> bj_run_after r"
proof -
  obtain r where r: "background_jobs claimed_db = [r]" "held_by (bj_id r) ''w1'' r"
      "bj_max_attempts r = 5" "bj_attempt_count r = 1"
    by (simp add: sample_job_db_simps)
  with failed_attempt_retries_or_dies [OF sample_reachable(2) _ r(2) surjective_pairing, of 9 "''boom''" "Some 77"]
  show ?thesis by auto
qed

section \<open>Enqueueing\<close>

text \<open>Enqueueing is idempotent per dedupe key. When a queued or running job with the
  same account, kind and dedupe key exists, \<open>enqueue_job\<close> inserts no row and returns
  that job. A queued job is woken: it becomes due at the earlier of both times and
  keeps the higher of both priorities. Its status, attempts and payload stay.\<close>

theorem enqueue_reuses_the_active_job:
  assumes "job_reachable db" and "r \<in> set (background_jobs db)"
    and "same_dedupe (resolved_account db rq) (rq_kind rq) (rq_dedupe_key rq) r"
    and "truthy_str (rq_dedupe_key rq)" and "rq_wake_existing rq"
    and "\<forall>user. rq_user_id rq = Some user \<longrightarrow> guard_passes db user (resolved_account db rq)"
    and "enqueue_job (background_jobs db) now job_id rq db = (res, db')"
  shows "\<exists>r'. res = Inr r' \<and> bj_id r' = bj_id r
    \<and> background_jobs db' = update_where (\<lambda>q. q = r) (\<lambda>_. r') (background_jobs db)
    \<and> r' = (if bj_status r = Queued then
             r\<lparr>bj_run_after := min (bj_run_after r) (now + seconds (max 0 (rq_run_after_seconds rq))),
               bj_priority := max (bj_priority r) (rq_priority rq), bj_updated_at := now\<rparr>
           else r)"
proof -
  have inv: "job_invariant db" using assms(1) by (rule reachable_invariant)
  then have rows: "rows_ok (background_jobs db)" by (simp add: job_invariant_def)
  note ids = rows_okD(1) [OF rows] and dedupe = rows_okD(3) [OF rows]
  have same: "same_dedupe (resolved_account db rq) (rq_kind rq) (rq_dedupe_key rq) q \<longleftrightarrow> q = r"
    if "q \<in> set (background_jobs db)" for q
    using unique_indexD [OF dedupe that assms(2)] assms(3)
    by (auto simp: same_dedupe_def deduplicated_def dedupe_index_key_def)
  have newest: "newest_active (resolved_account db rq) (rq_kind rq) (rq_dedupe_key rq) (background_jobs db) = Some r"
  proof -
    have "filter (same_dedupe (resolved_account db rq) (rq_kind rq) (rq_dedupe_key rq)) (background_jobs db)
        = filter (\<lambda>q. bj_id q = bj_id r) (background_jobs db)"
      using same ids assms(2) by (intro filter_cong) (auto simp: distinct_map inj_on_def)
    then show ?thesis by (simp add: newest_active_def filter_by_key [OF ids assms(2)])
  qed
  let ?d = "max 0 (rq_run_after_seconds rq)"
  let ?body = "enqueue_body (background_jobs db) now job_id (resolved_account db rq) ?d rq"
  let ?r = "if bj_status r = Queued then wake_row now ?d (rq_priority rq) r else r"
  have first: "row_first (returning (\<lambda>q. bj_id q = bj_id r) f (background_jobs db)) = Some (f r)" for f
    by (simp add: returning_def filter_by_key [OF ids assms(2)])
  have keep: "update_where (\<lambda>q. q = r) (\<lambda>_. r) (background_jobs db) = background_jobs db"
    by (auto simp: update_where_def intro: map_idI)
  have upd: "update_where (\<lambda>q. bj_id q = bj_id r) f (background_jobs db)
      = update_where (\<lambda>q. q = r) (\<lambda>_. f r) (background_jobs db)" for f
    unfolding update_by_key [OF ids assms(2), of f] by (auto simp: update_where_def)
  have "\<exists>s. ?body db = (Inr ?r, s)
      \<and> background_jobs s = update_where (\<lambda>q. q = r) (\<lambda>_. ?r) (background_jobs db)"
    using assms(4,5) by (auto simp: enqueue_body_def newest dedupe_existing_def Let_def first upd keep)
  then obtain s where body: "?body db = (Inr ?r, s)"
      "background_jobs s = update_where (\<lambda>q. q = r) (\<lambda>_. ?r) (background_jobs db)" by blast
  have "enqueue_job (background_jobs db) now job_id rq db = (Inr ?r, s)"
  proof (cases "rq_user_id rq")
    case None
    then show ?thesis by (simp add: enqueue_job_def Let_def etransaction_apply body(1))
  next
    case (Some user)
    with assms(6) have "guard_passes db user (resolved_account db rq)" by blast
    with Some show ?thesis
      by (simp add: enqueue_job_def Let_def write_transaction_passes etransaction_apply body(1))
  qed
  with assms(7) body(2) show ?thesis by (auto simp: wake_row_def)
qed

definition dedupe_request :: job_request where
  "dedupe_request = (job_request_of ''cleanup'')\<lparr>rq_dedupe_key := Some ''daily'', rq_priority := 7\<rparr>"

definition dedupe_db :: job_db where
  "dedupe_db = snd (enqueue_job [] 0 ''j1'' dedupe_request empty_job_db)"

lemma dedupe_db_reachable: "job_reachable dedupe_db"
proof -
  have "job_reachable empty_job_db" by (rule job_reachable.empty) (simp_all add: empty_job_db_def)
  then show ?thesis
    unfolding dedupe_db_def by (rule job_reachable.step [OF _ job_step.enqueue [OF surjective_pairing]])
qed

theorem enqueue_reuses_the_active_job_witness:
  "\<exists>r'. fst (enqueue_job (background_jobs dedupe_db) 4 ''j2'' (dedupe_request\<lparr>rq_priority := 9\<rparr>) dedupe_db) = Inr r'
     \<and> bj_id r' = ''j1'' \<and> bj_priority r' = 9"
proof -
  let ?rq = "dedupe_request\<lparr>rq_priority := 9\<rparr>"
  obtain r where r: "background_jobs dedupe_db = [r]" "bj_id r = ''j1''" "bj_status r = Queued" "bj_priority r = 7"
      "same_dedupe (resolved_account dedupe_db ?rq) (rq_kind ?rq) (rq_dedupe_key ?rq) r"
    by (simp add: dedupe_db_def dedupe_request_def sample_job_db_simps newest_active_def same_dedupe_def active_job_def)
  have rq: "rq_user_id ?rq = None" "truthy_str (rq_dedupe_key ?rq)" "rq_wake_existing ?rq" "rq_priority ?rq = 9"
    by (simp_all add: dedupe_request_def job_request_of_def)
  have mem: "r \<in> set (background_jobs dedupe_db)" using r(1) by simp
  have guard: "\<forall>user. rq_user_id ?rq = Some user \<longrightarrow> guard_passes dedupe_db user (resolved_account dedupe_db ?rq)"
    using rq(1) by simp
  obtain res db' where run: "enqueue_job (background_jobs dedupe_db) 4 ''j2'' ?rq dedupe_db = (res, db')"
    by (cases "enqueue_job (background_jobs dedupe_db) 4 ''j2'' ?rq dedupe_db")
  from enqueue_reuses_the_active_job [OF dedupe_db_reachable mem r(5) rq(2,3) guard run]
  obtain r' where r': "res = Inr r'" "bj_id r' = bj_id r"
      "r' = (if bj_status r = Queued then
             r\<lparr>bj_run_after := min (bj_run_after r) (4 + seconds (max 0 (rq_run_after_seconds ?rq))),
               bj_priority := max (bj_priority r) (rq_priority ?rq), bj_updated_at := 4\<rparr> else r)"
    by (elim exE conjE)
  with r(2-4) rq(4) have "bj_priority r' = 9" by simp
  with r'(1,2) r(2) run show ?thesis by simp
qed

section \<open>Cancelling the jobs of a user\<close>

text \<open>\<open>cancel_user_jobs\<close> cancels every queued or running job of the user and no other
  job: afterwards the user has no active job of any kind, the count it returns is
  the number of rows it cancelled, and every other row is as before.\<close>

theorem cancel_user_jobs_cancels_exactly:
  "\<exists>db'. cancel_user_jobs now user db = (Inr (count_active_jobs db user []), db')
     \<and> count_active_jobs db' user kinds = 0
     \<and> background_jobs db' =
         map (\<lambda>r. if bj_user_id r = Some user \<and> active_job r then end_row now Cancelled r else r) (background_jobs db)"
proof -
  let ?p = "\<lambda>r. bj_user_id r = Some user \<and> active_job r"
  have "\<not> (bj_user_id r = Some user \<and> active_job r)"
    if r: "r \<in> set (update_where ?p (end_row now Cancelled) (background_jobs db))" for r
  proof -
    from r obtain q where "r = (if ?p q then end_row now Cancelled q else q)" by (auto simp: in_update_where)
    then show ?thesis using ends_active(2) [of now q] by (cases "?p q") auto
  qed
  then have "filter (\<lambda>r. bj_user_id r = Some user \<and> active_job r \<and> (kinds = [] \<or> bj_kind r \<in> set kinds))
      (update_where ?p (end_row now Cancelled) (background_jobs db)) = []"
    by (auto simp: filter_empty_conv)
  then show ?thesis
    by (simp add: cancel_user_jobs_def Let_def count_active_jobs_def) (simp add: update_where_def)
qed

section \<open>Queue health\<close>

text \<open>The worker part of the health report means what readiness checks rely on. All
  required queues are ready exactly when each of the six runtime queues is served
  by some worker that runs the expected release and was seen at most 120 whole
  seconds ago; releases match exactly when there is such a fresh worker and no
  fresh worker runs another release.\<close>

theorem queue_health_readiness:
  "(qh_required_queues_ready (get_queue_health now expected db) \<longleftrightarrow>
      (\<forall>q \<in> {''critical'', ''reader'', ''default'', ''slow'', ''ai'', ''gmail_poll''}.
         \<exists>h \<in> set (worker_heartbeats db). q \<in> set (hb_queues h) \<and> hb_release_sha h = expected
            \<and> now - hb_last_seen_at h < seconds 121))
   \<and> (qh_worker_releases_match (get_queue_health now expected db) \<longleftrightarrow>
      (\<exists>h \<in> set (worker_heartbeats db). now - hb_last_seen_at h < seconds 121)
      \<and> (\<forall>h \<in> set (worker_heartbeats db). now - hb_last_seen_at h < seconds 121 \<longrightarrow> hb_release_sha h = expected))"
proof -
  have whole: "whole_seconds d \<le> 120 \<longleftrightarrow> d < seconds 121" for d
    by (auto simp: whole_seconds_def seconds_def)
  show ?thesis
    by (auto simp: get_queue_health_def Let_def worker_health_of_def fresh_worker_seconds_def whole
        required_runtime_queues_def list_all_iff filter_empty_conv)
qed

definition health_db :: job_db where
  "health_db = empty_job_db\<lparr>worker_heartbeats :=
     [\<lparr>hb_worker_id = ''w1'', hb_queues = [''critical'', ''reader'', ''default'', ''slow'', ''ai'', ''gmail_poll''],
       hb_current_job_id = None, hb_release_sha = ''r1'', hb_last_seen_at = 0\<rparr>]\<rparr>"

theorem queue_health_readiness_witness:
  "qh_required_queues_ready (get_queue_health (seconds 120) ''r1'' health_db)
   \<and> \<not> qh_required_queues_ready (get_queue_health (seconds 121) ''r1'' health_db)
   \<and> qh_worker_releases_match (get_queue_health (seconds 120) ''r1'' health_db)
   \<and> \<not> qh_worker_releases_match (get_queue_health (seconds 120) ''r2'' health_db)"
  by (auto simp: queue_health_readiness [THEN conjunct1] queue_health_readiness [THEN conjunct2] health_db_def)


end
