(* ===== verification/Retry_Policy.thy ===== *)
theory Retry_Policy
  imports Py_Encoding
begin

text \<open>
  \<open>backend/app/workers/retry_policy.py\<close>: the delay before a failed Gmail job runs
  again, and the recognition of revoked grants. A Python exception is a node of
  a heap with its \<open>__cause__\<close> and \<open>__context__\<close> links, which may form a cycle. The
  HTTP date parser of the standard library is the parameter \<open>parse_date\<close>: the
  instant a date text denotes, or nothing.
\<close>

section \<open>Exceptions as objects\<close>

text \<open>The exception classes the policy tests with \<open>isinstance\<close>; \<open>OSError\<close> carries its errno.\<close>

datatype exc_class =
    TimeoutErrorC | ConnectionErrorC | ServerNotFoundErrorC | TransportErrorC | SSLErrorC
  | OSErrorC "int option"
  | OtherC string

record http_response =
  resp_status :: json
  resp_status_code :: json
  resp_headers :: "(string \<times> string) list option"
  resp_items :: "(string \<times> string) list option"

record exc_node =
  exc_class :: exc_class
  exc_resp :: "http_response option"
  exc_response :: "http_response option"
  exc_status :: json
  exc_status_code :: json
  exc_code :: json
  exc_headers :: "(string \<times> string) list option"
  exc_cause :: "nat option"
  exc_context :: "nat option"

type_synonym exc_heap = "(nat \<times> exc_node) list"

text \<open>\<open>_exception_chain\<close>: follow \<open>__cause__ or __context__\<close> until an exception repeats.\<close>

function exception_chain :: "exc_heap \<Rightarrow> nat list \<Rightarrow> nat option \<Rightarrow> exc_node list" where
  "exception_chain heap seen None = []"
| "exception_chain heap seen (Some i) =
     (if i \<in> set seen then []
      else case map_of heap i of
             None \<Rightarrow> []
           | Some e \<Rightarrow> e # exception_chain heap (i # seen) (coalesce (exc_cause e) (exc_context e)))"
  by pat_completeness auto

lemma chain_measure_decreases:
  assumes "i \<notin> set seen" and "map_of heap i = Some e"
  shows "card (fst ` set heap - set (i # seen)) < card (fst ` set heap - set seen)"
proof (rule psubset_card_mono)
  show "finite (fst ` set heap - set seen)" by simp
  have "i \<in> fst ` set heap" using map_of_SomeD [OF assms(2)] by force
  with assms(1) show "fst ` set heap - set (i # seen) \<subset> fst ` set heap - set seen" by auto
qed

termination exception_chain
proof (relation "measure (\<lambda>(heap, seen, _). card (fst ` set heap - set seen))", goal_cases)
  case 1
  show ?case by simp
next
  case (2 heap seen i e)
  then show ?case using chain_measure_decreases [of i seen heap e] by simp
qed

declare exception_chain.simps [simp del]

lemma chain_None [simp]: "exception_chain heap seen None = []"
  by (simp add: exception_chain.simps)

lemma chain_Some:
  "i \<notin> set seen \<Longrightarrow> map_of heap i = Some e \<Longrightarrow>
   exception_chain heap seen (Some i) = e # exception_chain heap (i # seen) (coalesce (exc_cause e) (exc_context e))"
  by (simp add: exception_chain.simps)

definition response_of :: "exc_node \<Rightarrow> http_response option" where
  "response_of e = coalesce (exc_resp e) (exc_response e)"

fun first_int :: "json list \<Rightarrow> int option" where
  "first_int [] = None"
| "first_int (v # vs) = (case jint v of Inr n \<Rightarrow> Some n | Inl _ \<Rightarrow> first_int vs)"

definition http_status :: "exc_node \<Rightarrow> int option" where
  "http_status e =
     first_int
       ((case response_of e of None \<Rightarrow> [JNull, JNull] | Some r \<Rightarrow> [resp_status r, resp_status_code r])
        @ [exc_status e, exc_status_code e, exc_code e])"

text \<open>
  \<open>_header\<close>: the lower-case and the title-case key of each source, then any key
  that equals the name without regard to case.
\<close>

definition source_header :: "(string \<times> string) list \<Rightarrow> string option" where
  "source_header hs =
     coalesce (map_of hs ''retry-after'')
       (coalesce (map_of hs ''Retry-After'')
          (map_option snd (select_first (\<lambda>kv. lower (fst kv) = ''retry-after'') hs)))"

definition header_of :: "(string \<times> string) list option list \<Rightarrow> string option" where
  "header_of sources =
     row_first (concat (map (\<lambda>s. case s of None \<Rightarrow> []
       | Some hs \<Rightarrow> (case source_header hs of None \<Rightarrow> [] | Some v \<Rightarrow> [v])) sources))"

definition ceil_seconds :: "instant \<Rightarrow> int" where
  "ceil_seconds d = - ((- d) div 1000000)"

definition retry_after_seconds :: "(string \<Rightarrow> instant option) \<Rightarrow> instant \<Rightarrow> exc_node \<Rightarrow> int option" where
  "retry_after_seconds parse_date now e =
     (case coalesce (case response_of e of None \<Rightarrow> None | Some r \<Rightarrow> header_of [resp_headers r, resp_items r])
             (header_of [exc_headers e]) of
        None \<Rightarrow> None
      | Some value \<Rightarrow>
          (let t = strip value in
           if t = '''' then None
           else case int_of_string t of
                  Inr n \<Rightarrow> Some (max 0 n)
                | Inl _ \<Rightarrow> map_option (\<lambda>retry_at. max 0 (ceil_seconds (retry_at - now))) (parse_date t)))"

text \<open>The errno values of \<open>_NETWORK_ERRNOS\<close> on Linux.\<close>

definition network_errnos :: "int list" where
  "network_errnos = [103, 111, 104, 112, 113, 100, 102, 101, 32, 110]"

definition is_network_failure :: "exc_node \<Rightarrow> bool" where
  "is_network_failure e \<longleftrightarrow>
     (case exc_class e of
        OSErrorC n \<Rightarrow> (case n of None \<Rightarrow> False | Some k \<Rightarrow> k \<in> set network_errnos)
      | OtherC _ \<Rightarrow> False
      | _ \<Rightarrow> True)"

section \<open>The policy\<close>

definition gmail_retry_delay_cap_seconds :: int where
  "gmail_retry_delay_cap_seconds = 60 * 60"

definition transient_status :: "int option \<Rightarrow> bool" where
  "transient_status status \<longleftrightarrow>
     (case status of None \<Rightarrow> False | Some n \<Rightarrow> n = 429 \<or> (500 \<le> n \<and> n \<le> 599))"

definition transient_failure :: "exc_node \<Rightarrow> bool" where
  "transient_failure e \<longleftrightarrow> transient_status (http_status e) \<or> is_network_failure e"

definition requested_delay :: "int \<Rightarrow> int option \<Rightarrow> int" where
  "requested_delay base retry_after =
     min gmail_retry_delay_cap_seconds (case retry_after of None \<Rightarrow> base | Some n \<Rightarrow> max base n)"

fun first_transient_delay :: "(exc_node \<Rightarrow> int option) \<Rightarrow> int \<Rightarrow> exc_node list \<Rightarrow> int option" where
  "first_transient_delay retry_after base [] = None"
| "first_transient_delay retry_after base (e # es) =
     (if transient_status (http_status e) then Some (requested_delay base (retry_after e))
      else if is_network_failure e then Some (requested_delay base (retry_after e))
      else first_transient_delay retry_after base es)"

definition gmail_retry_delay_seconds ::
    "(string \<Rightarrow> instant option) \<Rightarrow> instant \<Rightarrow> exc_heap \<Rightarrow> string \<Rightarrow> nat \<Rightarrow> int \<Rightarrow> int option" where
  "gmail_retry_delay_seconds parse_date now heap job_kind exc exponential =
     (if \<not> startswith job_kind ''gmail_'' then None
      else first_transient_delay (retry_after_seconds parse_date now) (max 0 exponential)
             (exception_chain heap [] (Some exc)))"

definition gmail_is_authorization_failure :: "exc_heap \<Rightarrow> nat \<Rightarrow> bool" where
  "gmail_is_authorization_failure heap exc \<longleftrightarrow>
     list_ex (\<lambda>e. http_status e \<in> {Some 401, Some 403}) (exception_chain heap [] (Some exc))"

section \<open>Properties\<close>

lemma chain_length: "length (exception_chain heap seen cur) \<le> card (fst ` set heap - set seen)"
proof (induction heap seen cur rule: exception_chain.induct)
  case (1 heap seen)
  then show ?case by simp
next
  case (2 heap seen i)
  show ?case
  proof (cases "i \<in> set seen")
    case True
    then show ?thesis by (simp add: exception_chain.simps)
  next
    case False
    show ?thesis
    proof (cases "map_of heap i")
      case None
      with False show ?thesis by (simp add: exception_chain.simps)
    next
      case (Some e)
      with "2.IH" [OF False Some] chain_measure_decreases [OF False Some] False
      show ?thesis by (simp add: chain_Some)
    qed
  qed
qed

lemma first_transient_cases:
  "first_transient_delay ra base es =
     map_option (\<lambda>e. requested_delay base (ra e)) (select_first transient_failure es)"
  by (induction es) (auto simp: transient_failure_def)

text \<open>C18: the retry delay of a Gmail job. \<open>gmail_retry_delay_seconds\<close> gives a delay exactly
  for a job kind \<open>gmail_*\<close> whose exception chain contains a rate limit, a server error
  or a network failure. The first such exception decides: its delay is the larger of
  the exponential delay and its \<open>Retry-After\<close>, at most an hour and never negative.\<close>

theorem gmail_retry_delay_policy:
  "(gmail_retry_delay_seconds parse_date now heap kind exc expo = None \<longleftrightarrow>
      \<not> startswith kind ''gmail_''
      \<or> (\<forall>e \<in> set (exception_chain heap [] (Some exc)). \<not> transient_failure e))
   \<and> (\<forall>d. gmail_retry_delay_seconds parse_date now heap kind exc expo = Some d \<longrightarrow>
        0 \<le> d \<and> d \<le> 3600 \<and> min 3600 (max 0 expo) \<le> d
        \<and> (\<exists>e. select_first transient_failure (exception_chain heap [] (Some exc)) = Some e
             \<and> (\<forall>n. retry_after_seconds parse_date now e = Some n \<longrightarrow> min 3600 n \<le> d)
             \<and> (d > max 0 expo \<longrightarrow> retry_after_seconds parse_date now e \<noteq> None)))"
proof -
  let ?ra = "retry_after_seconds parse_date now" and ?base = "max 0 expo"
  have bound: "0 \<le> requested_delay ?base (?ra e)" "requested_delay ?base (?ra e) \<le> 3600"
      "min 3600 ?base \<le> requested_delay ?base (?ra e)"
      "\<forall>n. ?ra e = Some n \<longrightarrow> min 3600 n \<le> requested_delay ?base (?ra e)"
      "?base < requested_delay ?base (?ra e) \<longrightarrow> ?ra e \<noteq> None" for e
    by (auto simp: requested_delay_def gmail_retry_delay_cap_seconds_def split: option.split)
  show ?thesis
  proof (cases "startswith kind ''gmail_''")
    case False
    then show ?thesis by (simp add: gmail_retry_delay_seconds_def)
  next
    case True
    let ?first = "select_first transient_failure (exception_chain heap [] (Some exc))"
    have "gmail_retry_delay_seconds parse_date now heap kind exc expo = map_option (\<lambda>e. requested_delay ?base (?ra e)) ?first"
      using True by (simp add: gmail_retry_delay_seconds_def first_transient_cases)
    with True bound show ?thesis
      by (cases ?first) (simp_all add: select_first_None [symmetric])
  qed
qed

definition quota_error :: exc_node where
  "quota_error = \<lparr>exc_class = OtherC ''HttpError'',
     exc_resp = Some \<lparr>resp_status = JStr ''429'', resp_status_code = JNull, resp_headers = None,
       resp_items = Some [(''Retry-After'', '' 90 '')]\<rparr>,
     exc_response = None, exc_status = JNull, exc_status_code = JNull, exc_code = JNull,
     exc_headers = None, exc_cause = None, exc_context = Some 1\<rparr>"

theorem gmail_retry_delay_policy_witness:
  "gmail_retry_delay_seconds (\<lambda>_. None) 0 [(1, quota_error)] ''gmail_send'' 1 30 = Some 90 \<and> (90 :: int) \<le> 3600"
proof -
  have "gmail_retry_delay_seconds (\<lambda>_. None) 0 [(1, quota_error)] ''gmail_send'' 1 30 = Some 90"
    by code_simp
  with gmail_retry_delay_policy [of "\<lambda>_. None" 0 "[(1, quota_error)]" "''gmail_send''" 1 30]
  show ?thesis by blast
qed

text \<open>C19: walking the exception chain ends and misses nothing. The chain has at most as
  many elements as the heap, even when causes form a cycle, and an authorization
  failure (401 or 403) of the exception itself, or of the cause or context it was
  raised from, is recognized.\<close>

theorem authorization_failure_found_through_wrappers:
  "length (exception_chain heap [] (Some exc)) \<le> card (fst ` set heap)
   \<and> (\<forall>e. map_of heap exc = Some e \<and> http_status e \<in> {Some 401, Some 403} \<longrightarrow>
        gmail_is_authorization_failure heap exc)
   \<and> (\<forall>e j c. map_of heap exc = Some e \<and> coalesce (exc_cause e) (exc_context e) = Some j \<and> j \<noteq> exc
        \<and> map_of heap j = Some c \<and> http_status c \<in> {Some 401, Some 403} \<longrightarrow>
        gmail_is_authorization_failure heap exc)"
  using chain_length [of heap "[]" "Some exc"]
  by (auto simp: gmail_is_authorization_failure_def list_ex_iff chain_Some)

definition wrapped_error :: exc_node where
  "wrapped_error = quota_error\<lparr>exc_resp := None, exc_context := Some 2\<rparr>"

definition revoked_error :: exc_node where
  "revoked_error = quota_error\<lparr>exc_resp := None, exc_status := JInt 401, exc_context := Some 1\<rparr>"

theorem authorization_failure_found_through_wrappers_witness:
  "gmail_is_authorization_failure [(1, wrapped_error), (2, revoked_error)] 1"
  using authorization_failure_found_through_wrappers [of "[(1, wrapped_error), (2, revoked_error)]" 1]
  by (simp add: wrapped_error_def revoked_error_def quota_error_def http_status_def response_of_def)

end
