(* ===== verification/Keyed_Submission.thy ===== *)
theory Keyed_Submission
  imports Mail_Prelude
begin

text \<open>
  The contract of every create-or-get operation of the mail backend (sends,
  thread actions and drafts, account-scoped or not): a client identity names at
  most one row. The provider promises that a submission either finds the row with
  the key and at most refreshes that row, or appends one row with the key, or
  fails without a trace; the lemmas say what a client may rely on.
\<close>

locale keyed_submission =
  fixes rows :: "'s \<Rightarrow> 'r list"
    and row_key :: "'r \<Rightarrow> 'k"
    and row_id :: "'r \<Rightarrow> 'i"
    and request_key :: "'s \<Rightarrow> 'q \<Rightarrow> 'k"
    and submit :: "'q \<Rightarrow> 's \<Rightarrow> (exn + 'r) \<times> 's"
  assumes submit_ok: "distinct (map row_key (rows s)) \<Longrightarrow> submit q s = (Inr r, s') \<Longrightarrow>
      row_key r = request_key s q
      \<and> ((\<exists>old \<in> set (rows s). row_key old = row_key r \<and> row_id old = row_id r
            \<and> rows s' = map (\<lambda>x. if row_key x = row_key r then r else x) (rows s))
         \<or> ((\<forall>x \<in> set (rows s). row_key x \<noteq> row_key r) \<and> rows s' = rows s @ [r]))"
    and submit_failed: "submit q s = (Inl e, s') \<Longrightarrow> rows s' = rows s"
begin

lemma submission_cases:
  assumes "distinct (map row_key (rows s))"
  obtains (refreshed) r old where "fst (submit q s) = Inr r" "row_key r = request_key s q"
      "old \<in> set (rows s)" "row_key old = row_key r" "row_id old = row_id r"
      "rows (snd (submit q s)) = map (\<lambda>x. if row_key x = row_key r then r else x) (rows s)"
  | (added) r where "fst (submit q s) = Inr r" "row_key r = request_key s q"
      "\<forall>x \<in> set (rows s). row_key x \<noteq> row_key r" "rows (snd (submit q s)) = rows s @ [r]"
  | (failed) e where "fst (submit q s) = Inl e" "rows (snd (submit q s)) = rows s"
proof (cases "submit q s")
  case (Pair res s')
  show thesis
  proof (cases res)
    case (Inl e)
    with Pair submit_failed failed show thesis by simp
  next
    case (Inr r)
    with Pair have run: "submit q s = (Inr r, s')" by simp
    from submit_ok [OF assms run] have key: "row_key r = request_key s q" by blast
    from submit_ok [OF assms run]
    consider (old) old where "old \<in> set (rows s)" "row_key old = row_key r" "row_id old = row_id r"
        "rows s' = map (\<lambda>x. if row_key x = row_key r then r else x) (rows s)"
      | (new) "\<forall>x \<in> set (rows s). row_key x \<noteq> row_key r" "rows s' = rows s @ [r]"
      by blast
    then show thesis
    proof cases
      case old
      with refreshed [of r old] key run show thesis by simp
    next
      case new
      with added [of r] key run show thesis by simp
    qed
  qed
qed

lemma keeps_unique_keys:
  assumes "distinct (map row_key (rows s))"
  shows "distinct (map row_key (rows (snd (submit q s))))"
  using assms
proof (cases rule: submission_cases [of s q])
  case (refreshed r old)
  have "map row_key (map (\<lambda>x. if row_key x = row_key r then r else x) (rows s)) = map row_key (rows s)"
    by simp
  with refreshed(6) assms show ?thesis by (metis (no_types))
next
  case (added r)
  with assms show ?thesis by auto
qed (simp add: assms)

text \<open>Whatever happens, at most one row is added, and no row disappears.\<close>

lemma grows_by_one:
  assumes "distinct (map row_key (rows s))"
  shows "length (rows s) \<le> length (rows (snd (submit q s)))
    \<and> length (rows (snd (submit q s))) \<le> Suc (length (rows s))"
  using assms by (cases rule: submission_cases [of s q]) simp_all

text \<open>A retried submission with the key of a stored row is answered with that row's id.\<close>

lemma retry_finds_row:
  assumes "submit q s = (Inr r, s')" and "distinct (map row_key (rows s))"
    and "old \<in> set (rows s)" and "row_key old = request_key s q"
  shows "row_id r = row_id old \<and> length (rows s') = length (rows s)"
proof -
  show ?thesis using assms(2)
  proof (cases rule: submission_cases [of s q])
    case (refreshed r' o')
    with assms(1) have "r' = r" by simp
    with refreshed assms(4) have "row_key o' = row_key old" by simp
    with refreshed(3) assms(2,3) have "o' = old" by (metis distinct_map inj_onD)
    with refreshed \<open>r' = r\<close> assms(1) show ?thesis by simp
  next
    case (added r')
    with assms show ?thesis by auto
  qed (use assms(1) in simp)
qed

text \<open>Rows of other keys are left as they are.\<close>

lemma other_rows_kept:
  assumes "distinct (map row_key (rows s))" and "x \<in> set (rows s)" and "row_key x \<noteq> request_key s q"
  shows "x \<in> set (rows (snd (submit q s)))"
  using assms(1)
proof (cases rule: submission_cases [of s q])
  case (refreshed r old)
  with assms have "x = (if row_key x = row_key r then r else x)" by simp
  from this assms(2) have "x \<in> (\<lambda>x. if row_key x = row_key r then r else x) ` set (rows s)" by (rule image_eqI)
  then show ?thesis by (simp only: refreshed(6) set_map)
qed (use assms in simp_all)

end

end
