(* ===== verification/Send_Store.thy ===== *)
theory Send_Store
  imports Job_Queue Keyed_Submission "HOL-Library.Product_Lexorder"
begin

text \<open>
  Durable outgoing mail: the send functions of \<open>backend/app/db/mail_groups.py\<close>
  (primary mailbox) and of \<open>backend/app/db/account_mail.py\<close> (account-scoped),
  over one table \<open>gmail_pending_sends\<close>. Row-level security lets a transaction see
  the rows of one account; an insert without an account gets that account.

  A client timestamp is its text, which enters the request hash, with the instant
  PostgreSQL reads it as, if it is one. A record \<open>send_row\<close> is both the row and
  the decoded \<open>PendingSendRecord\<close>.
\<close>

section \<open>Rows and state\<close>

datatype send_state = Send_queued | Send_sending | Send_sent | Send_failed

record client_time =
  ct_text :: string
  ct_instant :: "instant option"

record send_row =
  ps_server_send_id :: string
  ps_client_send_id :: string
  ps_user_id :: string
  ps_gmail_account_id :: string
  ps_send_type :: string
  ps_mailbox_thread_id :: "string option"
  ps_gmail_thread_id :: "string option"
  ps_to :: "string list"
  ps_cc :: "string list"
  ps_bcc :: "string list"
  ps_subject :: string
  ps_body_text :: string
  ps_body_html :: "string option"
  ps_headers :: "(string \<times> json) list"
  ps_attachments :: "(string \<times> string) list list"
  ps_request_hash :: string
  ps_state :: send_state
  ps_created_at :: instant
  ps_queued_at :: instant
  ps_sent_at :: "instant option"
  ps_gmail_message_id :: "string option"
  ps_error :: "string option"
  ps_updated_at :: instant

record send_db = job_db +
  gmail_pending_sends :: "send_row list"

record send_request =
  sr_client_send_id :: string
  sr_send_type :: string
  sr_mailbox_thread_id :: "string option"
  sr_gmail_thread_id :: "string option"
  sr_to :: "string list"
  sr_cc :: "string list"
  sr_bcc :: "string list"
  sr_subject :: string
  sr_body_text :: string
  sr_body_html :: "string option"
  sr_headers :: "(string \<times> json) list"
  sr_attachments :: "(string \<times> string) list list"
  sr_created_at :: client_time

section \<open>Request hashes\<close>

definition jstrs :: "string list \<Rightarrow> json" where
  "jstrs xs = JArr (map JStr xs)"

definition attachments_json :: "(string \<times> string) list list \<Rightarrow> json" where
  "attachments_json xs = JArr (map (\<lambda>d. JObj (map (\<lambda>(k, v). (k, JStr v)) d)) xs)"

definition send_request_fields :: "send_request \<Rightarrow> (string \<times> json) list" where
  "send_request_fields rq =
     [(''send_type'', JStr (sr_send_type rq)),
      (''mailbox_thread_id'', jstr_opt (sr_mailbox_thread_id rq)),
      (''gmail_thread_id'', jstr_opt (sr_gmail_thread_id rq)),
      (''to'', jstrs (sr_to rq)), (''cc'', jstrs (sr_cc rq)), (''bcc'', jstrs (sr_bcc rq)),
      (''subject'', JStr (sr_subject rq)), (''body_text'', JStr (sr_body_text rq)),
      (''body_html'', jstr_opt (sr_body_html rq)), (''headers'', JObj (sr_headers rq)),
      (''attachments'', attachments_json (sr_attachments rq))]"

definition pending_send_request_hash :: "send_request \<Rightarrow> string" where
  "pending_send_request_hash rq =
     sha256_hex (json_dumps_canonical
       (JObj (send_request_fields rq @ [(''created_at'', JStr (ct_text (sr_created_at rq)))])))"

text \<open>The account-scoped hash leaves the timestamp out.\<close>

definition account_send_request_hash :: "send_request \<Rightarrow> string" where
  "account_send_request_hash rq = sha256_hex (json_dumps_canonical (JObj (send_request_fields rq)))"

section \<open>Decoding rows\<close>

definition nonblank :: "string list \<Rightarrow> string list" where
  "nonblank xs = filter (\<lambda>s. strip s \<noteq> '''') xs"

text \<open>\<open>_pending_send_from_row\<close> drops blank recipients and leaves the account id unset.\<close>

definition pending_send_from_row :: "send_row \<Rightarrow> send_row" where
  "pending_send_from_row r =
     r\<lparr>ps_gmail_account_id := '''', ps_to := nonblank (ps_to r), ps_cc := nonblank (ps_cc r),
       ps_bcc := nonblank (ps_bcc r)\<rparr>"

section \<open>Submitting\<close>

definition new_send_row :: "instant \<Rightarrow> string \<Rightarrow> string \<Rightarrow> string \<Rightarrow> string \<Rightarrow> instant \<Rightarrow> send_request \<Rightarrow> send_row" where
  "new_send_row now server_id user account hash created rq =
     \<lparr>ps_server_send_id = server_id, ps_client_send_id = sr_client_send_id rq, ps_user_id = user,
      ps_gmail_account_id = account, ps_send_type = sr_send_type rq,
      ps_mailbox_thread_id = sr_mailbox_thread_id rq, ps_gmail_thread_id = sr_gmail_thread_id rq,
      ps_to = sr_to rq, ps_cc = sr_cc rq, ps_bcc = sr_bcc rq, ps_subject = sr_subject rq,
      ps_body_text = sr_body_text rq, ps_body_html = sr_body_html rq, ps_headers = sr_headers rq,
      ps_attachments = sr_attachments rq, ps_request_hash = hash, ps_state = Send_queued,
      ps_created_at = created, ps_queued_at = now, ps_sent_at = None, ps_gmail_message_id = None,
      ps_error = None, ps_updated_at = now\<rparr>"

text \<open>The comparison for rows written before request hashes existed; \<open>JSONB\<close> ignores key order.\<close>

definition same_legacy_request :: "send_row \<Rightarrow> instant \<Rightarrow> send_request \<Rightarrow> bool" where
  "same_legacy_request r created rq \<longleftrightarrow>
     ps_request_hash r = '''' \<and> ps_send_type r = sr_send_type rq
     \<and> ps_mailbox_thread_id r = sr_mailbox_thread_id rq
     \<and> ps_gmail_thread_id r = sr_gmail_thread_id rq
     \<and> ps_to r = sr_to rq \<and> ps_cc r = sr_cc rq \<and> ps_bcc r = sr_bcc rq
     \<and> ps_subject r = sr_subject rq \<and> ps_body_text r = sr_body_text rq
     \<and> ps_body_html r = sr_body_html rq
     \<and> json_sort_keys (JObj (ps_headers r)) = json_sort_keys (JObj (sr_headers rq))
     \<and> json_sort_keys (attachments_json (ps_attachments r)) = json_sort_keys (attachments_json (sr_attachments rq))
     \<and> ps_created_at r = created"

definition with_hash :: "string \<Rightarrow> send_row \<Rightarrow> send_row" where
  "with_hash hash r = (if ps_request_hash r = '''' then r\<lparr>ps_request_hash := hash\<rparr> else r)"

text \<open>
  The \<open>INSERT .. ON CONFLICT (gmail_account_id, client_send_id) DO UPDATE .. WHERE ..\<close>
  of one submission; \<open>Inr None\<close> when the conflicting row is another request. A
  value that is no timestamp is a database error, a server id that exists
  violates the primary key.
\<close>

definition insert_send ::
    "instant \<Rightarrow> string \<Rightarrow> string \<Rightarrow> connection \<Rightarrow> send_request \<Rightarrow> ('a send_db_scheme, send_row option) eff" where
  "insert_send now server_id user conn rq db =
     (let hash = pending_send_request_hash rq in
      case (ct_instant (sr_created_at rq), scoped_account db conn user) of
        (None, _) \<Rightarrow> (Inl (OtherError ''DataError''), db)
      | (Some created, None) \<Rightarrow> (Inl IntegrityError, db)
      | (Some created, Some account) \<Rightarrow>
          if list_ex (\<lambda>r. ps_server_send_id r = server_id) (gmail_pending_sends db)
          then (Inl IntegrityError, db)
          else (case select_first (\<lambda>r. ps_gmail_account_id r = account
                    \<and> ps_client_send_id r = sr_client_send_id rq) (gmail_pending_sends db) of
                  None \<Rightarrow>
                    (let new = new_send_row now server_id user account hash created rq
                     in (Inr (Some new), db\<lparr>gmail_pending_sends := gmail_pending_sends db @ [new]\<rparr>))
                | Some old \<Rightarrow>
                    if ps_request_hash old = hash \<or> same_legacy_request old created rq
                    then (Inr (Some (with_hash hash old)),
                          db\<lparr>gmail_pending_sends :=
                            update_where (\<lambda>r. ps_gmail_account_id r = account
                              \<and> ps_client_send_id r = sr_client_send_id rq) (with_hash hash) (gmail_pending_sends db)\<rparr>)
                    else (Inr None, db)))"

definition upsert_pending_send ::
    "instant \<Rightarrow> string \<Rightarrow> string \<Rightarrow> send_request \<Rightarrow> ('a send_db_scheme, send_row) eff" where
  "upsert_pending_send now server_id user rq =
     ebind (user_mail_write_transaction user None (\<lambda>conn. insert_send now server_id user conn rq))
       (\<lambda>row. case row of None \<Rightarrow> eraise MailSendIdempotencyConflict
                | Some r \<Rightarrow> ereturn (pending_send_from_row r))"

section \<open>Reading and claiming\<close>

definition own_send :: "'a send_db_scheme \<Rightarrow> connection \<Rightarrow> string \<Rightarrow> string \<Rightarrow> send_row \<Rightarrow> bool" where
  "own_send db conn user server_id r \<longleftrightarrow>
     ps_user_id r = user \<and> ps_server_send_id r = server_id
     \<and> row_visible db conn user (ps_gmail_account_id r)"

definition get_pending_send :: "'a send_db_scheme \<Rightarrow> string \<Rightarrow> string \<Rightarrow> send_row option" where
  "get_pending_send db user server_id =
     map_option pending_send_from_row
       (select_first (own_send db (begin_connection db) user server_id) (gmail_pending_sends db))"

text \<open>\<open>ORDER BY updated_at DESC, server_send_id DESC LIMIT max(1, min(limit, 200))\<close>\<close>

definition list_outbox_sends :: "'a send_db_scheme \<Rightarrow> string \<Rightarrow> int \<Rightarrow> send_row list" where
  "list_outbox_sends db user limit =
     map pending_send_from_row (limit_rows (max 1 (min limit 200))
       (rev (sort_key (\<lambda>r. (ps_updated_at r, ps_server_send_id r))
         (filter (\<lambda>r. ps_user_id r = user \<and> ps_state r \<noteq> Send_sent
            \<and> row_visible db (begin_connection db) user (ps_gmail_account_id r)) (gmail_pending_sends db)))))"

definition update_sends ::
    "(send_row \<Rightarrow> bool) \<Rightarrow> (send_row \<Rightarrow> send_row) \<Rightarrow> ('a send_db_scheme, send_row option) eff" where
  "update_sends p f db =
     (Inr (row_first (returning p f (gmail_pending_sends db))),
      db\<lparr>gmail_pending_sends := update_where p f (gmail_pending_sends db)\<rparr>)"

definition set_send_state :: "instant \<Rightarrow> send_state \<Rightarrow> string option \<Rightarrow> send_row \<Rightarrow> send_row" where
  "set_send_state now state error r = r\<lparr>ps_state := state, ps_error := error, ps_updated_at := now\<rparr>"

definition claim_pending_send :: "instant \<Rightarrow> string \<Rightarrow> string \<Rightarrow> ('a send_db_scheme, send_row option) eff" where
  "claim_pending_send now user server_id =
     ebind (user_mail_write_transaction user None (\<lambda>conn db.
        update_sends (\<lambda>r. own_send db conn user server_id r
            \<and> (ps_state r = Send_queued \<or> ps_state r = Send_failed))
          (set_send_state now Send_sending None) db))
       (\<lambda>row. ereturn (map_option pending_send_from_row row))"

definition update_pending_send_state ::
    "instant \<Rightarrow> string \<Rightarrow> string \<Rightarrow> send_state \<Rightarrow> string option \<Rightarrow> ('a send_db_scheme, send_row option) eff" where
  "update_pending_send_state now user server_id state error =
     ebind (user_mail_write_transaction user None (\<lambda>conn db.
        update_sends (own_send db conn user server_id) (set_send_state now state error) db))
       (\<lambda>row. ereturn (map_option pending_send_from_row row))"

definition mark_pending_send_queued ::
    "instant \<Rightarrow> string \<Rightarrow> string \<Rightarrow> string \<Rightarrow> ('a send_db_scheme, send_row option) eff" where
  "mark_pending_send_queued now user server_id error =
     update_pending_send_state now user server_id Send_queued (Some (take 4000 error))"

definition mark_pending_send_failed ::
    "instant \<Rightarrow> string \<Rightarrow> string \<Rightarrow> string \<Rightarrow> ('a send_db_scheme, send_row option) eff" where
  "mark_pending_send_failed now user server_id error =
     update_pending_send_state now user server_id Send_failed (Some (take 4000 error))"

text \<open>A sent record keeps its identity and hash but none of its content.\<close>

definition sent_row :: "instant \<Rightarrow> string option \<Rightarrow> string option \<Rightarrow> send_row \<Rightarrow> send_row" where
  "sent_row now message_id thread_id r =
     r\<lparr>ps_state := Send_sent, ps_gmail_message_id := message_id,
       ps_gmail_thread_id := coalesce thread_id (ps_gmail_thread_id r),
       ps_to := [], ps_cc := [], ps_bcc := [], ps_subject := '''', ps_body_text := '''',
       ps_body_html := None, ps_headers := [], ps_attachments := [], ps_sent_at := Some now,
       ps_error := None, ps_updated_at := now\<rparr>"

definition mark_pending_send_sent ::
    "instant \<Rightarrow> string \<Rightarrow> string \<Rightarrow> string option \<Rightarrow> string option \<Rightarrow> ('a send_db_scheme, send_row option) eff" where
  "mark_pending_send_sent now user server_id message_id thread_id =
     ebind (user_mail_write_transaction user None (\<lambda>conn db.
        update_sends (own_send db conn user server_id) (sent_row now message_id thread_id) db))
       (\<lambda>row. ereturn (map_option pending_send_from_row row))"

section \<open>Account-scoped sends\<close>

text \<open>
  These statements name the account, and row-level security must agree with it.
  The decoder keeps every field of the row.
\<close>

definition own_account_send ::
    "'a send_db_scheme \<Rightarrow> connection \<Rightarrow> string \<Rightarrow> string \<Rightarrow> string \<Rightarrow> send_row \<Rightarrow> bool" where
  "own_account_send db conn user account server_id r \<longleftrightarrow>
     ps_user_id r = user \<and> ps_gmail_account_id r = account \<and> ps_server_send_id r = server_id
     \<and> row_visible db conn user (ps_gmail_account_id r)"

definition insert_account_send ::
    "instant \<Rightarrow> string \<Rightarrow> string \<Rightarrow> string \<Rightarrow> send_request \<Rightarrow> ('a send_db_scheme, send_row) eff" where
  "insert_account_send now server_id user account rq db =
     (case ct_instant (sr_created_at rq) of
        None \<Rightarrow> (Inl (OtherError ''DataError''), db)
      | Some created \<Rightarrow>
          if list_ex (\<lambda>r. ps_server_send_id r = server_id) (gmail_pending_sends db)
          then (Inl IntegrityError, db)
          else (case select_first (\<lambda>r. ps_gmail_account_id r = account
                    \<and> ps_client_send_id r = sr_client_send_id rq) (gmail_pending_sends db) of
                  None \<Rightarrow>
                    (let new = new_send_row now server_id user account (account_send_request_hash rq) created rq
                     in (Inr new, db\<lparr>gmail_pending_sends := gmail_pending_sends db @ [new]\<rparr>))
                | Some old \<Rightarrow>
                    if ps_user_id old = user then (Inr old, db)
                    else (Inl (RuntimeError ''Failed to persist account-scoped send''), db)))"

definition create_or_get_send ::
    "instant \<Rightarrow> string \<Rightarrow> string \<Rightarrow> string \<Rightarrow> send_request \<Rightarrow> ('a send_db_scheme, send_row) eff" where
  "create_or_get_send now server_id user account rq =
     ebind (user_mail_write_transaction user (Some account)
              (\<lambda>_. insert_account_send now server_id user account rq))
       (\<lambda>r. if ps_request_hash r \<noteq> '''' \<and> ps_request_hash r \<noteq> account_send_request_hash rq
            then eraise AccountWriteIdempotencyConflict else ereturn r)"

definition get_account_send :: "'a send_db_scheme \<Rightarrow> string \<Rightarrow> string \<Rightarrow> string \<Rightarrow> send_row option" where
  "get_account_send db user account server_id =
     select_first (own_account_send db (begin_connection db) user account server_id) (gmail_pending_sends db)"

definition list_account_sends :: "'a send_db_scheme \<Rightarrow> string \<Rightarrow> string \<Rightarrow> int \<Rightarrow> send_row list" where
  "list_account_sends db user account limit =
     limit_rows (max 1 (min limit 200))
       (rev (sort_key ps_updated_at
         (filter (\<lambda>r. ps_user_id r = user \<and> ps_gmail_account_id r = account \<and> ps_state r \<noteq> Send_sent
            \<and> row_visible db (begin_connection db) user (ps_gmail_account_id r)) (gmail_pending_sends db))))"

definition account_send_row ::
    "instant \<Rightarrow> send_state \<Rightarrow> string option \<Rightarrow> string option \<Rightarrow> string option \<Rightarrow> send_row \<Rightarrow> send_row" where
  "account_send_row now state error message_id thread_id r =
     r\<lparr>ps_state := state, ps_error := error,
       ps_gmail_message_id := coalesce message_id (ps_gmail_message_id r),
       ps_gmail_thread_id := coalesce thread_id (ps_gmail_thread_id r),
       ps_sent_at := (if state = Send_sent then Some now else ps_sent_at r), ps_updated_at := now\<rparr>"

definition update_send ::
    "instant \<Rightarrow> string \<Rightarrow> string \<Rightarrow> string \<Rightarrow> send_state \<Rightarrow> string option \<Rightarrow> string option \<Rightarrow> string option
      \<Rightarrow> ('a send_db_scheme, send_row option) eff" where
  "update_send now user account server_id state error message_id thread_id =
     user_mail_write_transaction user (Some account) (\<lambda>conn db.
        update_sends (own_account_send db conn user account server_id)
          (account_send_row now state error message_id thread_id) db)"

end
