(* ===== verification/Send_Identity.thy ===== *)
theory Send_Identity
  imports Send_Store
begin

text \<open>
  The submissions of both send interfaces are keyed submissions: a client send id
  names one durable send per Gmail account.
\<close>

definition send_key :: "send_row \<Rightarrow> string option \<times> string" where
  "send_key r = (Some (ps_gmail_account_id r), ps_client_send_id r)"

definition send_keys_unique :: "'a send_db_scheme \<Rightarrow> bool" where
  "send_keys_unique db \<longleftrightarrow> distinct (map send_key (gmail_pending_sends db))"

lemma key_lookup:
  assumes "distinct (map send_key rows)" and "old \<in> set rows"
  shows "select_first (\<lambda>r. ps_gmail_account_id r = ps_gmail_account_id old
           \<and> ps_client_send_id r = ps_client_send_id old) rows = Some old"
proof (rule select_first_unique [OF assms(1,2)])
  show "\<And>r'. ps_gmail_account_id r' = ps_gmail_account_id old \<and> ps_client_send_id r' = ps_client_send_id old
      \<Longrightarrow> send_key r' = send_key old"
    by (simp add: send_key_def)
qed simp

lemma key_update:
  assumes "distinct (map send_key rows)" and "old \<in> set rows" and "r = f old" and "send_key r = send_key old"
  shows "update_where (\<lambda>x. ps_gmail_account_id x = ps_gmail_account_id old
           \<and> ps_client_send_id x = ps_client_send_id old) f rows
       = map (\<lambda>x. if send_key x = send_key r then r else x) rows"
proof -
  have "x = old" if "x \<in> set rows" "send_key x = send_key old" for x
    using assms(1,2) that by (metis distinct_map inj_onD)
  then show ?thesis
    using assms(3,4) by (auto simp: update_where_def send_key_def)
qed

lemma map_if_same_key:
  assumes "distinct (map k rows)" and "old \<in> set rows"
  shows "map (\<lambda>x. if k x = k old then old else x) rows = rows"
proof (rule map_idI)
  fix x assume "x \<in> set rows"
  then show "(if k x = k old then old else x) = x" using assms by (metis distinct_map inj_onD)
qed

definition submit_send ::
    "instant \<times> string \<times> string \<times> connection \<times> send_request \<Rightarrow> ('a send_db_scheme, send_row) eff" where
  "submit_send = (\<lambda>(now, server_id, user, conn, rq).
     ebind (insert_send now server_id user conn rq)
       (\<lambda>row. case row of None \<Rightarrow> eraise MailSendIdempotencyConflict | Some r \<Rightarrow> ereturn r))"

lemma with_hash_key [simp]: "send_key (with_hash h r) = send_key r"
    "ps_server_send_id (with_hash h r) = ps_server_send_id r"
  by (simp_all add: with_hash_def send_key_def)

lemma insert_send_cases:
  assumes "insert_send now server_id user conn rq db = (res, db')"
  obtains (error) e where "res = Inl e" "db' = db"
  | (conflict) "res = Inr None" "db' = db"
  | (added) new account where "scoped_account db conn user = Some account" "res = Inr (Some new)"
      "db' = db\<lparr>gmail_pending_sends := gmail_pending_sends db @ [new]\<rparr>"
      "send_key new = (Some account, sr_client_send_id rq)" "ps_server_send_id new = server_id"
      "\<forall>r \<in> set (gmail_pending_sends db). send_key r \<noteq> send_key new"
      "ps_state new = Send_queued" "ps_error new = None"
      "\<forall>r \<in> set (gmail_pending_sends db). ps_server_send_id r \<noteq> server_id"
  | (found) old account where "scoped_account db conn user = Some account"
      "old \<in> set (gmail_pending_sends db)" "send_key old = (Some account, sr_client_send_id rq)"
      "res = Inr (Some (with_hash (pending_send_request_hash rq) old))"
      "db' = db\<lparr>gmail_pending_sends := update_where (\<lambda>r. ps_gmail_account_id r = ps_gmail_account_id old
          \<and> ps_client_send_id r = ps_client_send_id old) (with_hash (pending_send_request_hash rq)) (gmail_pending_sends db)\<rparr>"
proof -
  let ?hash = "pending_send_request_hash rq"
  show thesis
  proof (cases "ct_instant (sr_created_at rq)")
    case None
    with assms error show thesis by (auto simp: insert_send_def Let_def)
  next
    case (Some created)
    note time = Some
    show thesis
    proof (cases "scoped_account db conn user")
      case None
      with time assms error show thesis by (auto simp: insert_send_def Let_def)
    next
      case (Some account)
      show thesis
      proof (cases "list_ex (\<lambda>r. ps_server_send_id r = server_id) (gmail_pending_sends db)")
        case True
        with time Some assms error show thesis by (auto simp: insert_send_def Let_def)
      next
        case fresh: False
        show thesis
        proof (cases "select_first (\<lambda>r. ps_gmail_account_id r = account
            \<and> ps_client_send_id r = sr_client_send_id rq) (gmail_pending_sends db)")
          case None
          let ?new = "new_send_row now server_id user account ?hash created rq"
          have "res = Inr (Some ?new)" "db' = db\<lparr>gmail_pending_sends := gmail_pending_sends db @ [?new]\<rparr>"
            using None time Some assms fresh by (simp_all add: insert_send_def Let_def)
          moreover have "\<forall>r \<in> set (gmail_pending_sends db). send_key r \<noteq> (Some account, sr_client_send_id rq)"
            using None by (auto simp: select_first_None send_key_def)
          moreover have "\<forall>r \<in> set (gmail_pending_sends db). ps_server_send_id r \<noteq> server_id"
            using fresh by (auto simp: list_ex_iff)
          ultimately show thesis
            using added [of account ?new] Some by (simp add: new_send_row_def send_key_def)
        next
          case row: (Some old)
          from select_first_Some [OF row]
          have old: "old \<in> set (gmail_pending_sends db)" "ps_gmail_account_id old = account"
              "ps_client_send_id old = sr_client_send_id rq" by auto
          show thesis
          proof (cases "ps_request_hash old = ?hash \<or> same_legacy_request old created rq")
            case True
            show thesis
              by (rule found [of account old])
                (use True row old time Some assms fresh in \<open>auto simp: insert_send_def Let_def send_key_def\<close>)
          next
            case False
            with row time Some assms fresh conflict show thesis by (auto simp: insert_send_def Let_def)
          qed
        qed
      qed
    qed
  qed
qed

interpretation sends: keyed_submission gmail_pending_sends send_key ps_server_send_id
    "\<lambda>db (now, server_id, user, conn, rq). (scoped_account db conn user, sr_client_send_id rq)" submit_send
proof
  fix q s r s'
  assume unique: "distinct (map send_key (gmail_pending_sends s))" and run: "submit_send q s = (Inr r, s')"
  obtain now server_id user conn rq where q: "q = (now, server_id, user, conn, rq)" by (cases q)
  obtain res s1 where ins: "insert_send now server_id user conn rq s = (res, s1)"
    by (cases "insert_send now server_id user conn rq s")
  from run have res: "res = Inr (Some r)" "s1 = s'"
    by (auto simp: q submit_send_def ebind_apply ins split: outcome_splits option.splits)
  show "send_key r = (case q of (now, server_id, user, conn, rq) \<Rightarrow> (scoped_account s conn user, sr_client_send_id rq))
      \<and> ((\<exists>old\<in>set (gmail_pending_sends s). send_key old = send_key r \<and> ps_server_send_id old = ps_server_send_id r
            \<and> gmail_pending_sends s' = map (\<lambda>x. if send_key x = send_key r then r else x) (gmail_pending_sends s))
         \<or> ((\<forall>x\<in>set (gmail_pending_sends s). send_key x \<noteq> send_key r)
            \<and> gmail_pending_sends s' = gmail_pending_sends s @ [r]))"
    using ins
  proof (cases rule: insert_send_cases)
    case (added new account)
    with res have "r = new" "s' = s\<lparr>gmail_pending_sends := gmail_pending_sends s @ [new]\<rparr>" by simp_all
    with added q show ?thesis by simp
  next
    case (found old account)
    with res have r: "r = with_hash (pending_send_request_hash rq) old" by simp
    then have key: "send_key r = send_key old" by simp
    from key_update [OF unique found(2), of r "with_hash (pending_send_request_hash rq)", OF r key] found res r q
    show ?thesis by force
  qed (use res in simp_all)
next
  fix q s e s'
  assume run: "submit_send q s = (Inl e, s')"
  obtain now server_id user conn rq where q: "q = (now, server_id, user, conn, rq)" by (cases q)
  obtain res s1 where ins: "insert_send now server_id user conn rq s = (res, s1)"
    by (cases "insert_send now server_id user conn rq s")
  from run have res: "res = Inl e \<or> res = Inr None" "s1 = s'"
    by (auto simp: q submit_send_def ebind_apply ins split: outcome_splits option.splits)
  from ins show "gmail_pending_sends s' = gmail_pending_sends s"
    by (cases rule: insert_send_cases) (use res in auto)
qed

definition submit_account_send ::
    "instant \<times> string \<times> string \<times> string \<times> send_request \<Rightarrow> ('a send_db_scheme, send_row) eff" where
  "submit_account_send = (\<lambda>(now, server_id, user, account, rq). insert_account_send now server_id user account rq)"

interpretation account_sends: keyed_submission gmail_pending_sends send_key ps_server_send_id
    "\<lambda>db (now, server_id, user, account, rq). (Some account, sr_client_send_id rq)" submit_account_send
proof
  fix q s r s'
  assume unique: "distinct (map send_key (gmail_pending_sends s))" and run: "submit_account_send q s = (Inr r, s')"
  obtain now server_id user account rq where q: "q = (now, server_id, user, account, rq)" by (cases q)
  let ?p = "\<lambda>r. ps_gmail_account_id r = account \<and> ps_client_send_id r = sr_client_send_id rq"
  show "send_key r = (case q of (now, server_id, user, account, rq) \<Rightarrow> (Some account, sr_client_send_id rq))
      \<and> ((\<exists>old\<in>set (gmail_pending_sends s). send_key old = send_key r \<and> ps_server_send_id old = ps_server_send_id r
            \<and> gmail_pending_sends s' = map (\<lambda>x. if send_key x = send_key r then r else x) (gmail_pending_sends s))
         \<or> ((\<forall>x\<in>set (gmail_pending_sends s). send_key x \<noteq> send_key r)
            \<and> gmail_pending_sends s' = gmail_pending_sends s @ [r]))"
  proof (cases "select_first ?p (gmail_pending_sends s)")
    case None
    with run obtain created where "r = new_send_row now server_id user account (account_send_request_hash rq) created rq"
        "gmail_pending_sends s' = gmail_pending_sends s @ [r]"
      by (auto simp: q submit_account_send_def insert_account_send_def Let_def split: option.splits if_splits)
    moreover have "\<forall>x \<in> set (gmail_pending_sends s). send_key x \<noteq> (Some account, sr_client_send_id rq)"
      using None by (auto simp: select_first_None send_key_def)
    ultimately show ?thesis by (simp add: q new_send_row_def send_key_def)
  next
    case (Some old)
    from select_first_Some [OF Some] have old: "old \<in> set (gmail_pending_sends s)" "?p old" by auto
    from run Some have "r = old" "s' = s"
      by (auto simp: q submit_account_send_def insert_account_send_def split: option.splits if_splits)
    with old map_if_same_key [OF unique old(1)] show ?thesis by (auto simp: q send_key_def)
  qed
next
  fix q s e s'
  assume "submit_account_send q s = (Inl e, s')"
  then show "gmail_pending_sends s' = gmail_pending_sends s"
    by (cases q) (auto simp: submit_account_send_def insert_account_send_def Let_def split: option.splits if_splits)
qed

section \<open>Properties\<close>

text \<open>C15: a client send id names one immutable email. When the visible account already
  holds a send under the client id, whatever became of it (also when it was sent and
  its content erased), \<open>upsert_pending_send\<close> changes nothing: the same request gets the
  stored send with its server id back, any other request is refused with
  \<open>MailSendIdempotencyConflict\<close>.\<close>

theorem send_identity_is_immutable:
  assumes "send_keys_unique db" and "guard_passes db user None"
    and "old \<in> set (gmail_pending_sends db)" and "ps_request_hash old \<noteq> ''''"
    and "scoped_account db (guard_connection db user None) user = Some (ps_gmail_account_id old)"
    and "ps_client_send_id old = sr_client_send_id rq" and "ct_instant (sr_created_at rq) \<noteq> None"
    and "\<forall>r \<in> set (gmail_pending_sends db). ps_server_send_id r \<noteq> server_id"
  shows "upsert_pending_send now server_id user rq db =
    (if ps_request_hash old = pending_send_request_hash rq
     then Inr (pending_send_from_row old) else Inl MailSendIdempotencyConflict, db)"
proof -
  have unique: "distinct (map send_key (gmail_pending_sends db))" using assms(1) by (simp add: send_keys_unique_def)
  note lookup = key_lookup [OF unique assms(3), unfolded assms(6)]
  have fresh: "\<not> list_ex (\<lambda>r. ps_server_send_id r = server_id) (gmail_pending_sends db)"
    using assms(8) by (simp add: list_ex_iff)
  have hash: "with_hash h old = old" for h using assms(4) by (simp add: with_hash_def)
  have same: "update_where (\<lambda>r. ps_gmail_account_id r = ps_gmail_account_id old \<and> ps_client_send_id r = ps_client_send_id old)
      (with_hash h) (gmail_pending_sends db) = gmail_pending_sends db" for h
    using key_update [OF unique assms(3) refl, of "with_hash h"] map_if_same_key [OF unique assms(3)]
    unfolding hash by simp
  have legacy: "\<not> same_legacy_request old c rq" for c using assms(4) by (simp add: same_legacy_request_def)
  from assms(7) obtain created where "ct_instant (sr_created_at rq) = Some created" by blast
  with assms(2,5) lookup fresh hash legacy same [unfolded assms(6)] show ?thesis
    by (simp add: upsert_pending_send_def ebind_apply write_transaction_passes etransaction_apply insert_send_def Let_def)
qed

text \<open>A connected user with one ready Gmail account.\<close>

definition sample_user :: user_row where
  "sample_user = \<lparr>usr_id = ''u1'', usr_email = ''u1@x.org'', usr_display_name = None, usr_google_sub = ''g1'', access_enabled = True,
     google_disconnected_at = None, google_data_delete_requested_at = None,
     google_data_deleted_at = None, primary_gmail_account_id = ''u1'',
     usr_created_at = 0, usr_updated_at = 0\<rparr>"

definition sample_token :: token_row where
  "sample_token = \<lparr>tok_user_id = ''u1'', tok_gmail_account_id = ''u1'', token_json_encrypted = ''t'', tok_updated_at = 0\<rparr>"

definition sample_account :: account_row where
  "sample_account = \<lparr>acc_id = ''u1'', acc_user_id = ''u1'', acc_email = ''u1@x.org'', acc_display_name = None,
     acc_google_sub = ''g1'', acc_state = Ready,
     acc_initial_ready_at = Some 0, acc_disconnected_at = None, acc_delete_requested_at = None,
     acc_deleted_at = None, acc_created_at = 0, acc_updated_at = 0\<rparr>"

definition sample_request :: send_request where
  "sample_request = \<lparr>sr_client_send_id = ''c1'', sr_send_type = ''compose'', sr_mailbox_thread_id = None,
     sr_gmail_thread_id = None, sr_to = [''a@x.org''], sr_cc = [], sr_bcc = [], sr_subject = ''Hi'',
     sr_body_text = ''Hello'', sr_body_html = None, sr_headers = [], sr_attachments = [],
     sr_created_at = \<lparr>ct_text = ''2026-01-01'', ct_instant = Some 0\<rparr>\<rparr>"

definition sample_send :: send_row where
  "sample_send = new_send_row 0 ''s1'' ''u1'' ''u1'' (pending_send_request_hash sample_request) 0 sample_request"

definition sample_send_db :: "send_row list \<Rightarrow> send_db" where
  "sample_send_db rows = \<lparr>users = [sample_user], google_oauth_tokens = [sample_token],
     gmail_accounts = [sample_account], advisory_locks = [], next_session = 0, active_lock_session = None,
     active_gmail_account = None, app_sessions = [], oauth_login_sessions = [], mobile_login_codes = [],
     mobile_oauth_handoffs = [], google_subject_tombstones = [], identity_epoch = 0, rate_limit_buckets = [],
     allowed_emails = [], migration_audits = [], background_jobs = [], background_job_events = [], worker_heartbeats = [],
     gmail_pending_sends = rows\<rparr>"

lemmas sample_simps = sample_user_def sample_token_def sample_account_def sample_send_db_def

lemma sample_guard: "guard_passes (sample_send_db rows) ''u1'' None"
  by (simp add: sample_simps guard_passes_def exclusively_held_def user_mail_work_allowed_def)

lemma sample_scope:
  "scoped_account (sample_send_db rows) (guard_connection (sample_send_db rows) ''u1'' None) ''u1'' = Some ''u1''"
  by (simp add: sample_simps scoped_account_def guard_connection_def primary_account_def nonempty_def)

theorem send_identity_is_immutable_witness:
  "upsert_pending_send 9 ''s2'' ''u1'' sample_request (sample_send_db [sample_send\<lparr>ps_state := Send_sent\<rparr>])
     = (Inr (pending_send_from_row (sample_send\<lparr>ps_state := Send_sent\<rparr>)),
        sample_send_db [sample_send\<lparr>ps_state := Send_sent\<rparr>])"
proof -
  let ?old = "sample_send\<lparr>ps_state := Send_sent\<rparr>"
  have "send_keys_unique (sample_send_db [?old])" "?old \<in> set (gmail_pending_sends (sample_send_db [?old]))"
      "\<forall>r \<in> set (gmail_pending_sends (sample_send_db [?old])). ps_server_send_id r \<noteq> ''s2''"
      "ps_request_hash ?old = pending_send_request_hash sample_request"
      "ps_request_hash ?old \<noteq> ''''" "ps_gmail_account_id ?old = ''u1''"
      "ps_client_send_id ?old = sr_client_send_id sample_request" "ct_instant (sr_created_at sample_request) \<noteq> None"
    by (simp_all add: send_keys_unique_def sample_send_db_def sample_send_def new_send_row_def
        pending_send_request_hash_def sample_request_def)
  with send_identity_is_immutable [of "sample_send_db [?old]" "''u1''" ?old sample_request "''s2''" 9]
    sample_guard [of "[?old]"] sample_scope [of "[?old]"]
  show ?thesis by simp
qed

end
