(* ===== verification/Error_Safety.thy ===== *)
theory Error_Safety
  imports Py_Encoding
begin

text \<open>
  \<open>backend/app/core/error_safety.py\<close> and the classification of Google errors in
  \<open>services/mailbox_sends.py\<close>: error texts that carry a category only, and which
  HTTP statuses settle the fate of a delivery.
\<close>

definition external_error_status :: "exn \<Rightarrow> int option" where
  "external_error_status e = (case e of HttpError status \<Rightarrow> status | _ \<Rightarrow> None)"

text \<open>The class name of an exception, and the classes below \<open>OSError\<close> that the code can meet.\<close>

definition exn_name :: "exn \<Rightarrow> string" where
  "exn_name e =
     (case e of
        UserMailWorkBlocked \<Rightarrow> ''UserMailWorkBlocked''
      | AdvisoryLockUnavailable \<Rightarrow> ''AdvisoryLockUnavailable''
      | ValueError _ \<Rightarrow> ''ValueError''
      | RuntimeError _ \<Rightarrow> ''RuntimeError''
      | LookupError _ \<Rightarrow> ''LookupError''
      | KeyError \<Rightarrow> ''KeyError''
      | TypeError \<Rightarrow> ''TypeError''
      | IntegrityError \<Rightarrow> ''IntegrityError''
      | GoogleCredentialsUnavailable \<Rightarrow> ''GoogleCredentialsUnavailable''
      | HttpError _ \<Rightarrow> ''HttpError''
      | TimeoutError \<Rightarrow> ''TimeoutError''
      | ConnectionError \<Rightarrow> ''ConnectionError''
      | MultipleSentGmailMessagesFound \<Rightarrow> ''MultipleSentGmailMessagesFound''
      | MailSendConfirmationPending \<Rightarrow> ''MailSendConfirmationPending''
      | MailSendIdempotencyConflict \<Rightarrow> ''MailSendIdempotencyConflict''
      | AccountWriteIdempotencyConflict \<Rightarrow> ''AccountWriteIdempotencyConflict''
      | ThreadActionIdempotencyConflict \<Rightarrow> ''ThreadActionIdempotencyConflict''
      | HTTPException _ _ \<Rightarrow> ''HTTPException''
      | OtherError name \<Rightarrow> name)"

definition os_error_classes :: "string list" where
  "os_error_classes = [''OSError'', ''SSLError'', ''SSLEOFError'', ''SSLZeroReturnError'', ''gaierror'', ''herror'',
     ''BrokenPipeError'', ''ConnectionResetError'', ''ConnectionRefusedError'', ''ConnectionAbortedError'',
     ''BlockingIOError'', ''InterruptedError'', ''PermissionError'', ''FileNotFoundError'']"

definition is_os_error :: "exn \<Rightarrow> bool" where
  "is_os_error e \<longleftrightarrow> e = TimeoutError \<or> e = ConnectionError
     \<or> (case e of OtherError name \<Rightarrow> name \<in> set os_error_classes | _ \<Rightarrow> False)"

definition safe_google_error :: "string \<Rightarrow> exn \<Rightarrow> string" where
  "safe_google_error operation e =
     (if e = GoogleCredentialsUnavailable
      then ''Google authorization expired or was revoked. Please sign in again.''
      else (case external_error_status e of
              Some n \<Rightarrow>
                if n = 401 \<or> n = 403 then ''Google authorization expired or lacks permission. Please sign in again.''
                else if n = 429 then ''Google '' @ operation @ '' is temporarily rate limited.''
                else if 500 \<le> n then ''Google '' @ operation @ '' is temporarily unavailable.''
                else ''Google '' @ operation @ '' failed.''
            | None \<Rightarrow>
                if is_os_error e then ''Google '' @ operation @ '' is temporarily unavailable.''
                else ''Google '' @ operation @ '' failed.''))"

definition safe_job_error :: "exn \<Rightarrow> string" where
  "safe_job_error e =
     exn_name e @ '': Background task failed''
     @ (case external_error_status e of None \<Rightarrow> '''' | Some n \<Rightarrow> '' (HTTP '' @ int_str n @ '')'') @ ''.''"

section \<open>The fate of a delivery\<close>

definition google_auth_http_statuses :: "int list" where
  "google_auth_http_statuses = [401, 403]"

definition ambiguous_google_http_statuses :: "int list" where
  "ambiguous_google_http_statuses = [408, 409, 425, 429]"

definition is_auth_status :: "int option \<Rightarrow> bool" where
  "is_auth_status status \<longleftrightarrow> (case status of None \<Rightarrow> False | Some n \<Rightarrow> n \<in> set google_auth_http_statuses)"

definition is_definite_google_client_rejection :: "int option \<Rightarrow> bool" where
  "is_definite_google_client_rejection status \<longleftrightarrow>
     (case status of None \<Rightarrow> False
      | Some n \<Rightarrow> 400 \<le> n \<and> n < 500 \<and> n \<notin> set google_auth_http_statuses
           \<and> n \<notin> set ambiguous_google_http_statuses)"

text \<open>The errors after which the code treats a message as not accepted by Gmail.\<close>

definition conclusive_refusal :: "exn \<Rightarrow> bool" where
  "conclusive_refusal e \<longleftrightarrow>
     e = GoogleCredentialsUnavailable
     \<or> (case e of HttpError status \<Rightarrow> is_auth_status status \<or> is_definite_google_client_rejection status
        | _ \<Rightarrow> False)"

text \<open>Texts for storage never contain the message of the exception.\<close>

lemma safe_errors_ignore_messages:
  "safe_google_error op (ValueError m) = safe_google_error op (ValueError m')"
  "safe_job_error (RuntimeError m) = safe_job_error (RuntimeError m')"
  by (simp_all add: safe_google_error_def safe_job_error_def external_error_status_def is_os_error_def exn_name_def)

end
