(* ===== verification/Send_Delivery.thy ===== *)
theory Send_Delivery
  imports Send_Identity Job_Invariants Error_Safety
begin

text \<open>
  \<open>backend/app/services/mailbox_sends.py\<close>, the delivery of a durable send: the
  request path (\<open>_send_or_queue\<close>, \<open>retry_send\<close>), the worker path
  (\<open>run_pending_send\<close>) and what they share (\<open>_perform_send_locked\<close>,
  \<open>_finalize_sent_message\<close>), with the provider search of
  \<open>services/integrations/google.py\<close>.

  The Gmail API, the MIME serializer, the scope check of the encrypted token and
  the best-effort projection refresh are arguments (record \<open>mail_services\<close>). A
  Gmail call is an effect on the whole state, so it may also stand for what other
  processes commit while the call is in flight. The transactions of one call
  share one time \<open>now\<close>.
\<close>

section \<open>Services\<close>

record mime_message =
  mm_headers :: "(string \<times> string) list"
  mm_text :: string
  mm_html :: "string option"
  mm_attachments :: "(string \<times> string) list list"

record 's mail_services =
  api_list_messages :: "string \<Rightarrow> ('s, json) eff"
  api_get_minimal :: "string \<Rightarrow> ('s, json) eff"
  api_send :: "string \<Rightarrow> string option \<Rightarrow> ('s, (string \<times> json) list) eff"
  serialize_message :: "mime_message \<Rightarrow> exn + string"
  missing_send_scopes :: "'s \<Rightarrow> string \<Rightarrow> string list"
  import_sent_message :: "string \<Rightarrow> string \<Rightarrow> ('s, unit) eff"
  refresh_after_send :: "string \<Rightarrow> send_row \<Rightarrow> string option \<Rightarrow> ('s, unit) eff"

section \<open>The RFC message\<close>

definition send_rfc822_message_id :: "string \<Rightarrow> string" where
  "send_rfc822_message_id server_id =
     ''<send.'' @ take 32 (sha256_hex server_id) @ ''@electronic-mail.local>''"

text \<open>\<open>{**headers, key: value}\<close>\<close>

definition dict_set :: "(string \<times> 'v) list \<Rightarrow> string \<Rightarrow> 'v \<Rightarrow> (string \<times> 'v) list" where
  "dict_set d k v =
     (if k \<in> set (map fst d) then map (\<lambda>(k', v'). if k' = k then (k', v) else (k', v')) d else d @ [(k, v)])"

text \<open>Extra headers are added unless empty or already present, without regard to case.\<close>

fun add_headers :: "(string \<times> string) list \<Rightarrow> (string \<times> json) list \<Rightarrow> (string \<times> string) list" where
  "add_headers hs [] = hs"
| "add_headers hs ((k, v) # rest) =
     (if truthy v \<and> lower k \<notin> set (map (lower \<circ> fst) hs)
      then add_headers (hs @ [(k, json_str_or_empty v)]) rest else add_headers hs rest)"

definition address_header :: "string \<Rightarrow> string list \<Rightarrow> (string \<times> string) list" where
  "address_header name xs = (if xs = [] then [] else [(name, join_with '', '' xs)])"

definition raw_message :: "'s mail_services \<Rightarrow> send_row \<Rightarrow> exn + string" where
  "raw_message sv r =
     (if \<exists>d \<in> set (ps_attachments r). map_of d ''data_base64'' = None then Inl KeyError
      else if \<exists>d \<in> set (ps_attachments r). b64_decoded_length (str_or_empty (map_of d ''data_base64'')) = None
      then Inl (OtherError ''Error'')
      else serialize_message sv
        \<lparr>mm_headers =
           add_headers
             (address_header ''To'' (ps_to r) @ address_header ''Cc'' (ps_cc r)
              @ address_header ''Bcc'' (ps_bcc r) @ [(''Subject'', ps_subject r)])
             (dict_set (ps_headers r) ''Message-ID'' (JStr (send_rfc822_message_id (ps_server_send_id r)))),
         mm_text = ps_body_text r,
         mm_html = (if truthy_str (ps_body_html r) then ps_body_html r else None),
         mm_attachments = ps_attachments r\<rparr>)"

section \<open>Searching for an earlier delivery\<close>

definition verified_sent :: "json \<Rightarrow> (string \<times> json) list list" where
  "verified_sent message =
     (case jfields message of None \<Rightarrow> []
      | Some fs \<Rightarrow>
          (let labels = (case jget fs ''labelIds'' of JArr ls \<Rightarrow> map (upper \<circ> json_str_or_empty) (filter is_jstr ls) | _ \<Rightarrow> [])
           in if ''SENT'' \<in> set labels \<and> ''DRAFT'' \<notin> set labels then [fs] else []))"

definition candidate_ids :: "json \<Rightarrow> string list" where
  "candidate_ids response =
     (case jfields response of None \<Rightarrow> []
      | Some fs \<Rightarrow>
          (case jget fs ''messages'' of
             JArr ms \<Rightarrow> concat (map (\<lambda>m. case jfields m of None \<Rightarrow> []
               | Some c \<Rightarrow> if truthy (jget c ''id'') then [json_str_or_empty (jget c ''id'')] else []) ms)
           | _ \<Rightarrow> []))"

definition find_sent_gmail_message ::
    "'s mail_services \<Rightarrow> string \<Rightarrow> ('s, (string \<times> json) list option) eff" where
  "find_sent_gmail_message sv rfc822_message_id =
     ebind (api_list_messages sv (''in:sent rfc822msgid:'' @ rfc822_message_id)) (\<lambda>response.
     ebind (emap (api_get_minimal sv) (candidate_ids response)) (\<lambda>messages.
       let verified = concat (map verified_sent messages) in
       if 1 < length verified then eraise MultipleSentGmailMessagesFound
       else ereturn (row_first verified)))"

section \<open>Performing a send\<close>

definition is_ambiguous_pending_send :: "send_row \<Rightarrow> bool" where
  "is_ambiguous_pending_send r \<longleftrightarrow>
     ps_state r = Send_sending \<or> (ps_state r = Send_queued \<and> truthy_str (ps_error r))"

text \<open>A state function, for reads that fall back on the record at hand.\<close>

definition current_pending_send :: "string \<Rightarrow> send_row \<Rightarrow> ('a send_db_scheme, send_row) eff" where
  "current_pending_send user fallback =
     eget (\<lambda>db. case get_pending_send db user (ps_server_send_id fallback) of None \<Rightarrow> fallback | Some r \<Rightarrow> r)"

definition enqueue_send_job ::
    "instant \<Rightarrow> string \<Rightarrow> string \<Rightarrow> send_row \<Rightarrow> int \<Rightarrow> ('a send_db_scheme, job_row) eff" where
  "enqueue_send_job now job_id user r delay db =
     enqueue_job (background_jobs db) now job_id
       ((job_request_of ''gmail_send_message'')
          \<lparr>rq_queue := ''critical'', rq_user_id := Some user,
           rq_dedupe_key := Some (''gmail-send:'' @ user @ '':'' @ ps_server_send_id r),
           rq_priority := 90,
           rq_payload := [(''user_id'', JStr user), (''server_send_id'', JStr (ps_server_send_id r))],
           rq_run_after_seconds := delay\<rparr>) db"

definition finalize_sent_message ::
    "('a send_db_scheme) mail_services \<Rightarrow> instant \<Rightarrow> string \<Rightarrow> send_row \<Rightarrow> (string \<times> json) list
      \<Rightarrow> ('a send_db_scheme, send_row) eff" where
  "finalize_sent_message sv now user r result =
     (let message_id = nonempty (json_str_or_empty (jget result ''id''));
          thread_id = coalesce (nonempty (json_str_or_empty (jget result ''threadId''))) (ps_gmail_thread_id r) in
      ebind (mark_pending_send_sent now user (ps_server_send_id r) message_id thread_id) (\<lambda>marked.
      let sent = (case marked of None \<Rightarrow> r | Some s \<Rightarrow> s) in
      ebind (etry
              (ebind (case message_id of None \<Rightarrow> ereturn () | Some i \<Rightarrow> import_sent_message sv user i)
                 (\<lambda>_. refresh_after_send sv user r message_id))
              (\<lambda>_. ereturn ()))
        (\<lambda>_. ereturn sent)))"

definition search_earlier_delivery ::
    "('a send_db_scheme) mail_services \<Rightarrow> send_row \<Rightarrow> ('a send_db_scheme, (string \<times> json) list option) eff" where
  "search_earlier_delivery sv current =
     etry (find_sent_gmail_message sv (send_rfc822_message_id (ps_server_send_id current)))
       (\<lambda>e. if is_ambiguous_pending_send current then eraise MailSendConfirmationPending else eraise e)"

definition deliver_now ::
    "('a send_db_scheme) mail_services \<Rightarrow> instant \<Rightarrow> string \<Rightarrow> string \<Rightarrow> send_row \<Rightarrow> ('a send_db_scheme, send_row) eff" where
  "deliver_now sv now job_id user current =
     (case raw_message sv current of
        Inl e \<Rightarrow> eraise e
      | Inr raw \<Rightarrow>
          ebind (enqueue_send_job now job_id user current 150) (\<lambda>_.
          ebind (claim_pending_send now user (ps_server_send_id current)) (\<lambda>claimed.
            case claimed of
              None \<Rightarrow> current_pending_send user current
            | Some sending \<Rightarrow>
                ebind (api_send sv raw (if truthy_str (ps_gmail_thread_id sending) then ps_gmail_thread_id sending else None))
                  (finalize_sent_message sv now user sending))))"

definition perform_send_locked ::
    "('a send_db_scheme) mail_services \<Rightarrow> instant \<Rightarrow> string \<Rightarrow> string \<Rightarrow> send_row \<Rightarrow> ('a send_db_scheme, send_row) eff" where
  "perform_send_locked sv now job_id user r =
     ebind (current_pending_send user r) (\<lambda>current.
       if ps_state current = Send_sent then ereturn current
       else if ps_state current = Send_sending \<or> truthy_str (ps_error current) then
         ebind (search_earlier_delivery sv current) (\<lambda>recovered.
           case recovered of
             Some (f # fs) \<Rightarrow> finalize_sent_message sv now user current (f # fs)
           | _ \<Rightarrow> if is_ambiguous_pending_send current then ereturn current
                  else deliver_now sv now job_id user current)
       else deliver_now sv now job_id user current)"

definition perform_send ::
    "('a send_db_scheme) mail_services \<Rightarrow> instant \<Rightarrow> string \<Rightarrow> string \<Rightarrow> send_row \<Rightarrow> ('a send_db_scheme, send_row) eff" where
  "perform_send sv now job_id user r = shared_user_mail_lock user (perform_send_locked sv now job_id user r)"

section \<open>Responses\<close>

datatype response_state = Response_state send_state | Reauth_required_state

record send_response =
  rs_client_send_id :: string
  rs_server_send_id :: "string option"
  rs_mailbox_thread_id :: "string option"
  rs_gmail_thread_id :: "string option"
  rs_gmail_message_id :: "string option"
  rs_state :: response_state
  rs_queued_at :: "instant option"
  rs_sent_at :: "instant option"
  rs_error :: "string option"
  rs_reauth_url :: "string option"

definition response_from_record :: "send_row \<Rightarrow> send_response" where
  "response_from_record r =
     \<lparr>rs_client_send_id = ps_client_send_id r, rs_server_send_id = Some (ps_server_send_id r),
      rs_mailbox_thread_id = ps_mailbox_thread_id r, rs_gmail_thread_id = ps_gmail_thread_id r,
      rs_gmail_message_id = ps_gmail_message_id r, rs_state = Response_state (ps_state r),
      rs_queued_at = Some (ps_queued_at r), rs_sent_at = ps_sent_at r, rs_error = ps_error r,
      rs_reauth_url = None\<rparr>"

definition reauth_required :: "string \<Rightarrow> string \<Rightarrow> string option \<Rightarrow> send_response" where
  "reauth_required origin client_id thread =
     \<lparr>rs_client_send_id = client_id, rs_server_send_id = None, rs_mailbox_thread_id = thread,
      rs_gmail_thread_id = None, rs_gmail_message_id = None, rs_state = Reauth_required_state,
      rs_queued_at = None, rs_sent_at = None, rs_error = Some ''Google needs permission to send mail.'',
      rs_reauth_url = Some (origin @ ''/auth/google'')\<rparr>"

definition user_can_write_gmail :: "'a guard_db_scheme \<Rightarrow> string \<Rightarrow> bool" where
  "user_can_write_gmail db user \<longleftrightarrow>
     list_ex (\<lambda>u. usr_id u = user
        \<and> list_ex (\<lambda>t. tok_user_id t = usr_id u) (google_oauth_tokens db)
        \<and> access_enabled u \<and> google_disconnected_at u = None
        \<and> google_data_delete_requested_at u = None \<and> google_data_deleted_at u = None) (users db)"

definition can_send :: "('a send_db_scheme) mail_services \<Rightarrow> 'a send_db_scheme \<Rightarrow> string \<Rightarrow> bool" where
  "can_send sv db user \<longleftrightarrow> user_can_write_gmail db user \<and> missing_send_scopes sv db user = []"

section \<open>The worker path\<close>

definition or_record :: "send_row \<Rightarrow> send_row option \<Rightarrow> send_row" where
  "or_record r v = (case v of None \<Rightarrow> r | Some s \<Rightarrow> s)"

text \<open>The re-read after an error whose outcome is unknown.\<close>

definition pending_or_raise :: "string \<Rightarrow> send_row \<Rightarrow> exn \<Rightarrow> ('a send_db_scheme, 'b) eff" where
  "pending_or_raise user r e =
     ebind (current_pending_send user r) (\<lambda>current.
       if is_ambiguous_pending_send current then eraise MailSendConfirmationPending else eraise e)"

definition run_pending_send_error ::
    "instant \<Rightarrow> string \<Rightarrow> send_row \<Rightarrow> exn \<Rightarrow> ('a send_db_scheme, send_response option) eff" where
  "run_pending_send_error now user r e =
     (let mark = mark_pending_send_failed now user (ps_server_send_id r);
          answer = (\<lambda>failed. ereturn (Some (response_from_record (or_record r failed)))) in
      case e of
        MailSendConfirmationPending \<Rightarrow> eraise e
      | UserMailWorkBlocked \<Rightarrow> eraise e
      | GoogleCredentialsUnavailable \<Rightarrow>
          ebind (mark (safe_google_error ''mail delivery'' e)) (\<lambda>_. eraise e)
      | HttpError status \<Rightarrow>
          if is_auth_status status then ebind (mark ''Google needs mail send permission.'') answer
          else if is_definite_google_client_rejection status
          then ebind (mark (safe_google_error ''mail delivery'' e)) answer
          else pending_or_raise user r e
      | _ \<Rightarrow> pending_or_raise user r e)"

definition run_pending_send ::
    "('a send_db_scheme) mail_services \<Rightarrow> instant \<Rightarrow> string \<Rightarrow> string \<Rightarrow> string
      \<Rightarrow> ('a send_db_scheme, send_response option) eff" where
  "run_pending_send sv now job_id user server_id =
     ebind (eget (\<lambda>db. get_pending_send db user server_id)) (\<lambda>found.
       case found of
         None \<Rightarrow> ereturn None
       | Some r \<Rightarrow>
           if ps_state r = Send_sent then ereturn (Some (response_from_record r))
           else etry
             (ebind (perform_send sv now job_id user r) (\<lambda>sent.
                if is_ambiguous_pending_send sent then eraise MailSendConfirmationPending
                else ereturn (Some (response_from_record sent))))
             (run_pending_send_error now user r))"

section \<open>The request path\<close>

definition send_or_queue_error ::
    "string \<Rightarrow> instant \<Rightarrow> string \<Rightarrow> send_row \<Rightarrow> exn \<Rightarrow> ('a send_db_scheme, send_response) eff" where
  "send_or_queue_error origin now user r e =
     (let mark = mark_pending_send_failed now user (ps_server_send_id r);
          reauth = reauth_required origin (ps_client_send_id r) (ps_mailbox_thread_id r);
          safe = safe_google_error ''mail delivery'' e;
          current = ebind (current_pending_send user r) (\<lambda>c. ereturn (response_from_record c)) in
      case e of
        UserMailWorkBlocked \<Rightarrow> ereturn reauth
      | GoogleCredentialsUnavailable \<Rightarrow>
          ebind (mark safe) (\<lambda>failed.
            ereturn (reauth\<lparr>rs_server_send_id := Some (ps_server_send_id r),
              rs_error := (if truthy_str (ps_error (or_record r failed)) then ps_error (or_record r failed) else Some safe)\<rparr>))
      | HttpError status \<Rightarrow>
          if is_auth_status status then
            ebind (mark ''Google needs mail send permission.'') (\<lambda>failed.
              ereturn (reauth\<lparr>rs_server_send_id := Some (ps_server_send_id r),
                rs_error := ps_error (or_record r failed)\<rparr>))
          else if is_definite_google_client_rejection status then
            ebind (mark safe) (\<lambda>failed. ereturn (response_from_record (or_record r failed)))
          else current
      | _ \<Rightarrow> current)"

definition send_or_queue ::
    "('a send_db_scheme) mail_services \<Rightarrow> string \<Rightarrow> instant \<Rightarrow> string \<Rightarrow> string \<Rightarrow> send_row
      \<Rightarrow> ('a send_db_scheme, send_response) eff" where
  "send_or_queue sv origin now job_id user r =
     (if ps_state r = Send_sent then ereturn (response_from_record r)
      else if (ps_state r = Send_sending \<or> ps_state r = Send_queued) \<and> truthy_str (ps_gmail_message_id r)
      then ereturn (response_from_record r)
      else etry (ebind (perform_send sv now job_id user r) (\<lambda>sent. ereturn (response_from_record sent)))
             (send_or_queue_error origin now user r))"

definition retry_send ::
    "('a send_db_scheme) mail_services \<Rightarrow> string \<Rightarrow> instant \<Rightarrow> string \<Rightarrow> string \<Rightarrow> string
      \<Rightarrow> ('a send_db_scheme, send_response option) eff" where
  "retry_send sv origin now job_id user server_id db =
     (case get_pending_send db user server_id of
        None \<Rightarrow> (Inr None, db)
      | Some r \<Rightarrow>
          if ps_state r = Send_sent then (Inr (Some (response_from_record r)), db)
          else if \<not> can_send sv db user then
            (Inr (Some ((reauth_required origin (ps_client_send_id r) (ps_mailbox_thread_id r))
                          \<lparr>rs_server_send_id := Some (ps_server_send_id r)\<rparr>)), db)
          else ebind (send_or_queue sv origin now job_id user r) (\<lambda>x. ereturn (Some x)) db)"

definition get_send_status :: "'a send_db_scheme \<Rightarrow> string \<Rightarrow> string \<Rightarrow> send_response option" where
  "get_send_status db user server_id = map_option response_from_record (get_pending_send db user server_id)"

definition list_outbox_statuses :: "'a send_db_scheme \<Rightarrow> string \<Rightarrow> int \<Rightarrow> send_response list" where
  "list_outbox_statuses db user limit = map response_from_record (list_outbox_sends db user limit)"

end
