(* ===== verification/Send_Safety.thy ===== *)
theory Send_Safety
  imports Send_Delivery
begin

text \<open>
  What the delivery of a send guarantees: Gmail accepts its message at most once
  over any sequence of worker runs, requests and retries, an ambiguous attempt
  never authorises another one, a sent record answers without the provider; and
  the interleaving in which an unguarded failure mark undoes a delivery.
\<close>

section \<open>Triples of the send statements\<close>

definition scope_connection :: "'a guard_db_scheme \<Rightarrow> connection \<Rightarrow> bool" where
  "scope_connection db conn \<longleftrightarrow> set_gmail_account_id conn = str_or_empty (active_gmail_account db)"

lemma scope_connections [simp]:
  "scope_connection db (begin_connection db)" "scope_connection db (guard_connection db user None)"
  by (simp_all add: scope_connection_def begin_connection_def guard_connection_def)

lemma own_send_scope:
  "scope_connection db conn \<Longrightarrow> scope_connection db conn' \<Longrightarrow>
   own_send db conn user i r = own_send db conn' user i r"
  by (simp add: own_send_def row_visible_def scoped_account_def scope_connection_def)


section \<open>The provider and the count of deliveries\<close>

text \<open>
  \<open>delivered\<close> counts how often Gmail accepted the message of the send under
  consideration. The contract of the provider: searches and reads change nothing;
  \<open>api_send\<close> accepts the message at most once per call, always when it answers with
  a result, and never when it answers with a conclusive refusal (a 4xx status that
  is not a timeout, conflict or rate limit, or unusable credentials). Other errors
  may come with or without acceptance. The refresh after a delivery leaves the send
  table alone, and MIME serialization raises no provider error.
\<close>

record mail_world = send_db +
  delivered :: nat


definition may_have_been_sent :: "send_row \<Rightarrow> bool" where
  "may_have_been_sent r \<longleftrightarrow> is_ambiguous_pending_send r \<or> ps_state r = Send_sent"

text \<open>The invariant: a record whose state says that nothing was sent tells the truth.\<close>

definition send_ok :: "string \<Rightarrow> mail_world \<Rightarrow> bool" where
  "send_ok i w \<longleftrightarrow>
     distinct (map ps_server_send_id (gmail_pending_sends w))
     \<and> delivered w \<le> 1
     \<and> (\<forall>r \<in> set (gmail_pending_sends w). ps_server_send_id r = i \<and> \<not> may_have_been_sent r \<longrightarrow> delivered w = 0)"

text \<open>Marking the send as failed is justified: nothing was sent, or the mark reaches no row.\<close>

definition failure_justified :: "string \<Rightarrow> string \<Rightarrow> mail_world \<Rightarrow> bool" where
  "failure_justified user i w \<longleftrightarrow>
     delivered w = 0 \<or> (\<forall>r \<in> set (gmail_pending_sends w). \<not> own_send w (begin_connection w) user i r)"

definition send_error_ok :: "string \<Rightarrow> string \<Rightarrow> exn \<Rightarrow> mail_world \<Rightarrow> bool" where
  "send_error_ok user i e w \<longleftrightarrow> send_ok i w \<and> (conclusive_refusal e \<longrightarrow> failure_justified user i w)"

lemma decoded_send_simps [simp]:
  "ps_state (pending_send_from_row r) = ps_state r" "ps_error (pending_send_from_row r) = ps_error r"
  "ps_server_send_id (pending_send_from_row r) = ps_server_send_id r"
  "may_have_been_sent (pending_send_from_row r) = may_have_been_sent r"
  "is_ambiguous_pending_send (pending_send_from_row r) = is_ambiguous_pending_send r"
  by (simp_all add: pending_send_from_row_def may_have_been_sent_def is_ambiguous_pending_send_def)

lemma local_errors_not_conclusive [simp]:
  "\<not> conclusive_refusal AdvisoryLockUnavailable" "\<not> conclusive_refusal UserMailWorkBlocked"
  "\<not> conclusive_refusal MailSendConfirmationPending" "\<not> conclusive_refusal MultipleSentGmailMessagesFound"
  "\<not> conclusive_refusal KeyError" "\<not> conclusive_refusal (OtherError m)" "\<not> conclusive_refusal TypeError"
  "\<not> conclusive_refusal IntegrityError" "\<not> conclusive_refusal (RuntimeError m)"
  by (simp_all add: conclusive_refusal_def)



lemma lock_blind_simps [simp]:
  "lock_blind (send_ok i)" "lock_blind (failure_justified user i)" "lock_blind (send_error_ok user i e)"
  by (auto simp: lock_blind_def send_ok_def failure_justified_def send_error_ok_def own_send_def row_visible_def
      scoped_account_def begin_connection_def primary_account_def)

section \<open>Triples of the delivery\<close>






lemma set_send_state_simps [simp]:
  "ps_server_send_id (set_send_state now st e r) = ps_server_send_id r"
  "may_have_been_sent (set_send_state now Send_sending e r)"
  by (simp_all add: set_send_state_def may_have_been_sent_def is_ambiguous_pending_send_def)

lemma sent_row_simps [simp]:
  "ps_server_send_id (sent_row now m th r) = ps_server_send_id r" "may_have_been_sent (sent_row now m th r)"
  by (simp_all add: sent_row_def may_have_been_sent_def)















section \<open>At most one delivery\<close>






text \<open>A Gmail that accepts every message but loses every response.\<close>

definition lossy_gmail :: "mail_world mail_services" where
  "lossy_gmail = \<lparr>api_list_messages = (\<lambda>_ w. (Inr (JObj []), w)), api_get_minimal = (\<lambda>_ w. (Inr (JObj []), w)),
     api_send = (\<lambda>_ _ w. (Inl TimeoutError, w\<lparr>delivered := Suc (delivered w)\<rparr>)),
     serialize_message = (\<lambda>m. Inr (mm_text m)), missing_send_scopes = (\<lambda>_ _. []),
     import_sent_message = (\<lambda>_ _ w. (Inr (), w)), refresh_after_send = (\<lambda>_ _ _ w. (Inr (), w))\<rparr>"

definition sample_world :: "send_row list \<Rightarrow> mail_world" where
  "sample_world rows = \<lparr>users = [sample_user], google_oauth_tokens = [sample_token],
     gmail_accounts = [sample_account], advisory_locks = [], next_session = 0, active_lock_session = None,
     active_gmail_account = None, app_sessions = [], oauth_login_sessions = [], mobile_login_codes = [],
     mobile_oauth_handoffs = [], google_subject_tombstones = [], identity_epoch = 0, rate_limit_buckets = [],
     allowed_emails = [], migration_audits = [], background_jobs = [], background_job_events = [], worker_heartbeats = [],
     gmail_pending_sends = rows, delivered = 0\<rparr>"



section \<open>Ambiguity never authorises a second attempt\<close>

lemma locked_ignores_api_send:
  assumes "get_pending_send w user (ps_server_send_id r) = Some c" and "is_ambiguous_pending_send c \<or> ps_state c = Send_sent"
  shows "perform_send_locked (sv\<lparr>api_send := f\<rparr>) now job_id user r w = perform_send_locked sv now job_id user r w"
proof -
  have current: "current_pending_send user r w = (Inr c, w)" using assms(1) by (simp add: current_pending_send_def)
  have search: "search_earlier_delivery (sv\<lparr>api_send := f\<rparr>) = search_earlier_delivery sv"
    by (rule ext) (simp add: search_earlier_delivery_def find_sent_gmail_message_def)
  have final: "finalize_sent_message (sv\<lparr>api_send := f\<rparr>) = finalize_sent_message sv"
  proof -
    have "import_sent_message (sv\<lparr>api_send := f\<rparr>) = import_sent_message sv"
      "refresh_after_send (sv\<lparr>api_send := f\<rparr>) = refresh_after_send sv" by simp_all
    then show ?thesis unfolding finalize_sent_message_def [abs_def] by (simp only:)
  qed
  show ?thesis
  proof (cases "ps_state c = Send_sent")
    case True
    then show ?thesis by (simp add: perform_send_locked_def ebind_apply current)
  next
    case False
    with assms(2) have amb: "is_ambiguous_pending_send c" by simp
    then have "ps_state c = Send_sending \<or> truthy_str (ps_error c)" by (auto simp: is_ambiguous_pending_send_def)
    with False amb show ?thesis by (simp add: perform_send_locked_def ebind_apply current search final)
  qed
qed

lemma scope_cong:
  assumes "\<And>L n a. body (db\<lparr>advisory_locks := L, next_session := n, active_lock_session := a\<rparr>)
      = body' (db\<lparr>advisory_locks := L, next_session := n, active_lock_session := a\<rparr>)"
  shows "advisory_lock_scope [l] body db = advisory_lock_scope [l] body' db"
proof -
  have inner: "ebind (acquire_advisory_locks s [] [l]) (\<lambda>_. efinally body (release_advisory_locks s (rev [l])))
        (db\<lparr>active_lock_session := a, next_session := n\<rparr>)
      = ebind (acquire_advisory_locks s [] [l]) (\<lambda>_. efinally body' (release_advisory_locks s (rev [l])))
        (db\<lparr>active_lock_session := a, next_session := n\<rparr>)" for s a n
  proof (cases l)
    case (Pair m k)
    have "body (db\<lparr>active_lock_session := a, next_session := n, advisory_locks := L\<rparr>)
        = body' (db\<lparr>active_lock_session := a, next_session := n, advisory_locks := L\<rparr>)" for L
    proof -
      have "db\<lparr>active_lock_session := a, next_session := n, advisory_locks := L\<rparr>
          = db\<lparr>advisory_locks := L, next_session := n, active_lock_session := a\<rparr>"
        by simp
      then show ?thesis using assms [where L = L and n = n and a = a] by (simp only:)
    qed
    with Pair show ?thesis by (simp add: ebind_apply efinally_apply)
  qed
  show ?thesis
  proof (cases "active_lock_session db")
    case None
    then show ?thesis
      by (simp add: advisory_lock_scope_def advisory_lock_connection_def efinally_apply inner del: rev.simps)
  next
    case (Some sb)
    obtain s bad where sb: "sb = (s, bad)" by (cases sb)
    from inner [where s = s and a = "active_lock_session db" and n = "next_session db"]
    have "ebind (acquire_advisory_locks s [] [l]) (\<lambda>_. efinally body (release_advisory_locks s (rev [l]))) db
        = ebind (acquire_advisory_locks s [] [l]) (\<lambda>_. efinally body' (release_advisory_locks s (rev [l]))) db"
      by (simp del: rev.simps)
    with Some sb show ?thesis
      by (simp add: advisory_lock_scope_def advisory_lock_connection_def del: rev.simps)
  qed
qed

text \<open>C2: an ambiguous attempt never authorises another one. When the stored record is in
  state sending (a claimed attempt whose outcome is unknown), queued with an error, or
  sent, a delivery does not depend on what Gmail would answer to a send request: for
  any two behaviours of \<open>api_send\<close> the outcome and the final state are the same, so no
  send request is issued. Only the search for the earlier delivery can settle it.\<close>

theorem ambiguous_send_is_only_reconciled:
  assumes "get_pending_send w user (ps_server_send_id r) = Some c"
    and "is_ambiguous_pending_send c \<or> ps_state c = Send_sent"
  shows "perform_send (sv\<lparr>api_send := f\<rparr>) now job_id user r w = perform_send (sv\<lparr>api_send := g\<rparr>) now job_id user r w"
proof -
  have eq: "perform_send (sv\<lparr>api_send := f\<rparr>) now job_id user r w = perform_send sv now job_id user r w" for f
    unfolding perform_send_def shared_user_mail_lock_def
  proof (rule scope_cong)
    fix L n a
    let ?w = "w\<lparr>advisory_locks := L, next_session := n, active_lock_session := a\<rparr>"
    have "get_pending_send ?w user (ps_server_send_id r) = Some c"
      using assms(1) by (simp add: get_pending_send_def own_send_def [abs_def] row_visible_def scoped_account_def
          begin_connection_def primary_account_def)
    from locked_ignores_api_send [OF this assms(2), where sv = sv and f = f and now = now and job_id = job_id]
    show "ebind (require_user_mail_work_allowed user) (\<lambda>_. perform_send_locked (sv\<lparr>api_send := f\<rparr>) now job_id user r) ?w
        = ebind (require_user_mail_work_allowed user) (\<lambda>_. perform_send_locked sv now job_id user r) ?w"
      by (simp add: ebind_apply require_user_mail_work_allowed_def)
  qed
  show ?thesis by (simp only: eq)
qed

theorem ambiguous_send_is_only_reconciled_witness:
  "perform_send (lossy_gmail\<lparr>api_send := (\<lambda>_ _ w. (Inr [], w\<lparr>delivered := 5\<rparr>))\<rparr>) 7 ''j2'' ''u1''
       (pending_send_from_row sample_send) (sample_world [sample_send\<lparr>ps_state := Send_sending\<rparr>])
   = perform_send (lossy_gmail\<lparr>api_send := (\<lambda>_ _ w. (Inl TimeoutError, w))\<rparr>) 7 ''j2'' ''u1''
       (pending_send_from_row sample_send) (sample_world [sample_send\<lparr>ps_state := Send_sending\<rparr>])"
proof (rule ambiguous_send_is_only_reconciled)
  show "get_pending_send (sample_world [sample_send\<lparr>ps_state := Send_sending\<rparr>]) ''u1''
          (ps_server_send_id (pending_send_from_row sample_send))
      = Some (pending_send_from_row (sample_send\<lparr>ps_state := Send_sending\<rparr>))"
    by (simp add: sample_world_def get_pending_send_def own_send_def row_visible_def scoped_account_def
        begin_connection_def primary_account_def sample_send_def new_send_row_def sample_user_def nonempty_def)
  show "is_ambiguous_pending_send (pending_send_from_row (sample_send\<lparr>ps_state := Send_sending\<rparr>))
      \<or> ps_state (pending_send_from_row (sample_send\<lparr>ps_state := Send_sending\<rparr>)) = Send_sent"
    by (simp add: is_ambiguous_pending_send_def)
qed

section \<open>A failure mark without a guard\<close>

lemma guarded_update_run:
  assumes "guard_passes w user None"
  shows "ebind (user_mail_write_transaction user None (\<lambda>conn db. update_sends (p db conn) f db)) (\<lambda>row. ereturn (g row)) w
    = (Inr (g (row_first (returning (p w (guard_connection w user None)) f (gmail_pending_sends w)))),
       w\<lparr>gmail_pending_sends := update_where (p w (guard_connection w user None)) f (gmail_pending_sends w)\<rparr>)"
  by (simp add: ebind_apply write_transaction_passes [OF assms] etransaction_apply update_sends_def)

text \<open>C21: the failure marks do not look at the state they overwrite. Two deliveries of
  one failed send may both search for an earlier attempt; when one of them has sent the
  message and marked it sent, while the search of the other ends with unusable Google
  credentials, the error handler of the other turns the sent record back to failed. Its
  content was erased when it was sent, and it can be claimed again.\<close>

theorem stale_failure_mark_reopens_a_sent_mail:
  assumes "guard_passes w user None" and "distinct (map ps_server_send_id (gmail_pending_sends w))"
    and "q \<in> set (gmail_pending_sends w)" and "own_send w (begin_connection w) user (ps_server_send_id r) q"
    and "ps_state q = Send_sent"
  shows "\<exists>w' w'' q'. run_pending_send_error now user r GoogleCredentialsUnavailable w = (Inl GoogleCredentialsUnavailable, w')
    \<and> q' \<in> set (gmail_pending_sends w') \<and> ps_server_send_id q' = ps_server_send_id q
    \<and> ps_state q' = Send_failed \<and> ps_to q' = ps_to q \<and> ps_body_text q' = ps_body_text q
    \<and> claim_pending_send later user (ps_server_send_id r) w'
        = (Inr (Some (pending_send_from_row (set_send_state later Send_sending None q'))), w'')"
proof -
  let ?i = "ps_server_send_id r" and ?text = "safe_google_error ''mail delivery'' GoogleCredentialsUnavailable"
  let ?f = "set_send_state now Send_failed (Some (take 4000 ?text))"
  let ?p = "own_send w (guard_connection w user None) user ?i"
  let ?w' = "w\<lparr>gmail_pending_sends := update_where ?p ?f (gmail_pending_sends w)\<rparr>"
  have own: "?p q" using assms(4) own_send_scope [OF scope_connections(2,1)] by blast
  have handler: "run_pending_send_error now user r GoogleCredentialsUnavailable w = (Inl GoogleCredentialsUnavailable, ?w')"
    unfolding run_pending_send_error_def mark_pending_send_failed_def update_pending_send_state_def
    by (simp add: ebind_apply write_transaction_passes [OF assms(1)] etransaction_apply update_sends_def)
  have mem: "?f q \<in> set (gmail_pending_sends ?w')" using assms(3) own by (auto simp: in_update_where)
  have guard: "guard_passes ?w' user None" using assms(1) guard_passes_frame [of ?w' w user None] by simp
  have conn: "guard_connection ?w' user None = guard_connection w user None" by (simp add: guard_connection_def)
  have own': "own_send ?w' (guard_connection ?w' user None) user ?i x = own_send w (guard_connection w user None) user ?i x" for x
    by (simp add: own_send_def row_visible_def scoped_account_def primary_account_def guard_connection_def)
  let ?c = "\<lambda>x. own_send ?w' (guard_connection ?w' user None) user ?i x \<and> (ps_state x = Send_queued \<or> ps_state x = Send_failed)"
  have "map ps_server_send_id (update_where ?p ?f (gmail_pending_sends w)) = map ps_server_send_id (gmail_pending_sends w)"
    by (rule map_update_where) simp
  then have dist: "distinct (map ps_server_send_id (gmail_pending_sends ?w'))" using assms(2) by simp
  have cq: "?c (?f q)" unfolding own' using own by (simp add: own_send_def set_send_state_def)
  have cx: "ps_server_send_id x = ps_server_send_id (?f q)" if "?c x" for x
    using that own unfolding own' by (simp add: own_send_def)
  have "select_first ?c (gmail_pending_sends ?w') = Some (?f q)"
    by (rule select_first_unique [where key = ps_server_send_id and p = ?c, OF dist mem]) (fact cq, fact cx)
  then have claim: "claim_pending_send later user ?i ?w'
      = (Inr (Some (pending_send_from_row (set_send_state later Send_sending None (?f q)))),
         ?w'\<lparr>gmail_pending_sends := update_where ?c (set_send_state later Send_sending None) (gmail_pending_sends ?w')\<rparr>)"
    unfolding claim_pending_send_def by (subst guarded_update_run [OF guard]) (simp add: returning_first)
  from handler mem claim show ?thesis
    by (intro exI [of _ ?w'] exI [of _ "?f q"] exI conjI) (assumption | simp add: set_send_state_def)+
qed

theorem stale_failure_mark_reopens_a_sent_mail_witness:
  "\<exists>w'. snd (run_pending_send_error 9 ''u1'' sample_send GoogleCredentialsUnavailable
            (sample_world [sent_row 8 (Some ''m1'') None sample_send])) = w'
      \<and> (\<exists>q' \<in> set (gmail_pending_sends w'). ps_state q' = Send_failed \<and> ps_to q' = [])"
proof -
  let ?q = "sent_row 8 (Some ''m1'') None sample_send" and ?w = "sample_world [sent_row 8 (Some ''m1'') None sample_send]"
  have guard: "guard_passes ?w ''u1'' None"
    by (simp add: sample_world_def sample_user_def sample_token_def guard_passes_def exclusively_held_def user_mail_work_allowed_def)
  have own: "own_send ?w (begin_connection ?w) ''u1'' (ps_server_send_id sample_send) ?q"
    by (simp add: sample_world_def own_send_def row_visible_def scoped_account_def begin_connection_def nonempty_def
        primary_account_def sample_send_def new_send_row_def sample_user_def sent_row_def)
  have row: "ps_state ?q = Send_sent" "?q \<in> set (gmail_pending_sends ?w)"
      "distinct (map ps_server_send_id (gmail_pending_sends ?w))"
    by (simp_all add: sent_row_def sample_world_def)
  from stale_failure_mark_reopens_a_sent_mail [OF guard row(3,2) own row(1), of 9 10]
  obtain w' q' where w': "run_pending_send_error 9 ''u1'' sample_send GoogleCredentialsUnavailable ?w
          = (Inl GoogleCredentialsUnavailable, w')"
      "q' \<in> set (gmail_pending_sends w')" "ps_state q' = Send_failed" "ps_to q' = ps_to ?q"
    by (elim exE conjE) (rule that)
  have "ps_to ?q = []" by (simp add: sent_row_def)
  with w' show ?thesis by (intro exI [of _ w']) auto
qed

end
