(* ===== verification/Mailbox_State.thy ===== *)
theory Mailbox_State
  imports Send_Store
begin

text \<open>
  The mailbox tables of \<open>backend/app/db/mail_groups.py\<close>: cached Gmail messages,
  the import state of an account, its initial window, the identities a
  reconciliation has seen, mail groups and their members. Every row carries the
  user and the Gmail account it belongs to; row-level security shows a
  transaction the rows of one account (\<open>owned\<close>), and an insert that names no
  account gets that account.

  A column \<open>.._json\<close> holds the text of a value: equal values have equal texts, so
  the rows keep the value. The phase and the body status are the texts of their
  check constraints. Foreign keys other than the cascade from messages to group
  members are not modelled: every statement here names a user the guard has seen.
\<close>

section \<open>Rows\<close>

datatype sync_phase =
    Discovering_recent
  | Importing_metadata
  | Hydrating_priority_content
  | Usable
  | Syncing_recent
  | Syncing_history
  | Sync_complete
  | Sync_failed

record import_row =
  is_user_id :: string
  is_gmail_account_id :: string
  is_last_history_id :: "string option"
  is_history_cursor_authoritative :: bool
  is_full_backfill_cursor :: "string option"
  is_full_backfill_started_at :: "instant option"
  is_full_backfill_completed_at :: "instant option"
  is_first_batch_imported_at :: "instant option"
  is_first_groups_ready_at :: "instant option"
  is_first_dashboard_ready_at :: "instant option"
  is_last_import_started_at :: "instant option"
  is_last_import_completed_at :: "instant option"
  is_last_delta_sync_at :: "instant option"
  is_last_sync_error :: "string option"
  is_gmail_watch_history_id :: "string option"
  is_gmail_watch_expiration_at :: "instant option"
  is_gmail_watch_started_at :: "instant option"
  is_gmail_watch_error :: "string option"
  is_reconcile_generation :: "string option"
  is_reconcile_cursor :: "string option"
  is_reconcile_baseline_history_id :: "string option"
  is_reconcile_started_at :: "instant option"
  is_sync_generation :: "string option"
  is_phase :: "sync_phase option"
  is_initial_target_count :: int
  is_initial_metadata_count :: int
  is_initial_body_target_count :: int
  is_initial_body_ready_count :: int
  is_history_metadata_count :: int
  is_history_body_ready_count :: int
  is_estimated_total_count :: int
  is_initial_window_complete :: bool
  is_history_metadata_complete :: bool
  is_history_body_complete :: bool
  is_last_progress_at :: "instant option"
  is_attachment_descriptors_complete :: bool
  is_updated_at :: instant

text \<open>The column defaults of a fresh import state.\<close>

definition new_import_row :: "instant \<Rightarrow> string \<Rightarrow> string \<Rightarrow> import_row" where
  "new_import_row now user account =
     \<lparr>is_user_id = user, is_gmail_account_id = account, is_last_history_id = None,
      is_history_cursor_authoritative = False, is_full_backfill_cursor = None,
      is_full_backfill_started_at = None, is_full_backfill_completed_at = None,
      is_first_batch_imported_at = None, is_first_groups_ready_at = None,
      is_first_dashboard_ready_at = None, is_last_import_started_at = None,
      is_last_import_completed_at = None, is_last_delta_sync_at = None, is_last_sync_error = None,
      is_gmail_watch_history_id = None, is_gmail_watch_expiration_at = None,
      is_gmail_watch_started_at = None, is_gmail_watch_error = None,
      is_reconcile_generation = None, is_reconcile_cursor = None,
      is_reconcile_baseline_history_id = None, is_reconcile_started_at = None,
      is_sync_generation = None, is_phase = None, is_initial_target_count = 0,
      is_initial_metadata_count = 0, is_initial_body_target_count = 0,
      is_initial_body_ready_count = 0, is_history_metadata_count = 0,
      is_history_body_ready_count = 0, is_estimated_total_count = 0,
      is_initial_window_complete = False, is_history_metadata_complete = False,
      is_history_body_complete = False, is_last_progress_at = None,
      is_attachment_descriptors_complete = False, is_updated_at = now\<rparr>"

datatype body_status = Body_missing | Body_pending | Body_fetched | Body_unavailable | Body_failed

record message_row =
  gm_user_id :: string
  gm_gmail_account_id :: string
  gm_message_id :: string
  gm_gmail_thread_id :: "string option"
  gm_history_id :: "string option"
  gm_label_ids :: "string list"
  gm_internal_date :: "instant option"
  gm_subject :: "string option"
  gm_sender :: "string option"
  gm_recipients :: json
  gm_headers :: json
  gm_snippet :: "string option"
  gm_raw_payload :: json
  gm_html_body_sanitized :: "string option"
  gm_html_render_document :: "string option"
  gm_text_body :: "string option"
  gm_extracted_signals :: json
  gm_body_hash :: string
  gm_body_fetch_status :: "body_status option"
  gm_body_fetched_at :: "instant option"
  gm_body_fetch_updated_at :: "instant option"
  gm_body_fetch_error :: "string option"
  gm_render_doc_bytes :: int
  gm_ai_title :: "string option"
  gm_ai_title_generated_at :: "instant option"
  gm_content_revision :: int
  gm_attachment_descriptors :: "json list"
  gm_attachment_descriptors_ready :: bool
  gm_created_at :: instant
  gm_updated_at :: instant

record window_row =
  iw_user_id :: string
  iw_gmail_account_id :: string
  iw_generation_id :: string
  iw_gmail_thread_id :: string
  iw_position :: int
  iw_message_count :: int
  iw_metadata_ready_at :: "instant option"
  iw_body_ready_at :: "instant option"
  iw_updated_at :: instant

record seen_row =
  sn_user_id :: string
  sn_gmail_account_id :: string
  sn_generation_id :: string
  sn_message_id :: string

record member_row =
  mm_user_id :: string
  mm_gmail_account_id :: string
  mm_group_id :: string
  mm_gmail_message_id :: string

text \<open>The columns of a mail group that the statements modelled here read or write.\<close>

datatype group_status = Group_active | Group_deleted

datatype enrichment_status = Enrichment_pending | Enrichment_ready | Enrichment_failed

record group_row =
  mg_id :: string
  mg_user_id :: string
  mg_gmail_account_id :: string
  mg_status :: group_status
  mg_enrichment_status :: enrichment_status
  mg_dashboard_visible :: bool
  mg_generated_at :: "instant option"
  mg_ai_model :: "string option"
  mg_ai_error :: "string option"
  mg_ai_generated_at :: "instant option"
  mg_updated_at :: instant

record mail_db = send_db +
  gmail_import_states :: "import_row list"
  gmail_messages :: "message_row list"
  initial_window_entries :: "window_row list"
  reconcile_seen :: "seen_row list"
  mail_groups :: "group_row list"
  mail_group_members :: "member_row list"

section \<open>Rows a transaction sees\<close>

definition owned :: "'a guard_db_scheme \<Rightarrow> connection \<Rightarrow> string \<Rightarrow> string \<Rightarrow> string \<Rightarrow> bool" where
  "owned db conn user row_user row_account \<longleftrightarrow> row_user = user \<and> row_visible db conn user row_account"

definition own_import :: "'a guard_db_scheme \<Rightarrow> connection \<Rightarrow> string \<Rightarrow> import_row \<Rightarrow> bool" where
  "own_import db conn user r \<longleftrightarrow> owned db conn user (is_user_id r) (is_gmail_account_id r)"

definition own_message :: "'a guard_db_scheme \<Rightarrow> connection \<Rightarrow> string \<Rightarrow> message_row \<Rightarrow> bool" where
  "own_message db conn user r \<longleftrightarrow> owned db conn user (gm_user_id r) (gm_gmail_account_id r)"

definition own_window :: "'a guard_db_scheme \<Rightarrow> connection \<Rightarrow> string \<Rightarrow> window_row \<Rightarrow> bool" where
  "own_window db conn user r \<longleftrightarrow> owned db conn user (iw_user_id r) (iw_gmail_account_id r)"

definition own_seen :: "'a guard_db_scheme \<Rightarrow> connection \<Rightarrow> string \<Rightarrow> seen_row \<Rightarrow> bool" where
  "own_seen db conn user r \<longleftrightarrow> owned db conn user (sn_user_id r) (sn_gmail_account_id r)"

definition own_member :: "'a guard_db_scheme \<Rightarrow> connection \<Rightarrow> string \<Rightarrow> member_row \<Rightarrow> bool" where
  "own_member db conn user r \<longleftrightarrow> owned db conn user (mm_user_id r) (mm_gmail_account_id r)"

definition own_group :: "'a guard_db_scheme \<Rightarrow> connection \<Rightarrow> string \<Rightarrow> group_row \<Rightarrow> bool" where
  "own_group db conn user r \<longleftrightarrow> owned db conn user (mg_user_id r) (mg_gmail_account_id r)"

text \<open>\<open>COALESCE(NULLIF(gmail_thread_id, ''), message_id)\<close>\<close>

definition thread_key :: "message_row \<Rightarrow> string" where
  "thread_key m = (if truthy_str (gm_gmail_thread_id m) then str_or_empty (gm_gmail_thread_id m) else gm_message_id m)"

text \<open>\<open>COALESCE(body_fetch_status, 'missing') IN ('fetched', 'unavailable')\<close>\<close>

definition body_terminal :: "message_row \<Rightarrow> bool" where
  "body_terminal m \<longleftrightarrow> gm_body_fetch_status m = Some Body_fetched \<or> gm_body_fetch_status m = Some Body_unavailable"

definition own_messages :: "'a mail_db_scheme \<Rightarrow> connection \<Rightarrow> string \<Rightarrow> message_row list" where
  "own_messages db conn user = filter (own_message db conn user) (gmail_messages db)"

definition all_bodies_terminal :: "'a mail_db_scheme \<Rightarrow> connection \<Rightarrow> string \<Rightarrow> bool" where
  "all_bodies_terminal db conn user \<longleftrightarrow> list_all body_terminal (own_messages db conn user)"

text \<open>\<open>COUNT(DISTINCT COALESCE(..))\<close>, and the count of the threads whose bodies are all terminal.\<close>

definition thread_count :: "'a mail_db_scheme \<Rightarrow> connection \<Rightarrow> string \<Rightarrow> int" where
  "thread_count db conn user = int (length (remdups (map thread_key (own_messages db conn user))))"

definition ready_thread_count :: "'a mail_db_scheme \<Rightarrow> connection \<Rightarrow> string \<Rightarrow> int" where
  "ready_thread_count db conn user =
     (let ms = own_messages db conn user in
      int (length (filter (\<lambda>k. list_all (\<lambda>m. thread_key m = k \<longrightarrow> body_terminal m) ms) (remdups (map thread_key ms)))))"

text \<open>The generation the own import state is fenced to: at most one row is visible.\<close>

definition active_generation :: "'a mail_db_scheme \<Rightarrow> connection \<Rightarrow> string \<Rightarrow> string option" where
  "active_generation db conn user =
     (case select_first (own_import db conn user) (gmail_import_states db) of
        None \<Rightarrow> None | Some r \<Rightarrow> is_sync_generation r)"

section \<open>Statements on the import state\<close>

text \<open>
  The trigger \<open>mark_gmail_account_initial_ready\<close>: an inserted or updated import
  state with a durable first batch, a complete window and a history cursor turns
  its connecting or importing account ready. It runs after every insert and after
  every update whose \<open>SET\<close> list names one of the three columns.
\<close>

definition account_ready_row :: "instant \<Rightarrow> import_row \<Rightarrow> account_row \<Rightarrow> account_row" where
  "account_ready_row now r a =
     a\<lparr>acc_state := (if acc_state a = Connecting \<or> acc_state a = Importing then Ready else acc_state a),
       acc_initial_ready_at := coalesce (acc_initial_ready_at a) (is_first_batch_imported_at r),
       acc_updated_at := now\<rparr>"

definition initial_ready :: "import_row \<Rightarrow> bool" where
  "initial_ready r \<longleftrightarrow>
     is_first_batch_imported_at r \<noteq> None \<and> is_initial_window_complete r \<and> truthy_str (is_last_history_id r)"

definition mark_gmail_account_initial_ready ::
    "instant \<Rightarrow> import_row \<Rightarrow> 'a guard_db_scheme \<Rightarrow> 'a guard_db_scheme" where
  "mark_gmail_account_initial_ready now r db =
     (if initial_ready r
      then db\<lparr>gmail_accounts := update_where (\<lambda>a. acc_id a = is_gmail_account_id r \<and> acc_user_id a = is_user_id r)
                (account_ready_row now r) (gmail_accounts db)\<rparr>
      else db)"

text \<open>\<open>UPDATE gmail_import_state .. RETURNING *\<close>; \<open>fires\<close>: the trigger watches a column of the \<open>SET\<close> list.\<close>

definition update_import ::
    "instant \<Rightarrow> bool \<Rightarrow> (import_row \<Rightarrow> bool) \<Rightarrow> (import_row \<Rightarrow> import_row) \<Rightarrow> ('a mail_db_scheme, import_row option) eff" where
  "update_import now fires p f db =
     (let changed = returning p f (gmail_import_states db);
          db1 = db\<lparr>gmail_import_states := update_where p f (gmail_import_states db)\<rparr>
      in (Inr (row_first changed), if fires then fold (mark_gmail_account_initial_ready now) changed db1 else db1))"

text \<open>\<open>INSERT INTO gmail_import_state .. ON CONFLICT (gmail_account_id) DO UPDATE SET ..\<close>\<close>

definition upsert_import ::
    "instant \<Rightarrow> connection \<Rightarrow> string \<Rightarrow> bool \<Rightarrow> (import_row \<Rightarrow> import_row) \<Rightarrow> (import_row \<Rightarrow> import_row)
      \<Rightarrow> ('a mail_db_scheme, unit) eff" where
  "upsert_import now conn user fires new f db =
     (case scoped_account db conn user of
        None \<Rightarrow> (Inl IntegrityError, db)
      | Some account \<Rightarrow>
          if list_ex (\<lambda>r. is_gmail_account_id r = account) (gmail_import_states db)
          then ebind (update_import now fires (\<lambda>r. is_gmail_account_id r = account) f) (\<lambda>_. ereturn ()) db
          else (let row = new (new_import_row now user account) in
                (Inr (), mark_gmail_account_initial_ready now row
                   (db\<lparr>gmail_import_states := gmail_import_states db @ [row]\<rparr>))))"

end
