(* ===== verification/Message_Store.thy ===== *)
theory Message_Store
  imports Mailbox_State "HOL-Library.Option_ord"
begin

text \<open>
  Cached Gmail messages, the functions of \<open>backend/app/db/mail_groups.py\<close> that write
  \<open>gmail_messages\<close>: the metadata upsert that merges by Gmail history id, optimistic
  labels, body data and its fetch state, deletion, and the progress counters these
  statements keep in the import state and the initial window.
\<close>

section \<open>Decoding a Gmail payload\<close>

lemma jget_size: "size (jget fs k) < Suc (size_list (size_prod (\<lambda>_. 0) size) fs)"
proof (cases "map_of (rev fs) k")
  case None
  then show ?thesis by (simp add: jget_def)
next
  case (Some v)
  then have "(k, v) \<in> set fs" by (auto dest: map_of_SomeD)
  then have "size_prod (\<lambda>_. 0) size (k, v) < Suc (size_list (size_prod (\<lambda>_. 0) size) fs)"
    by (simp add: size_list_estimation' less_Suc_eq_le)
  with Some show ?thesis by (simp add: jget_def)
qed

fun jlist :: "json \<Rightarrow> json list" where
  "jlist (JArr xs) = xs"
| "jlist _ = []"

lemma children_size: "size_list size (jlist (jget fs k)) < Suc (size_list (size_prod (\<lambda>_. 0) size) fs)"
  using jget_size [of fs k] by (cases "jget fs k") simp_all

text \<open>The parts of a MIME tree in document order, each with its path.\<close>

function (sequential) part_tree :: "json \<Rightarrow> nat list \<Rightarrow> ((string \<times> json) list \<times> nat list) list"
  and part_children :: "nat \<Rightarrow> json list \<Rightarrow> nat list \<Rightarrow> ((string \<times> json) list \<times> nat list) list" where
  "part_tree (JObj fs) path = (fs, path) # part_children 0 (jlist (jget fs ''parts'')) path"
| "part_tree _ path = []"
| "part_children i [] path = []"
| "part_children i (c # cs) path = part_tree c (path @ [i]) @ part_children (Suc i) cs path"
  by pat_completeness auto

termination
  by (relation "measure (case_sum (\<lambda>(v, _). size v) (\<lambda>(_, cs, _). size_list size cs))") (auto simp: children_size)

definition or_text :: "json \<Rightarrow> string \<Rightarrow> string" where
  "or_text v alt = (if truthy v then json_str_or_empty v else alt)"

text \<open>The last nonempty value of a header, by lower-case name.\<close>

definition part_header :: "(string \<times> json) list \<Rightarrow> string \<Rightarrow> string" where
  "part_header part name =
     foldl (\<lambda>found h. case jfields h of None \<Rightarrow> found
              | Some fs \<Rightarrow>
                  (let value = strip (or_text (jget fs ''value'') '''') in
                   if lower (strip (or_text (jget fs ''name'') '''')) = name \<and> value \<noteq> '''' then value else found))
       '''' (jlist (jget part ''headers''))"

definition part_body :: "(string \<times> json) list \<Rightarrow> (string \<times> json) list" where
  "part_body part = (case jfields (jget part ''body'') of None \<Rightarrow> [] | Some b \<Rightarrow> b)"

definition payload_has_body_data :: "json \<Rightarrow> bool" where
  "payload_has_body_data payload =
     list_ex (\<lambda>(part, _). is_jstr (jget (part_body part) ''data'') \<and> truthy (jget (part_body part) ''data''))
       (part_tree (case jfields payload of None \<Rightarrow> payload | Some fs \<Rightarrow> jget fs ''payload'') [0])"

definition attachment_descriptor :: "nat \<Rightarrow> (string \<times> json) list \<Rightarrow> nat list \<Rightarrow> json option" where
  "attachment_descriptor count part path =
     (let attachment = jget (part_body part) ''attachmentId'';
          disposition = lower (part_header part ''content-disposition'');
          filename = strip (or_text (jget part ''filename'') '''');
          inline = startswith disposition ''inline''
            \<or> (filename = '''' \<and> part_header part ''content-id'' \<noteq> '''');
          downloadable = filename \<noteq> '''' \<or> startswith disposition ''attachment'';
          raw_size = jget (part_body part) ''size'';
          size = (case jint (jor raw_size (JInt 0)) of Inl _ \<Rightarrow> 0 | Inr n \<Rightarrow> max 0 n)
      in if is_jstr attachment \<and> truthy attachment \<and> \<not> inline \<and> downloadable
         then Some (JObj
           [(''filename'', JStr (if filename = '''' then ''attachment-'' @ nat_str (count + 1) else filename)),
            (''mime_type'', JStr (or_text (jget part ''mimeType'') ''application/octet-stream'')),
            (''size'', JInt size), (''attachment_id'', attachment),
            (''part_id'', JStr (or_text (jget part ''partId'') (join_with ''.'' (map nat_str path))))])
         else None)"

definition gmail_attachment_descriptors :: "json \<Rightarrow> json list" where
  "gmail_attachment_descriptors raw_payload =
     foldl (\<lambda>found (part, path). case attachment_descriptor (length found) part path of
              None \<Rightarrow> found | Some d \<Rightarrow> found @ [d]) []
       (part_tree (case jfields raw_payload of None \<Rightarrow> JNull | Some fs \<Rightarrow> jget fs ''payload'') [0])"

definition body_fetch_status_for_message :: "message_row \<Rightarrow> body_status" where
  "body_fetch_status_for_message m =
     (if payload_has_body_data (gm_raw_payload m) \<or> truthy_str (gm_html_render_document m)
         \<or> truthy_str (gm_html_body_sanitized m)
      then Body_fetched else Body_missing)"

text \<open>\<open>_message_params\<close>: the column values of a message record.\<close>

definition message_params :: "instant \<Rightarrow> message_row \<Rightarrow> message_row" where
  "message_params now m =
     (let status = (case gm_body_fetch_status m of None \<Rightarrow> body_fetch_status_for_message m | Some s \<Rightarrow> s) in
      m\<lparr>gm_body_fetch_status := Some status,
        gm_body_fetched_at := (if status = Body_fetched then coalesce (gm_body_fetched_at m) (Some now) else gm_body_fetched_at m),
        gm_attachment_descriptors :=
          (if gm_attachment_descriptors m = [] \<and> truthy (gm_raw_payload m)
           then gmail_attachment_descriptors (gm_raw_payload m) else gm_attachment_descriptors m),
        gm_attachment_descriptors_ready := (gm_attachment_descriptors_ready m \<or> status = Body_fetched),
        gm_render_doc_bytes :=
          (if gm_render_doc_bytes m \<noteq> 0 then gm_render_doc_bytes m
           else int (length (str_or_empty (gm_html_render_document m)))),
        gm_content_revision := max 1 (gm_content_revision m)\<rparr>)"

section \<open>The metadata upsert\<close>

definition numeric :: "string option \<Rightarrow> bool" where
  "numeric h \<longleftrightarrow> (case h of None \<Rightarrow> False | Some s \<Rightarrow> isdigit s)"

text \<open>The \<open>CASE\<close> that lets the history id and labels of \<open>new\<close> replace those of \<open>old\<close>.\<close>

definition newer_history :: "string option \<Rightarrow> string option \<Rightarrow> bool" where
  "newer_history new old \<longleftrightarrow>
     numeric new \<and> (\<not> numeric old \<or> numeral_of (str_or_empty old) < numeral_of (str_or_empty new))"

definition merged_status :: "message_row \<Rightarrow> message_row \<Rightarrow> body_status option" where
  "merged_status old new =
     (if gm_body_fetch_status new = Some Body_fetched then Some Body_fetched
      else if body_terminal old then gm_body_fetch_status old
      else gm_body_fetch_status new)"

definition carries_body :: "message_row \<Rightarrow> bool" where
  "carries_body new \<longleftrightarrow>
     gm_body_fetch_status new = Some Body_fetched \<or> gm_html_render_document new \<noteq> None
     \<or> gm_html_body_sanitized new \<noteq> None \<or> gm_text_body new \<noteq> None"

definition merged_content :: "instant \<Rightarrow> message_row \<Rightarrow> message_row \<Rightarrow> message_row" where
  "merged_content now old new =
     (let newer = newer_history (gm_history_id new) (gm_history_id old) in
      old\<lparr>gm_gmail_thread_id := gm_gmail_thread_id new,
        gm_history_id := (if newer then gm_history_id new else gm_history_id old),
        gm_label_ids := (if newer then gm_label_ids new else gm_label_ids old),
        gm_internal_date := gm_internal_date new, gm_subject := gm_subject new, gm_sender := gm_sender new,
        gm_recipients := gm_recipients new, gm_headers := gm_headers new, gm_snippet := gm_snippet new,
        gm_raw_payload := (if carries_body new then gm_raw_payload new else gm_raw_payload old),
        gm_html_body_sanitized := coalesce (gm_html_body_sanitized new) (gm_html_body_sanitized old),
        gm_html_render_document := coalesce (gm_html_render_document new) (gm_html_render_document old),
        gm_text_body := coalesce (gm_text_body new) (gm_text_body old),
        gm_attachment_descriptors :=
          (if gm_attachment_descriptors_ready new then gm_attachment_descriptors new else gm_attachment_descriptors old),
        gm_attachment_descriptors_ready := (gm_attachment_descriptors_ready old \<or> gm_attachment_descriptors_ready new),
        gm_extracted_signals := gm_extracted_signals new, gm_body_hash := gm_body_hash new,
        gm_body_fetch_status := merged_status old new,
        gm_body_fetched_at :=
          (if gm_body_fetch_status new = Some Body_fetched then coalesce (gm_body_fetched_at new) (Some now)
           else gm_body_fetched_at old),
        gm_body_fetch_error :=
          (if gm_body_fetch_status new = Some Body_fetched then None
           else if gm_body_fetch_status new = Some Body_failed then gm_body_fetch_error new
           else gm_body_fetch_error old),
        gm_render_doc_bytes := max (gm_render_doc_bytes old) (gm_render_doc_bytes new),
        gm_ai_title := coalesce (gm_ai_title old) (gm_ai_title new),
        gm_ai_title_generated_at := coalesce (gm_ai_title_generated_at old) (gm_ai_title_generated_at new),
        gm_updated_at := now\<rparr>)"

text \<open>The condition of the \<open>content_revision\<close> column, over the values the statement stores.\<close>

definition content_changed :: "message_row \<Rightarrow> message_row \<Rightarrow> message_row \<Rightarrow> bool" where
  "content_changed old new merged \<longleftrightarrow>
     gm_gmail_thread_id new \<noteq> gm_gmail_thread_id old \<or> gm_internal_date new \<noteq> gm_internal_date old
     \<or> gm_subject new \<noteq> gm_subject old \<or> gm_sender new \<noteq> gm_sender old
     \<or> gm_recipients new \<noteq> gm_recipients old \<or> gm_headers new \<noteq> gm_headers old
     \<or> gm_snippet new \<noteq> gm_snippet old \<or> gm_body_hash new \<noteq> gm_body_hash old
     \<or> gm_history_id merged \<noteq> gm_history_id old \<or> gm_label_ids merged \<noteq> gm_label_ids old
     \<or> gm_raw_payload merged \<noteq> gm_raw_payload old
     \<or> gm_html_render_document merged \<noteq> gm_html_render_document old
     \<or> gm_html_body_sanitized merged \<noteq> gm_html_body_sanitized old
     \<or> gm_text_body merged \<noteq> gm_text_body old
     \<or> gm_attachment_descriptors merged \<noteq> gm_attachment_descriptors old
     \<or> gm_body_fetch_status merged \<noteq> gm_body_fetch_status old
     \<or> (gm_body_fetch_status new = Some Body_fetched \<and> gm_body_fetch_status old \<noteq> Some Body_fetched)
     \<or> (gm_html_render_document new \<noteq> None \<and> gm_html_render_document new \<noteq> gm_html_render_document old)
     \<or> (gm_html_body_sanitized new \<noteq> None \<and> gm_html_body_sanitized new \<noteq> gm_html_body_sanitized old)
     \<or> (gm_text_body new \<noteq> None \<and> gm_text_body new \<noteq> gm_text_body old)"

definition merge_message :: "instant \<Rightarrow> message_row \<Rightarrow> message_row \<Rightarrow> message_row" where
  "merge_message now old new =
     (let merged = merged_content now old new in
      merged\<lparr>gm_content_revision := gm_content_revision old + (if content_changed old new merged then 1 else 0)\<rparr>)"

text \<open>One \<open>INSERT .. ON CONFLICT (gmail_account_id, message_id) DO UPDATE\<close>.\<close>

definition upsert_message :: "instant \<Rightarrow> connection \<Rightarrow> message_row \<Rightarrow> ('a mail_db_scheme, unit) eff" where
  "upsert_message now conn m db =
     (let new = message_params now m in
      case scoped_account db conn (gm_user_id m) of
        None \<Rightarrow> (Inl IntegrityError, db)
      | Some account \<Rightarrow>
          (let same = (\<lambda>r. gm_gmail_account_id r = account \<and> gm_message_id r = gm_message_id m) in
           (Inr (), db\<lparr>gmail_messages :=
              (if list_ex same (gmail_messages db)
               then update_where same (\<lambda>old. merge_message now old new) (gmail_messages db)
               else gmail_messages db @
                 [new\<lparr>gm_gmail_account_id := account, gm_body_fetch_updated_at := None,
                      gm_created_at := now, gm_updated_at := now\<rparr>])\<rparr>)))"

text \<open>After new metadata the history is complete only when no body is missing.\<close>

definition reopen_history :: "instant \<Rightarrow> import_row \<Rightarrow> import_row" where
  "reopen_history now r =
     r\<lparr>is_history_body_complete := False,
       is_phase := (if is_phase r = Some Sync_complete then Some Syncing_recent else is_phase r),
       is_updated_at := now\<rparr>"

definition upsert_messages_on_connection ::
    "instant \<Rightarrow> connection \<Rightarrow> message_row list \<Rightarrow> ('a mail_db_scheme, unit) eff" where
  "upsert_messages_on_connection now conn rows =
     ebind (emap (upsert_message now conn) rows) (\<lambda>_ db.
       case rows of [] \<Rightarrow> (Inr (), db)
       | m # _ \<Rightarrow>
           ebind (update_import now False
             (\<lambda>r. own_import db conn (gm_user_id m) r \<and> is_sync_generation r \<noteq> None
                \<and> is_history_metadata_complete r \<and> \<not> all_bodies_terminal db conn (gm_user_id m))
             (reopen_history now)) (\<lambda>_. ereturn ()) db)"

definition upsert_gmail_messages :: "instant \<Rightarrow> message_row list \<Rightarrow> ('a mail_db_scheme, nat) eff" where
  "upsert_gmail_messages now rows =
     (case rows of [] \<Rightarrow> ereturn 0
      | m # _ \<Rightarrow>
          if \<exists>r \<in> set rows. gm_user_id r \<noteq> gm_user_id m
          then eraise (ValueError ''A Gmail message write must contain exactly one user'')
          else ebind (user_mail_write_transaction (gm_user_id m) None
                 (\<lambda>conn. upsert_messages_on_connection now conn rows)) (\<lambda>_. ereturn (length rows)))"

section \<open>Progress reported to clients\<close>

record sync_progress =
  sp_sync_generation :: "string option"
  sp_phase :: "sync_phase option"
  sp_initial_target_count :: int
  sp_initial_metadata_count :: int
  sp_initial_body_target_count :: int
  sp_initial_body_ready_count :: int
  sp_history_metadata_count :: int
  sp_history_body_ready_count :: int
  sp_estimated_total_count :: int
  sp_initial_window_complete :: bool
  sp_history_metadata_complete :: bool
  sp_history_body_complete :: bool
  sp_last_progress_at :: "instant option"

definition gmail_sync_progress :: "import_row option \<Rightarrow> sync_progress" where
  "gmail_sync_progress state =
     (case state of
        None \<Rightarrow>
          \<lparr>sp_sync_generation = None, sp_phase = None, sp_initial_target_count = 0,
           sp_initial_metadata_count = 0, sp_initial_body_target_count = 0, sp_initial_body_ready_count = 0,
           sp_history_metadata_count = 0, sp_history_body_ready_count = 0, sp_estimated_total_count = 0,
           sp_initial_window_complete = False, sp_history_metadata_complete = False,
           sp_history_body_complete = False, sp_last_progress_at = None\<rparr>
      | Some r \<Rightarrow>
          \<lparr>sp_sync_generation = is_sync_generation r, sp_phase = is_phase r,
           sp_initial_target_count = is_initial_target_count r,
           sp_initial_metadata_count = is_initial_metadata_count r,
           sp_initial_body_target_count = is_initial_body_target_count r,
           sp_initial_body_ready_count = is_initial_body_ready_count r,
           sp_history_metadata_count = is_history_metadata_count r,
           sp_history_body_ready_count = is_history_body_ready_count r,
           sp_estimated_total_count = is_estimated_total_count r,
           sp_initial_window_complete = is_initial_window_complete r,
           sp_history_metadata_complete = is_history_metadata_complete r,
           sp_history_body_complete = is_history_body_complete r,
           sp_last_progress_at = is_last_progress_at r\<rparr>)"

text \<open>\<open>SELECT * FROM gmail_import_state WHERE user_id = ..\<close> inside a transaction and on its own.\<close>

definition import_on_connection :: "'a mail_db_scheme \<Rightarrow> connection \<Rightarrow> string \<Rightarrow> import_row option" where
  "import_on_connection db conn user = select_first (own_import db conn user) (gmail_import_states db)"

definition get_import_state :: "'a mail_db_scheme \<Rightarrow> string \<Rightarrow> import_row option" where
  "get_import_state db user = import_on_connection db (begin_connection db) user"

section \<open>Progress of body fetches\<close>

text \<open>The entries of the active generation; \<open>position < bound\<close> selects the priority ones.\<close>

definition ready_window_count :: "'a mail_db_scheme \<Rightarrow> connection \<Rightarrow> string \<Rightarrow> int \<Rightarrow> int" where
  "ready_window_count db conn user bound =
     int (length (filter (\<lambda>e. own_window db conn user e \<and> Some (iw_generation_id e) = active_generation db conn user
        \<and> iw_body_ready_at e \<noteq> None \<and> iw_position e < bound) (initial_window_entries db)))"

definition body_progress_row :: "instant \<Rightarrow> int \<Rightarrow> int \<Rightarrow> bool \<Rightarrow> import_row \<Rightarrow> import_row" where
  "body_progress_row now window_ready ready_threads bodies_ready r =
     r\<lparr>is_initial_body_ready_count := max (is_initial_body_ready_count r) window_ready,
       is_history_body_ready_count := max (is_history_body_ready_count r) (min (is_history_metadata_count r) ready_threads),
       is_phase :=
         (if is_history_metadata_complete r \<and> bodies_ready then Some Sync_complete
          else if is_initial_window_complete r \<and> is_initial_body_target_count r \<le> window_ready
            \<and> is_phase r \<in> {Some Discovering_recent, Some Importing_metadata, Some Hydrating_priority_content}
          then Some Usable else is_phase r),
       is_history_body_complete := (is_history_body_complete r \<or> is_history_metadata_complete r \<and> bodies_ready),
       is_last_progress_at := Some now, is_updated_at := now\<rparr>"

definition update_gmail_body_progress :: "instant \<Rightarrow> connection \<Rightarrow> string \<Rightarrow> ('a mail_db_scheme, unit) eff" where
  "update_gmail_body_progress now conn user db =
     (let target = (case import_on_connection db conn user of None \<Rightarrow> 0 | Some r \<Rightarrow> is_initial_body_target_count r)
      in ebind (update_import now False
             (\<lambda>r. own_import db conn user r \<and> is_sync_generation r \<noteq> None)
             (body_progress_row now (ready_window_count db conn user target)
                (ready_thread_count db conn user) (all_bodies_terminal db conn user)))
           (\<lambda>_. ereturn ()) db)"

definition mark_gmail_history_body_complete_if_ready :: "instant \<Rightarrow> string \<Rightarrow> ('a mail_db_scheme, sync_progress) eff" where
  "mark_gmail_history_body_complete_if_ready now user =
     user_mail_write_transaction user None (\<lambda>conn.
       ebind (update_gmail_body_progress now conn user) (\<lambda>_.
       eget (\<lambda>db. gmail_sync_progress (import_on_connection db conn user))))"

section \<open>Attachment descriptors of old rows\<close>

definition descriptor_row :: "instant \<Rightarrow> message_row \<Rightarrow> message_row" where
  "descriptor_row now m =
     (let found = gmail_attachment_descriptors (gm_raw_payload m) in
      m\<lparr>gm_attachment_descriptors := found, gm_attachment_descriptors_ready := True,
        gm_content_revision := gm_content_revision m + (if gm_attachment_descriptors m \<noteq> found then 1 else 0),
        gm_updated_at := now\<rparr>)"

definition descriptors_state_row :: "instant \<Rightarrow> bool \<Rightarrow> import_row \<Rightarrow> import_row" where
  "descriptors_state_row now b r = r\<lparr>is_attachment_descriptors_complete := b, is_updated_at := now\<rparr>"

text \<open>The rows without descriptors after a cursor, by message id.\<close>

definition undescribed :: "'a mail_db_scheme \<Rightarrow> connection \<Rightarrow> string \<Rightarrow> string option \<Rightarrow> message_row list" where
  "undescribed db conn user after =
     sort_key gm_message_id (filter (\<lambda>m. \<not> gm_attachment_descriptors_ready m
         \<and> (case after of None \<Rightarrow> True | Some a \<Rightarrow> a < gm_message_id m)) (own_messages db conn user))"

text \<open>
  One page. The import state is told once no row is left; a row that another writer left behind the
  cursor restarts the walk. The answer: rows processed, whether any is left, the cursor to go on from.
\<close>

definition describe_page ::
    "instant \<Rightarrow> string \<Rightarrow> int \<Rightarrow> string option \<Rightarrow> connection \<Rightarrow> ('a mail_db_scheme, nat \<times> bool \<times> string option) eff" where
  "describe_page now user limit after conn db =
     (let rows = limit_rows (max 1 (min limit 25)) (undescribed db conn user after);
          db1 = db\<lparr>gmail_messages := update_where (\<lambda>m. own_message db conn user m \<and> gm_message_id m \<in> set (map gm_message_id rows)
                     \<and> \<not> gm_attachment_descriptors_ready m) (descriptor_row now) (gmail_messages db)\<rparr>;
          cursor = (if rows = [] then after else Some (gm_message_id (last rows)));
          behind = (undescribed db1 conn user cursor = []);
          remaining = (undescribed db1 conn user None \<noteq> [])
      in if \<not> behind then (Inr (length rows, True, cursor), db1)
         else ebind (update_import now False (own_import db1 conn user) (descriptors_state_row now (\<not> remaining)))
                (\<lambda>_. ereturn (length rows, remaining, if remaining then None else cursor)) db1)"

definition backfill_gmail_attachment_descriptors_page ::
    "instant \<Rightarrow> string \<Rightarrow> int \<Rightarrow> string option \<Rightarrow> ('a mail_db_scheme, nat \<times> bool \<times> string option) eff" where
  "backfill_gmail_attachment_descriptors_page now user limit after =
     user_mail_write_transaction user None (describe_page now user limit after)"

section \<open>Labels\<close>

definition label_row :: "instant \<Rightarrow> string list \<Rightarrow> message_row \<Rightarrow> message_row" where
  "label_row now labels m =
     m\<lparr>gm_label_ids := labels,
       gm_content_revision := gm_content_revision m + (if gm_label_ids m \<noteq> labels then 1 else 0),
       gm_updated_at := now\<rparr>"

definition force_update_gmail_message_labels ::
    "instant \<Rightarrow> string \<Rightarrow> (string \<times> string list) list \<Rightarrow> ('a mail_db_scheme, nat) eff" where
  "force_update_gmail_message_labels now user labels_by_id =
     (let rows = map (\<lambda>(i, labels). (i, dict_fromkeys labels)) (filter (\<lambda>(i, _). i \<noteq> '''') labels_by_id) in
      if rows = [] then ereturn 0
      else user_mail_write_transaction user None (\<lambda>conn.
        ebind (emap (\<lambda>(i, labels) db.
            (Inr (), db\<lparr>gmail_messages := update_where (\<lambda>m. own_message db conn user m \<and> gm_message_id m = i)
                            (label_row now labels) (gmail_messages db)\<rparr>)) rows)
          (\<lambda>_. ereturn (length rows))))"

section \<open>Bodies\<close>

definition body_row :: "instant \<Rightarrow> message_row \<Rightarrow> message_row \<Rightarrow> message_row" where
  "body_row now p m =
     m\<lparr>gm_raw_payload := gm_raw_payload p, gm_html_body_sanitized := gm_html_body_sanitized p,
       gm_html_render_document := gm_html_render_document p, gm_text_body := gm_text_body p,
       gm_attachment_descriptors := gm_attachment_descriptors p, gm_attachment_descriptors_ready := True,
       gm_extracted_signals := gm_extracted_signals p, gm_body_hash := gm_body_hash p,
       gm_body_fetch_status := Some Body_fetched, gm_body_fetched_at := Some now, gm_body_fetch_error := None,
       gm_render_doc_bytes := max (gm_render_doc_bytes m) (gm_render_doc_bytes p),
       gm_content_revision := gm_content_revision m + 1\<rparr>"

definition window_body_row :: "instant \<Rightarrow> window_row \<Rightarrow> window_row" where
  "window_body_row now e = e\<lparr>iw_body_ready_at := coalesce (iw_body_ready_at e) (Some now), iw_updated_at := now\<rparr>"

definition update_windows ::
    "(window_row \<Rightarrow> bool) \<Rightarrow> (window_row \<Rightarrow> window_row) \<Rightarrow> ('a mail_db_scheme, nat) eff" where
  "update_windows p f db =
     (Inr (length (filter p (initial_window_entries db))),
      db\<lparr>initial_window_entries := update_where p f (initial_window_entries db)\<rparr>)"

text \<open>No cached message of the thread still lacks its body.\<close>

definition thread_bodies_terminal :: "'a mail_db_scheme \<Rightarrow> connection \<Rightarrow> string \<Rightarrow> string \<Rightarrow> bool" where
  "thread_bodies_terminal db conn user thread \<longleftrightarrow>
     list_all (\<lambda>m. thread_key m = thread \<longrightarrow> body_terminal m) (own_messages db conn user)"

definition finish_window_bodies ::
    "instant \<Rightarrow> connection \<Rightarrow> string \<Rightarrow> string list \<Rightarrow> ('a mail_db_scheme, nat) eff" where
  "finish_window_bodies now conn user threads db =
     update_windows (\<lambda>e. own_window db conn user e \<and> iw_gmail_thread_id e \<in> set threads
         \<and> Some (iw_generation_id e) = active_generation db conn user
         \<and> thread_bodies_terminal db conn user (iw_gmail_thread_id e)) (window_body_row now) db"

definition update_message_body ::
    "instant \<Rightarrow> connection \<Rightarrow> string \<Rightarrow> message_row \<Rightarrow> ('a mail_db_scheme, string list) eff" where
  "update_message_body now conn user p db =
     (let target = (\<lambda>m. own_message db conn user m \<and> gm_message_id m = gm_message_id p
                       \<and> gm_body_fetch_status m \<noteq> Some Body_fetched)
      in (Inr (if list_ex target (gmail_messages db) then [gm_message_id p] else []),
          db\<lparr>gmail_messages := update_where target (body_row now p) (gmail_messages db)\<rparr>))"

definition update_gmail_message_bodies ::
    "instant \<Rightarrow> message_row list \<Rightarrow> ('a mail_db_scheme, string list \<times> sync_progress option) eff" where
  "update_gmail_message_bodies now rows =
     (case rows of [] \<Rightarrow> ereturn ([], None)
      | m # _ \<Rightarrow>
          let params = map (message_params now) rows;
              threads = dict_fromkeys (filter (\<lambda>t. t \<noteq> '''') (map thread_key rows)) in
          if \<exists>r \<in> set rows. gm_user_id r \<noteq> gm_user_id m
          then eraise (ValueError ''A Gmail body write must contain exactly one user'')
          else if \<exists>p \<in> set params. gm_body_fetch_status p \<noteq> Some Body_fetched
          then eraise (ValueError ''A Gmail body write must contain only terminal fetched messages'')
          else user_mail_write_transaction (gm_user_id m) None (\<lambda>conn.
            ebind (emap (update_message_body now conn (gm_user_id m)) params) (\<lambda>updated.
            ebind (if threads = [] then ereturn 0 else finish_window_bodies now conn (gm_user_id m) threads) (\<lambda>_.
            ebind (update_gmail_body_progress now conn (gm_user_id m)) (\<lambda>_.
            eget (\<lambda>db. (concat updated,
              case import_on_connection db conn (gm_user_id m) of None \<Rightarrow> None
              | Some r \<Rightarrow> if is_sync_generation r = None then None else Some (gmail_sync_progress (Some r)))))))))"

definition body_state_row :: "instant \<Rightarrow> body_status \<Rightarrow> string option \<Rightarrow> message_row \<Rightarrow> message_row" where
  "body_state_row now status error m =
     m\<lparr>gm_body_fetch_status := Some status, gm_body_fetch_updated_at := Some now,
       gm_body_fetched_at := (if status = Body_fetched \<or> status = Body_unavailable then Some now else gm_body_fetched_at m),
       gm_body_fetch_error := error,
       gm_content_revision := gm_content_revision m + (if status = Body_unavailable \<and> \<not> body_terminal m then 1 else 0)\<rparr>"

definition mark_body_states ::
    "instant \<Rightarrow> string \<Rightarrow> string list \<Rightarrow> body_status \<Rightarrow> string option \<Rightarrow> connection \<Rightarrow> ('a mail_db_scheme, nat) eff" where
  "mark_body_states now user ids status error conn db =
     (let target = (\<lambda>m. own_message db conn user m \<and> gm_message_id m \<in> set ids
                      \<and> (status = Body_fetched \<or> \<not> body_terminal m));
          updated = length (filter target (gmail_messages db));
          db1 = db\<lparr>gmail_messages := update_where target (body_state_row now status error) (gmail_messages db)\<rparr>;
          threads = map thread_key (filter (\<lambda>m. gm_message_id m \<in> set ids) (own_messages db1 conn user))
      in if 0 < updated \<and> (status = Body_fetched \<or> status = Body_unavailable)
         then ebind (finish_window_bodies now conn user threads) (\<lambda>_.
              ebind (update_gmail_body_progress now conn user) (\<lambda>_. ereturn updated)) db1
         else (Inr updated, db1))"

definition mark_gmail_messages_body_fetch_state ::
    "instant \<Rightarrow> string \<Rightarrow> string list \<Rightarrow> body_status \<Rightarrow> string option \<Rightarrow> ('a mail_db_scheme, nat) eff" where
  "mark_gmail_messages_body_fetch_state now user message_ids status error =
     (let ids = dict_fromkeys (filter (\<lambda>i. i \<noteq> '''') message_ids);
          stored = (if truthy_str error then map_option (take 4000) error else None) in
      if ids = [] then ereturn 0
      else user_mail_write_transaction user None (mark_body_states now user ids status stored))"

text \<open>The next transaction of the body backfill, newest first, at most 25 messages.\<close>

definition list_messages_needing_body_fetch :: "instant \<Rightarrow> 'a mail_db_scheme \<Rightarrow> string \<Rightarrow> int \<Rightarrow> message_row list" where
  "list_messages_needing_body_fetch now db user limit =
     limit_rows (max 1 (min limit 25))
       (rev (sort_key (\<lambda>m. (gm_internal_date m, gm_message_id m))
         (filter (\<lambda>m. gm_body_fetch_status m = Some Body_missing
             \<or> ((gm_body_fetch_status m = Some Body_pending \<or> gm_body_fetch_status m = Some Body_failed)
                \<and> (case gm_body_fetch_updated_at m of None \<Rightarrow> gm_updated_at m | Some t \<Rightarrow> t) < now - seconds 900))
           (own_messages db (begin_connection db) user))))"

section \<open>Deleting messages\<close>

definition window_gone_row :: "instant \<Rightarrow> window_row \<Rightarrow> window_row" where
  "window_gone_row now e =
     e\<lparr>iw_metadata_ready_at := coalesce (iw_metadata_ready_at e) (Some now),
       iw_body_ready_at := coalesce (iw_body_ready_at e) (Some now), iw_message_count := 0, iw_updated_at := now\<rparr>"

text \<open>The counts of the window of one generation: entries, with metadata, priority ones with bodies.\<close>

definition window_counts :: "'a mail_db_scheme \<Rightarrow> connection \<Rightarrow> string \<Rightarrow> string option \<Rightarrow> int \<times> int \<times> int" where
  "window_counts db conn user generation =
     (let es = filter (\<lambda>e. own_window db conn user e \<and> Some (iw_generation_id e) = generation) (initial_window_entries db)
      in (int (length es), int (length (filter (\<lambda>e. iw_metadata_ready_at e \<noteq> None) es)),
          int (length (filter (\<lambda>e. iw_body_ready_at e \<noteq> None \<and> iw_position e < 25) es))))"

definition window_progress_row :: "instant \<Rightarrow> int \<times> int \<times> int \<Rightarrow> import_row \<Rightarrow> import_row" where
  "window_progress_row now counts r =
     (case counts of (target, metadata, body) \<Rightarrow>
        r\<lparr>is_initial_target_count := max (is_initial_target_count r) target,
          is_initial_metadata_count := max (is_initial_metadata_count r) metadata,
          is_initial_body_target_count := max (is_initial_body_target_count r) (min 25 target),
          is_initial_body_ready_count := max (is_initial_body_ready_count r) body,
          is_initial_window_complete := (is_initial_window_complete r \<or> target \<le> metadata),
          is_last_progress_at := Some now, is_updated_at := now\<rparr>)"

definition delete_progress ::
    "instant \<Rightarrow> connection \<Rightarrow> string \<Rightarrow> string list \<Rightarrow> ('a mail_db_scheme, unit) eff" where
  "delete_progress now conn user threads =
     ebind (\<lambda>db. update_windows (\<lambda>e. own_window db conn user e \<and> iw_gmail_thread_id e \<in> set threads
          \<and> Some (iw_generation_id e) = active_generation db conn user
          \<and> iw_gmail_thread_id e \<notin> set (map thread_key (own_messages db conn user))) (window_gone_row now) db) (\<lambda>gone.
     ebind (\<lambda>db. update_windows (\<lambda>e. own_window db conn user e \<and> iw_gmail_thread_id e \<in> set threads
          \<and> Some (iw_generation_id e) = active_generation db conn user
          \<and> iw_gmail_thread_id e \<in> set (map thread_key (own_messages db conn user))
          \<and> thread_bodies_terminal db conn user (iw_gmail_thread_id e)) (window_body_row now) db) (\<lambda>resolved.
     if gone + resolved = 0 then ereturn ()
     else ebind (\<lambda>db. update_import now True
              (\<lambda>r. own_import db conn user r \<and> is_sync_generation r \<noteq> None)
              (window_progress_row now (window_counts db conn user (active_generation db conn user))) db)
            (\<lambda>_. update_gmail_body_progress now conn user)))"

definition delete_gmail_messages :: "instant \<Rightarrow> string \<Rightarrow> string list \<Rightarrow> ('a mail_db_scheme, string list) eff" where
  "delete_gmail_messages now user message_ids =
     (let ids = dict_fromkeys (filter (\<lambda>i. i \<noteq> '''') message_ids) in
      if ids = [] then ereturn []
      else user_mail_write_transaction user None (\<lambda>conn db.
        let gone = (\<lambda>m. own_message db conn user m \<and> gm_message_id m \<in> set ids);
            member = (\<lambda>x. own_member db conn user x \<and> mm_gmail_message_id x \<in> set ids);
            threads = remdups (map thread_key (filter gone (gmail_messages db)));
            groups = remdups (map mm_group_id (filter member (mail_group_members db)));
            db1 = db\<lparr>mail_group_members := delete_where member (mail_group_members db),
                     gmail_messages := delete_where gone (gmail_messages db)\<rparr>
        in ebind (if threads = [] then ereturn () else delete_progress now conn user threads)
             (\<lambda>_. ereturn groups) db1))"

definition pruned_group_row :: "instant \<Rightarrow> group_row \<Rightarrow> group_row" where
  "pruned_group_row now g =
     g\<lparr>mg_status := Group_deleted, mg_enrichment_status := Enrichment_ready, mg_dashboard_visible := False,
       mg_updated_at := now\<rparr>"

definition prune_empty_mail_groups :: "instant \<Rightarrow> string \<Rightarrow> string list \<Rightarrow> ('a mail_db_scheme, string list) eff" where
  "prune_empty_mail_groups now user group_ids =
     (let ids = dict_fromkeys (filter (\<lambda>i. i \<noteq> '''') group_ids) in
      if ids = [] then ereturn []
      else user_mail_write_transaction user None (\<lambda>conn db.
        let empty = (\<lambda>g. own_group db conn user g \<and> mg_id g \<in> set ids
              \<and> \<not> list_ex (\<lambda>x. own_member db conn user x \<and> mm_group_id x = mg_id g) (mail_group_members db))
        in (Inr (map mg_id (filter empty (mail_groups db))),
            db\<lparr>mail_groups := update_where empty (pruned_group_row now) (mail_groups db)\<rparr>)))"

definition pending_group_row :: "instant \<Rightarrow> group_row \<Rightarrow> group_row" where
  "pending_group_row now g =
     g\<lparr>mg_enrichment_status := Enrichment_pending, mg_generated_at := None, mg_ai_model := None,
       mg_ai_error := None, mg_ai_generated_at := None, mg_dashboard_visible := False, mg_updated_at := now\<rparr>"

definition mark_mail_groups_pending :: "instant \<Rightarrow> string \<Rightarrow> string list \<Rightarrow> ('a mail_db_scheme, string list) eff" where
  "mark_mail_groups_pending now user group_ids =
     (let ids = dict_fromkeys (filter (\<lambda>i. i \<noteq> '''') group_ids) in
      if ids = [] then ereturn []
      else user_mail_write_transaction user None (\<lambda>conn db.
        let target = (\<lambda>g. own_group db conn user g \<and> mg_id g \<in> set ids \<and> mg_status g = Group_active)
        in (Inr (map mg_id (filter target (mail_groups db))),
            db\<lparr>mail_groups := update_where target (pending_group_row now) (mail_groups db)\<rparr>)))"

section \<open>Reading messages\<close>

definition existing_gmail_message_ids :: "'a mail_db_scheme \<Rightarrow> string \<Rightarrow> string list \<Rightarrow> string set" where
  "existing_gmail_message_ids db user message_ids =
     set (map gm_message_id (filter (\<lambda>m. gm_message_id m \<in> set message_ids \<and> gm_message_id m \<noteq> '''')
       (own_messages db (begin_connection db) user)))"

definition list_messages_by_ids :: "'a mail_db_scheme \<Rightarrow> string \<Rightarrow> string list \<Rightarrow> message_row list" where
  "list_messages_by_ids db user message_ids =
     (let ms = own_messages db (begin_connection db) user in
      concat (map (\<lambda>i. case select_first (\<lambda>m. gm_message_id m = i) ms of None \<Rightarrow> [] | Some m \<Rightarrow> [m]) message_ids))"

text \<open>\<open>ORDER BY internal_date ASC NULLS LAST, created_at ASC\<close>\<close>

definition oldest_first :: "message_row list \<Rightarrow> message_row list" where
  "oldest_first = sort_key (\<lambda>m. (gm_internal_date m = None, gm_internal_date m, gm_created_at m))"

definition list_messages_for_gmail_thread :: "'a mail_db_scheme \<Rightarrow> string \<Rightarrow> string \<Rightarrow> message_row list" where
  "list_messages_for_gmail_thread db user thread =
     (if strip thread = '''' then []
      else oldest_first (filter (\<lambda>m. thread_key m = strip thread) (own_messages db (begin_connection db) user)))"

definition list_group_messages :: "'a mail_db_scheme \<Rightarrow> string \<Rightarrow> string \<Rightarrow> message_row list" where
  "list_group_messages db user gid =
     (let conn = begin_connection db;
          members = filter (\<lambda>x. own_member db conn user x \<and> mm_group_id x = gid) (mail_group_members db)
      in oldest_first (concat (map (\<lambda>x. filter (\<lambda>m. gm_message_id m = mm_gmail_message_id x)
           (own_messages db conn user)) members)))"

text \<open>The messages of \<open>get_mail_group_detail\<close>, if the group is an active one of the user.\<close>

definition get_mail_group_detail :: "'a mail_db_scheme \<Rightarrow> string \<Rightarrow> string \<Rightarrow> message_row list option" where
  "get_mail_group_detail db user gid =
     (if list_ex (\<lambda>g. own_group db (begin_connection db) user g \<and> mg_id g = gid \<and> mg_status g = Group_active)
           (mail_groups db)
      then Some (list_group_messages db user gid) else None)"

end
