(* ===== verification/Import_State.thy ===== *)
theory Import_State
  imports Message_Store
begin

text \<open>
  The import state of an account in \<open>backend/app/db/mail_groups.py\<close>: the marks of the
  importer, the Gmail watch, and the progressive synchronisation with its initial
  window of at most 100 conversations, committed in batches of at most 25. Writes
  are fenced by the sync generation.
\<close>

section \<open>Marks of the importer\<close>

definition in_sync :: "import_row \<Rightarrow> bool" where
  "in_sync r \<longleftrightarrow> is_sync_generation r \<noteq> None"

definition import_started_row :: "instant \<Rightarrow> import_row \<Rightarrow> import_row" where
  "import_started_row now r =
     r\<lparr>is_last_import_started_at := Some now,
       is_phase := (if in_sync r \<and> is_history_metadata_complete r then Some Syncing_recent else is_phase r),
       is_last_progress_at := (if in_sync r then Some now else is_last_progress_at r),
       is_last_sync_error := None, is_updated_at := now\<rparr>"

definition mark_import_started :: "instant \<Rightarrow> string \<Rightarrow> ('a mail_db_scheme, unit) eff" where
  "mark_import_started now user =
     user_mail_write_transaction user None (\<lambda>conn.
       upsert_import now conn user False (\<lambda>r. r\<lparr>is_last_import_started_at := Some now\<rparr>) (import_started_row now))"

record import_flags =
  fl_first_batch :: bool
  fl_groups_ready :: bool
  fl_dashboard_ready :: bool
  fl_full_backfill_cursor :: "string option"
  fl_clear_full_backfill_cursor :: bool
  fl_full_backfill_started :: bool
  fl_full_backfill_completed :: bool

definition import_completed_new :: "instant \<Rightarrow> import_flags \<Rightarrow> import_row \<Rightarrow> import_row" where
  "import_completed_new now fl r =
     (let mark = (\<lambda>b. if b then Some now else None) in
      r\<lparr>is_full_backfill_cursor := fl_full_backfill_cursor fl,
        is_full_backfill_started_at := mark (fl_full_backfill_started fl),
        is_full_backfill_completed_at := mark (fl_full_backfill_completed fl),
        is_first_batch_imported_at := mark (fl_first_batch fl),
        is_first_groups_ready_at := mark (fl_groups_ready fl),
        is_first_dashboard_ready_at := mark (fl_dashboard_ready fl),
        is_last_import_completed_at := Some now\<rparr>)"

definition import_completed_row :: "instant \<Rightarrow> import_flags \<Rightarrow> import_row \<Rightarrow> import_row" where
  "import_completed_row now fl r =
     (let mark = (\<lambda>b. if b then Some now else None) in
      r\<lparr>is_full_backfill_cursor :=
          (if fl_clear_full_backfill_cursor fl then None
           else coalesce (fl_full_backfill_cursor fl) (is_full_backfill_cursor r)),
        is_full_backfill_started_at := coalesce (is_full_backfill_started_at r) (mark (fl_full_backfill_started fl)),
        is_full_backfill_completed_at :=
          (if fl_full_backfill_completed fl then Some now
           else if fl_full_backfill_cursor fl \<noteq> None then None else is_full_backfill_completed_at r),
        is_first_batch_imported_at := coalesce (is_first_batch_imported_at r) (mark (fl_first_batch fl)),
        is_first_groups_ready_at := coalesce (is_first_groups_ready_at r) (mark (fl_groups_ready fl)),
        is_first_dashboard_ready_at := coalesce (is_first_dashboard_ready_at r) (mark (fl_dashboard_ready fl)),
        is_last_import_completed_at := Some now, is_last_sync_error := None, is_updated_at := now\<rparr>)"

definition mark_import_completed :: "instant \<Rightarrow> string \<Rightarrow> import_flags \<Rightarrow> ('a mail_db_scheme, unit) eff" where
  "mark_import_completed now user fl =
     user_mail_write_transaction user None (\<lambda>conn.
       upsert_import now conn user True (import_completed_new now fl) (import_completed_row now fl))"

text \<open>
  The new cursor of a completed traversal: an authoritative numeric cursor only
  moves forward, any other cursor is replaced.
\<close>

definition advanced_history :: "string \<Rightarrow> import_row \<Rightarrow> string option" where
  "advanced_history h r =
     (if \<not> is_history_cursor_authoritative r \<or> \<not> numeric (is_last_history_id r) then Some h
      else if numeral_of (str_or_empty (is_last_history_id r)) \<le> numeral_of h then Some h
      else is_last_history_id r)"

definition history_delta_row :: "instant \<Rightarrow> string \<Rightarrow> import_row \<Rightarrow> import_row" where
  "history_delta_row now h r =
     r\<lparr>is_last_history_id := advanced_history h r, is_last_import_completed_at := Some now,
       is_last_delta_sync_at := Some now, is_history_cursor_authoritative := True,
       is_phase := (if \<not> in_sync r then is_phase r
                    else if is_history_body_complete r then Some Sync_complete else Some Usable),
       is_last_progress_at := (if in_sync r then Some now else is_last_progress_at r),
       is_last_sync_error := None, is_updated_at := now\<rparr>"

definition mark_history_delta_completed :: "instant \<Rightarrow> string \<Rightarrow> string \<Rightarrow> ('a mail_db_scheme, unit) eff" where
  "mark_history_delta_completed now user last_history_id =
     (let h = strip last_history_id in
      if \<not> isdigit h then eraise (ValueError ''Gmail history ID must be numeric'')
      else user_mail_write_transaction user None (\<lambda>conn.
        upsert_import now conn user True
          (\<lambda>r. r\<lparr>is_last_history_id := Some h, is_last_import_completed_at := Some now,
                 is_last_delta_sync_at := Some now, is_history_cursor_authoritative := True\<rparr>)
          (history_delta_row now h)))"

definition import_error_row :: "instant \<Rightarrow> string \<Rightarrow> import_row \<Rightarrow> import_row" where
  "import_error_row now error r =
     r\<lparr>is_last_sync_error := Some error,
       is_phase := (if in_sync r then Some Sync_failed else is_phase r),
       is_last_progress_at := (if in_sync r then Some now else is_last_progress_at r),
       is_updated_at := now\<rparr>"

definition mark_import_error :: "instant \<Rightarrow> string \<Rightarrow> string \<Rightarrow> ('a mail_db_scheme, unit) eff" where
  "mark_import_error now user error =
     user_mail_write_transaction user None (\<lambda>conn.
       upsert_import now conn user False (\<lambda>r. r\<lparr>is_last_sync_error := Some (take 4000 error)\<rparr>)
         (import_error_row now (take 4000 error)))"

definition watch_started_row :: "instant \<Rightarrow> string option \<Rightarrow> instant option \<Rightarrow> import_row \<Rightarrow> import_row" where
  "watch_started_row now history_id expiration_at r =
     r\<lparr>is_gmail_watch_history_id := history_id, is_gmail_watch_expiration_at := expiration_at,
       is_gmail_watch_started_at := Some now, is_gmail_watch_error := None, is_updated_at := now\<rparr>"

definition mark_gmail_watch_started ::
    "instant \<Rightarrow> string \<Rightarrow> string option \<Rightarrow> instant option \<Rightarrow> ('a mail_db_scheme, unit) eff" where
  "mark_gmail_watch_started now user history_id expiration_at =
     user_mail_write_transaction user None (\<lambda>conn.
       upsert_import now conn user False (watch_started_row now history_id expiration_at)
         (watch_started_row now history_id expiration_at))"

definition watch_error_row :: "instant \<Rightarrow> string \<Rightarrow> import_row \<Rightarrow> import_row" where
  "watch_error_row now error r = r\<lparr>is_gmail_watch_error := Some error, is_updated_at := now\<rparr>"

definition mark_gmail_watch_error :: "instant \<Rightarrow> string \<Rightarrow> string \<Rightarrow> ('a mail_db_scheme, unit) eff" where
  "mark_gmail_watch_error now user error =
     user_mail_write_transaction user None (\<lambda>conn.
       upsert_import now conn user False (watch_error_row now (take 4000 error)) (watch_error_row now (take 4000 error)))"

definition gmail_history_cursor_is_authoritative :: "import_row option \<Rightarrow> bool" where
  "gmail_history_cursor_is_authoritative state =
     (case state of None \<Rightarrow> False
      | Some r \<Rightarrow> is_history_cursor_authoritative r \<and> isdigit (str_or_empty (is_last_history_id r)))"

text \<open>\<open>mark_google_disconnected\<close>: the guard column that stops mail work, and the end of the Gmail watch.\<close>

definition mark_google_disconnected :: "instant \<Rightarrow> string \<Rightarrow> 'a mail_db_scheme \<Rightarrow> 'a mail_db_scheme" where
  "mark_google_disconnected now user db =
     (set_google_guard now user (\<lambda>u. u\<lparr>google_disconnected_at := Some now, usr_updated_at := now\<rparr>) db)
       \<lparr>gmail_import_states := update_where (own_import db (begin_connection db) user)
          (\<lambda>r. r\<lparr>is_gmail_watch_history_id := None, is_gmail_watch_expiration_at := None,
                 is_gmail_watch_started_at := None, is_gmail_watch_error := None, is_updated_at := now\<rparr>)
          (gmail_import_states db)\<rparr>"

lemma guard_set_frame [simp]:
  "users (set_google_guard now user f db) = update_where (\<lambda>u. usr_id u = user) f (users db)"
  "gmail_messages (set_google_guard now user f db) = gmail_messages db"
  "gmail_import_states (set_google_guard now user f db) = gmail_import_states db"
  "initial_window_entries (set_google_guard now user f db) = initial_window_entries db"
  "reconcile_seen (set_google_guard now user f db) = reconcile_seen db"
  "mail_groups (set_google_guard now user f db) = mail_groups db"
  "mail_group_members (set_google_guard now user f db) = mail_group_members db"
  "active_gmail_account (set_google_guard now user f db) = active_gmail_account db"
  by (simp_all add: set_google_guard_def guard_set_trigger_def tombstone_user_def record_google_subject_revocation_def
    Let_def split: option.split)

section \<open>The initial window\<close>

text \<open>
  \<open>INSERT .. ON CONFLICT (gmail_account_id, generation_id, gmail_thread_id) DO NOTHING\<close>;
  the positions of a generation are unique, too.
\<close>

definition insert_window :: "connection \<Rightarrow> window_row \<Rightarrow> ('a mail_db_scheme, unit) eff" where
  "insert_window conn e db =
     (case scoped_account db conn (iw_user_id e) of
        None \<Rightarrow> (Inl IntegrityError, db)
      | Some account \<Rightarrow>
          (let same = (\<lambda>x. iw_gmail_account_id x = account \<and> iw_generation_id x = iw_generation_id e) in
           if list_ex (\<lambda>x. same x \<and> iw_gmail_thread_id x = iw_gmail_thread_id e) (initial_window_entries db)
           then (Inr (), db)
           else if list_ex (\<lambda>x. same x \<and> iw_position x = iw_position e) (initial_window_entries db)
           then (Inl IntegrityError, db)
           else (Inr (), db\<lparr>initial_window_entries :=
                   initial_window_entries db @ [e\<lparr>iw_gmail_account_id := account\<rparr>]\<rparr>)))"

definition new_window :: "instant \<Rightarrow> string \<Rightarrow> string \<Rightarrow> string \<Rightarrow> int \<Rightarrow> window_row" where
  "new_window now user generation thread position =
     \<lparr>iw_user_id = user, iw_gmail_account_id = '''', iw_generation_id = generation, iw_gmail_thread_id = thread,
      iw_position = position, iw_message_count = 0, iw_metadata_ready_at = None, iw_body_ready_at = None,
      iw_updated_at = now\<rparr>"

definition sync_row :: "'a mail_db_scheme \<Rightarrow> connection \<Rightarrow> string \<Rightarrow> string \<Rightarrow> import_row \<Rightarrow> bool" where
  "sync_row db conn user generation r \<longleftrightarrow> own_import db conn user r \<and> is_sync_generation r = Some generation"

text \<open>\<open>start_gmail_sync_progress\<close>: adopt the generation of the active scan, and reset the counters unless it is the current one.\<close>

definition sync_started_row :: "instant \<Rightarrow> string \<Rightarrow> import_row \<Rightarrow> import_row" where
  "sync_started_row now generation r =
     (let same = is_sync_generation r = Some generation; keep = (\<lambda>n. if same then n else (0 :: int)) in
      r\<lparr>is_sync_generation := Some generation,
        is_phase := (if same \<and> is_phase r \<noteq> None then is_phase r else Some Discovering_recent),
        is_initial_target_count := keep (is_initial_target_count r),
        is_initial_metadata_count := keep (is_initial_metadata_count r),
        is_initial_body_target_count := keep (is_initial_body_target_count r),
        is_initial_body_ready_count := keep (is_initial_body_ready_count r),
        is_history_metadata_count := keep (is_history_metadata_count r),
        is_history_body_ready_count := keep (is_history_body_ready_count r),
        is_estimated_total_count := keep (is_estimated_total_count r),
        is_initial_window_complete := (same \<and> is_initial_window_complete r),
        is_history_metadata_complete := (same \<and> is_history_metadata_complete r),
        is_history_body_complete := (same \<and> is_history_body_complete r),
        is_last_progress_at := (if same then coalesce (is_last_progress_at r) (Some now) else Some now),
        is_updated_at := now\<rparr>)"

definition start_gmail_sync_progress :: "instant \<Rightarrow> string \<Rightarrow> string \<Rightarrow> ('a mail_db_scheme, import_row option) eff" where
  "start_gmail_sync_progress now user generation_id =
     (let generation = strip generation_id in
      if generation = '''' then eraise (ValueError ''Gmail sync generation is required'')
      else user_mail_write_transaction user None (\<lambda>conn.
        ebind (\<lambda>db. update_import now True
            (\<lambda>r. own_import db conn user r \<and> is_reconcile_generation r = Some generation)
            (sync_started_row now generation) db) (\<lambda>row.
        case row of None \<Rightarrow> ereturn None
        | Some r \<Rightarrow>
            ebind (eupdate (\<lambda>db. db\<lparr>initial_window_entries :=
                delete_where (\<lambda>e. own_window db conn user e \<and> iw_generation_id e \<noteq> generation) (initial_window_entries db)\<rparr>))
              (\<lambda>_. ereturn (Some r)))))"

definition already_discovered :: "'a mail_db_scheme \<Rightarrow> connection \<Rightarrow> string \<Rightarrow> string \<Rightarrow> bool" where
  "already_discovered db conn user generation \<longleftrightarrow>
     list_ex (\<lambda>e. own_window db conn user e \<and> iw_generation_id e = generation) (initial_window_entries db)
     \<or> list_ex (\<lambda>r. sync_row db conn user generation r \<and> is_phase r \<noteq> None
          \<and> is_phase r \<noteq> Some Discovering_recent \<and> is_phase r \<noteq> Some Sync_failed) (gmail_import_states db)"

definition window_discovered_row :: "instant \<Rightarrow> int \<Rightarrow> int \<Rightarrow> import_row \<Rightarrow> import_row" where
  "window_discovered_row now target estimated r =
     r\<lparr>is_initial_target_count := target, is_initial_body_target_count := min 25 target,
       is_estimated_total_count := max (is_estimated_total_count r) estimated,
       is_initial_window_complete := (target = 0),
       is_first_batch_imported_at :=
         (if target = 0 then coalesce (is_first_batch_imported_at r) (Some now) else is_first_batch_imported_at r),
       is_phase := (if target = 0 then Some Syncing_history else Some Importing_metadata),
       is_last_import_completed_at := (if target = 0 then Some now else is_last_import_completed_at r),
       is_last_progress_at := Some now, is_last_sync_error := None, is_updated_at := now\<rparr>"

definition initialize_gmail_initial_window ::
    "instant \<Rightarrow> string \<Rightarrow> string \<Rightarrow> string list \<Rightarrow> int \<Rightarrow> ('a mail_db_scheme, sync_progress option) eff" where
  "initialize_gmail_initial_window now user generation gmail_thread_ids estimated =
     (let threads = take 100 (dict_fromkeys (filter (\<lambda>t. t \<noteq> '''') gmail_thread_ids)) in
      user_mail_write_transaction user None (\<lambda>conn.
        ebind (eget (\<lambda>db. (list_ex (sync_row db conn user generation) (gmail_import_states db),
                           already_discovered db conn user generation))) (\<lambda>(active, discovered).
        if \<not> active then ereturn None
        else ebind
          (if discovered then ereturn ()
           else ebind (emap (\<lambda>(position, thread). insert_window conn (new_window now user generation thread position))
                    (zip (map int [0..<length threads]) threads)) (\<lambda>_.
                ebind (\<lambda>db. update_import now True (sync_row db conn user generation)
                    (window_discovered_row now (int (length threads)) (max 0 estimated)) db)
                  (\<lambda>_. ereturn ())))
          (\<lambda>_. eget (\<lambda>db. Some (gmail_sync_progress (import_on_connection db conn user)))))))"

text \<open>The listings of pending entries, by position.\<close>

definition list_windows :: "(window_row \<Rightarrow> bool) \<Rightarrow> int \<Rightarrow> int \<Rightarrow> window_row list \<Rightarrow> window_row list" where
  "list_windows p limit bound es = limit_rows (max 1 (min limit bound)) (sort_key iw_position (filter p es))"

definition list_pending_gmail_initial_window_entries ::
    "'a mail_db_scheme \<Rightarrow> string \<Rightarrow> string \<Rightarrow> int \<Rightarrow> window_row list" where
  "list_pending_gmail_initial_window_entries db user generation limit =
     list_windows (\<lambda>e. own_window db (begin_connection db) user e \<and> iw_generation_id e = generation
        \<and> iw_metadata_ready_at e = None) limit 25 (initial_window_entries db)"

definition list_gmail_initial_window_entries_needing_body_fetch ::
    "'a mail_db_scheme \<Rightarrow> string \<Rightarrow> string \<Rightarrow> int \<Rightarrow> window_row list" where
  "list_gmail_initial_window_entries_needing_body_fetch db user generation limit =
     list_windows (\<lambda>e. own_window db (begin_connection db) user e \<and> iw_generation_id e = generation
        \<and> iw_metadata_ready_at e \<noteq> None \<and> iw_body_ready_at e = None) limit 100 (initial_window_entries db)"

definition list_gmail_initial_window_positions ::
    "'a mail_db_scheme \<Rightarrow> string \<Rightarrow> string list \<Rightarrow> (string \<times> int) list" where
  "list_gmail_initial_window_positions db user threads =
     (let conn = begin_connection db in
      map (\<lambda>e. (iw_gmail_thread_id e, iw_position e))
        (filter (\<lambda>e. own_window db conn user e \<and> iw_gmail_thread_id e \<in> set threads \<and> iw_gmail_thread_id e \<noteq> ''''
            \<and> Some (iw_generation_id e) = active_generation db conn user) (initial_window_entries db)))"

section \<open>Committing metadata batches\<close>

definition window_metadata_row :: "instant \<Rightarrow> message_row list \<Rightarrow> window_row \<Rightarrow> window_row" where
  "window_metadata_row now ms e =
     (let own = filter (\<lambda>m. thread_key m = iw_gmail_thread_id e) ms in
      e\<lparr>iw_metadata_ready_at := coalesce (iw_metadata_ready_at e) (Some now),
        iw_message_count := int (length own),
        iw_body_ready_at :=
          (if own \<noteq> [] \<and> list_all body_terminal own then coalesce (iw_body_ready_at e) (Some now) else iw_body_ready_at e),
        iw_updated_at := now\<rparr>)"

definition batch_progress_row :: "instant \<Rightarrow> int \<times> int \<times> int \<Rightarrow> import_row \<Rightarrow> import_row" where
  "batch_progress_row now counts r =
     (case counts of (target, metadata, body) \<Rightarrow>
        let complete = target \<le> metadata in
        r\<lparr>is_initial_target_count := max (is_initial_target_count r) target,
          is_initial_metadata_count := max (is_initial_metadata_count r) metadata,
          is_initial_body_target_count := max (is_initial_body_target_count r) (min 25 target),
          is_initial_body_ready_count := max (is_initial_body_ready_count r) body,
          is_initial_window_complete := (is_initial_window_complete r \<or> complete),
          is_first_batch_imported_at :=
            (if 0 < metadata \<or> target = 0 then coalesce (is_first_batch_imported_at r) (Some now)
             else is_first_batch_imported_at r),
          is_phase := Some (if complete \<and> min 25 target \<le> body then Usable
                            else if complete then Hydrating_priority_content else Importing_metadata),
          is_last_import_completed_at := Some now, is_last_progress_at := Some now,
          is_last_sync_error := None, is_updated_at := now\<rparr>)"

definition commit_batch ::
    "instant \<Rightarrow> string \<Rightarrow> string \<Rightarrow> string list \<Rightarrow> string list \<Rightarrow> message_row list \<Rightarrow> connection
      \<Rightarrow> ('a mail_db_scheme, sync_progress option) eff" where
  "commit_batch now user generation threads missing rows conn =
     ebind (eget (\<lambda>db. list_ex (sync_row db conn user generation) (gmail_import_states db))) (\<lambda>active.
     if \<not> active then ereturn None
     else ebind (\<lambda>db. update_windows (\<lambda>e. own_window db conn user e \<and> iw_generation_id e = generation
              \<and> iw_gmail_thread_id e \<in> set missing) (window_gone_row now) db) (\<lambda>_.
          ebind (upsert_messages_on_connection now conn rows) (\<lambda>_.
          ebind (\<lambda>db. update_windows (\<lambda>e. own_window db conn user e \<and> iw_generation_id e = generation
              \<and> iw_gmail_thread_id e \<in> set threads) (window_metadata_row now (own_messages db conn user)) db) (\<lambda>_.
          ebind (\<lambda>db. update_import now True (sync_row db conn user generation)
              (batch_progress_row now (window_counts db conn user (Some generation))) db) (\<lambda>row.
          ereturn (case row of None \<Rightarrow> None | Some r \<Rightarrow> Some (gmail_sync_progress (Some r))))))))"

definition commit_gmail_initial_window_metadata_batch ::
    "instant \<Rightarrow> string \<Rightarrow> string \<Rightarrow> string list \<Rightarrow> message_row list \<Rightarrow> string list
      \<Rightarrow> ('a mail_db_scheme, sync_progress option) eff" where
  "commit_gmail_initial_window_metadata_batch now user generation gmail_thread_ids rows terminal_missing =
     (let threads = dict_fromkeys (filter (\<lambda>t. t \<noteq> '''') gmail_thread_ids);
          missing = dict_fromkeys (filter (\<lambda>t. t \<noteq> '''') terminal_missing) in
      if set threads \<inter> set missing \<noteq> {}
      then eraise (ValueError ''A Gmail thread cannot be both hydrated and terminally missing'')
      else if 25 < length (remdups (threads @ missing))
      then eraise (ValueError ''An initial Gmail metadata commit is limited to 25 threads'')
      else if \<exists>m \<in> set rows. gm_user_id m \<noteq> user
      then eraise (ValueError ''Initial Gmail metadata belongs to a different user'')
      else user_mail_write_transaction user None (commit_batch now user generation threads missing rows))"

section \<open>Adopting an existing mailbox\<close>

text \<open>
  \<open>activate_existing_gmail_progressive_sync\<close>: the threads of the cached messages
  by their newest message, the first 100 of which form the window.
\<close>

definition newest_date :: "message_row list \<Rightarrow> instant option" where
  "newest_date ms = fold (\<lambda>m d. max (gm_internal_date m) d) ms None"

definition ranked_threads :: "message_row list \<Rightarrow> (string \<times> message_row list) list" where
  "ranked_threads ms =
     (let threaded = filter (\<lambda>m. truthy_str (gm_gmail_thread_id m)) ms;
          groups = map (\<lambda>t. (t, filter (\<lambda>m. thread_key m = t) threaded)) (remdups (map thread_key threaded))
      in rev (sort_key (\<lambda>(t, g). (newest_date g, t)) groups))"

definition adopted_window ::
    "instant \<Rightarrow> string \<Rightarrow> string \<Rightarrow> nat \<times> string \<times> message_row list \<Rightarrow> window_row" where
  "adopted_window now user generation entry =
     (case entry of (position, thread, ms) \<Rightarrow>
        (new_window now user generation thread (int position))
          \<lparr>iw_message_count := int (length ms), iw_metadata_ready_at := Some now,
           iw_body_ready_at := (if list_all body_terminal ms then Some now else None)\<rparr>)"

definition adopted_row ::
    "instant \<Rightarrow> int \<Rightarrow> int \<Rightarrow> int \<Rightarrow> int \<Rightarrow> bool \<Rightarrow> bool \<Rightarrow> import_row \<Rightarrow> import_row" where
  "adopted_row now initial initial_bodies history history_bodies metadata_complete bodies_complete r =
     r\<lparr>is_initial_target_count := initial, is_initial_metadata_count := initial,
       is_initial_body_target_count := min 25 initial,
       is_initial_body_ready_count := min (min 25 initial) initial_bodies,
       is_history_metadata_count := history, is_history_body_ready_count := min history history_bodies,
       is_estimated_total_count := max (is_estimated_total_count r) history,
       is_initial_window_complete := True, is_history_metadata_complete := metadata_complete,
       is_history_body_complete := bodies_complete,
       is_phase := Some (if bodies_complete then Sync_complete
                         else if metadata_complete then Syncing_history else Usable),
       is_last_progress_at := Some now, is_updated_at := now\<rparr>"

definition adopt_mailbox ::
    "instant \<Rightarrow> string \<Rightarrow> string \<Rightarrow> bool \<Rightarrow> import_row \<Rightarrow> connection \<Rightarrow> ('a mail_db_scheme, import_row option) eff" where
  "adopt_mailbox now user generation history_complete state conn =
     ebind (\<lambda>db. update_import now False
         (\<lambda>r. own_import db conn user r \<and> is_sync_generation r = None \<and> is_first_batch_imported_at r \<noteq> None)
         (\<lambda>r. r\<lparr>is_sync_generation := Some generation, is_phase := Some Usable,
                is_last_progress_at := Some now, is_updated_at := now\<rparr>) db) (\<lambda>_.
     ebind (eget (\<lambda>db. ranked_threads (own_messages db conn user))) (\<lambda>ranked.
     ebind (emap (\<lambda>entry. insert_window conn (adopted_window now user generation entry))
         (zip [0..<min 100 (length ranked)] ranked)) (\<lambda>_ db.
       let (initial, _, initial_bodies) = window_counts db conn user (Some generation);
           metadata = history_complete \<or> is_full_backfill_completed_at state \<noteq> None
       in update_import now True (sync_row db conn user generation)
            (adopted_row now initial initial_bodies (thread_count db conn user) (ready_thread_count db conn user)
               metadata (metadata \<and> all_bodies_terminal db conn user)) db)))"

definition activate_existing_gmail_progressive_sync ::
    "instant \<Rightarrow> string \<Rightarrow> string \<Rightarrow> bool \<Rightarrow> ('a mail_db_scheme, import_row option) eff" where
  "activate_existing_gmail_progressive_sync now user generation_id history_complete =
     (let generation = strip generation_id in
      if generation = '''' then eraise (ValueError ''Gmail sync generation is required'')
      else user_mail_write_transaction user None (\<lambda>conn db.
        case import_on_connection db conn user of
          None \<Rightarrow> (Inr None, db)
        | Some state \<Rightarrow>
            if is_sync_generation state \<noteq> None \<or> is_first_batch_imported_at state = None
            then (Inr (Some state), db)
            else adopt_mailbox now user generation history_complete state conn db))"

end
