(* ===== verification/Reconciliation.thy ===== *)
theory Reconciliation
  imports Import_State
begin

text \<open>
  The authoritative reconciliation of \<open>backend/app/db/mail_groups.py\<close>: one durable
  scan of the provider's message list, page by page under a cursor, at the end of
  which the cached messages that the scan did not see, and that are not newer than
  the final history id, are deleted and the history cursor is published.
\<close>

section \<open>Starting a scan\<close>

definition reconcile_row :: "'a mail_db_scheme \<Rightarrow> connection \<Rightarrow> string \<Rightarrow> string \<Rightarrow> import_row \<Rightarrow> bool" where
  "reconcile_row db conn user generation r \<longleftrightarrow>
     own_import db conn user r \<and> is_reconcile_generation r = Some generation"

definition scan_started_row :: "instant \<Rightarrow> string \<Rightarrow> string \<Rightarrow> string \<Rightarrow> import_row \<Rightarrow> import_row" where
  "scan_started_row now generation cursor baseline r =
     r\<lparr>is_reconcile_generation := Some generation, is_reconcile_cursor := Some cursor,
       is_reconcile_baseline_history_id := Some baseline, is_reconcile_started_at := Some now,
       is_history_cursor_authoritative := False, is_last_import_started_at := Some now,
       is_last_sync_error := None, is_updated_at := now\<rparr>"

definition drop_seen :: "(seen_row \<Rightarrow> bool) \<Rightarrow> ('a mail_db_scheme, unit) eff" where
  "drop_seen p = eupdate (\<lambda>db. db\<lparr>reconcile_seen := delete_where p (reconcile_seen db)\<rparr>)"

definition start_gmail_reconciliation ::
    "instant \<Rightarrow> string \<Rightarrow> string \<Rightarrow> string \<Rightarrow> string \<Rightarrow> ('a mail_db_scheme, import_row) eff" where
  "start_gmail_reconciliation now user generation_id baseline_history_id initial_cursor =
     (let generation = strip generation_id; baseline = strip baseline_history_id in
      if generation = '''' \<or> initial_cursor = ''''
      then eraise (ValueError ''Gmail reconciliation identity and cursor are required'')
      else if \<not> isdigit baseline then eraise (ValueError ''Gmail reconciliation history ID must be numeric'')
      else user_mail_write_transaction user None (\<lambda>conn.
        ebind (upsert_import now conn user False (\<lambda>r. r) (\<lambda>r. r)) (\<lambda>_.
        ebind (\<lambda>db. update_import now False
            (\<lambda>r. own_import db conn user r \<and> is_reconcile_generation r = None)
            (scan_started_row now generation initial_cursor baseline) db) (\<lambda>started.
        ebind (case started of Some r \<Rightarrow> ereturn r
               | None \<Rightarrow> (\<lambda>db. case import_on_connection db conn user of
                             None \<Rightarrow> (Inl (OtherError ''NoResultFound''), db) | Some r \<Rightarrow> (Inr r, db))) (\<lambda>row.
        ebind (\<lambda>db. drop_seen (\<lambda>s. own_seen db conn user s
            \<and> sn_generation_id s \<noteq> str_or_empty (is_reconcile_generation row)) db)
          (\<lambda>_. ereturn row))))))"

section \<open>Pages\<close>

text \<open>\<open>INSERT INTO gmail_reconcile_seen .. ON CONFLICT DO NOTHING\<close> of distinct ids.\<close>

definition insert_seen :: "connection \<Rightarrow> string \<Rightarrow> string \<Rightarrow> string list \<Rightarrow> ('a mail_db_scheme, unit) eff" where
  "insert_seen conn user generation ids db =
     (case scoped_account db conn user of
        None \<Rightarrow> (if ids = [] then (Inr (), db) else (Inl IntegrityError, db))
      | Some account \<Rightarrow>
          (let known = (\<lambda>i. list_ex (\<lambda>s. sn_gmail_account_id s = account \<and> sn_generation_id s = generation
                              \<and> sn_message_id s = i) (reconcile_seen db))
           in (Inr (), db\<lparr>reconcile_seen := reconcile_seen db @
                map (\<lambda>i. \<lparr>sn_user_id = user, sn_gmail_account_id = account, sn_generation_id = generation,
                          sn_message_id = i\<rparr>) (filter (\<lambda>i. \<not> known i) ids)\<rparr>)))"

definition page_row :: "instant \<Rightarrow> string option \<Rightarrow> import_row \<Rightarrow> import_row" where
  "page_row now next_cursor r =
     r\<lparr>is_reconcile_cursor := next_cursor, is_last_import_completed_at := Some now,
       is_last_sync_error := None, is_updated_at := now\<rparr>"

definition record_gmail_reconciliation_page ::
    "instant \<Rightarrow> string \<Rightarrow> string \<Rightarrow> string \<Rightarrow> string option \<Rightarrow> string list \<Rightarrow> ('a mail_db_scheme, bool) eff" where
  "record_gmail_reconciliation_page now user generation expected_cursor next_cursor message_ids =
     (let ids = dict_fromkeys (filter (\<lambda>i. i \<noteq> '''') message_ids) in
      user_mail_write_transaction user None (\<lambda>conn.
        ebind (\<lambda>db. update_import now False
            (\<lambda>r. reconcile_row db conn user generation r \<and> is_reconcile_cursor r = Some expected_cursor)
            (page_row now next_cursor) db) (\<lambda>advanced.
        case advanced of None \<Rightarrow> ereturn False
        | Some _ \<Rightarrow> ebind (insert_seen conn user generation ids) (\<lambda>_. ereturn True))))"

definition metadata_page_row :: "instant \<Rightarrow> string option \<Rightarrow> int \<Rightarrow> import_row \<Rightarrow> import_row" where
  "metadata_page_row now next_cursor estimated r =
     r\<lparr>is_reconcile_cursor := next_cursor,
       is_phase :=
         (if is_phase r = Some Sync_complete \<or> is_phase r = Some Sync_failed then is_phase r
          else if is_initial_window_complete r
            \<and> min 25 (is_initial_body_target_count r) \<le> is_initial_body_ready_count r
          then Some Syncing_history else is_phase r),
       is_estimated_total_count := max (is_estimated_total_count r) estimated,
       is_last_import_completed_at := Some now, is_last_progress_at := Some now,
       is_last_sync_error := None, is_updated_at := now\<rparr>"

text \<open>The conversations of the cached messages that the scan has seen.\<close>

definition seen_thread_count :: "'a mail_db_scheme \<Rightarrow> connection \<Rightarrow> string \<Rightarrow> string \<Rightarrow> int" where
  "seen_thread_count db conn user generation =
     int (length (remdups (map thread_key (filter (\<lambda>m.
        list_ex (\<lambda>s. own_seen db conn user s \<and> sn_generation_id s = generation \<and> sn_message_id s = gm_message_id m)
          (reconcile_seen db)) (own_messages db conn user)))))"

definition commit_gmail_reconciliation_metadata_page ::
    "instant \<Rightarrow> string \<Rightarrow> string \<Rightarrow> string \<Rightarrow> string option \<Rightarrow> message_row list \<Rightarrow> int \<Rightarrow> int
      \<Rightarrow> ('a mail_db_scheme, sync_progress option) eff" where
  "commit_gmail_reconciliation_metadata_page now user generation expected_cursor next_cursor rows conversations estimated =
     (let ids = dict_fromkeys (filter (\<lambda>i. i \<noteq> '''') (map gm_message_id rows)) in
      if 100 < max 0 conversations
      then eraise (ValueError ''A Gmail history metadata page is limited to 100 conversations'')
      else if \<exists>m \<in> set rows. gm_user_id m \<noteq> user
      then eraise (ValueError ''Gmail reconciliation metadata belongs to a different user'')
      else user_mail_write_transaction user None (\<lambda>conn.
        ebind (\<lambda>db. update_import now False
            (\<lambda>r. reconcile_row db conn user generation r \<and> is_sync_generation r = Some generation
               \<and> is_reconcile_cursor r = Some expected_cursor)
            (metadata_page_row now next_cursor (max 0 estimated)) db) (\<lambda>advanced.
        case advanced of None \<Rightarrow> ereturn None
        | Some _ \<Rightarrow>
            ebind (upsert_messages_on_connection now conn rows) (\<lambda>_.
            ebind (insert_seen conn user generation ids) (\<lambda>_.
            ebind (\<lambda>db. update_import now False (sync_row db conn user generation)
                (\<lambda>r. r\<lparr>is_history_metadata_count :=
                         max (is_history_metadata_count r) (max (seen_thread_count db conn user generation) (max 0 conversations)),
                       is_last_progress_at := Some now, is_updated_at := now\<rparr>) db) (\<lambda>row.
            ereturn (case row of None \<Rightarrow> None | Some r \<Rightarrow> Some (gmail_sync_progress (Some r)))))))))"

definition record_gmail_reconciliation_seen ::
    "string \<Rightarrow> string \<Rightarrow> string list \<Rightarrow> ('a mail_db_scheme, bool) eff" where
  "record_gmail_reconciliation_seen user generation message_ids =
     (let ids = dict_fromkeys (filter (\<lambda>i. i \<noteq> '''') message_ids) in
      if ids = [] then ereturn True
      else user_mail_write_transaction user None (\<lambda>conn db.
        if list_ex (\<lambda>r. reconcile_row db conn user generation r \<and> is_reconcile_cursor r = None) (gmail_import_states db)
        then ebind (insert_seen conn user generation ids) (\<lambda>_. ereturn True) db
        else (Inr False, db)))"

section \<open>Finalizing and resetting\<close>

text \<open>\<open>missing_predicate\<close>: unseen, and not known to be newer than the scan.\<close>

definition missing_message ::
    "'a mail_db_scheme \<Rightarrow> connection \<Rightarrow> string \<Rightarrow> string \<Rightarrow> string \<Rightarrow> instant \<Rightarrow> message_row \<Rightarrow> bool" where
  "missing_message db conn user generation final_history started m \<longleftrightarrow>
     own_message db conn user m
     \<and> \<not> list_ex (\<lambda>s. own_seen db conn user s \<and> sn_generation_id s = generation \<and> sn_message_id s = gm_message_id m)
           (reconcile_seen db)
     \<and> (if numeric (gm_history_id m)
        then numeral_of (str_or_empty (gm_history_id m)) \<le> numeral_of final_history
        else gm_updated_at m \<le> started)"

definition finalized_row :: "instant \<Rightarrow> string \<Rightarrow> int \<Rightarrow> int \<Rightarrow> bool \<Rightarrow> import_row \<Rightarrow> import_row" where
  "finalized_row now final_history threads ready_threads bodies_ready r =
     r\<lparr>is_last_history_id := advanced_history final_history r,
       is_reconcile_generation := None, is_reconcile_cursor := None,
       is_reconcile_baseline_history_id := None, is_reconcile_started_at := None,
       is_history_metadata_count := max (is_history_metadata_count r) threads,
       is_history_body_ready_count := max (is_history_body_ready_count r) ready_threads,
       is_estimated_total_count := max (is_estimated_total_count r) threads,
       is_history_metadata_complete := True, is_history_body_complete := bodies_ready,
       is_phase :=
         (if bodies_ready then Some Sync_complete
          else if is_initial_window_complete r
            \<and> min 25 (is_initial_body_target_count r) \<le> is_initial_body_ready_count r
          then Some Syncing_history else is_phase r),
       is_full_backfill_started_at := coalesce (is_full_backfill_started_at r) (is_reconcile_started_at r),
       is_full_backfill_completed_at := coalesce (is_full_backfill_completed_at r) (Some now),
       is_last_import_completed_at := Some now, is_last_delta_sync_at := Some now,
       is_history_cursor_authoritative := True, is_last_sync_error := None,
       is_last_progress_at := Some now, is_updated_at := now\<rparr>"

record finalize_result =
  fr_deleted_message_count :: nat
  fr_affected_group_ids :: "string list"
  fr_progress :: "sync_progress option"

definition finalize_scan ::
    "instant \<Rightarrow> string \<Rightarrow> string \<Rightarrow> string \<Rightarrow> instant \<Rightarrow> connection \<Rightarrow> ('a mail_db_scheme, finalize_result option) eff" where
  "finalize_scan now user generation final_history started conn db =
     (let gone = missing_message db conn user generation final_history started;
          member = (\<lambda>x. own_member db conn user x
             \<and> list_ex (\<lambda>m. gone m \<and> gm_user_id m = mm_user_id x \<and> gm_message_id m = mm_gmail_message_id x) (gmail_messages db));
          groups = remdups (map mm_group_id (filter member (mail_group_members db)));
          deleted = length (filter gone (gmail_messages db));
          db1 = db\<lparr>mail_group_members := delete_where member (mail_group_members db),
                   gmail_messages := delete_where gone (gmail_messages db)\<rparr>
      in ebind (update_import now True (reconcile_row db1 conn user generation)
             (finalized_row now final_history (thread_count db1 conn user) (ready_thread_count db1 conn user)
                (all_bodies_terminal db1 conn user))) (\<lambda>completed.
         ebind (\<lambda>db. drop_seen (\<lambda>s. own_seen db conn user s \<and> sn_generation_id s = generation) db) (\<lambda>_.
         ereturn (Some \<lparr>fr_deleted_message_count = deleted, fr_affected_group_ids = groups,
           fr_progress = (case completed of None \<Rightarrow> None
             | Some r \<Rightarrow> if is_sync_generation r = None then None else Some (gmail_sync_progress (Some r)))\<rparr>))) db1)"

definition finalize_gmail_reconciliation ::
    "instant \<Rightarrow> string \<Rightarrow> string \<Rightarrow> string \<Rightarrow> ('a mail_db_scheme, finalize_result option) eff" where
  "finalize_gmail_reconciliation now user generation final_history_id =
     (let final_history = strip final_history_id in
      if \<not> isdigit final_history then eraise (ValueError ''Gmail reconciliation history ID must be numeric'')
      else user_mail_write_transaction user None (\<lambda>conn db.
        case select_first (\<lambda>r. reconcile_row db conn user generation r \<and> is_reconcile_cursor r = None)
               (gmail_import_states db) of
          None \<Rightarrow> (Inr None, db)
        | Some r \<Rightarrow>
            (case is_reconcile_started_at r of
               None \<Rightarrow> (Inr None, db)
             | Some started \<Rightarrow> finalize_scan now user generation final_history started conn db)))"

definition reset_row :: "instant \<Rightarrow> import_row \<Rightarrow> import_row" where
  "reset_row now r =
     r\<lparr>is_reconcile_generation := None, is_reconcile_cursor := None,
       is_reconcile_baseline_history_id := None, is_reconcile_started_at := None,
       is_history_cursor_authoritative := False, is_updated_at := now\<rparr>"

definition reset_gmail_reconciliation :: "instant \<Rightarrow> string \<Rightarrow> string \<Rightarrow> ('a mail_db_scheme, bool) eff" where
  "reset_gmail_reconciliation now user generation =
     user_mail_write_transaction user None (\<lambda>conn.
       ebind (\<lambda>db. update_import now False (reconcile_row db conn user generation) (reset_row now) db) (\<lambda>reset.
       ebind (\<lambda>db. drop_seen (\<lambda>s. own_seen db conn user s \<and> sn_generation_id s = generation) db) (\<lambda>_.
       ereturn (reset \<noteq> None))))"

end
