(* ===== verification/Mailbox_Runs.thy ===== *)
theory Mailbox_Runs
  imports Reconciliation
begin

text \<open>
  Sequences of mailbox operations: every function of \<open>backend/app/db/mail_groups.py\<close>
  that writes the mailbox tables is one operation, at its own time, by any user.
  An operation that raises leaves the state it left; its answer is dropped.
\<close>

datatype mailbox_op =
    Upsert_messages "message_row list"
  | Force_labels string "(string \<times> string list) list"
  | Update_bodies "message_row list"
  | Mark_bodies string "string list" body_status "string option"
  | Check_bodies string
  | Describe_page string int "string option"
  | Delete_messages string "string list"
  | Prune_groups string "string list"
  | Pend_groups string "string list"
  | Import_started string
  | Import_completed string import_flags
  | Delta_completed string string
  | Import_failed string string
  | Watch_started string "string option" "instant option"
  | Watch_failed string string
  | Disconnect_google string
  | Adopt_mailbox string string bool
  | Start_sync string string
  | Initialize_window string string "string list" int
  | Commit_batch string string "string list" "message_row list" "string list"
  | Start_scan string string string string
  | Record_page string string string "string option" "string list"
  | Commit_page string string string "string option" "message_row list" int int
  | Record_seen string string "string list"
  | Finalize_scan string string string
  | Reset_scan string string

fun perform_op :: "instant \<Rightarrow> mailbox_op \<Rightarrow> ('a mail_db_scheme, unit) eff" where
  "perform_op now (Upsert_messages rows) = edrop (upsert_gmail_messages now rows)"
| "perform_op now (Force_labels user labels) = edrop (force_update_gmail_message_labels now user labels)"
| "perform_op now (Update_bodies rows) = edrop (update_gmail_message_bodies now rows)"
| "perform_op now (Mark_bodies user ids status error) = edrop (mark_gmail_messages_body_fetch_state now user ids status error)"
| "perform_op now (Check_bodies user) = edrop (mark_gmail_history_body_complete_if_ready now user)"
| "perform_op now (Describe_page user limit after) = edrop (backfill_gmail_attachment_descriptors_page now user limit after)"
| "perform_op now (Delete_messages user ids) = edrop (delete_gmail_messages now user ids)"
| "perform_op now (Prune_groups user ids) = edrop (prune_empty_mail_groups now user ids)"
| "perform_op now (Pend_groups user ids) = edrop (mark_mail_groups_pending now user ids)"
| "perform_op now (Import_started user) = mark_import_started now user"
| "perform_op now (Import_completed user fl) = mark_import_completed now user fl"
| "perform_op now (Delta_completed user h) = mark_history_delta_completed now user h"
| "perform_op now (Import_failed user error) = mark_import_error now user error"
| "perform_op now (Watch_started user h expiration) = mark_gmail_watch_started now user h expiration"
| "perform_op now (Watch_failed user error) = mark_gmail_watch_error now user error"
| "perform_op now (Disconnect_google user) = eupdate (mark_google_disconnected now user)"
| "perform_op now (Adopt_mailbox user g complete) = edrop (activate_existing_gmail_progressive_sync now user g complete)"
| "perform_op now (Start_sync user g) = edrop (start_gmail_sync_progress now user g)"
| "perform_op now (Initialize_window user g threads n) = edrop (initialize_gmail_initial_window now user g threads n)"
| "perform_op now (Commit_batch user g threads rows missing) =
     edrop (commit_gmail_initial_window_metadata_batch now user g threads rows missing)"
| "perform_op now (Start_scan user g h cursor) = edrop (start_gmail_reconciliation now user g h cursor)"
| "perform_op now (Record_page user g cursor after ids) = edrop (record_gmail_reconciliation_page now user g cursor after ids)"
| "perform_op now (Commit_page user g cursor after rows n estimated) =
     edrop (commit_gmail_reconciliation_metadata_page now user g cursor after rows n estimated)"
| "perform_op now (Record_seen user g ids) = edrop (record_gmail_reconciliation_seen user g ids)"
| "perform_op now (Finalize_scan user g h) = edrop (finalize_gmail_reconciliation now user g h)"
| "perform_op now (Reset_scan user g) = edrop (reset_gmail_reconciliation now user g)"

definition run_ops :: "(instant \<times> mailbox_op) list \<Rightarrow> 'a mail_db_scheme \<Rightarrow> 'a mail_db_scheme" where
  "run_ops ops db = foldl (\<lambda>db (now, op). snd (perform_op now op db)) db ops"

lemma run_ops_simps [simp]:
  "run_ops [] db = db"
  "run_ops ((now, op) # ops) db = run_ops ops (snd (perform_op now op db))"
  "run_ops (ops @ ops') db = run_ops ops' (run_ops ops db)"
  by (simp_all add: run_ops_def)

text \<open>A predicate that every operation of a run preserves holds after the run.\<close>

lemma run_ops_preserves:
  assumes "P db" and "\<And>now op. (now, op) \<in> set ops \<Longrightarrow> epreserves P (perform_op now op)"
  shows "P (run_ops ops db)"
  using assms
proof (induction ops arbitrary: db)
  case Nil
  then show ?case by simp
next
  case (Cons x ops)
  obtain now op where x: "x = (now, op)" by (cases x)
  have "P (snd (perform_op now op db))" using Cons.prems x by (auto simp: epreserves_def)
  with Cons x show ?case by simp
qed

section \<open>Statements that depend on the state they read\<close>

lemma epreserves_read: "(\<And>db. P db \<Longrightarrow> P (snd (m db db))) \<Longrightarrow> epreserves P (\<lambda>db. m db db)"
  by (simp add: epreserves_def)

lemma preserved_bind:
  "P (snd (m s)) \<Longrightarrow> (\<And>x. epreserves P (f x)) \<Longrightarrow> P (snd (ebind m f s))"
  by (auto simp: ebind_apply epreserves_def split: outcome_splits)

end
