(* ===== verification/Mailbox_Change.thy ===== *)
theory Mailbox_Change
  imports Mailbox_Runs
begin

text \<open>
  The contract between the mailbox tables and the invariants over them. The
  inductive predicates list the row changes the statements make to the import
  state, with what a change may assume of the state it is computed from. The
  locales state what a predicate has to tolerate; their lemmas say that then every
  operation preserves it: \<open>mailbox_writes\<close> covers the operations that neither begin
  nor end a scan nor delete messages, its extensions add the others one by one,
  \<open>mailbox_invariant\<close> covers all of them.
\<close>

section \<open>Changes of the import state\<close>

inductive import_insert :: "instant \<Rightarrow> (import_row \<Rightarrow> import_row) \<Rightarrow> bool" for now where
  blank: "import_insert now (\<lambda>r. r)"
| started: "import_insert now (\<lambda>r. r\<lparr>is_last_import_started_at := Some now\<rparr>)"
| completed: "import_insert now (import_completed_new now fl)"
| delta: "isdigit h \<Longrightarrow> import_insert now (\<lambda>r. r\<lparr>is_last_history_id := Some h, is_last_import_completed_at := Some now,
      is_last_delta_sync_at := Some now, is_history_cursor_authoritative := True\<rparr>)"
| failed: "import_insert now (\<lambda>r. r\<lparr>is_last_sync_error := Some e\<rparr>)"
| watch: "import_insert now (watch_started_row now h t)"
| watch_failed: "import_insert now (watch_error_row now e)"

definition watch_stopped_row :: "instant \<Rightarrow> import_row \<Rightarrow> import_row" where
  "watch_stopped_row now r =
     r\<lparr>is_gmail_watch_history_id := None, is_gmail_watch_expiration_at := None,
       is_gmail_watch_started_at := None, is_gmail_watch_error := None, is_updated_at := now\<rparr>"

inductive import_change ::
    "instant \<Rightarrow> 'a mail_db_scheme \<Rightarrow> (import_row \<Rightarrow> bool) \<Rightarrow> (import_row \<Rightarrow> import_row) \<Rightarrow> bool" for now db where
  unchanged: "import_change now db p (\<lambda>r. r)"
| started: "import_change now db p (import_started_row now)"
| completed: "import_change now db p (import_completed_row now fl)"
| delta: "isdigit h \<Longrightarrow> import_change now db p (history_delta_row now h)"
| failed: "import_change now db p (import_error_row now e)"
| watch: "import_change now db p (watch_started_row now h t)"
| watch_failed: "import_change now db p (watch_error_row now e)"
| watch_stopped: "import_change now db p (watch_stopped_row now)"
| reopened: "import_change now db p (reopen_history now)"
| bodies: "\<lbrakk>target = (case import_on_connection db conn user of None \<Rightarrow> 0 | Some r \<Rightarrow> is_initial_body_target_count r)\<rbrakk> \<Longrightarrow>
    import_change now db (\<lambda>r. own_import db conn user r \<and> is_sync_generation r \<noteq> None)
      (body_progress_row now (ready_window_count db conn user target) (ready_thread_count db conn user)
         (all_bodies_terminal db conn user))"
| window_progress: "import_change now db (\<lambda>r. own_import db conn user r \<and> is_sync_generation r \<noteq> None)
      (window_progress_row now (window_counts db conn user (active_generation db conn user)))"
| sync_started: "import_change now db (reconcile_row db conn user g) (sync_started_row now g)"
| discovered: "n \<le> 100 \<Longrightarrow> 0 \<le> estimated \<Longrightarrow>
    import_change now db (sync_row db conn user g) (window_discovered_row now (int n) estimated)"
| batch: "import_change now db (sync_row db conn user g)
      (batch_progress_row now (window_counts db conn user (Some g)))"
| adopting: "import_change now db
      (\<lambda>r. own_import db conn user r \<and> is_sync_generation r = None \<and> is_first_batch_imported_at r \<noteq> None)
      (\<lambda>r. r\<lparr>is_sync_generation := Some g, is_phase := Some Usable, is_last_progress_at := Some now, is_updated_at := now\<rparr>)"
| adopted: "window_counts db conn user (Some g) = (initial, n, bodies) \<Longrightarrow>
    import_change now db (sync_row db conn user g)
      (adopted_row now initial bodies (thread_count db conn user) (ready_thread_count db conn user) b1 (b1 \<and> b2))"
| described: "import_change now db p (descriptors_state_row now b)"
| page: "import_change now db (\<lambda>r. reconcile_row db conn user g r \<and> is_reconcile_cursor r = Some c) (page_row now after)"
| metadata_page: "0 \<le> estimated \<Longrightarrow> import_change now db
      (\<lambda>r. reconcile_row db conn user g r \<and> is_sync_generation r = Some g \<and> is_reconcile_cursor r = Some c)
      (metadata_page_row now after estimated)"
| metadata_count: "import_change now db (sync_row db conn user g)
      (\<lambda>r. r\<lparr>is_history_metadata_count := max (is_history_metadata_count r) n, is_last_progress_at := Some now, is_updated_at := now\<rparr>)"

definition window_key :: "window_row \<Rightarrow> string \<times> string \<times> string \<times> string \<times> int" where
  "window_key w =
     (iw_user_id w, iw_gmail_account_id w, iw_generation_id w, iw_gmail_thread_id w, iw_position w)"

section \<open>Predicates that tolerate the writes\<close>

locale mailbox_writes =
  fixes P :: "'a mail_db_scheme \<Rightarrow> bool"
  assumes message: "epreserves P (upsert_message now conn m)"
    and labels: "P db \<Longrightarrow> P (db\<lparr>gmail_messages := update_where p (label_row now ls) (gmail_messages db)\<rparr>)"
    and body: "P db \<Longrightarrow> P (db\<lparr>gmail_messages := update_where p (body_row now b) (gmail_messages db)\<rparr>)"
    and body_state: "(\<And>m. p m \<Longrightarrow> status = Body_fetched \<or> \<not> body_terminal m) \<Longrightarrow> P db \<Longrightarrow>
      P (db\<lparr>gmail_messages := update_where p (body_state_row now status e) (gmail_messages db)\<rparr>)"
    and descriptors: "P db \<Longrightarrow> P (db\<lparr>gmail_messages := update_where p (descriptor_row now) (gmail_messages db)\<rparr>)"
    and groups: "P db \<Longrightarrow> P (db\<lparr>mail_groups := gs\<rparr>)"
    and windows: "(\<And>w. window_key (fw w) = window_key w) \<Longrightarrow> P db \<Longrightarrow>
      P (db\<lparr>initial_window_entries := update_where pw fw (initial_window_entries db)\<rparr>)"
    and window: "0 \<le> iw_position w \<Longrightarrow> iw_position w < 100 \<Longrightarrow> epreserves P (insert_window conn w)"
    and old_windows: "P db \<Longrightarrow> P (db\<lparr>initial_window_entries := delete_where qw (initial_window_entries db)\<rparr>)"
    and seen: "distinct ids \<Longrightarrow> epreserves P (insert_seen conn user g ids)"
    and import_row: "import_change now db p' f' \<Longrightarrow> P db \<Longrightarrow> P (snd (update_import now fires p' f' db))"
    and import_new: "import_insert now new \<Longrightarrow> P db \<Longrightarrow> scoped_account db conn user = Some account \<Longrightarrow>
      \<not> list_ex (\<lambda>r. is_gmail_account_id r = account) (gmail_import_states db) \<Longrightarrow>
      P (mark_gmail_account_initial_ready now (new (new_import_row now user account))
           (db\<lparr>gmail_import_states := gmail_import_states db @ [new (new_import_row now user account)]\<rparr>))"
begin

lemma upsert_state:
  assumes "import_insert now new" and "\<And>(db :: 'a mail_db_scheme) p. import_change now db p f"
  shows "epreserves P (upsert_import now conn user fires new f)"
  unfolding epreserves_def
proof (intro allI impI)
  fix db assume db: "P db"
  show "P (snd (upsert_import now conn user fires new f db))"
  proof (cases "scoped_account db conn user")
    case None
    with db show ?thesis by (simp add: upsert_import_def)
  next
    case (Some account)
    have row: "P (snd (update_import now fires (\<lambda>r. is_gmail_account_id r = account) f db))"
      by (rule import_row [OF assms(2) db])
    show ?thesis
      using import_new [OF assms(1) db Some] row
      by (auto simp: upsert_import_def Some Let_def ebind_apply update_import_def split: if_splits)
  qed
qed

lemma state_updated:
  "import_change now db p f \<Longrightarrow> P db \<Longrightarrow> P (snd (ebind (update_import now fires p f) (\<lambda>_. ereturn x) db))"
  using import_row [of now db p f fires] by (simp add: ebind_apply update_import_def Let_def)

lemma messages: "epreserves P (upsert_messages_on_connection now conn rows)"
  unfolding upsert_messages_on_connection_def
proof (rule epreserves_bind)
  show "epreserves P (emap (upsert_message now conn) rows)" by (intro preserve_intros message)
qed (auto simp: epreserves_def split: list.split intro: state_updated import_change.reopened)

end

section \<open>Every operation preserves such a predicate\<close>

text \<open>
  The operations outside the basic contract: the disconnection of the user and the
  operations that forget or delete rows.
\<close>

fun disconnects :: "mailbox_op \<Rightarrow> bool" where
  "disconnects (Disconnect_google user) = True"
| "disconnects _ = False"

fun deletes :: "mailbox_op \<Rightarrow> bool" where
  "deletes (Delete_messages user ids) = True"
| "deletes (Start_scan user g h c) = True"
| "deletes (Finalize_scan user g h) = True"
| "deletes (Reset_scan user g) = True"
| "deletes _ = False"

context mailbox_writes
begin

lemma windows_updated [preserve_intros]:
  assumes "\<And>db w. P db \<Longrightarrow> window_key (f db w) = window_key w"
  shows "epreserves P (\<lambda>db. update_windows (p db) (f db) db)"
  using windows [OF assms] by (simp add: epreserves_def update_windows_def)

lemma body_finished: "epreserves P (finish_window_bodies now conn user threads)"
  unfolding finish_window_bodies_def [abs_def] by (rule windows_updated) (simp add: window_body_row_def window_key_def)

lemma body_progress: "epreserves P (update_gmail_body_progress now conn user)"
  unfolding update_gmail_body_progress_def [abs_def] Let_def epreserves_def
  by (intro allI impI state_updated import_change.bodies refl)

lemma progress_read: "epreserves P (eget f)"
  by (rule epreserves_get)

lemmas write_intros = preserve_intros messages message body_finished body_progress windows_updated window seen

lemma upserted: "epreserves P (upsert_gmail_messages now rows)"
  unfolding upsert_gmail_messages_def by (simp split: list.split) (intro write_intros impI conjI allI)

lemma relabelled: "epreserves P (force_update_gmail_message_labels now user ls)"
  unfolding force_update_gmail_message_labels_def Let_def
  by (intro write_intros) (auto simp: epreserves_def intro: labels split: prod.split)

lemma bodies_updated: "epreserves P (update_gmail_message_bodies now rows)"
proof -
  have "epreserves P (update_message_body now conn user b)" for conn user b
    by (auto simp: epreserves_def update_message_body_def Let_def intro: body)
  then show ?thesis
    unfolding update_gmail_message_bodies_def Let_def
    by (simp split: list.split) (intro write_intros impI conjI allI)
qed

lemma body_states_marked: "epreserves P (mark_body_states now user ids status e conn)"
  unfolding epreserves_def
proof (intro allI impI)
  fix db assume db: "P db"
  let ?t = "\<lambda>m. own_message db conn user m \<and> gm_message_id m \<in> set ids \<and> (status = Body_fetched \<or> \<not> body_terminal m)"
  let ?db = "db\<lparr>gmail_messages := update_where ?t (body_state_row now status e) (gmail_messages db)\<rparr>"
  have marked: "P ?db" by (rule body_state [OF _ db]) auto
  have "epreserves P (ebind (finish_window_bodies now conn user threads)
      (\<lambda>_. ebind (update_gmail_body_progress now conn user) (\<lambda>_. ereturn n)))" for threads and n :: nat
    by (intro write_intros)
  from epreservesD [OF this marked] marked show "P (snd (mark_body_states now user ids status e conn db))"
    unfolding mark_body_states_def Let_def by simp
qed

lemma bodies_marked: "epreserves P (mark_gmail_messages_body_fetch_state now user ids status e)"
  unfolding mark_gmail_messages_body_fetch_state_def Let_def by (intro write_intros body_states_marked)

lemma bodies_checked: "epreserves P (mark_gmail_history_body_complete_if_ready now user)"
  unfolding mark_gmail_history_body_complete_if_ready_def by (intro write_intros)

lemma page_described: "epreserves P (backfill_gmail_attachment_descriptors_page now user limit after)"
proof -
  have "P (snd (describe_page now user limit after conn db))" if "P db" for conn db
    unfolding describe_page_def Let_def
    by (simp split: if_split del: set_map) (intro conjI impI state_updated import_change.described descriptors that)
  then show ?thesis
    unfolding backfill_gmail_attachment_descriptors_page_def by (intro preserve_intros) (simp add: epreserves_def)
qed

lemma pruned: "epreserves P (prune_empty_mail_groups now user ids)"
  unfolding prune_empty_mail_groups_def Let_def
  by (intro write_intros) (auto simp: epreserves_def intro: groups)

lemma pended: "epreserves P (mark_mail_groups_pending now user ids)"
  unfolding mark_mail_groups_pending_def Let_def
  by (intro write_intros) (auto simp: epreserves_def intro: groups)

lemma marked_started: "epreserves P (mark_import_started now user)"
  unfolding mark_import_started_def
  by (intro write_intros upsert_state import_insert.started import_change.started)

lemma marked_completed: "epreserves P (mark_import_completed now user fl)"
  unfolding mark_import_completed_def
  by (intro write_intros upsert_state import_insert.completed import_change.completed)

lemma marked_delta: "epreserves P (mark_history_delta_completed now user h)"
  unfolding mark_history_delta_completed_def Let_def
  by (auto intro!: write_intros upsert_state import_insert.delta import_change.delta)

lemma marked_failed: "epreserves P (mark_import_error now user e)"
  unfolding mark_import_error_def
  by (intro write_intros upsert_state import_insert.failed import_change.failed)

lemma watch_set: "epreserves P (mark_gmail_watch_started now user h t)"
  unfolding mark_gmail_watch_started_def
  by (intro write_intros upsert_state import_insert.watch import_change.watch)

lemma watch_error_set: "epreserves P (mark_gmail_watch_error now user e)"
  unfolding mark_gmail_watch_error_def
  by (intro write_intros upsert_state import_insert.watch_failed import_change.watch_failed)

end

context mailbox_writes
begin

lemma import_updated:
  "(\<And>db. P db \<Longrightarrow> import_change now db (p db) (f db)) \<Longrightarrow>
   epreserves P (\<lambda>db. update_import now fires (p db) (f db) db)"
  by (simp add: epreserves_def import_row)

lemmas state_intros = write_intros import_updated

lemma windows_opened:
  assumes "\<And>x. x \<in> set xs \<Longrightarrow> 0 \<le> iw_position (f x) \<and> iw_position (f x) < 100"
  shows "epreserves P (emap (\<lambda>x. insert_window conn (f x)) xs)"
  using assms by (induction xs) (simp_all add: state_intros)

lemma mailbox_adopted: "epreserves P (activate_existing_gmail_progressive_sync now user g complete)"
proof -
  have opened: "epreserves P (emap (\<lambda>entry. insert_window conn (adopted_window now user g' entry))
      (zip [0..<min 100 (length ranked)] ranked))" for conn g' ranked
  proof (rule windows_opened)
    fix x assume "x \<in> set (zip [0..<min 100 (length ranked)] ranked)"
    then have "fst x \<in> set [0..<min 100 (length ranked)]" by (metis prod.collapse set_zip_leftD)
    then show "0 \<le> iw_position (adopted_window now user g' x) \<and> iw_position (adopted_window now user g' x) < 100"
      by (simp add: adopted_window_def new_window_def split_def)
  qed
  have "epreserves P (adopt_mailbox now user g' complete state conn)" for g' state conn
    unfolding adopt_mailbox_def
    by (intro state_intros opened import_change.adopting)
      (auto simp: epreserves_def Let_def split: prod.split intro: import_row import_change.adopted)
  then show ?thesis
    unfolding activate_existing_gmail_progressive_sync_def Let_def
    by (intro state_intros) (auto simp: epreserves_def split: option.split)
qed

lemma sync_begun: "epreserves P (start_gmail_sync_progress now user g)"
  unfolding start_gmail_sync_progress_def Let_def
  by (intro state_intros import_change.sync_started [unfolded reconcile_row_def] old_windows)

lemma window_initialized: "epreserves P (initialize_gmail_initial_window now user g threads estimated)"
proof -
  let ?ts = "take 100 (dict_fromkeys (filter (\<lambda>t. t \<noteq> '''') threads))"
  have "epreserves P (emap (\<lambda>x. insert_window conn (new_window now user g (snd x) (fst x))) (zip (map int [0..<length ?ts]) ?ts))" for conn
  proof (rule windows_opened)
    fix x assume "x \<in> set (zip (map int [0..<length ?ts]) ?ts)"
    then have "fst x \<in> set (map int [0..<length ?ts])" by (metis prod.collapse set_zip_leftD)
    then show "0 \<le> iw_position (new_window now user g (snd x) (fst x)) \<and> iw_position (new_window now user g (snd x) (fst x)) < 100"
      by (auto simp: new_window_def)
  qed
  then have opened: "epreserves P (emap (\<lambda>(position, thread). insert_window conn (new_window now user g thread position))
      (zip (map int [0..<length ?ts]) ?ts))" for conn by (simp only: split_def)
  have counted: "epreserves P (\<lambda>db. update_import now True (sync_row db conn user g)
      (window_discovered_row now (int (length ?ts)) (max 0 estimated)) db)" for conn
    by (intro import_updated import_change.discovered) simp_all
  have "epreserves P (ebind (emap (\<lambda>(position, thread). insert_window conn (new_window now user g thread position))
          (zip (map int [0..<length ?ts]) ?ts)) (\<lambda>_.
        ebind (\<lambda>db. update_import now True (sync_row db conn user g)
          (window_discovered_row now (int (length ?ts)) (max 0 estimated)) db) (\<lambda>_. ereturn ())))" for conn
    by (intro epreserves_bind opened counted epreserves_return)
  note steps = this
  show ?thesis
    unfolding initialize_gmail_initial_window_def Let_def
  proof (intro epreserves_write_transaction epreserves_bind epreserves_get)
    fix conn and x :: "bool \<times> bool"
    show "epreserves P (case x of (active, discovered) \<Rightarrow>
        if \<not> active then ereturn None
        else ebind (if discovered then ereturn ()
           else ebind (emap (\<lambda>(position, thread). insert_window conn (new_window now user g thread position))
               (zip (map int [0..<length ?ts]) ?ts)) (\<lambda>_.
             ebind (\<lambda>db. update_import now True (sync_row db conn user g)
               (window_discovered_row now (int (length ?ts)) (max 0 estimated)) db) (\<lambda>_. ereturn ())))
          (\<lambda>_. eget (\<lambda>db. Some (gmail_sync_progress (import_on_connection db conn user)))))"
      by (cases x) (simp only: prod.case, intro epreserves_if epreserves_bind epreserves_return epreserves_get steps)
  qed
qed

lemma batch_committed: "epreserves P (commit_gmail_initial_window_metadata_batch now user g threads rows missing)"
proof -
  have "epreserves P (commit_batch now user g ts ms rows conn)" for ts ms conn
    unfolding commit_batch_def
    by (intro state_intros import_change.batch) (simp_all add: window_gone_row_def window_metadata_row_def window_key_def Let_def)
  then show ?thesis
    unfolding commit_gmail_initial_window_metadata_batch_def Let_def by (intro state_intros)
qed

lemma page_recorded: "epreserves P (record_gmail_reconciliation_page now user g c after ids)"
  unfolding record_gmail_reconciliation_page_def Let_def
  by (intro state_intros import_change.page distinct_dict_fromkeys)

lemma page_committed: "epreserves P (commit_gmail_reconciliation_metadata_page now user g c after rows n estimated)"
  unfolding commit_gmail_reconciliation_metadata_page_def Let_def
  by (intro state_intros import_change.metadata_page import_change.metadata_count distinct_dict_fromkeys) simp

lemma identities_recorded: "epreserves P (record_gmail_reconciliation_seen user g ids)"
  unfolding record_gmail_reconciliation_seen_def Let_def
  by (intro state_intros) (auto simp: epreserves_def ebind_apply split: outcome_splits
      dest: epreserves_outcome [OF seen [OF distinct_dict_fromkeys]])

lemma progress_deleted: "epreserves P (delete_progress now conn user threads)"
proof -
  have "epreserves P (\<lambda>db. update_import now True (\<lambda>r. own_import db conn user r \<and> is_sync_generation r \<noteq> None)
      (window_progress_row now (window_counts db conn user (active_generation db conn user))) db)"
    by (intro import_updated import_change.window_progress)
  then show ?thesis
    unfolding delete_progress_def
    by (intro epreserves_bind epreserves_if epreserves_return windows_updated body_progress)
      (simp_all add: window_gone_row_def window_body_row_def window_key_def)
qed

lemma write_preserves: "\<not> deletes op \<Longrightarrow> \<not> disconnects op \<Longrightarrow> epreserves P (perform_op now op)"
  by (cases op) (simp_all add: epreserves_drop upserted relabelled bodies_updated bodies_marked bodies_checked page_described pruned pended
      marked_started marked_completed marked_delta marked_failed watch_set watch_error_set mailbox_adopted sync_begun
      window_initialized batch_committed page_recorded page_committed identities_recorded)

end

section \<open>Scans and deletions\<close>

locale seen_writes = mailbox_writes +
  assumes forget: "P db \<Longrightarrow> P (db\<lparr>reconcile_seen := delete_where qs (reconcile_seen db)\<rparr>)"
begin

lemma forgotten: "epreserves P (\<lambda>db. drop_seen (q db) db)"
  by (simp add: epreserves_def drop_seen_def forget)

end

locale scan_starts = seen_writes +
  assumes starting: "isdigit h \<Longrightarrow> c \<noteq> '''' \<Longrightarrow> P db \<Longrightarrow>
    P (snd (update_import now False (\<lambda>r. own_import db conn user r \<and> is_reconcile_generation r = None)
      (scan_started_row now g c h) db))"
begin

lemma scan_started: "epreserves P (start_gmail_reconciliation now user g h c)"
proof -
  have found: "epreserves P (\<lambda>db. case import_on_connection db conn user of
      None \<Rightarrow> (Inl (OtherError ''NoResultFound''), db) | Some r \<Rightarrow> (Inr r, db))" for conn
    by (simp add: epreserves_def split: option.split)
  have begun: "epreserves P (\<lambda>db. update_import now False (\<lambda>r. own_import db conn user r \<and> is_reconcile_generation r = None)
      (scan_started_row now (strip g) c (strip h)) db)" if "isdigit (strip h)" "c \<noteq> ''''" for conn
    unfolding epreserves_def by (intro allI impI starting that)
  have inserted: "epreserves P (upsert_import now conn user False (\<lambda>r. r) (\<lambda>r. r))" for conn
    by (intro upsert_state import_insert.blank import_change.unchanged)
  show ?thesis
  proof (cases "strip g = '''' \<or> c = '''' \<or> \<not> isdigit (strip h)")
    case True
    then show ?thesis by (auto simp: start_gmail_reconciliation_def Let_def epreserves_raise)
  next
    case False
    then have ok: "isdigit (strip h)" "c \<noteq> ''''" "\<not> (strip g = '''' \<or> c = '''')" "\<not> \<not> isdigit (strip h)" by simp_all
    show ?thesis
      unfolding start_gmail_reconciliation_def Let_def if_not_P [OF ok(3)] if_not_P [OF ok(4)]
      by (intro epreserves_write_transaction epreserves_bind inserted begun [OF ok(1,2)] epreserves_option
          epreserves_return found forgotten)
  qed
qed

end

locale scan_resets = seen_writes +
  assumes resetting: "P db \<Longrightarrow> P (snd (update_import now False (reconcile_row db conn user g) (reset_row now) db))"
begin

lemma scan_reset: "epreserves P (reset_gmail_reconciliation now user g)"
  unfolding reset_gmail_reconciliation_def
  by (intro preserve_intros forgotten) (auto simp: epreserves_def intro: resetting)

end

locale message_deletes = mailbox_writes +
  assumes deleted: "P db \<Longrightarrow> P (db\<lparr>mail_group_members := delete_where qx (mail_group_members db),
      gmail_messages := delete_where qm (gmail_messages db)\<rparr>)"
begin

lemma messages_deleted: "epreserves P (delete_gmail_messages now user ids)"
proof -
  have steps: "epreserves P (ebind (if threads = [] then ereturn () else delete_progress now conn user threads) (\<lambda>_. ereturn groups))"
    for threads conn and groups :: "string list" by (intro state_intros progress_deleted)
  have "epreserves P (\<lambda>db. ebind (if f db = [] then ereturn () else delete_progress now conn user (f db)) (\<lambda>_. ereturn (g db))
      (db\<lparr>mail_group_members := delete_where (qx db) (mail_group_members db),
          gmail_messages := delete_where (qm db) (gmail_messages db)\<rparr>))"
    for conn f qx qm and g :: "'a mail_db_scheme \<Rightarrow> string list"
    unfolding epreserves_def by (intro allI impI epreservesD [OF steps] deleted)
  then show ?thesis
    unfolding delete_gmail_messages_def Let_def by (intro preserve_intros)
qed

end

locale scan_finals = seen_writes + message_deletes +
  assumes finalizing: "isdigit h \<Longrightarrow> P db \<Longrightarrow>
    P (snd (update_import now True (reconcile_row db conn user g)
      (finalized_row now h (thread_count db conn user) (ready_thread_count db conn user) (all_bodies_terminal db conn user)) db))"
begin

lemma scan_finalized: "epreserves P (finalize_gmail_reconciliation now user g h)"
proof -
  have "P (snd (finalize_scan now user g (strip h) started conn db))" if "P db" "isdigit (strip h)" for db conn started
  proof -
    let ?gone = "missing_message db conn user g (strip h) started"
    let ?db = "db\<lparr>mail_group_members := delete_where (\<lambda>x. own_member db conn user x
          \<and> list_ex (\<lambda>m. ?gone m \<and> gm_user_id m = mm_user_id x \<and> gm_message_id m = mm_gmail_message_id x)
              (gmail_messages db)) (mail_group_members db),
        gmail_messages := delete_where ?gone (gmail_messages db)\<rparr>"
    have "P ?db" by (rule deleted [OF that(1)])
    from finalizing [OF that(2) this]
    show ?thesis
      unfolding finalize_scan_def Let_def
      by (rule preserved_bind) (intro epreserves_bind forgotten epreserves_return)
  qed
  then show ?thesis
    unfolding finalize_gmail_reconciliation_def Let_def
    by (auto intro!: epreserves_raise epreserves_write_transaction)
      (auto simp: epreserves_def split: option.split)
qed

end

locale mailbox_frame = scan_starts + scan_resets + scan_finals
begin

lemma connected_op_preserves: "\<not> disconnects op \<Longrightarrow> epreserves P (perform_op now op)"
proof (cases "deletes op")
  case True
  then show ?thesis
    by (cases op) (simp_all add: epreserves_drop messages_deleted scan_started scan_finalized scan_reset)
qed (rule write_preserves)

end

locale mailbox_invariant = mailbox_frame +
  assumes disconnect: "P db \<Longrightarrow> P (mark_google_disconnected now user db)"
begin

lemma op_preserves: "epreserves P (perform_op now op)"
proof (cases "disconnects op")
  case True
  then show ?thesis by (cases op) (simp_all add: epreserves_update disconnect)
qed (rule connected_op_preserves)

lemma run_preserves: "P db \<Longrightarrow> P (run_ops ops db)"
  by (rule run_ops_preserves) (simp_all add: op_preserves)

end

section \<open>What the statements on the import state leave alone\<close>

lemma ready_frame:
  "gmail_messages (mark_gmail_account_initial_ready now r db) = gmail_messages db"
  "gmail_import_states (mark_gmail_account_initial_ready now r db) = gmail_import_states db"
  "initial_window_entries (mark_gmail_account_initial_ready now r db) = initial_window_entries db"
  "reconcile_seen (mark_gmail_account_initial_ready now r db) = reconcile_seen db"
  "mail_groups (mark_gmail_account_initial_ready now r db) = mail_groups db"
  "mail_group_members (mark_gmail_account_initial_ready now r db) = mail_group_members db"
  "users (mark_gmail_account_initial_ready now r db) = users db"
  "active_gmail_account (mark_gmail_account_initial_ready now r db) = active_gmail_account db"
  by (simp_all add: mark_gmail_account_initial_ready_def)

lemma ready_fold_frame:
  "gmail_messages (fold (mark_gmail_account_initial_ready now) rs db) = gmail_messages db"
  "gmail_import_states (fold (mark_gmail_account_initial_ready now) rs db) = gmail_import_states db"
  "initial_window_entries (fold (mark_gmail_account_initial_ready now) rs db) = initial_window_entries db"
  "reconcile_seen (fold (mark_gmail_account_initial_ready now) rs db) = reconcile_seen db"
  "mail_groups (fold (mark_gmail_account_initial_ready now) rs db) = mail_groups db"
  "mail_group_members (fold (mark_gmail_account_initial_ready now) rs db) = mail_group_members db"
  "users (fold (mark_gmail_account_initial_ready now) rs db) = users db"
  "active_gmail_account (fold (mark_gmail_account_initial_ready now) rs db) = active_gmail_account db"
  by (induction rs arbitrary: db) (simp_all add: ready_frame)

lemma update_import_frame [simp]:
  "gmail_messages (snd (update_import now fires p f db)) = gmail_messages db"
  "gmail_import_states (snd (update_import now fires p f db)) = update_where p f (gmail_import_states db)"
  "initial_window_entries (snd (update_import now fires p f db)) = initial_window_entries db"
  "reconcile_seen (snd (update_import now fires p f db)) = reconcile_seen db"
  "mail_groups (snd (update_import now fires p f db)) = mail_groups db"
  "mail_group_members (snd (update_import now fires p f db)) = mail_group_members db"
  "users (snd (update_import now fires p f db)) = users db"
  "active_gmail_account (snd (update_import now fires p f db)) = active_gmail_account db"
  by (simp_all add: update_import_def Let_def ready_fold_frame)

lemma update_bind:
  "ebind (update_import now fires p f) k db
     = k (map_option f (select_first p (gmail_import_states db))) (snd (update_import now fires p f db))"
  "ebind (\<lambda>db. update_import now fires (p' db) (f' db) db) k db
     = k (map_option (f' db) (select_first (p' db) (gmail_import_states db))) (snd (update_import now fires (p' db) (f' db) db))"
  by (simp_all add: ebind_apply update_import_def Let_def returning_first)

section \<open>What no operation but a disconnection touches\<close>

definition guard_frame :: "'a guard_db_scheme \<Rightarrow> user_row list \<times> token_row list \<times> lock_row list \<times> string option" where
  "guard_frame db = (users db, google_oauth_tokens db, advisory_locks db, active_gmail_account db)"

lemma guard_frame_ready: "guard_frame (mark_gmail_account_initial_ready now r db) = guard_frame db"
  by (simp add: guard_frame_def mark_gmail_account_initial_ready_def)

lemma guard_frame_ready_fold: "guard_frame (fold (mark_gmail_account_initial_ready now) rs db) = guard_frame db"
  by (induction rs arbitrary: db) (simp_all add: guard_frame_ready)

lemma guard_frame_update: "guard_frame (snd (update_import now fires p f db)) = guard_frame db"
  by (simp add: update_import_def Let_def guard_frame_ready_fold) (simp add: guard_frame_def)

interpretation framed: mailbox_frame "\<lambda>db. guard_frame db = fr" for fr
  by unfold_locales
    (auto simp: epreserves_def upsert_message_def insert_window_def insert_seen_def Let_def guard_frame_update guard_frame_ready
      split: option.split, auto simp: guard_frame_def)

lemma connected_op_frame: "\<not> disconnects op \<Longrightarrow> guard_frame (snd (perform_op now op db)) = guard_frame db"
  by (rule epreservesD [OF framed.connected_op_preserves]) simp_all

end
