(* ===== verification/Message_Laws.thy ===== *)
theory Message_Laws
  imports Mailbox_Change Send_Identity
begin

text \<open>
  What the writers of cached messages guarantee: merging metadata converges
  whatever the order and repetition of deliveries, and between deletions a message
  only advances: history, body data and content revision never go back, and an
  unchanged revision means unchanged content.
\<close>

section \<open>Merging by history\<close>

text \<open>The order behind \<open>newer_history\<close>: rows without a numeric history id come first.\<close>

definition history_rank :: "string option \<Rightarrow> nat option" where
  "history_rank h = (if numeric h then Some (numeral_of (str_or_empty h)) else None)"

lemma newer_history_rank: "newer_history new old \<longleftrightarrow> history_rank old < history_rank new"
  by (auto simp: newer_history_def history_rank_def)

lemma merge_simps [simp]:
  "gm_history_id (merge_message now old new) =
     (if history_rank (gm_history_id old) < history_rank (gm_history_id new) then gm_history_id new else gm_history_id old)"
  "gm_label_ids (merge_message now old new) =
     (if history_rank (gm_history_id old) < history_rank (gm_history_id new) then gm_label_ids new else gm_label_ids old)"
  by (simp_all add: merge_message_def merged_content_def newer_history_rank Let_def)

lemma merge_key [simp]:
  "gm_user_id (merge_message now old new) = gm_user_id old"
  "gm_gmail_account_id (merge_message now old new) = gm_gmail_account_id old"
  "gm_message_id (merge_message now old new) = gm_message_id old"
  by (simp_all add: merge_message_def merged_content_def Let_def)

definition merge_all :: "instant \<Rightarrow> message_row \<Rightarrow> message_row list \<Rightarrow> message_row" where
  "merge_all now old ms = foldl (merge_message now) old ms"

text \<open>The merged row has the history and labels of one of the rows, one of the greatest rank.\<close>

lemma merge_all_newest:
  "(\<exists>x \<in> insert old (set ms). gm_history_id (merge_all now old ms) = gm_history_id x
      \<and> gm_label_ids (merge_all now old ms) = gm_label_ids x)
   \<and> (\<forall>x \<in> insert old (set ms). history_rank (gm_history_id x) \<le> history_rank (gm_history_id (merge_all now old ms)))
   \<and> (history_rank (gm_history_id (merge_all now old ms)) = None \<longrightarrow>
        gm_history_id (merge_all now old ms) = gm_history_id old \<and> gm_label_ids (merge_all now old ms) = gm_label_ids old)"
proof (induction ms rule: rev_induct)
  case Nil
  then show ?case by (simp add: merge_all_def)
next
  case (snoc m ms)
  let ?r = "merge_all now old ms"
  have step: "merge_all now old (ms @ [m]) = merge_message now ?r m" by (simp add: merge_all_def)
  show ?case
  proof (cases "history_rank (gm_history_id ?r) < history_rank (gm_history_id m)")
    case True
    then have "history_rank (gm_history_id x) \<le> history_rank (gm_history_id m)" if "x \<in> insert old (set ms)" for x
      using snoc that by fastforce
    with True show ?thesis by (auto simp: step)
  next
    case False
    with snoc show ?thesis by (auto simp: step)
  qed
qed

lemma history_rank_Some: "history_rank h = Some n \<Longrightarrow> numeric h"
  by (simp add: history_rank_def split: if_splits)

section \<open>Advancing messages\<close>

definition reader_content where
  "reader_content m =
     ((gm_gmail_thread_id m, gm_internal_date m, gm_subject m, gm_sender m, gm_recipients m, gm_headers m, gm_snippet m),
      (gm_history_id m, gm_label_ids m),
      (gm_raw_payload m, gm_html_body_sanitized m, gm_html_render_document m, gm_text_body m,
       gm_attachment_descriptors m, gm_body_hash m))"

definition message_advances :: "message_row \<Rightarrow> message_row \<Rightarrow> bool" where
  "message_advances m m' \<longleftrightarrow>
     gm_user_id m' = gm_user_id m \<and> gm_gmail_account_id m' = gm_gmail_account_id m \<and> gm_message_id m' = gm_message_id m
     \<and> history_rank (gm_history_id m) \<le> history_rank (gm_history_id m')
     \<and> (body_terminal m \<longrightarrow> body_terminal m')
     \<and> (gm_attachment_descriptors_ready m \<longrightarrow> gm_attachment_descriptors_ready m')
     \<and> gm_render_doc_bytes m \<le> gm_render_doc_bytes m'
     \<and> gm_content_revision m \<le> gm_content_revision m'
     \<and> (gm_content_revision m = gm_content_revision m' \<longrightarrow> reader_content m = reader_content m')"

lemma advances_refl [simp]: "message_advances m m"
  by (simp add: message_advances_def)

lemma advances_trans: "message_advances a b \<Longrightarrow> message_advances b c \<Longrightarrow> message_advances a c"
  by (auto simp: message_advances_def)

lemma advances_merge: "message_advances old (merge_message now old new)"
proof -
  let ?m = "merge_message now old new" and ?c = "merged_content now old new"
  have m: "?m = ?c\<lparr>gm_content_revision := gm_content_revision old + (if content_changed old new ?c then 1 else 0)\<rparr>"
    by (simp add: merge_message_def Let_def)
  have "reader_content old = reader_content ?m" if "\<not> content_changed old new ?c"
    using that unfolding m content_changed_def
    by (simp add: reader_content_def) (simp add: merged_content_def Let_def)
  then have revision: "gm_content_revision old \<le> gm_content_revision ?m
      \<and> (gm_content_revision old = gm_content_revision ?m \<longrightarrow> reader_content old = reader_content ?m)"
    by (simp add: m)
  have "body_terminal old \<longrightarrow> body_terminal ?m" "gm_attachment_descriptors_ready old \<longrightarrow> gm_attachment_descriptors_ready ?m"
      "gm_render_doc_bytes old \<le> gm_render_doc_bytes ?m"
    by (auto simp: m merged_content_def Let_def body_terminal_def merged_status_def)
  with revision show ?thesis by (auto simp: message_advances_def not_less)
qed

lemma advances_label: "message_advances m (label_row now labels m)"
  by (simp add: message_advances_def label_row_def body_terminal_def reader_content_def)

lemma advances_descriptor: "message_advances m (descriptor_row now m)"
  by (auto simp: message_advances_def descriptor_row_def Let_def body_terminal_def reader_content_def)

lemma advances_body: "message_advances m (body_row now p m)"
  by (simp add: message_advances_def body_row_def body_terminal_def)

lemma advances_body_state:
  "status = Body_fetched \<or> \<not> body_terminal m \<Longrightarrow> message_advances m (body_state_row now status error m)"
  by (auto simp: message_advances_def body_state_row_def body_terminal_def reader_content_def)

definition rows_advance :: "message_row list \<Rightarrow> message_row list \<Rightarrow> bool" where
  "rows_advance ms ms' \<longleftrightarrow> (\<forall>m \<in> set ms. \<exists>m' \<in> set ms'. message_advances m m')"

lemma rows_advance_refl [simp]: "rows_advance ms ms"
  by (auto simp: rows_advance_def intro: advances_refl)

lemma rows_advance_trans: "rows_advance a b \<Longrightarrow> rows_advance b c \<Longrightarrow> rows_advance a c"
  unfolding rows_advance_def by (meson advances_trans)

lemma rows_advance_append: "rows_advance ms (ms @ xs)"
  by (auto simp: rows_advance_def intro: advances_refl)

lemma rows_advance_update:
  assumes "\<And>m. m \<in> set ms \<Longrightarrow> p m \<Longrightarrow> message_advances m (f m)"
  shows "rows_advance ms (update_where p f ms)"
  unfolding rows_advance_def
proof
  fix m assume m: "m \<in> set ms"
  show "\<exists>m' \<in> set (update_where p f ms). message_advances m m'"
  proof (rule bexI [of _ "if p m then f m else m"])
    show "message_advances m (if p m then f m else m)" using assms [OF m] by simp
  qed (use m in \<open>auto simp: in_update_where\<close>)
qed

text \<open>\<open>advanced_from ms\<close>: every row of \<open>ms\<close> is still there, advanced.\<close>

definition advanced_from :: "message_row list \<Rightarrow> 'a mail_db_scheme \<Rightarrow> bool" where
  "advanced_from ms db \<longleftrightarrow> rows_advance ms (gmail_messages db)"

lemma advanced_step:
  "advanced_from ms db \<Longrightarrow> rows_advance (gmail_messages db) (gmail_messages db') \<Longrightarrow> advanced_from ms db'"
  unfolding advanced_from_def by (rule rows_advance_trans)

lemma advanced_frame: "gmail_messages db' = gmail_messages db \<Longrightarrow> advanced_from ms db' = advanced_from ms db"
  by (simp add: advanced_from_def)

lemma advanced_update:
  assumes "advanced_from ms db" and "\<And>m. p m \<Longrightarrow> message_advances m (f m)"
  shows "advanced_from ms (db\<lparr>gmail_messages := update_where p f (gmail_messages db)\<rparr>)"
  using assms(1) by (rule advanced_step) (simp add: rows_advance_update assms(2))

lemma advanced_upsert: "epreserves (advanced_from ms) (upsert_message now conn m)"
  unfolding epreserves_def
proof (intro allI impI)
  fix db assume db: "advanced_from ms db"
  have "advanced_from ms (db\<lparr>gmail_messages := update_where p (\<lambda>old. merge_message now old new) (gmail_messages db)\<rparr>)"
    for p new by (rule advanced_update [OF db advances_merge])
  moreover have "advanced_from ms (db\<lparr>gmail_messages := gmail_messages db @ [x]\<rparr>)" for x
    by (rule advanced_step [OF db]) (simp add: rows_advance_append)
  ultimately show "advanced_from ms (snd (upsert_message now conn m db))"
    using db by (simp add: upsert_message_def Let_def split: option.split)
qed

lemma advanced_others:
  "epreserves (advanced_from ms) (insert_window conn w)" "epreserves (advanced_from ms) (insert_seen conn user g ids)"
  by (auto simp: epreserves_def insert_window_def insert_seen_def Let_def advanced_from_def split: option.split)

interpretation advancing: scan_starts "advanced_from ms" for ms
  by unfold_locales
    (simp_all add: advanced_upsert advanced_update advances_label advances_descriptor advances_body advances_body_state advanced_others,
     simp_all add: advanced_from_def ready_frame)

interpretation advancing_resets: scan_resets "advanced_from ms" for ms
  by unfold_locales (simp add: advanced_from_def)

fun removes_messages :: "mailbox_op \<Rightarrow> bool" where
  "removes_messages (Delete_messages user ids) = True"
| "removes_messages (Finalize_scan user g h) = True"
| "removes_messages _ = False"

lemma advance_op: "\<not> removes_messages op \<Longrightarrow> epreserves (advanced_from ms) (perform_op now op)"
proof (cases "deletes op \<or> disconnects op")
  case True
  then show "\<not> removes_messages op \<Longrightarrow> epreserves (advanced_from ms) (perform_op now op)"
    by (cases op) (auto simp: advancing.scan_started advancing_resets.scan_reset mark_google_disconnected_def advanced_from_def
        intro!: epreserves_drop epreserves_update)
next
  case False
  then show "epreserves (advanced_from ms) (perform_op now op)" by (simp add: advancing.write_preserves)
qed

section \<open>Properties\<close>

text \<open>C11: metadata of one message may arrive in any order and any number of times. If equal
  numeric history ids carry equal labels, merging the same set of records leads to the same
  history id and the same labels, whatever their order and repetition.\<close>

theorem metadata_delivery_order_is_irrelevant:
  assumes "set ms = set ms'"
    and "\<And>x y. x \<in> insert old (set ms) \<Longrightarrow> y \<in> insert old (set ms) \<Longrightarrow> numeric (gm_history_id x) \<Longrightarrow>
      history_rank (gm_history_id x) = history_rank (gm_history_id y) \<Longrightarrow>
      gm_history_id x = gm_history_id y \<and> gm_label_ids x = gm_label_ids y"
  shows "gm_history_id (merge_all now old ms) = gm_history_id (merge_all now' old ms')
    \<and> gm_label_ids (merge_all now old ms) = gm_label_ids (merge_all now' old ms')"
proof -
  let ?r = "merge_all now old ms" and ?r' = "merge_all now' old ms'"
  let ?rank = "\<lambda>m. history_rank (gm_history_id m)"
  from merge_all_newest [of old ms now] obtain x where x: "x \<in> insert old (set ms)"
      "gm_history_id ?r = gm_history_id x" "gm_label_ids ?r = gm_label_ids x"
      "\<forall>z \<in> insert old (set ms). ?rank z \<le> ?rank ?r" by blast
  from merge_all_newest [of old ms' now'] assms(1) obtain y where y: "y \<in> insert old (set ms)"
      "gm_history_id ?r' = gm_history_id y" "gm_label_ids ?r' = gm_label_ids y"
      "\<forall>z \<in> insert old (set ms). ?rank z \<le> ?rank ?r'" by blast
  from x(2,4) y(2,4) x(1) y(1) have same: "?rank x = ?rank y" by (metis antisym)
  show ?thesis
  proof (cases "?rank x")
    case None
    with same x(2) y(2) have "?rank ?r = None" "?rank ?r' = None" by simp_all
    with merge_all_newest [of old ms now] merge_all_newest [of old ms' now'] show ?thesis by simp
  next
    case (Some n)
    with assms(2) [OF x(1) y(1) history_rank_Some same] x y show ?thesis by simp
  qed
qed

text \<open>C12: between deletions the cache only advances. After any sequence of operations other
  than a deletion of messages or the end of a scan, every cached message is still there
  under its key; its history id, its body state, its attachment descriptors and its content
  revision did not go back, and an unchanged revision means unchanged content.\<close>

theorem cached_messages_only_advance:
  assumes "m \<in> set (gmail_messages db)"
    and "\<forall>x \<in> set ops. \<not> removes_messages (snd x)"
  shows "\<exists>m' \<in> set (gmail_messages (run_ops ops db)). message_advances m m'"
proof -
  have "advanced_from (gmail_messages db) (run_ops ops db)"
  proof (rule run_ops_preserves)
    fix now op assume "(now, op) \<in> set ops"
    with assms(2) have "\<not> removes_messages op" by auto
    then show "epreserves (advanced_from (gmail_messages db)) (perform_op now op)" by (rule advance_op)
  qed (simp add: advanced_from_def)
  with assms(1) show ?thesis by (auto simp: advanced_from_def rows_advance_def)
qed

section \<open>Witnesses\<close>

definition sample_message :: "string \<Rightarrow> string option \<Rightarrow> string list \<Rightarrow> message_row" where
  "sample_message i h labels =
     \<lparr>gm_user_id = ''u1'', gm_gmail_account_id = ''u1'', gm_message_id = i, gm_gmail_thread_id = Some ''t1'',
      gm_history_id = h, gm_label_ids = labels, gm_internal_date = Some 0, gm_subject = Some ''Hi'',
      gm_sender = Some ''a@x.org'', gm_recipients = JObj [], gm_headers = JObj [], gm_snippet = None,
      gm_raw_payload = JObj [], gm_html_body_sanitized = None, gm_html_render_document = None,
      gm_text_body = None, gm_extracted_signals = JObj [], gm_body_hash = ''h'',
      gm_body_fetch_status = Some Body_missing, gm_body_fetched_at = None, gm_body_fetch_updated_at = None,
      gm_body_fetch_error = None, gm_render_doc_bytes = 0, gm_ai_title = None, gm_ai_title_generated_at = None,
      gm_content_revision = 1, gm_attachment_descriptors = [], gm_attachment_descriptors_ready = False,
      gm_created_at = 0, gm_updated_at = 0\<rparr>"

definition sample_mail_db :: "import_row list \<Rightarrow> message_row list \<Rightarrow> window_row list \<Rightarrow> seen_row list \<Rightarrow> mail_db" where
  "sample_mail_db imports messages windows seen =
     \<lparr>users = [sample_user], google_oauth_tokens = [sample_token],
      gmail_accounts = [sample_account], advisory_locks = [], next_session = 0, active_lock_session = None,
      active_gmail_account = None, app_sessions = [], oauth_login_sessions = [], mobile_login_codes = [],
     mobile_oauth_handoffs = [], google_subject_tombstones = [], identity_epoch = 0, rate_limit_buckets = [],
     allowed_emails = [], migration_audits = [], background_jobs = [], background_job_events = [], worker_heartbeats = [],
      gmail_pending_sends = [], gmail_import_states = imports, gmail_messages = messages,
      initial_window_entries = windows, reconcile_seen = seen, mail_groups = [], mail_group_members = []\<rparr>"

theorem metadata_delivery_order_is_irrelevant_witness:
  "gm_label_ids (merge_all 1 (sample_message ''m1'' None []) [sample_message ''m1'' (Some ''9'') [''INBOX''], sample_message ''m1'' (Some ''10'') [''TRASH'']])
   = gm_label_ids (merge_all 2 (sample_message ''m1'' None []) [sample_message ''m1'' (Some ''10'') [''TRASH''], sample_message ''m1'' (Some ''9'') [''INBOX''],
       sample_message ''m1'' (Some ''10'') [''TRASH'']])"
  (is "gm_label_ids (merge_all 1 ?old [?a, ?b]) = _")
proof -
  have "history_rank (Some ''9'') = Some 9" "history_rank (Some ''10'') = Some 10" "history_rank None = None"
    by (simp_all add: history_rank_def numeric_def isdigit_def is_digit_def numeral_of_def digit_val_def)
  then have same: "gm_history_id x = gm_history_id y \<and> gm_label_ids x = gm_label_ids y"
    if "x \<in> insert ?old (set [?a, ?b])" "y \<in> insert ?old (set [?a, ?b])" "numeric (gm_history_id x)"
      "history_rank (gm_history_id x) = history_rank (gm_history_id y)" for x y
    using that by (auto simp: sample_message_def)
  have "set [?a, ?b] = set [?b, ?a, ?b]" by auto
  from metadata_delivery_order_is_irrelevant [where now = 1 and now' = 2, OF this same] show ?thesis by blast
qed

theorem cached_messages_only_advance_witness:
  "\<exists>m' \<in> set (gmail_messages (run_ops [(5, Force_labels ''u1'' [(''m1'', [''TRASH''])])]
      (sample_mail_db [] [sample_message ''m1'' (Some ''9'') [''INBOX'']] [] []))).
     message_advances (sample_message ''m1'' (Some ''9'') [''INBOX'']) m'"
  by (rule cached_messages_only_advance) (simp_all add: sample_mail_db_def)

end
