(* ===== verification/Mailbox_Invariants.thy ===== *)
theory Mailbox_Invariants
  imports Message_Laws
begin

text \<open>
  The state invariant of the mailbox tables: keys are unique, window positions lie
  below 100, the progress counters stay within their bounds, a scan has its cursor
  state exactly while it is active, and an authoritative history cursor is numeric.
  Every operation preserves it.
\<close>

section \<open>The invariant\<close>

definition import_ok :: "import_row \<Rightarrow> bool" where
  "import_ok r \<longleftrightarrow>
     0 \<le> is_initial_target_count r \<and> is_initial_target_count r \<le> 100
     \<and> 0 \<le> is_initial_metadata_count r \<and> is_initial_metadata_count r \<le> 100
     \<and> 0 \<le> is_initial_body_target_count r \<and> is_initial_body_target_count r \<le> 25
     \<and> 0 \<le> is_initial_body_ready_count r \<and> is_initial_body_ready_count r \<le> 25
     \<and> 0 \<le> is_history_body_ready_count r \<and> is_history_body_ready_count r \<le> is_history_metadata_count r
     \<and> 0 \<le> is_estimated_total_count r
     \<and> (is_history_body_complete r \<longrightarrow> is_history_metadata_complete r)
     \<and> (is_reconcile_generation r = None \<longrightarrow>
          is_reconcile_cursor r = None \<and> is_reconcile_started_at r = None \<and> is_reconcile_baseline_history_id r = None)
     \<and> (is_reconcile_generation r \<noteq> None \<longrightarrow>
          is_reconcile_started_at r \<noteq> None \<and> numeric (is_reconcile_baseline_history_id r))
     \<and> (is_history_cursor_authoritative r \<longrightarrow> numeric (is_last_history_id r))"

definition message_key :: "message_row \<Rightarrow> string \<times> string" where
  "message_key m = (gm_gmail_account_id m, gm_message_id m)"

definition window_thread_key :: "window_row \<Rightarrow> string \<times> string \<times> string" where
  "window_thread_key w = (iw_gmail_account_id w, iw_generation_id w, iw_gmail_thread_id w)"

definition window_position_key :: "window_row \<Rightarrow> string \<times> string \<times> int" where
  "window_position_key w = (iw_gmail_account_id w, iw_generation_id w, iw_position w)"

definition seen_key :: "seen_row \<Rightarrow> string \<times> string \<times> string" where
  "seen_key s = (sn_gmail_account_id s, sn_generation_id s, sn_message_id s)"

definition windows_ok :: "window_row list \<Rightarrow> bool" where
  "windows_ok ws \<longleftrightarrow> distinct (map window_thread_key ws) \<and> distinct (map window_position_key ws)
     \<and> (\<forall>w \<in> set ws. 0 \<le> iw_position w \<and> iw_position w < 100)"

definition imports_ok :: "import_row list \<Rightarrow> bool" where
  "imports_ok rs \<longleftrightarrow> distinct (map is_gmail_account_id rs) \<and> (\<forall>r \<in> set rs. import_ok r)"

definition mailbox_ok :: "'a mail_db_scheme \<Rightarrow> bool" where
  "mailbox_ok db \<longleftrightarrow>
     imports_ok (gmail_import_states db) \<and> windows_ok (initial_window_entries db)
     \<and> distinct (map message_key (gmail_messages db)) \<and> distinct (map seen_key (reconcile_seen db))"

section \<open>Counting window entries\<close>

lemma distinct_map_coarser:
  assumes "distinct (map k xs)" and "\<And>x y. x \<in> set xs \<Longrightarrow> y \<in> set xs \<Longrightarrow> g x = g y \<Longrightarrow> k x = k y"
  shows "distinct (map g xs)"
proof -
  from assms(1) have "distinct xs" "inj_on k (set xs)" by (simp_all add: distinct_map)
  moreover have "inj_on g (set xs)"
  proof (rule inj_onI)
    fix x y assume "x \<in> set xs" "y \<in> set xs" "g x = g y"
    with assms(2) [of x y] \<open>inj_on k (set xs)\<close> show "x = y" by (simp add: inj_on_eq_iff)
  qed
  ultimately show ?thesis by (simp add: distinct_map)
qed

text \<open>The entries one transaction sees of one generation have different positions.\<close>

lemma own_positions_distinct:
  assumes "windows_ok ws"
  shows "distinct (map iw_position (filter (\<lambda>e. own_window db conn user e \<and> Some (iw_generation_id e) = g \<and> q e) ws))"
proof -
  let ?p = "\<lambda>e. own_window db conn user e \<and> Some (iw_generation_id e) = g \<and> q e"
  have "distinct (map window_position_key (filter ?p ws))"
    using assms unfolding windows_ok_def by (simp add: distinct_map_filter)
  moreover have "window_position_key x = window_position_key y"
    if "x \<in> set (filter ?p ws)" "y \<in> set (filter ?p ws)" "iw_position x = iw_position y" for x y
    using that by (auto simp: window_position_key_def own_window_def owned_def row_visible_def)
  ultimately show ?thesis by (rule distinct_map_coarser)
qed

lemma own_count_below:
  assumes "windows_ok ws" and "0 \<le> n"
  shows "int (length (filter (\<lambda>e. own_window db conn user e \<and> Some (iw_generation_id e) = g \<and> q e \<and> iw_position e < n) ws)) \<le> n"
proof -
  let ?es = "filter (\<lambda>e. own_window db conn user e \<and> Some (iw_generation_id e) = g \<and> q e \<and> iw_position e < n) ws"
  have "distinct (map iw_position ?es)" by (rule own_positions_distinct [OF assms(1)])
  have "set (map iw_position ?es) \<subseteq> {0..<n}" using assms(1) by (auto simp: windows_ok_def)
  then have "card (set (map iw_position ?es)) \<le> card {0..<n}" by (intro card_mono) simp_all
  moreover have "card (set (map iw_position ?es)) = length ?es"
    using distinct_card [OF \<open>distinct (map iw_position ?es)\<close>] by simp
  ultimately show ?thesis using assms(2) by simp
qed

lemma window_counts_bounds:
  assumes "mailbox_ok db" and "window_counts db conn user g = (n, m, b)"
  shows "0 \<le> n \<and> n \<le> 100 \<and> 0 \<le> m \<and> m \<le> n \<and> 0 \<le> b \<and> b \<le> min 25 n"
proof -
  have ok: "windows_ok (initial_window_entries db)" using assms(1) by (simp add: mailbox_ok_def)
  let ?es = "filter (\<lambda>e. own_window db conn user e \<and> Some (iw_generation_id e) = g) (initial_window_entries db)"
  have n: "n = int (length ?es)" and m: "m = int (length (filter (\<lambda>e. iw_metadata_ready_at e \<noteq> None) ?es))"
    and b: "b = int (length (filter (\<lambda>e. iw_body_ready_at e \<noteq> None \<and> iw_position e < 25) ?es))"
    using assms(2) by (simp_all add: window_counts_def Let_def)
  have "filter (\<lambda>e. own_window db conn user e \<and> Some (iw_generation_id e) = g \<and> True \<and> iw_position e < 100) (initial_window_entries db) = ?es"
    by (rule filter_cong) (use ok in \<open>auto simp: windows_ok_def\<close>)
  with own_count_below [OF ok, of 100 db conn user g "\<lambda>_. True"] n have "n \<le> 100" by simp
  moreover have "b \<le> 25"
    using own_count_below [OF ok, of 25 db conn user g "\<lambda>e. iw_body_ready_at e \<noteq> None"] b
    by (simp add: conj_ac)
  moreover have "m \<le> n" "b \<le> n" unfolding n m b by (simp_all only: of_nat_le_iff length_filter_le)
  ultimately show ?thesis using n m b by simp
qed

lemma ready_window_count_bounds:
  assumes "mailbox_ok db" and "0 \<le> bound"
  shows "0 \<le> ready_window_count db conn user bound \<and> ready_window_count db conn user bound \<le> bound"
  using own_count_below [OF _ assms(2), of "initial_window_entries db" db conn user "active_generation db conn user" "\<lambda>e. iw_body_ready_at e \<noteq> None"] assms(1)
  by (simp add: mailbox_ok_def ready_window_count_def)

lemma ready_threads_le: "0 \<le> ready_thread_count db conn user \<and> ready_thread_count db conn user \<le> thread_count db conn user"
  by (simp add: ready_thread_count_def thread_count_def Let_def)

section \<open>Rows of the import state\<close>

lemma import_inserts_ok:
  "import_insert now f \<Longrightarrow> import_ok (f (new_import_row now' user account)) \<and>
     is_gmail_account_id (f (new_import_row now' user account)) = account"
  by (induction rule: import_insert.induct)
    (auto simp: import_ok_def new_import_row_def import_completed_new_def watch_started_row_def watch_error_row_def Let_def numeric_def)

lemma advanced_numeric: "isdigit h \<Longrightarrow> numeric (advanced_history h r)"
  by (auto simp: advanced_history_def numeric_def)

lemmas mark_rows = import_started_row_def import_completed_row_def history_delta_row_def import_error_row_def
  watch_started_row_def watch_error_row_def watch_stopped_row_def reopen_history_def page_row_def descriptors_state_row_def

lemma marks_ok:
  assumes "import_ok r"
  shows "import_ok (import_started_row now r)" "import_ok (import_completed_row now fl r)"
    "isdigit h \<Longrightarrow> import_ok (history_delta_row now h r)" "import_ok (import_error_row now e r)"
    "import_ok (watch_started_row now w t r)" "import_ok (watch_error_row now e r)" "import_ok (watch_stopped_row now r)"
    "import_ok (reopen_history now r)" "import_ok (descriptors_state_row now c r)"
  using assms advanced_numeric [of h r] by (simp_all add: import_ok_def mark_rows Let_def)

lemma scan_rows_ok:
  assumes "import_ok r"
  shows "isdigit h \<Longrightarrow> import_ok (scan_started_row now g c h r)" "import_ok (reset_row now r)"
    "is_reconcile_generation r \<noteq> None \<Longrightarrow> import_ok (page_row now after r)"
    "is_reconcile_generation r \<noteq> None \<Longrightarrow> 0 \<le> estimated \<Longrightarrow> import_ok (metadata_page_row now after estimated r)"
  using assms by (auto simp: import_ok_def scan_started_row_def reset_row_def page_row_def metadata_page_row_def numeric_def)

lemma finalized_ok:
  assumes "import_ok r" and "isdigit h" and "0 \<le> ready" and "ready \<le> threads"
  shows "import_ok (finalized_row now h threads ready done r)"
  using assms advanced_numeric [OF assms(2), of r] by (auto simp: import_ok_def finalized_row_def)

lemma progress_rows_ok:
  assumes "import_ok r"
  shows "import_ok (sync_started_row now g r)"
    "0 \<le> n \<Longrightarrow> n \<le> 100 \<Longrightarrow> import_ok (window_discovered_row now n estimated r)"
    "0 \<le> n \<and> n \<le> 100 \<and> 0 \<le> m \<and> m \<le> n \<and> 0 \<le> b \<and> b \<le> min 25 n \<Longrightarrow> import_ok (batch_progress_row now (n, m, b) r)"
    "0 \<le> n \<and> n \<le> 100 \<and> 0 \<le> m \<and> m \<le> n \<and> 0 \<le> b \<and> b \<le> min 25 n \<Longrightarrow> import_ok (window_progress_row now (n, m, b) r)"
    "0 \<le> n \<and> n \<le> 100 \<Longrightarrow> 0 \<le> b \<Longrightarrow> 0 \<le> ready \<and> ready \<le> threads \<Longrightarrow>
      import_ok (adopted_row now n b threads ready c (c \<and> d) r)"
    "0 \<le> w \<Longrightarrow> w \<le> is_initial_body_target_count r \<Longrightarrow> 0 \<le> ready \<Longrightarrow> import_ok (body_progress_row now w ready done r)"
  using assms
  by (auto simp: import_ok_def sync_started_row_def window_discovered_row_def batch_progress_row_def
      window_progress_row_def adopted_row_def body_progress_row_def Let_def)

lemma change_keeps_account: "import_change now db p f \<Longrightarrow> is_gmail_account_id (f r) = is_gmail_account_id r"
  by (induction rule: import_change.induct)
    (simp_all add: mark_rows body_progress_row_def window_progress_row_def sync_started_row_def window_discovered_row_def
      batch_progress_row_def adopted_row_def metadata_page_row_def Let_def split: prod.split)

text \<open>The own row of a transaction is the only one it sees.\<close>

lemma own_import_unique:
  assumes "mailbox_ok db" and "r \<in> set (gmail_import_states db)" and "own_import db conn user r"
  shows "import_on_connection db conn user = Some r"
  unfolding import_on_connection_def
proof (rule select_first_unique [where key = is_gmail_account_id])
  show "distinct (map is_gmail_account_id (gmail_import_states db))"
    using assms(1) by (simp add: mailbox_ok_def imports_ok_def)
  fix r' assume "own_import db conn user r'"
  with assms(3) show "is_gmail_account_id r' = is_gmail_account_id r"
    by (simp add: own_import_def owned_def row_visible_def)
qed (use assms in simp_all)

lemma change_ok:
  assumes "import_change now db p f" and ok: "mailbox_ok db"
    and r: "r \<in> set (gmail_import_states db)" "p r"
  shows "import_ok (f r)"
proof -
  have row: "import_ok r" using ok r(1) by (simp add: mailbox_ok_def imports_ok_def)
  from assms(1) show ?thesis
  proof cases
    case (bodies target conn user)
    with own_import_unique [OF ok r(1)] r(2) have "target = is_initial_body_target_count r" by simp
    moreover have "0 \<le> is_initial_body_target_count r" using row by (simp add: import_ok_def)
    ultimately show ?thesis
      using bodies ready_window_count_bounds [OF ok, of target conn user] ready_threads_le [of db conn user]
      by (simp add: progress_rows_ok(6) [OF row])
  next
    case (window_progress conn user)
    obtain n m b where "window_counts db conn user (active_generation db conn user) = (n, m, b)" by (metis prod_cases3)
    with window_progress window_counts_bounds [OF ok this] show ?thesis by (simp add: progress_rows_ok(4) [OF row])
  next
    case (batch conn user g)
    obtain n m b where "window_counts db conn user (Some g) = (n, m, b)" by (metis prod_cases3)
    with batch window_counts_bounds [OF ok this] show ?thesis by (simp add: progress_rows_ok(3) [OF row])
  next
    case (adopted conn user g initial n bodies b1 b2)
    with window_counts_bounds [OF ok adopted(3)] ready_threads_le [of db conn user] show ?thesis
      by (simp add: progress_rows_ok(5) [OF row])
  next
    case (page conn user g c after)
    with r(2) show ?thesis by (simp add: scan_rows_ok(3) [OF row] reconcile_row_def)
  next
    case (metadata_page estimated conn user g c after)
    with r(2) show ?thesis by (simp add: scan_rows_ok(4) [OF row] reconcile_row_def)
  qed (use row in \<open>simp_all add: marks_ok progress_rows_ok(1,2), auto simp: import_ok_def le_max_iff_disj\<close>)
qed

section \<open>Every operation preserves the invariant\<close>

lemma ok_frame:
  assumes "mailbox_ok db" and "gmail_import_states db' = gmail_import_states db"
    and "initial_window_entries db' = initial_window_entries db"
    and "map message_key (gmail_messages db') = map message_key (gmail_messages db)"
    and "reconcile_seen db' = reconcile_seen db"
  shows "mailbox_ok db'"
  using assms by (simp add: mailbox_ok_def)

lemma imports_updated:
  assumes "imports_ok rs" and "\<And>r. is_gmail_account_id (f r) = is_gmail_account_id r"
    and "\<And>r. r \<in> set rs \<Longrightarrow> p r \<Longrightarrow> import_ok (f r)"
  shows "imports_ok (update_where p f rs)"
  using assms by (auto simp: imports_ok_def map_update_where in_update_where)

lemma ok_import_update:
  assumes "mailbox_ok db" and "\<And>r. is_gmail_account_id (f r) = is_gmail_account_id r"
    and "\<And>r. r \<in> set (gmail_import_states db) \<Longrightarrow> p r \<Longrightarrow> import_ok (f r)"
  shows "mailbox_ok (snd (update_import now fires p f db))"
  using assms imports_updated [OF _ assms(2), of "gmail_import_states db" p] by (simp add: mailbox_ok_def)

lemma ok_message_update:
  assumes "mailbox_ok db" and "\<And>m. message_key (f m) = message_key m"
  shows "mailbox_ok (db\<lparr>gmail_messages := update_where p f (gmail_messages db)\<rparr>)"
  by (rule ok_frame [OF assms(1)]) (simp_all add: map_update_where assms(2))

lemma ok_upsert: "epreserves mailbox_ok (upsert_message now conn m)"
  unfolding epreserves_def
proof (intro allI impI)
  fix db assume db: "mailbox_ok db"
  show "mailbox_ok (snd (upsert_message now conn m db))"
  proof (cases "scoped_account db conn (gm_user_id m)")
    case None
    with db show ?thesis by (simp add: upsert_message_def Let_def)
  next
    case (Some account)
    let ?new = "(message_params now m)\<lparr>gm_gmail_account_id := account, gm_body_fetch_updated_at := None, gm_created_at := now, gm_updated_at := now\<rparr>"
    have key: "message_key ?new = (account, gm_message_id m)" by (simp add: message_key_def message_params_def Let_def)
    have "mailbox_ok (db\<lparr>gmail_messages := gmail_messages db @ [?new]\<rparr>)"
      if "\<not> list_ex (\<lambda>r. gm_gmail_account_id r = account \<and> gm_message_id r = gm_message_id m) (gmail_messages db)"
      using db key that by (auto simp: mailbox_ok_def message_key_def list_ex_iff)
    moreover have "mailbox_ok (db\<lparr>gmail_messages := update_where p (\<lambda>old. merge_message now old new) (gmail_messages db)\<rparr>)" for p new
      by (rule ok_message_update [OF db]) (simp add: message_key_def)
    ultimately show ?thesis by (simp add: upsert_message_def Let_def Some)
  qed
qed

lemma ok_windows: "mailbox_ok db \<Longrightarrow> windows_ok ws \<Longrightarrow> mailbox_ok (db\<lparr>initial_window_entries := ws\<rparr>)"
  by (simp add: mailbox_ok_def)

lemma window_rows_updated:
  assumes "windows_ok ws" and "\<And>w. window_key (f w) = window_key w"
  shows "windows_ok (update_where p f ws)"
proof -
  have key: "window_thread_key (f w) = window_thread_key w" "window_position_key (f w) = window_position_key w"
      "iw_position (f w) = iw_position w" for w
    using assms(2) [of w] by (simp_all add: window_key_def window_thread_key_def window_position_key_def)
  with assms(1) show ?thesis by (auto simp: windows_ok_def map_update_where in_update_where)
qed

lemma windows_deleted: "windows_ok ws \<Longrightarrow> windows_ok (delete_where q ws)"
  by (simp add: windows_ok_def distinct_map_delete_where in_delete_where)

lemma ok_insert_window:
  assumes "0 \<le> iw_position w" and "iw_position w < 100"
  shows "epreserves mailbox_ok (insert_window conn w)"
  unfolding epreserves_def
proof (intro allI impI)
  fix db assume db: "mailbox_ok db"
  have "mailbox_ok (db\<lparr>initial_window_entries := initial_window_entries db @ [w\<lparr>iw_gmail_account_id := account\<rparr>]\<rparr>)"
    if "\<not> list_ex (\<lambda>x. iw_gmail_account_id x = account \<and> iw_generation_id x = iw_generation_id w
          \<and> iw_gmail_thread_id x = iw_gmail_thread_id w) (initial_window_entries db)"
      "\<not> list_ex (\<lambda>x. iw_gmail_account_id x = account \<and> iw_generation_id x = iw_generation_id w
          \<and> iw_position x = iw_position w) (initial_window_entries db)" for account
    by (rule ok_windows [OF db])
      (use db that assms in \<open>auto simp: mailbox_ok_def windows_ok_def window_thread_key_def window_position_key_def list_ex_iff\<close>)
  with db show "mailbox_ok (snd (insert_window conn w db))"
    by (simp add: insert_window_def Let_def conj_assoc split: option.split)
qed

lemma ok_insert_seen:
  assumes "distinct ids"
  shows "epreserves mailbox_ok (insert_seen conn user g ids)"
  unfolding epreserves_def
proof (intro allI impI)
  fix db assume db: "mailbox_ok db"
  show "mailbox_ok (snd (insert_seen conn user g ids db))"
  proof (cases "scoped_account db conn user")
    case None
    with db show ?thesis by (simp add: insert_seen_def)
  next
    case (Some account)
    let ?known = "\<lambda>i. list_ex (\<lambda>s. sn_gmail_account_id s = account \<and> sn_generation_id s = g \<and> sn_message_id s = i) (reconcile_seen db)"
    let ?new = "map (\<lambda>i. \<lparr>sn_user_id = user, sn_gmail_account_id = account, sn_generation_id = g, sn_message_id = i\<rparr>)
        (filter (\<lambda>i. \<not> ?known i) ids)"
    have "map seen_key ?new = map (\<lambda>i. (account, g, i)) (filter (\<lambda>i. \<not> ?known i) ids)" by (simp add: seen_key_def)
    moreover have "distinct (map (\<lambda>i. (account, g, i)) (filter (\<lambda>i. \<not> ?known i) ids))"
      using assms by (simp add: distinct_map inj_on_def)
    moreover have "set (map seen_key (reconcile_seen db)) \<inter> set (map (\<lambda>i. (account, g, i)) (filter (\<lambda>i. \<not> ?known i) ids)) = {}"
      by (auto simp: seen_key_def list_ex_iff)
    ultimately have "distinct (map seen_key (reconcile_seen db @ ?new))"
      using db by (simp only: map_append distinct_append mailbox_ok_def)
    with db show ?thesis by (simp add: insert_seen_def Some Let_def mailbox_ok_def)
  qed
qed

text \<open>The interpretation: every law of the contract holds of the invariant.\<close>

lemma ok_import_new:
  assumes "import_insert now new" and "mailbox_ok db" and "scoped_account db conn user = Some account"
    and "\<not> list_ex (\<lambda>r. is_gmail_account_id r = account) (gmail_import_states db)"
  shows "mailbox_ok (mark_gmail_account_initial_ready now (new (new_import_row now user account))
      (db\<lparr>gmail_import_states := gmail_import_states db @ [new (new_import_row now user account)]\<rparr>))"
  using assms(2,4) import_inserts_ok [OF assms(1)]
  by (auto simp: mailbox_ok_def imports_ok_def ready_frame list_ex_iff)

lemma watch_stopped_ok: "import_ok r \<Longrightarrow> import_ok (watch_stopped_row now r)"
  by (rule marks_ok)

lemma ok_deletes:
  "mailbox_ok db \<Longrightarrow> mailbox_ok (db\<lparr>reconcile_seen := delete_where qs (reconcile_seen db)\<rparr>)"
  "mailbox_ok db \<Longrightarrow> mailbox_ok (db\<lparr>mail_group_members := xs, gmail_messages := delete_where qm (gmail_messages db)\<rparr>)"
  by (simp_all add: mailbox_ok_def distinct_map_delete_where)

lemma ok_scan_start:
  "isdigit h \<Longrightarrow> mailbox_ok db \<Longrightarrow> mailbox_ok (snd (update_import now fires p (scan_started_row now g c h) db))"
  by (rule ok_import_update)
    (auto simp: mailbox_ok_def imports_ok_def intro: scan_rows_ok, simp add: scan_started_row_def)

lemma ok_reset: "mailbox_ok db \<Longrightarrow> mailbox_ok (snd (update_import now fires p (reset_row now) db))"
  by (rule ok_import_update)
    (auto simp: mailbox_ok_def imports_ok_def intro: scan_rows_ok, simp add: reset_row_def)

lemma ok_finalize:
  "isdigit h \<Longrightarrow> mailbox_ok db \<Longrightarrow> mailbox_ok (snd (update_import now fires p
     (finalized_row now h (thread_count db conn user) (ready_thread_count db conn user) done) db))"
  by (rule ok_import_update)
    (auto simp: mailbox_ok_def imports_ok_def ready_threads_le intro!: finalized_ok, simp add: finalized_row_def)

lemma ok_rows:
  "mailbox_ok db \<Longrightarrow> mailbox_ok (db\<lparr>gmail_messages := update_where p (label_row now ls) (gmail_messages db)\<rparr>)"
  "mailbox_ok db \<Longrightarrow> mailbox_ok (db\<lparr>gmail_messages := update_where p (body_row now b) (gmail_messages db)\<rparr>)"
  "mailbox_ok db \<Longrightarrow> mailbox_ok (db\<lparr>gmail_messages := update_where p (body_state_row now status e) (gmail_messages db)\<rparr>)"
  "mailbox_ok db \<Longrightarrow> mailbox_ok (db\<lparr>gmail_messages := update_where p (descriptor_row now) (gmail_messages db)\<rparr>)"
  "mailbox_ok db \<Longrightarrow> mailbox_ok (db\<lparr>mail_groups := gs\<rparr>)"
  "mailbox_ok db \<Longrightarrow> mailbox_ok (db\<lparr>initial_window_entries := delete_where qw (initial_window_entries db)\<rparr>)"
  by (rule ok_message_update; simp add: message_key_def label_row_def body_row_def body_state_row_def descriptor_row_def Let_def)+
    (simp_all add: mailbox_ok_def windows_deleted)

lemma ok_windows_updated:
  "(\<And>w. window_key (fw w) = window_key w) \<Longrightarrow> mailbox_ok db \<Longrightarrow>
   mailbox_ok (db\<lparr>initial_window_entries := update_where pw fw (initial_window_entries db)\<rparr>)"
  by (rule ok_windows) (simp_all add: window_rows_updated mailbox_ok_def)

lemma ok_disconnect:
  assumes "mailbox_ok db"
  shows "mailbox_ok (mark_google_disconnected now user db)"
proof -
  have "imports_ok (update_where p (watch_stopped_row now) (gmail_import_states db))" for p
    by (rule imports_updated) (use assms in \<open>simp_all add: mailbox_ok_def imports_ok_def watch_stopped_ok, simp add: watch_stopped_row_def\<close>)
  with assms show ?thesis by (simp add: mark_google_disconnected_def mailbox_ok_def watch_stopped_row_def [abs_def])
qed

interpretation consistent: mailbox_invariant mailbox_ok
proof unfold_locales
  fix now :: instant and db :: "'a mail_db_scheme" and p f fires
  assume "import_change now db p f" and "mailbox_ok db"
  then show "mailbox_ok (snd (update_import now fires p f db))"
    by (intro ok_import_update) (simp_all add: change_keeps_account change_ok)
next
  fix now :: instant and db :: "'a mail_db_scheme" and user
  assume "mailbox_ok db"
  then show "mailbox_ok (mark_google_disconnected now user db)" by (rule ok_disconnect)
qed ((rule ok_upsert ok_rows ok_windows_updated ok_insert_window ok_insert_seen ok_import_new ok_deletes
    ok_scan_start ok_reset ok_finalize; assumption)+)

text \<open>C9: the mailbox tables stay consistent. After any sequence of operations by any users, in any
  order and at any times, messages, import states, window entries and seen identities have
  unique keys, window positions lie below 100, every counter stays within its bounds, a scan has
  a start and a numeric baseline exactly while it is active, completed bodies imply completed metadata,
  and an authoritative history cursor is numeric.\<close>

theorem mailbox_tables_stay_consistent: "mailbox_ok db \<Longrightarrow> mailbox_ok (run_ops ops db)"
  by (rule consistent.run_preserves)

section \<open>Witness\<close>

theorem mailbox_tables_stay_consistent_witness:
  "mailbox_ok (run_ops [(5, Start_scan ''u1'' ''g1'' ''7'' ''c1''), (6, Record_page ''u1'' ''g1'' ''c1'' None [''m1''])]
     (sample_mail_db [new_import_row 0 ''u1'' ''u1''] [sample_message ''m1'' (Some ''9'') [''INBOX'']] [] []))"
  by (rule mailbox_tables_stay_consistent)
    (simp add: sample_mail_db_def mailbox_ok_def imports_ok_def import_ok_def windows_ok_def new_import_row_def)

end
