(* ===== verification/Scan_Mirror.thy ===== *)
theory Scan_Mirror
  imports Mailbox_Invariants
begin

text \<open>
  What a reconciliation promises, stated without tables. A \<open>scan_view\<close> is the part
  of one account's state that a scan reads and writes; \<open>scan_step\<close> is the abstract
  specification of the scan operations on it. The tables of \<open>mail_db\<close> refine the
  specification, and a completed scan leaves exactly the listed messages and the
  ones newer than the scan.
\<close>

section \<open>The view of one account\<close>

record scan_view =
  sv_sync :: "string option"
  sv_scan :: "(string \<times> string option \<times> instant option) option"
  sv_seen :: "string \<Rightarrow> string set"
  sv_messages :: "string \<rightharpoonup> message_row"

definition account_import :: "'a mail_db_scheme \<Rightarrow> string \<Rightarrow> import_row option" where
  "account_import db account = select_first (\<lambda>r. is_gmail_account_id r = account) (gmail_import_states db)"

definition scan_of :: "import_row \<Rightarrow> (string \<times> string option \<times> instant option) option" where
  "scan_of r = map_option (\<lambda>g. (g, is_reconcile_cursor r, is_reconcile_started_at r)) (is_reconcile_generation r)"

definition seen_of :: "seen_row list \<Rightarrow> string \<Rightarrow> string \<Rightarrow> string set" where
  "seen_of ss account g = {i. \<exists>s \<in> set ss. sn_gmail_account_id s = account \<and> sn_generation_id s = g \<and> sn_message_id s = i}"

definition messages_of :: "message_row list \<Rightarrow> string \<Rightarrow> string \<rightharpoonup> message_row" where
  "messages_of ms account i = select_first (\<lambda>m. gm_gmail_account_id m = account \<and> gm_message_id m = i) ms"

definition view_of :: "'a mail_db_scheme \<Rightarrow> string \<Rightarrow> scan_view" where
  "view_of db account =
     \<lparr>sv_sync = Option.bind (account_import db account) is_sync_generation,
      sv_scan = Option.bind (account_import db account) scan_of,
      sv_seen = seen_of (reconcile_seen db) account,
      sv_messages = messages_of (gmail_messages db) account\<rparr>"

section \<open>The specification\<close>

definition spec_start :: "instant \<Rightarrow> string \<Rightarrow> string \<Rightarrow> scan_view \<Rightarrow> scan_view" where
  "spec_start now g c v =
     (let scan = (case sv_scan v of None \<Rightarrow> (g, Some c, Some now) | Some s \<Rightarrow> s) in
      v\<lparr>sv_scan := Some scan, sv_seen := (\<lambda>x. if x = fst scan then sv_seen v x else {})\<rparr>)"

definition spec_see :: "string \<Rightarrow> string list \<Rightarrow> scan_view \<Rightarrow> scan_view" where
  "spec_see g ids v = v\<lparr>sv_seen := (sv_seen v)(g := sv_seen v g \<union> {i \<in> set ids. i \<noteq> ''''})\<rparr>"

definition spec_page :: "string \<Rightarrow> string \<Rightarrow> string option \<Rightarrow> string list \<Rightarrow> scan_view \<Rightarrow> scan_view" where
  "spec_page g c after ids v =
     (case sv_scan v of
        Some (g', Some c', started) \<Rightarrow>
          if g' = g \<and> c' = c then spec_see g ids (v\<lparr>sv_scan := Some (g, after, started)\<rparr>) else v
      | _ \<Rightarrow> v)"

definition spec_upsert :: "instant \<Rightarrow> string \<Rightarrow> message_row \<Rightarrow> (string \<rightharpoonup> message_row) \<Rightarrow> (string \<rightharpoonup> message_row)" where
  "spec_upsert now account m M = M(gm_message_id m \<mapsto>
     (let new = message_params now m in
      case M (gm_message_id m) of
        Some old \<Rightarrow> merge_message now old new
      | None \<Rightarrow> new\<lparr>gm_gmail_account_id := account, gm_body_fetch_updated_at := None, gm_created_at := now, gm_updated_at := now\<rparr>))"

definition spec_commit_page ::
    "instant \<Rightarrow> string \<Rightarrow> string \<Rightarrow> string \<Rightarrow> string option \<Rightarrow> message_row list \<Rightarrow> scan_view \<Rightarrow> scan_view" where
  "spec_commit_page now account g c after rows v =
     (if sv_sync v = Some g \<and> (\<exists>started. sv_scan v = Some (g, Some c, started))
      then spec_page g c after (map gm_message_id rows)
             (v\<lparr>sv_messages := fold (spec_upsert now account) rows (sv_messages v)\<rparr>)
      else v)"

definition spec_identities :: "string \<Rightarrow> string list \<Rightarrow> scan_view \<Rightarrow> scan_view" where
  "spec_identities g ids v = (if \<exists>started. sv_scan v = Some (g, None, started) then spec_see g ids v else v)"

text \<open>The messages a final history id \<open>h\<close> makes the scan drop.\<close>

definition dropped :: "string \<Rightarrow> instant \<Rightarrow> string set \<Rightarrow> message_row \<Rightarrow> bool" where
  "dropped h started seen m \<longleftrightarrow> gm_message_id m \<notin> seen
     \<and> (if numeric (gm_history_id m) then numeral_of (str_or_empty (gm_history_id m)) \<le> numeral_of h
        else gm_updated_at m \<le> started)"

definition spec_finish :: "string \<Rightarrow> string \<Rightarrow> scan_view \<Rightarrow> scan_view" where
  "spec_finish g h v =
     (case sv_scan v of
        Some (g', None, Some started) \<Rightarrow>
          if g' = g
          then v\<lparr>sv_scan := None, sv_seen := (sv_seen v)(g := {}),
                 sv_messages := (\<lambda>i. case sv_messages v i of None \<Rightarrow> None
                    | Some m \<Rightarrow> if dropped h started (sv_seen v g) m then None else Some m)\<rparr>
          else v
      | _ \<Rightarrow> v)"

definition spec_reset :: "string \<Rightarrow> scan_view \<Rightarrow> scan_view" where
  "spec_reset g v =
     v\<lparr>sv_scan := (if map_option fst (sv_scan v) = Some g then None else sv_scan v), sv_seen := (sv_seen v)(g := {})\<rparr>"

section \<open>The tables of one account\<close>

text \<open>
  The composite foreign key of the mail tables: the rows of an account carry the
  user who owns the account.
\<close>

definition account_owned :: "'a mail_db_scheme \<Rightarrow> string \<Rightarrow> string \<Rightarrow> bool" where
  "account_owned db user account \<longleftrightarrow>
     (\<forall>r \<in> set (gmail_import_states db). is_gmail_account_id r = account \<longrightarrow> is_user_id r = user)
     \<and> (\<forall>m \<in> set (gmail_messages db). gm_gmail_account_id m = account \<longrightarrow> gm_user_id m = user)
     \<and> (\<forall>s \<in> set (reconcile_seen db). sn_gmail_account_id s = account \<longrightarrow> sn_user_id s = user)"

definition scan_ready :: "'a mail_db_scheme \<Rightarrow> connection \<Rightarrow> string \<Rightarrow> string \<Rightarrow> bool" where
  "scan_ready db conn user account \<longleftrightarrow>
     distinct (map is_gmail_account_id (gmail_import_states db)) \<and> distinct (map message_key (gmail_messages db))
     \<and> account_owned db user account \<and> scoped_account db conn user = Some account"

lemma scan_ready_own:
  assumes "scan_ready db conn user account"
  shows "r \<in> set (gmail_import_states db) \<Longrightarrow> own_import db conn user r \<longleftrightarrow> is_gmail_account_id r = account"
    and "m \<in> set (gmail_messages db) \<Longrightarrow> own_message db conn user m \<longleftrightarrow> gm_gmail_account_id m = account"
    and "s \<in> set (reconcile_seen db) \<Longrightarrow> own_seen db conn user s \<longleftrightarrow> sn_gmail_account_id s = account"
  using assms
  by (auto simp: scan_ready_def account_owned_def own_import_def own_message_def own_seen_def owned_def row_visible_def)

lemma select_first_cong:
  "(\<And>r. r \<in> set rows \<Longrightarrow> p r = q r) \<Longrightarrow> select_first p rows = select_first q rows"
  by (simp add: select_first_def cong: filter_cong)

lemma select_first_guarded:
  assumes "distinct (map key rows)"
  shows "select_first (\<lambda>r. key r = k \<and> q r) rows
    = (case select_first (\<lambda>r. key r = k) rows of None \<Rightarrow> None | Some r \<Rightarrow> if q r then Some r else None)"
  using assms
proof (induction rows)
  case (Cons r rows)
  have "select_first (\<lambda>r. key r = k \<and> q r) rows = None" if "key r = k"
    using Cons.prems that by (auto simp: select_first_None image_iff)
  with Cons show ?case by simp
qed simp

lemma select_first_update_where:
  assumes "\<And>r. key (f r) = key r"
  shows "select_first (\<lambda>r. key r = k) (update_where p f rows)
    = map_option (\<lambda>r. if p r then f r else r) (select_first (\<lambda>r. key r = k) rows)"
  by (induction rows) (simp_all add: assms)

text \<open>An update of the own import state under a condition \<open>q\<close>.\<close>

definition import_outcome :: "import_row option \<Rightarrow> (import_row \<Rightarrow> bool) \<Rightarrow> (import_row \<Rightarrow> import_row) \<Rightarrow> import_row option" where
  "import_outcome row q f = (case row of None \<Rightarrow> None | Some r \<Rightarrow> if q r then Some (f r) else None)"

lemma own_update:
  assumes ready: "scan_ready db conn user account" and key: "\<And>r. is_gmail_account_id (f r) = is_gmail_account_id r"
    and p: "\<And>r. p r \<longleftrightarrow> own_import db conn user r \<and> q r"
  shows "fst (update_import now fires p f db) = Inr (import_outcome (account_import db account) q f)"
    and "account_import (snd (update_import now fires p f db)) account
      = map_option (\<lambda>r. if q r then f r else r) (account_import db account)"
proof -
  let ?rs = "gmail_import_states db"
  have row: "p r \<longleftrightarrow> is_gmail_account_id r = account \<and> q r" if "r \<in> set ?rs" for r
    using scan_ready_own(1) [OF ready that] by (simp add: p)
  have keys: "distinct (map is_gmail_account_id ?rs)" using ready by (simp add: scan_ready_def)
  have "select_first p ?rs = select_first (\<lambda>r. is_gmail_account_id r = account \<and> q r) ?rs"
    by (rule select_first_cong) (rule row)
  then show "fst (update_import now fires p f db) = Inr (import_outcome (account_import db account) q f)"
    by (simp add: update_import_def Let_def returning_first select_first_guarded [OF keys] import_outcome_def account_import_def
        split: option.split)
  have "map_option (\<lambda>r. if p r then f r else r) (account_import db account)
      = map_option (\<lambda>r. if q r then f r else r) (account_import db account)"
    by (auto simp: account_import_def row dest!: select_first_Some intro!: option.map_cong0 split: option.split)
  then show "account_import (snd (update_import now fires p f db)) account
      = map_option (\<lambda>r. if q r then f r else r) (account_import db account)"
    by (simp add: account_import_def select_first_update_where [of is_gmail_account_id, OF key])
qed

lemma scan_ready_update:
  assumes "scan_ready db conn user account"
    and "\<And>r. is_gmail_account_id (f r) = is_gmail_account_id r \<and> is_user_id (f r) = is_user_id r"
  shows "scan_ready (snd (update_import now fires p f db)) conn user account"
  using assms
  by (auto simp: scan_ready_def account_owned_def scoped_account_def primary_account_def map_update_where in_update_where)

lemma view_update:
  "account_import db' account = map_option (\<lambda>r. if q r then f r else r) (account_import db account) \<Longrightarrow>
   reconcile_seen db' = reconcile_seen db \<Longrightarrow> gmail_messages db' = gmail_messages db \<Longrightarrow>
   view_of db' account = (view_of db account)
     \<lparr>sv_sync := Option.bind (account_import db account) (\<lambda>r. is_sync_generation (if q r then f r else r)),
      sv_scan := Option.bind (account_import db account) (\<lambda>r. scan_of (if q r then f r else r))\<rparr>"
  by (simp add: view_of_def split: bind_split)

lemma seen_inserted:
  assumes "scan_ready db conn user account"
  shows "\<exists>db'. insert_seen conn user g ids db = (Inr (), db') \<and> scan_ready db' conn user account
    \<and> view_of db' account = (view_of db account)\<lparr>sv_seen := (sv_seen (view_of db account))(g := sv_seen (view_of db account) g \<union> set ids)\<rparr>"
proof -
  have scope: "scoped_account db conn user = Some account" using assms by (simp add: scan_ready_def)
  let ?db = "snd (insert_seen conn user g ids db)"
  have "scan_ready ?db conn user account"
    using assms scope
    by (simp add: scan_ready_def insert_seen_def Let_def account_owned_def ball_Un) (simp add: scoped_account_def primary_account_def)
  moreover have "seen_of (reconcile_seen ?db) account = (seen_of (reconcile_seen db) account)(g := seen_of (reconcile_seen db) account g \<union> set ids)"
    by (simp add: fun_eq_iff seen_of_def insert_seen_def scope Let_def list_ex_iff bex_Un) blast
  then have "view_of ?db account = (view_of db account)\<lparr>sv_seen := (sv_seen (view_of db account))(g := sv_seen (view_of db account) g \<union> set ids)\<rparr>"
    by (simp add: view_of_def account_import_def) (simp add: insert_seen_def scope Let_def)
  moreover have "insert_seen conn user g ids db = (Inr (), ?db)" by (simp add: insert_seen_def scope Let_def)
  ultimately show ?thesis by blast
qed

lemma seen_dropped:
  assumes "scan_ready db conn user account" and "\<And>s. q s \<longleftrightarrow> own_seen db conn user s \<and> old (sn_generation_id s)"
  shows "seen_of (delete_where q (reconcile_seen db)) account = (\<lambda>g. if old g then {} else seen_of (reconcile_seen db) account g)"
  using scan_ready_own(3) [OF assms(1)]
  by (auto simp: fun_eq_iff seen_of_def in_delete_where assms(2))

lemma messages_of_delete:
  assumes "scan_ready db conn user account" and "\<And>m. gone m \<longleftrightarrow> own_message db conn user m \<and> q m"
  shows "messages_of (delete_where gone (gmail_messages db)) account
    = (\<lambda>i. case messages_of (gmail_messages db) account i of None \<Rightarrow> None | Some m \<Rightarrow> if q m then None else Some m)"
proof
  fix i
  let ?ms = "gmail_messages db"
  let ?p = "\<lambda>m. gm_gmail_account_id m = account \<and> gm_message_id m = i"
  have keys: "distinct (map message_key ?ms)" using assms(1) by (simp add: scan_ready_def)
  have eq: "?p = (\<lambda>m. message_key m = (account, i))" by (auto simp: message_key_def)
  have "select_first ?p (delete_where gone ?ms) = select_first (\<lambda>m. ?p m \<and> \<not> gone m) ?ms"
    by (simp add: select_first_def delete_where_def conj_commute)
  also have "\<dots> = select_first (\<lambda>m. message_key m = (account, i) \<and> \<not> q m) ?ms"
    by (rule select_first_cong) (use scan_ready_own(2) [OF assms(1)] in \<open>auto simp: assms(2) message_key_def\<close>)
  also have "\<dots> = (case select_first ?p ?ms of None \<Rightarrow> None | Some m \<Rightarrow> if \<not> q m then Some m else None)"
    unfolding eq by (rule select_first_guarded [OF keys])
  finally show "messages_of (delete_where gone ?ms) account i
      = (case messages_of ?ms account i of None \<Rightarrow> None | Some m \<Rightarrow> if q m then None else Some m)"
    by (simp add: messages_of_def split: option.split)
qed

lemma message_upserted:
  assumes "scan_ready db conn user account" and "gm_user_id m = user"
  shows "\<exists>db'. upsert_message now conn m db = (Inr (), db') \<and> scan_ready db' conn user account
    \<and> view_of db' account = (view_of db account)\<lparr>sv_messages := spec_upsert now account m (sv_messages (view_of db account))\<rparr>"
proof -
  let ?ms = "gmail_messages db" and ?new = "message_params now m"
  let ?same = "\<lambda>r. gm_gmail_account_id r = account \<and> gm_message_id r = gm_message_id m"
  let ?row = "?new\<lparr>gm_gmail_account_id := account, gm_body_fetch_updated_at := None, gm_created_at := now, gm_updated_at := now\<rparr>"
  let ?db = "db\<lparr>gmail_messages := (if list_ex ?same ?ms then update_where ?same (\<lambda>old. merge_message now old ?new) ?ms else ?ms @ [?row])\<rparr>"
  have scope: "scoped_account db conn (gm_user_id m) = Some account" using assms by (simp add: scan_ready_def)
  have run: "upsert_message now conn m db = (Inr (), ?db)" by (simp add: upsert_message_def scope Let_def)
  have row: "gm_message_id ?row = gm_message_id m" "gm_user_id ?row = user" by (simp_all add: message_params_def Let_def assms(2))
  have keys: "map message_key (update_where ?same (\<lambda>old. merge_message now old ?new) ?ms) = map message_key ?ms"
    by (rule map_update_where) (simp add: message_key_def)
  have ready: "scan_ready ?db conn user account"
  proof (cases "list_ex ?same ?ms")
    case True
    have "gm_user_id x = user" if x: "x \<in> set (update_where ?same (\<lambda>old. merge_message now old ?new) ?ms)" "gm_gmail_account_id x = account" for x
    proof -
      obtain r where r: "r \<in> set ?ms" "x = (if ?same r then merge_message now r ?new else r)"
        using x(1) unfolding in_update_where by blast
      then have "gm_gmail_account_id r = account" "gm_user_id x = gm_user_id r" using x(2) by (simp_all split: if_splits)
      with r(1) assms(1) show ?thesis by (simp add: scan_ready_def account_owned_def)
    qed
    with True assms(1) keys show ?thesis
      by (simp add: scan_ready_def account_owned_def) (simp add: scoped_account_def primary_account_def)
  next
    case False
    then have "message_key ?row \<notin> set (map message_key ?ms)" using row(1) by (auto simp: message_key_def list_ex_iff)
    with False assms(1) row(2) show ?thesis
      by (simp add: scan_ready_def account_owned_def) (simp add: scoped_account_def primary_account_def)
  qed
  have "messages_of (gmail_messages ?db) account = spec_upsert now account m (messages_of ?ms account)"
  proof
    fix i
    let ?at = "\<lambda>i m. message_key m = (account, i)"
    have at: "messages_of rows account i = select_first (?at i) rows" for rows i
      by (simp add: messages_of_def message_key_def)
    have none: "messages_of ?ms account (gm_message_id m) = None \<longleftrightarrow> \<not> list_ex ?same ?ms"
      by (auto simp: messages_of_def select_first_None list_ex_iff)
    have appended: "select_first p (xs @ [x]) = (case select_first p xs of None \<Rightarrow> if p x then Some x else None | Some y \<Rightarrow> Some y)" for p xs and x :: message_row
      by (induction xs) simp_all
    have updated: "select_first (?at i) (update_where ?same (\<lambda>old. merge_message now old ?new) ?ms)
        = map_option (\<lambda>r. if ?same r then merge_message now r ?new else r) (select_first (?at i) ?ms)"
      by (rule select_first_update_where) (simp add: message_key_def)
    show "messages_of (gmail_messages ?db) account i = spec_upsert now account m (messages_of ?ms account) i"
    proof (cases "list_ex ?same ?ms")
      case True
      then obtain old where old: "messages_of ?ms account (gm_message_id m) = Some old" using none by blast
      have "?same r \<longleftrightarrow> i = gm_message_id m" if "select_first (?at i) ?ms = Some r" for r
        using select_first_Some [OF that] by (auto simp: message_key_def)
      then have "select_first (?at i) (update_where ?same (\<lambda>old. merge_message now old ?new) ?ms)
          = map_option (\<lambda>r. if i = gm_message_id m then merge_message now r ?new else r) (select_first (?at i) ?ms)"
        unfolding updated by (cases "select_first (?at i) ?ms") simp_all
      with True old show ?thesis by (auto simp: spec_upsert_def at Let_def option.map_ident)
    next
      case False
      with none have "messages_of ?ms account (gm_message_id m) = None" by blast
      with False row(1) show ?thesis by (auto simp: spec_upsert_def at Let_def appended message_key_def split: option.split)
    qed
  qed
  then have "view_of ?db account = (view_of db account)\<lparr>sv_messages := spec_upsert now account m (sv_messages (view_of db account))\<rparr>"
    by (simp add: view_of_def account_import_def)
  with run ready show ?thesis by blast
qed

lemma messages_upserted:
  assumes "scan_ready db conn user account" and "\<forall>m \<in> set rows. gm_user_id m = user"
  shows "\<exists>db' r. emap (upsert_message now conn) rows db = (Inr r, db') \<and> scan_ready db' conn user account
    \<and> view_of db' account = (view_of db account)\<lparr>sv_messages := fold (spec_upsert now account) rows (sv_messages (view_of db account))\<rparr>"
  using assms
proof (induction rows arbitrary: db)
  case Nil
  then show ?case by simp
next
  case (Cons m rows)
  from message_upserted [OF Cons.prems(1), of m now] Cons.prems(2) obtain db1 where
    one: "upsert_message now conn m db = (Inr (), db1)" "scan_ready db1 conn user account"
      "view_of db1 account = (view_of db account)\<lparr>sv_messages := spec_upsert now account m (sv_messages (view_of db account))\<rparr>" by auto
  from Cons.IH [OF one(2)] Cons.prems(2) obtain db2 r where
    "emap (upsert_message now conn) rows db1 = (Inr r, db2)" "scan_ready db2 conn user account"
      "view_of db2 account = (view_of db1 account)\<lparr>sv_messages := fold (spec_upsert now account) rows (sv_messages (view_of db1 account))\<rparr>"
    by auto
  with one show ?case by (simp add: ebind_apply)
qed

text \<open>An update of the import state that keeps its scan leaves the view alone.\<close>

lemma view_kept:
  assumes "scan_ready db conn user account"
    and f: "\<And>r. is_gmail_account_id (f r) = is_gmail_account_id r \<and> is_user_id (f r) = is_user_id r
        \<and> is_sync_generation (f r) = is_sync_generation r \<and> scan_of (f r) = scan_of r"
    and "\<And>r. p r \<longleftrightarrow> own_import db conn user r \<and> q r"
  shows "scan_ready (snd (update_import now fires p f db)) conn user account"
    and "view_of (snd (update_import now fires p f db)) account = view_of db account"
    and "fst (update_import now fires p f db) = Inr (import_outcome (account_import db account) q f)"
proof -
  show "scan_ready (snd (update_import now fires p f db)) conn user account"
    by (rule scan_ready_update [OF assms(1)]) (simp add: f)
  have row: "account_import (snd (update_import now fires p f db)) account
      = map_option (\<lambda>r. if q r then f r else r) (account_import db account)"
    by (rule own_update(2) [OF assms(1) _ assms(3)]) (simp add: f)
  from view_update [OF row] show "view_of (snd (update_import now fires p f db)) account = view_of db account"
    by (simp add: view_of_def f if_distrib [of is_sync_generation] if_distrib [of scan_of] cong: if_cong)
  show "fst (update_import now fires p f db) = Inr (import_outcome (account_import db account) q f)"
    by (rule own_update(1) [OF assms(1) _ assms(3)]) (simp add: f)
qed

lemma upserted_on_connection:
  assumes "scan_ready db conn user account" and "\<forall>m \<in> set rows. gm_user_id m = user"
  shows "\<exists>db'. upsert_messages_on_connection now conn rows db = (Inr (), db') \<and> scan_ready db' conn user account
    \<and> view_of db' account = (view_of db account)\<lparr>sv_messages := fold (spec_upsert now account) rows (sv_messages (view_of db account))\<rparr>"
proof -
  from messages_upserted [OF assms, of now] obtain db1 r where
    first: "emap (upsert_message now conn) rows db = (Inr r, db1)" "scan_ready db1 conn user account"
      "view_of db1 account = (view_of db account)\<lparr>sv_messages := fold (spec_upsert now account) rows (sv_messages (view_of db account))\<rparr>"
    by blast
  show ?thesis
  proof (cases rows)
    case Nil
    with first show ?thesis by (simp add: upsert_messages_on_connection_def ebind_apply)
  next
    case (Cons m ms)
    let ?p = "\<lambda>r. own_import db1 conn user r \<and> is_sync_generation r \<noteq> None \<and> is_history_metadata_complete r
        \<and> \<not> all_bodies_terminal db1 conn user"
    obtain x db2 where run: "update_import now False ?p (reopen_history now) db1 = (Inr x, db2)"
      by (cases "update_import now False ?p (reopen_history now) db1") (simp add: update_import_def Let_def)
    have "scan_ready db2 conn user account \<and> view_of db2 account = view_of db1 account"
      using view_kept(1,2) [OF first(2), of "reopen_history now" ?p
          "\<lambda>r. is_sync_generation r \<noteq> None \<and> is_history_metadata_complete r \<and> \<not> all_bodies_terminal db1 conn user" now False] run
      by (simp add: reopen_history_def scan_of_def)
    with first run Cons assms(2) show ?thesis by (simp add: upsert_messages_on_connection_def ebind_apply)
  qed
qed

section \<open>The operations refine the specification\<close>

text \<open>A body of a transaction that commits and takes the view to \<open>v\<close>.\<close>

definition commits :: "'a mail_db_scheme \<Rightarrow> connection \<Rightarrow> string \<Rightarrow> string \<Rightarrow> ('a mail_db_scheme, 'b) eff \<Rightarrow> scan_view \<Rightarrow> bool" where
  "commits db conn user account m v \<longleftrightarrow>
     (\<exists>x db'. m db = (Inr x, db') \<and> scan_ready db' conn user account \<and> view_of db' account = v)"

lemma commits_return: "scan_ready db conn user account \<Longrightarrow> commits db conn user account (ereturn x) (view_of db account)"
  by (auto simp: commits_def)

lemma commits_bind:
  assumes "m db = (Inr x, db')" and "commits db' conn user account (f x) v"
  shows "commits db conn user account (ebind m f) v"
  using assms by (simp add: commits_def ebind_apply)

lemma commits_at: "commits db conn user account (m db) v \<Longrightarrow> commits db conn user account (\<lambda>db. m db db) v"
  by (simp add: commits_def)

lemma commits_seen:
  assumes "scan_ready db conn user account" and "v = (view_of db account)\<lparr>sv_seen := (sv_seen (view_of db account))(g := sv_seen (view_of db account) g \<union> set ids)\<rparr>"
  shows "commits db conn user account (ebind (insert_seen conn user g ids) (\<lambda>_. ereturn x)) v"
  using seen_inserted [OF assms(1), of g ids] assms(2) by (auto simp: commits_def ebind_apply)

text \<open>One update of the own import state, by what it finds.\<close>

lemma commits_update:
  assumes ready: "scan_ready db conn user account"
    and key: "\<And>r. is_gmail_account_id (f r) = is_gmail_account_id r \<and> is_user_id (f r) = is_user_id r"
    and p: "\<And>r. p r \<longleftrightarrow> own_import db conn user r \<and> q r"
    and missed: "import_outcome (account_import db account) q f = None \<Longrightarrow> commits db conn user account (k None) v"
    and found: "\<And>r db'. account_import db account = Some r \<Longrightarrow> q r \<Longrightarrow> scan_ready db' conn user account \<Longrightarrow>
        view_of db' account = (view_of db account)\<lparr>sv_sync := is_sync_generation (f r), sv_scan := scan_of (f r)\<rparr> \<Longrightarrow>
        users db' = users db \<Longrightarrow> active_gmail_account db' = active_gmail_account db \<Longrightarrow>
        account_import db' account = Some (f r) \<Longrightarrow> commits db' conn user account (k (Some (f r))) v"
  shows "commits db conn user account (ebind (update_import now fires p f) k) v"
proof -
  let ?db = "snd (update_import now fires p f db)"
  note row = own_update [where f = f, OF ready _ p, of now fires]
  have key': "is_gmail_account_id (f r) = is_gmail_account_id r" for r using key by simp
  have run: "update_import now fires p f db = (Inr (import_outcome (account_import db account) q f), ?db)"
    by (rule prod_eqI) (simp_all add: row(1) [OF key'])
  have ready': "scan_ready ?db conn user account" by (rule scan_ready_update [OF ready key])
  show ?thesis
  proof (cases "import_outcome (account_import db account) q f")
    case None
    have none: "\<not> p r" if "r \<in> set (gmail_import_states db)" for r
    proof
      assume "p r"
      with that ready have "account_import db account = Some r"
        unfolding account_import_def
        by (intro select_first_unique [where key = is_gmail_account_id])
          (auto simp: scan_ready_def p own_import_def owned_def row_visible_def)
      with None \<open>p r\<close> show False by (simp add: import_outcome_def p)
    qed
    have "?db = db"
      using none by (simp add: update_import_def Let_def update_where_no_match returning_def filter_empty_conv [THEN iffD2])
    with run None missed show ?thesis by (auto intro: commits_bind)
  next
    case (Some r')
    then obtain r where r: "account_import db account = Some r" "q r" "r' = f r"
      by (auto simp: import_outcome_def split: option.splits if_splits)
    have "commits ?db conn user account (k (Some (f r))) v"
    proof (rule found [OF r(1,2) ready'])
      show "view_of ?db account = (view_of db account)\<lparr>sv_sync := is_sync_generation (f r), sv_scan := scan_of (f r)\<rparr>"
        using view_update [OF row(2) [OF key']] r by simp
      show "account_import ?db account = Some (f r)" using row(2) [OF key'] r by simp
    qed simp_all
    with run Some r(3) show ?thesis by (auto intro: commits_bind)
  qed
qed

lemma commits_bind_at: "commits db conn user account (ebind (m db) k) v \<Longrightarrow> commits db conn user account (ebind (\<lambda>db. m db db) k) v"
  by (simp add: commits_def ebind_apply)

lemmas view_fields = view_of_def scan_of_def import_outcome_def spec_see_def Let_def

lemma view_scan: "account_import db account = Some r \<Longrightarrow>
    sv_scan (view_of db account) = scan_of r \<and> sv_sync (view_of db account) = is_sync_generation r"
  by (simp add: view_of_def)

lemma scan_of_Some: "scan_of r = Some (g, c, s) \<longleftrightarrow>
    is_reconcile_generation r = Some g \<and> is_reconcile_cursor r = c \<and> is_reconcile_started_at r = s"
  by (auto simp: scan_of_def)

lemma commits_page:
  assumes ready: "scan_ready db conn user account"
  shows "commits db conn user account
     (ebind (\<lambda>db. update_import now False (\<lambda>r. reconcile_row db conn user g r \<and> is_reconcile_cursor r = Some c) (page_row now after) db)
        (\<lambda>advanced. case advanced of None \<Rightarrow> ereturn False
          | Some _ \<Rightarrow> ebind (insert_seen conn user g (dict_fromkeys (filter (\<lambda>i. i \<noteq> '''') ids))) (\<lambda>_. ereturn True)))
     (spec_page g c after ids (view_of db account))"
proof (rule commits_bind_at, rule commits_update [OF ready, where q = "\<lambda>r. is_reconcile_generation r = Some g \<and> is_reconcile_cursor r = Some c"])
  assume "import_outcome (account_import db account) (\<lambda>r. is_reconcile_generation r = Some g \<and> is_reconcile_cursor r = Some c) (page_row now after) = None"
  then have "spec_page g c after ids (view_of db account) = view_of db account"
    by (auto simp: spec_page_def import_outcome_def view_of_def scan_of_def split: option.splits if_splits)
  with ready show "commits db conn user account (case None of None \<Rightarrow> ereturn False
      | Some _ \<Rightarrow> ebind (insert_seen conn user g (dict_fromkeys (filter (\<lambda>i. i \<noteq> '''') ids))) (\<lambda>_. ereturn True))
      (spec_page g c after ids (view_of db account))" by (simp add: commits_return)
next
  fix r db'
  assume r: "account_import db account = Some r" "is_reconcile_generation r = Some g \<and> is_reconcile_cursor r = Some c"
    and ready': "scan_ready db' conn user account"
    and view: "view_of db' account = (view_of db account)\<lparr>sv_sync := is_sync_generation (page_row now after r), sv_scan := scan_of (page_row now after r)\<rparr>"
  have "spec_page g c after ids (view_of db account) = (view_of db' account)
      \<lparr>sv_seen := (sv_seen (view_of db' account))(g := sv_seen (view_of db' account) g \<union> set (dict_fromkeys (filter (\<lambda>i. i \<noteq> '''') ids)))\<rparr>"
    using r by (simp add: view spec_page_def spec_see_def view_scan scan_of_def page_row_def)
  from commits_seen [OF ready' this] show "commits db' conn user account (case Some (page_row now after r) of None \<Rightarrow> ereturn False
      | Some _ \<Rightarrow> ebind (insert_seen conn user g (dict_fromkeys (filter (\<lambda>i. i \<noteq> '''') ids))) (\<lambda>_. ereturn True))
      (spec_page g c after ids (view_of db account))" by simp
qed (auto simp: reconcile_row_def page_row_def)

lemma commits_reset:
  assumes ready: "scan_ready db conn user account"
  shows "commits db conn user account
     (ebind (\<lambda>db. update_import now False (reconcile_row db conn user g) (reset_row now) db) (\<lambda>reset.
       ebind (\<lambda>db. drop_seen (\<lambda>s. own_seen db conn user s \<and> sn_generation_id s = g) db) (\<lambda>_.
       ereturn (reset \<noteq> None)))) (spec_reset g (view_of db account))"
proof -
  have drop: "commits db' conn user account (ebind (\<lambda>db. drop_seen (\<lambda>s. own_seen db conn user s \<and> sn_generation_id s = g) db) (\<lambda>_. ereturn x))
      ((view_of db' account)\<lparr>sv_seen := (sv_seen (view_of db' account))(g := {})\<rparr>)"
    if "scan_ready db' conn user account" for db' and x :: bool
    using that seen_dropped [OF that, of "\<lambda>s. own_seen db' conn user s \<and> sn_generation_id s = g" "\<lambda>x. x = g"]
    by (simp add: commits_def ebind_apply drop_seen_def view_of_def account_import_def fun_eq_iff)
      (auto simp: scan_ready_def account_owned_def scoped_account_def primary_account_def in_delete_where)
  show ?thesis
  proof (rule commits_bind_at, rule commits_update [OF ready, where q = "\<lambda>r. is_reconcile_generation r = Some g"])
    assume none: "import_outcome (account_import db account) (\<lambda>r. is_reconcile_generation r = Some g) (reset_row now) = None"
    then have "map_option fst (sv_scan (view_of db account)) \<noteq> Some g"
      by (auto simp: import_outcome_def view_of_def scan_of_def split: option.splits if_splits)
    with drop [OF ready] show "commits db conn user account
        (ebind (\<lambda>db. drop_seen (\<lambda>s. own_seen db conn user s \<and> sn_generation_id s = g) db) (\<lambda>_. ereturn (None \<noteq> (None :: import_row option))))
        (spec_reset g (view_of db account))" by (simp add: spec_reset_def)
  next
    fix r db'
    assume r: "account_import db account = Some r" "is_reconcile_generation r = Some g"
      and ready': "scan_ready db' conn user account"
      and view: "view_of db' account = (view_of db account)\<lparr>sv_sync := is_sync_generation (reset_row now r), sv_scan := scan_of (reset_row now r)\<rparr>"
    have "spec_reset g (view_of db account) = (view_of db' account)\<lparr>sv_seen := (sv_seen (view_of db' account))(g := {})\<rparr>"
      using r by (simp add: view spec_reset_def view_scan) (simp add: view_of_def scan_of_def reset_row_def)
    with drop [OF ready'] show "commits db' conn user account
        (ebind (\<lambda>db. drop_seen (\<lambda>s. own_seen db conn user s \<and> sn_generation_id s = g) db) (\<lambda>_. ereturn (Some (reset_row now r) \<noteq> None)))
        (spec_reset g (view_of db account))" by simp
  qed (auto simp: reconcile_row_def reset_row_def)
qed

lemma commits_identities:
  assumes ready: "scan_ready db conn user account"
  shows "commits db conn user account
     (\<lambda>db. if list_ex (\<lambda>r. reconcile_row db conn user g r \<and> is_reconcile_cursor r = None) (gmail_import_states db)
        then ebind (insert_seen conn user g (dict_fromkeys (filter (\<lambda>i. i \<noteq> '''') ids))) (\<lambda>_. ereturn True) db
        else (Inr False, db)) (spec_identities g ids (view_of db account))"
proof -
  have "list_ex (\<lambda>r. reconcile_row db conn user g r \<and> is_reconcile_cursor r = None) (gmail_import_states db)
      \<longleftrightarrow> (\<exists>started. sv_scan (view_of db account) = Some (g, None, started))" (is "list_ex ?p ?rs \<longleftrightarrow> _")
  proof -
    have "?p r \<longleftrightarrow> is_gmail_account_id r = account \<and> is_reconcile_generation r = Some g \<and> is_reconcile_cursor r = None"
      if "r \<in> set ?rs" for r using scan_ready_own(1) [OF ready that] by (simp add: reconcile_row_def)
    then have "list_ex ?p ?rs \<longleftrightarrow> select_first (\<lambda>r. is_gmail_account_id r = account \<and> is_reconcile_generation r = Some g \<and> is_reconcile_cursor r = None) ?rs \<noteq> None"
      by (auto simp: list_ex_iff select_first_None)
    also have "\<dots> \<longleftrightarrow> (\<exists>r. account_import db account = Some r \<and> is_reconcile_generation r = Some g \<and> is_reconcile_cursor r = None)"
      using ready by (subst select_first_guarded) (auto simp: scan_ready_def account_import_def split: option.split)
    finally show ?thesis by (auto simp: view_of_def scan_of_Some bind_eq_Some_conv)
  qed
  moreover have "commits db conn user account (ebind (insert_seen conn user g (dict_fromkeys (filter (\<lambda>i. i \<noteq> '''') ids))) (\<lambda>_. ereturn True))
      (spec_see g ids (view_of db account))"
    by (rule commits_seen [OF ready]) (simp add: spec_see_def)
  ultimately show ?thesis using ready by (auto simp: commits_def spec_identities_def)
qed

lemma commits_start:
  assumes ready: "scan_ready db conn user account"
  shows "commits db conn user account
     (ebind (upsert_import now conn user False (\<lambda>r. r) (\<lambda>r. r)) (\<lambda>_.
      ebind (\<lambda>db. update_import now False (\<lambda>r. own_import db conn user r \<and> is_reconcile_generation r = None)
          (scan_started_row now g c h) db) (\<lambda>started.
      ebind (case started of Some r \<Rightarrow> ereturn r
             | None \<Rightarrow> (\<lambda>db. case import_on_connection db conn user of
                           None \<Rightarrow> (Inl (OtherError ''NoResultFound''), db) | Some r \<Rightarrow> (Inr r, db))) (\<lambda>row.
      ebind (\<lambda>db. drop_seen (\<lambda>s. own_seen db conn user s \<and> sn_generation_id s \<noteq> str_or_empty (is_reconcile_generation row)) db)
          (\<lambda>_. ereturn row))))) (spec_start now g c (view_of db account))"
proof -
  let ?rest = "\<lambda>db row. ebind (\<lambda>db. drop_seen (\<lambda>s. own_seen db conn user s \<and> sn_generation_id s \<noteq> str_or_empty (is_reconcile_generation row)) db)
      (\<lambda>_. ereturn row)"
  have scope: "scoped_account db conn user = Some account" using ready by (simp add: scan_ready_def)
  have drop: "commits db' conn user account (?rest db' row)
      ((view_of db' account)\<lparr>sv_seen := (\<lambda>x. if x = g' then sv_seen (view_of db' account) x else {})\<rparr>)"
    if "scan_ready db' conn user account" "is_reconcile_generation row = Some g'" for db' row g'
    using that seen_dropped [OF that(1), of "\<lambda>s. own_seen db' conn user s \<and> sn_generation_id s \<noteq> g'" "\<lambda>x. x \<noteq> g'"]
    by (simp add: commits_def ebind_apply drop_seen_def view_of_def account_import_def fun_eq_iff)
      (auto simp: scan_ready_def account_owned_def scoped_account_def primary_account_def in_delete_where)
  have begun: "\<exists>db1 r. upsert_import now conn user False (\<lambda>r. r) (\<lambda>r. r) db = (Inr (), db1) \<and> scan_ready db1 conn user account
      \<and> view_of db1 account = view_of db account \<and> account_import db1 account = Some r"
  proof (cases "list_ex (\<lambda>r. is_gmail_account_id r = account) (gmail_import_states db)")
    case True
    have "update_where p (\<lambda>r. r) rs = rs" for p and rs :: "import_row list" by (simp add: update_where_def)
    with True scope have "upsert_import now conn user False (\<lambda>r. r) (\<lambda>r. r) db = (Inr (), db)"
      by (simp add: upsert_import_def ebind_apply update_import_def Let_def)
    moreover have "\<exists>r. account_import db account = Some r" using True by (auto simp: account_import_def select_first_None list_ex_iff simp del: not_None_eq simp: not_None_eq [symmetric])
    ultimately show ?thesis using ready by blast
  next
    case False
    let ?row = "new_import_row now user account"
    let ?db = "db\<lparr>gmail_import_states := gmail_import_states db @ [?row]\<rparr>"
    have "upsert_import now conn user False (\<lambda>r. r) (\<lambda>r. r) db = (Inr (), ?db)"
      using False scope by (simp add: upsert_import_def Let_def mark_gmail_account_initial_ready_def initial_ready_def new_import_row_def)
    moreover have missing: "account_import db account = None" using False by (auto simp: account_import_def select_first_None list_ex_iff)
    have "select_first (\<lambda>r. is_gmail_account_id r = account) (gmail_import_states db @ [?row]) = Some ?row"
      using missing by (simp add: account_import_def select_first_def row_first_def filter_empty_conv new_import_row_def split: list.splits)
    then have "account_import ?db account = Some ?row" by (simp add: account_import_def)
    moreover have "scan_ready ?db conn user account"
      using ready False by (auto simp: scan_ready_def account_owned_def scoped_account_def primary_account_def list_ex_iff new_import_row_def)
    moreover have "view_of ?db account = view_of db account"
      using missing \<open>account_import ?db account = Some ?row\<close> by (simp add: view_of_def new_import_row_def scan_of_def)
    ultimately show ?thesis by blast
  qed
  then obtain db1 r where one: "upsert_import now conn user False (\<lambda>r. r) (\<lambda>r. r) db = (Inr (), db1)"
    "scan_ready db1 conn user account" "view_of db1 account = view_of db account" "account_import db1 account = Some r" by blast
  show ?thesis
  proof (rule commits_bind, rule one(1), rule commits_bind_at,
      rule commits_update [OF one(2), where q = "\<lambda>r. is_reconcile_generation r = None"])
    assume none: "import_outcome (account_import db1 account) (\<lambda>r. is_reconcile_generation r = None) (scan_started_row now g c h) = None"
    with one(4) obtain g' where g': "is_reconcile_generation r = Some g'" by (auto simp: import_outcome_def split: if_splits)
    have "r \<in> set (gmail_import_states db1)" "is_gmail_account_id r = account"
      using one(4) by (auto simp: account_import_def dest: select_first_Some)
    then have "import_on_connection db1 conn user = Some r"
      unfolding import_on_connection_def using one(2)
      by (intro select_first_unique [where key = is_gmail_account_id])
        (auto simp: scan_ready_def own_import_def owned_def row_visible_def account_owned_def)
    moreover have "spec_start now g c (view_of db account)
        = (view_of db1 account)\<lparr>sv_seen := (\<lambda>x. if x = g' then sv_seen (view_of db1 account) x else {})\<rparr>"
      using g' one(4) by (simp add: spec_start_def Let_def view_scan scan_of_def flip: one(3))
    ultimately show "commits db1 conn user account (ebind (case None of Some r \<Rightarrow> ereturn r
        | None \<Rightarrow> (\<lambda>db. case import_on_connection db conn user of None \<Rightarrow> (Inl (OtherError ''NoResultFound''), db) | Some r \<Rightarrow> (Inr r, db)))
        (\<lambda>row. ?rest db1 row)) (spec_start now g c (view_of db account))"
      using drop [OF one(2) g'] by (simp add: commits_def ebind_apply)
  next
    fix r' db2
    assume r': "account_import db1 account = Some r'" "is_reconcile_generation r' = None"
      and two: "scan_ready db2 conn user account"
        "view_of db2 account = (view_of db1 account)\<lparr>sv_sync := is_sync_generation (scan_started_row now g c h r'), sv_scan := scan_of (scan_started_row now g c h r')\<rparr>"
    have "spec_start now g c (view_of db account)
        = (view_of db2 account)\<lparr>sv_seen := (\<lambda>x. if x = g then sv_seen (view_of db2 account) x else {})\<rparr>"
      unfolding two(2) one(3) [symmetric]
      using r' by (simp add: spec_start_def Let_def view_scan scan_of_def scan_started_row_def cong: if_cong)
    with drop [OF two(1), of "scan_started_row now g c h r'" g] show "commits db2 conn user account (ebind (case Some (scan_started_row now g c h r') of Some r \<Rightarrow> ereturn r
        | None \<Rightarrow> (\<lambda>db. case import_on_connection db conn user of None \<Rightarrow> (Inl (OtherError ''NoResultFound''), db) | Some r \<Rightarrow> (Inr r, db)))
        (\<lambda>row. ?rest db2 row)) (spec_start now g c (view_of db account))"
      by (simp add: commits_def ebind_apply scan_started_row_def)
  qed (auto simp: scan_started_row_def)
qed

lemma commits_metadata_page:
  fixes db :: "'a mail_db_scheme"
  assumes ready: "scan_ready db conn user account" and rows: "\<forall>m \<in> set rows. gm_user_id m = user"
  shows "commits db conn user account
     (ebind (\<lambda>db. update_import now False
            (\<lambda>r. reconcile_row db conn user g r \<and> is_sync_generation r = Some g \<and> is_reconcile_cursor r = Some c)
            (metadata_page_row now after estimated) db) (\<lambda>advanced.
        case advanced of None \<Rightarrow> ereturn None
        | Some _ \<Rightarrow>
            ebind (upsert_messages_on_connection now conn rows) (\<lambda>_.
            ebind (insert_seen conn user g (dict_fromkeys (filter (\<lambda>i. i \<noteq> '''') (map gm_message_id rows)))) (\<lambda>_.
            ebind (\<lambda>db. update_import now False (sync_row db conn user g)
                (\<lambda>r. r\<lparr>is_history_metadata_count :=
                         max (is_history_metadata_count r) (max (seen_thread_count db conn user g) n),
                       is_last_progress_at := Some now, is_updated_at := now\<rparr>) db) (\<lambda>row.
            ereturn (case row of None \<Rightarrow> None | Some r \<Rightarrow> Some (gmail_sync_progress (Some r))))))))
     (spec_commit_page now account g c after rows (view_of db account))"
    (is "commits _ _ _ _ (ebind _ (\<lambda>advanced. case advanced of None \<Rightarrow> _ | Some _ \<Rightarrow> ?rest)) ?v")
proof (rule commits_bind_at, rule commits_update [OF ready,
      where q = "\<lambda>r. is_reconcile_generation r = Some g \<and> is_sync_generation r = Some g \<and> is_reconcile_cursor r = Some c"])
  assume none: "import_outcome (account_import db account) (\<lambda>r. is_reconcile_generation r = Some g \<and> is_sync_generation r = Some g
      \<and> is_reconcile_cursor r = Some c) (metadata_page_row now after estimated) = None"
  then have "?v = view_of db account"
    by (auto simp: spec_commit_page_def import_outcome_def view_of_def scan_of_Some split: option.splits if_splits)
  with ready show "commits db conn user account (case None of None \<Rightarrow> ereturn None | Some _ \<Rightarrow> ?rest) ?v"
    by (simp add: commits_return)
next
  fix r and db' :: "'a mail_db_scheme"
  assume r: "account_import db account = Some r"
      "is_reconcile_generation r = Some g \<and> is_sync_generation r = Some g \<and> is_reconcile_cursor r = Some c"
    and ready': "scan_ready db' conn user account"
    and view: "view_of db' account = (view_of db account)\<lparr>sv_sync := is_sync_generation (metadata_page_row now after estimated r),
        sv_scan := scan_of (metadata_page_row now after estimated r)\<rparr>"
  from upserted_on_connection [OF ready' rows, of now] obtain db2 where
    two: "upsert_messages_on_connection now conn rows db' = (Inr (), db2)" "scan_ready db2 conn user account"
      "view_of db2 account = (view_of db' account)\<lparr>sv_messages := fold (spec_upsert now account) rows (sv_messages (view_of db' account))\<rparr>"
    by blast
  let ?ids = "dict_fromkeys (filter (\<lambda>i. i \<noteq> '''') (map gm_message_id rows))"
  from seen_inserted [OF two(2), of g ?ids] obtain db3 where
    three: "insert_seen conn user g ?ids db2 = (Inr (), db3)" "scan_ready db3 conn user account"
      "view_of db3 account = (view_of db2 account)\<lparr>sv_seen := (sv_seen (view_of db2 account))(g := sv_seen (view_of db2 account) g \<union> set ?ids)\<rparr>"
    by blast
  have v: "?v = view_of db3 account"
    using r by (simp add: three(3) two(3) view spec_commit_page_def spec_page_def spec_see_def view_scan scan_of_def metadata_page_row_def)
  let ?f = "\<lambda>r. r\<lparr>is_history_metadata_count := max (is_history_metadata_count r) (max (seen_thread_count db3 conn user g) n),
      is_last_progress_at := Some now, is_updated_at := now\<rparr>"
  have counted: "commits db3 conn user account (ebind (update_import now False (sync_row db3 conn user g) ?f)
      (\<lambda>row. ereturn (case row of None \<Rightarrow> None | Some r \<Rightarrow> Some (gmail_sync_progress (Some r))))) ?v"
  proof (rule commits_update [OF three(2), where q = "\<lambda>r. is_sync_generation r = Some g"])
    fix r4 db4
    assume r4: "account_import db3 account = Some r4" "is_sync_generation r4 = Some g" "scan_ready db4 conn user account"
      "view_of db4 account = (view_of db3 account)\<lparr>sv_sync := is_sync_generation (?f r4), sv_scan := scan_of (?f r4)\<rparr>"
    then have "view_of db4 account = ?v" by (simp add: v) (simp add: view_of_def scan_of_def)
    with r4(3) show "commits db4 conn user account
        (ereturn (case Some (?f r4) of None \<Rightarrow> None | Some r \<Rightarrow> Some (gmail_sync_progress (Some r)))) ?v"
      by (auto simp: commits_def)
  qed (use three(2) in \<open>auto simp: sync_row_def v commits_def\<close>)
  have "commits db' conn user account ?rest ?v"
    by (rule commits_bind, rule two(1), rule commits_bind, rule three(1), rule commits_bind_at, rule counted)
  then show "commits db' conn user account (case Some (metadata_page_row now after estimated r) of None \<Rightarrow> ereturn None | Some _ \<Rightarrow> ?rest) ?v"
    by simp
qed (auto simp: reconcile_row_def metadata_page_row_def)

lemma commits_finish:
  assumes ready: "scan_ready db conn user account"
  shows "commits db conn user account
     (\<lambda>db. case select_first (\<lambda>r. reconcile_row db conn user g r \<and> is_reconcile_cursor r = None) (gmail_import_states db) of
          None \<Rightarrow> (Inr None, db)
        | Some r \<Rightarrow>
            (case is_reconcile_started_at r of
               None \<Rightarrow> (Inr None, db)
             | Some started \<Rightarrow> finalize_scan now user g h started conn db))
     (spec_finish g h (view_of db account))"
proof -
  let ?q = "\<lambda>r. is_reconcile_generation r = Some g \<and> is_reconcile_cursor r = None"
  have "select_first (\<lambda>r. reconcile_row db conn user g r \<and> is_reconcile_cursor r = None) (gmail_import_states db)
      = select_first (\<lambda>r. is_gmail_account_id r = account \<and> ?q r) (gmail_import_states db)"
    by (rule select_first_cong) (use scan_ready_own(1) [OF ready] in \<open>auto simp: reconcile_row_def\<close>)
  also have "\<dots> = (case account_import db account of None \<Rightarrow> None | Some r \<Rightarrow> if ?q r then Some r else None)"
    unfolding account_import_def by (rule select_first_guarded) (use ready in \<open>simp add: scan_ready_def\<close>)
  finally have found: "select_first (\<lambda>r. reconcile_row db conn user g r \<and> is_reconcile_cursor r = None) (gmail_import_states db)
      = (case account_import db account of None \<Rightarrow> None | Some r \<Rightarrow> if ?q r then Some r else None)" .
  show ?thesis
  proof (cases "\<exists>started. sv_scan (view_of db account) = Some (g, None, Some started)")
    case False
    then have "spec_finish g h (view_of db account) = view_of db account"
      by (auto simp: spec_finish_def split: option.split)
    with False ready show ?thesis
      by (auto simp: commits_def found view_of_def scan_of_Some split: option.split)
  next
    case True
    then obtain r started where r: "account_import db account = Some r" "?q r" "is_reconcile_started_at r = Some started"
      and scan: "sv_scan (view_of db account) = Some (g, None, Some started)"
      by (auto simp: view_of_def bind_eq_Some_conv scan_of_Some)
    let ?gone = "missing_message db conn user g h started" and ?seen = "sv_seen (view_of db account) g"
    let ?member = "\<lambda>x. own_member db conn user x \<and> list_ex (\<lambda>m. ?gone m \<and> gm_user_id m = mm_user_id x \<and> gm_message_id m = mm_gmail_message_id x) (gmail_messages db)"
    let ?db1 = "db\<lparr>mail_group_members := delete_where ?member (mail_group_members db), gmail_messages := delete_where ?gone (gmail_messages db)\<rparr>"
    have gone: "?gone m \<longleftrightarrow> own_message db conn user m \<and> dropped h started ?seen m" for m
      using scan_ready_own(3) [OF ready]
      by (auto simp: missing_message_def dropped_def view_of_def seen_of_def list_ex_iff)
    have one: "scan_ready ?db1 conn user account"
      using ready by (auto simp: scan_ready_def account_owned_def scoped_account_def primary_account_def in_delete_where distinct_map_delete_where)
    have view1: "view_of ?db1 account = (view_of db account)\<lparr>sv_messages := (\<lambda>i. case sv_messages (view_of db account) i of None \<Rightarrow> None
        | Some m \<Rightarrow> if dropped h started ?seen m then None else Some m)\<rparr>"
      using messages_of_delete [OF ready gone] by (simp add: view_of_def account_import_def)
    have row1: "account_import ?db1 account = Some r" using r(1) by (simp add: account_import_def)
    let ?f = "finalized_row now h (thread_count ?db1 conn user) (ready_thread_count ?db1 conn user) (all_bodies_terminal ?db1 conn user)"
    let ?done = "\<lambda>completed. ebind (\<lambda>db. drop_seen (\<lambda>s. own_seen db conn user s \<and> sn_generation_id s = g) db) (\<lambda>_.
         ereturn (Some \<lparr>fr_deleted_message_count = length (filter ?gone (gmail_messages db)),
           fr_affected_group_ids = remdups (map mm_group_id (filter ?member (mail_group_members db))),
           fr_progress = (case completed of None \<Rightarrow> None
             | Some r \<Rightarrow> if is_sync_generation r = None then None else Some (gmail_sync_progress (Some r)))\<rparr>))"
    have drop: "commits db' conn user account (?done x) ((view_of db' account)\<lparr>sv_seen := (sv_seen (view_of db' account))(g := {})\<rparr>)"
      if "scan_ready db' conn user account" for db' x
      using that seen_dropped [OF that, of "\<lambda>s. own_seen db' conn user s \<and> sn_generation_id s = g" "\<lambda>x. x = g"]
      by (simp add: commits_def ebind_apply drop_seen_def view_of_def account_import_def fun_eq_iff)
        (auto simp: scan_ready_def account_owned_def scoped_account_def primary_account_def in_delete_where)
    have "commits ?db1 conn user account (ebind (update_import now True (reconcile_row ?db1 conn user g) ?f) ?done)
        (spec_finish g h (view_of db account))"
    proof (rule commits_update [OF one, where q = "\<lambda>r. is_reconcile_generation r = Some g"])
      fix r' db'
      assume r': "account_import ?db1 account = Some r'" "scan_ready db' conn user account"
        "view_of db' account = (view_of ?db1 account)\<lparr>sv_sync := is_sync_generation (?f r'), sv_scan := scan_of (?f r')\<rparr>"
      have "spec_finish g h (view_of db account) = (view_of db' account)\<lparr>sv_seen := (sv_seen (view_of db' account))(g := {})\<rparr>"
        using r' row1 scan r(1) view_scan [OF r(1)] unfolding r'(3) view1
        by (simp add: spec_finish_def finalized_row_def scan_of_def)
      show "commits db' conn user account (?done (Some (?f r'))) (spec_finish g h (view_of db account))"
        unfolding \<open>spec_finish g h (view_of db account) = _\<close> by (rule drop [OF r'(2)])
    qed (use row1 r in \<open>auto simp: reconcile_row_def finalized_row_def import_outcome_def\<close>)
    then show ?thesis using r found
      by (simp add: commits_def finalize_scan_def Let_def)
  qed
qed

section \<open>Runs of scan operations\<close>

fun scan_op :: "string \<Rightarrow> mailbox_op \<Rightarrow> bool" where
  "scan_op user (Start_scan u g h c) = (u = user)"
| "scan_op user (Record_page u g c after ids) = (u = user)"
| "scan_op user (Commit_page u g c after rows n estimated) = (u = user)"
| "scan_op user (Record_seen u g ids) = (u = user)"
| "scan_op user (Finalize_scan u g h) = (u = user)"
| "scan_op user (Reset_scan u g) = (u = user)"
| "scan_op user _ = False"

fun scan_step :: "string \<Rightarrow> instant \<times> mailbox_op \<Rightarrow> scan_view \<Rightarrow> scan_view" where
  "scan_step account (now, Start_scan user g h c) v =
     (if strip g = '''' \<or> c = '''' \<or> \<not> isdigit (strip h) then v else spec_start now (strip g) c v)"
| "scan_step account (now, Record_page user g c after ids) v = spec_page g c after ids v"
| "scan_step account (now, Commit_page user g c after rows n estimated) v =
     (if 100 < n \<or> (\<exists>m \<in> set rows. gm_user_id m \<noteq> user) then v else spec_commit_page now account g c after rows v)"
| "scan_step account (now, Record_seen user g ids) v = spec_identities g ids v"
| "scan_step account (now, Finalize_scan user g h) v = (if isdigit (strip h) then spec_finish g (strip h) v else v)"
| "scan_step account (now, Reset_scan user g) v = spec_reset g v"
| "scan_step account (now, _) v = v"

text \<open>The state an account's scan starts from: its user may write, and it is the account in scope.\<close>

definition scan_open :: "'a mail_db_scheme \<Rightarrow> string \<Rightarrow> string \<Rightarrow> bool" where
  "scan_open db user account \<longleftrightarrow> guard_passes db user None \<and> scan_ready db (guard_connection db user None) user account"

lemma transaction_commits:
  assumes "guard_passes db user None" and "scan_ready db (guard_connection db user None) user account"
    and "\<And>conn. scan_ready db conn user account \<Longrightarrow> commits db conn user account (body conn) v"
  shows "view_of (snd (user_mail_write_transaction user None body db)) account = v
    \<and> scan_ready (snd (user_mail_write_transaction user None body db)) (guard_connection db user None) user account"
  using assms(1) assms(3) [OF assms(2)] by (auto simp: write_transaction_passes commits_def etransaction_apply)

lemma identities_empty: "filter (\<lambda>i. i \<noteq> '''') ids = [] \<Longrightarrow> spec_identities g ids v = v"
proof -
  assume "filter (\<lambda>i. i \<noteq> '''') ids = []"
  then have "{i \<in> set ids. i \<noteq> ''''} = {}" by (auto simp: filter_empty_conv)
  then show ?thesis by (simp only: spec_identities_def spec_see_def) simp
qed

lemma scan_step_commits:
  assumes "scan_op user op" and "scan_open db user account"
  shows "view_of (snd (perform_op now op db)) account = scan_step account (now, op) (view_of db account)
    \<and> scan_ready (snd (perform_op now op db)) (guard_connection db user None) user account"
proof -
  have guard: "guard_passes db user None" and ready: "scan_ready db (guard_connection db user None) user account"
    using assms(2) by (simp_all add: scan_open_def)
  note committed = transaction_commits [OF guard ready]
  from assms(1) show ?thesis
  proof (cases op)
    case (Start_scan u g h c)
    show ?thesis
    proof (cases "strip g = '''' \<or> c = '''' \<or> \<not> isdigit (strip h)")
      case True
      with Start_scan ready show ?thesis by (auto simp: start_gmail_reconciliation_def Let_def)
    next
      case False
      with Start_scan assms(1) committed [OF commits_start [where now = now and g = "strip g" and c = c and h = "strip h"]] show ?thesis
        by (simp add: start_gmail_reconciliation_def Let_def)
    qed
  next
    case (Record_page u g c after ids)
    with assms(1) committed [OF commits_page [where now = now and g = g and c = c and after = after and ids = ids]] show ?thesis
      by (simp add: record_gmail_reconciliation_page_def Let_def)
  next
    case (Commit_page u g c after rows n estimated)
    show ?thesis
    proof (cases "100 < n \<or> (\<exists>m \<in> set rows. gm_user_id m \<noteq> user)")
      case True
      with Commit_page assms(1) ready show ?thesis by (auto simp: commit_gmail_reconciliation_metadata_page_def Let_def)
    next
      case False
      then have rows: "\<forall>m \<in> set rows. gm_user_id m = user" by blast
      from False Commit_page assms(1) committed [OF commits_metadata_page [OF _ rows, where now = now and g = g and c = c and after = after and estimated = "max 0 estimated" and n = "max 0 n"]]
      show ?thesis by (simp add: commit_gmail_reconciliation_metadata_page_def Let_def less_max_iff_disj)
    qed
  next
    case (Record_seen u g ids)
    show ?thesis
    proof (cases "dict_fromkeys (filter (\<lambda>i. i \<noteq> '''') ids) = []")
      case True
      then have "filter (\<lambda>i. i \<noteq> '''') ids = []" by (metis set_dict_fromkeys set_empty)
      with True Record_seen ready show ?thesis
        by (simp add: record_gmail_reconciliation_seen_def Let_def identities_empty)
    next
      case False
      with Record_seen assms(1) committed [OF commits_identities [where g = g and ids = ids]] show ?thesis
        by (simp add: record_gmail_reconciliation_seen_def Let_def)
    qed
  next
    case (Finalize_scan u g h)
    with assms(1) ready committed [OF commits_finish [where now = now and g = g and h = "strip h"]] show ?thesis
      by (simp add: finalize_gmail_reconciliation_def Let_def)
  next
    case (Reset_scan u g)
    with assms(1) committed [OF commits_reset [where now = now and g = g]] show ?thesis
      by (simp add: reset_gmail_reconciliation_def)
  qed simp_all
qed

lemma scan_open_step:
  assumes "scan_op user op" and "scan_open db user account"
  shows "scan_open (snd (perform_op now op db)) user account"
proof -
  let ?db = "snd (perform_op now op db)"
  have "\<not> disconnects op" using assms(1) by (cases op) simp_all
  then have "guard_frame ?db = guard_frame db" by (rule connected_op_frame)
  then have "guard_passes ?db user None = guard_passes db user None"
    and "guard_connection ?db user None = guard_connection db user None"
    by (simp_all add: guard_frame_def guard_passes_def exclusively_held_def user_mail_work_allowed_def guard_connection_def)
  with assms(2) scan_step_commits [OF assms] show ?thesis by (simp add: scan_open_def)
qed

lemma runs_refine:
  assumes "list_all (\<lambda>x. scan_op user (snd x)) ops" and "scan_open db user account"
  shows "view_of (run_ops ops db) account = fold (scan_step account) ops (view_of db account)
    \<and> scan_open (run_ops ops db) user account"
  using assms
proof (induction ops arbitrary: db)
  case (Cons x ops)
  obtain now op where x: "x = (now, op)" by (cases x)
  with Cons.prems have op: "scan_op user op" by simp
  with Cons.IH [of "snd (perform_op now op db)"] Cons.prems x scan_open_step [OF op Cons.prems(2)] scan_step_commits [OF op Cons.prems(2)]
  show ?case by simp
qed simp

text \<open>The pages of a listing: when, the cursor after the page, and the message ids on it.\<close>

type_synonym page = "instant \<times> string option \<times> string list"

fun page_ops :: "string \<Rightarrow> string \<Rightarrow> string \<Rightarrow> page list \<Rightarrow> (instant \<times> mailbox_op) list" where
  "page_ops user g c [] = []"
| "page_ops user g c ((now, after, ids) # pages) =
     (now, Record_page user g c after ids) #
     (case after of None \<Rightarrow> [] | Some c' \<Rightarrow> page_ops user g c' pages)"

fun complete_listing :: "page list \<Rightarrow> bool" where
  "complete_listing [] = False"
| "complete_listing ((now, None, ids) # pages) = (pages = [])"
| "complete_listing ((now, Some c, ids) # pages) = complete_listing pages"

definition listed :: "page list \<Rightarrow> string set" where
  "listed pages = (\<Union>(now, after, ids) \<in> set pages. {i \<in> set ids. i \<noteq> ''''})"

lemma page_ops_scan: "list_all (\<lambda>x. scan_op user (snd x)) (page_ops user g c pages)"
  by (induction user g c pages rule: page_ops.induct) (simp_all split: option.split)

lemma pages_seen:
  assumes "complete_listing pages" and "sv_scan v = Some (g, Some c, started)"
  shows "fold (scan_step account) (page_ops user g c pages) v
    = v\<lparr>sv_scan := Some (g, None, started), sv_seen := (sv_seen v)(g := sv_seen v g \<union> listed pages)\<rparr>"
  using assms
proof (induction pages arbitrary: c v rule: complete_listing.induct)
  case (3 now c' ids pages)
  let ?v = "spec_page g c (Some c') ids v"
  have v: "?v = v\<lparr>sv_scan := Some (g, Some c', started), sv_seen := (sv_seen v)(g := sv_seen v g \<union> {i \<in> set ids. i \<noteq> ''''})\<rparr>"
    using 3(3) by (simp add: spec_page_def spec_see_def)
  then have "sv_scan ?v = Some (g, Some c', started)" by simp
  from 3(1) [OF _ this] 3(2) show ?case by (simp add: v listed_def Un_assoc cong: if_cong)
qed (simp_all add: spec_page_def spec_see_def listed_def)

text \<open>One scan from its first cursor to its final history id.\<close>

definition whole_scan :: "string \<Rightarrow> string \<Rightarrow> instant \<Rightarrow> string \<Rightarrow> string \<Rightarrow> page list \<Rightarrow> instant \<Rightarrow> string \<Rightarrow> (instant \<times> mailbox_op) list" where
  "whole_scan user g t0 h0 c pages t1 h =
     (t0, Start_scan user g h0 c) # page_ops user g c pages @ [(t1, Finalize_scan user g h)]"

section \<open>Properties\<close>

text \<open>C7: the scan operations on the tables refine their specification. From a state in which the
  user may write and the account is in scope, any sequence of scan operations of that user takes
  the view of the account exactly where the abstract steps take it: replayed or stale pages,
  operations of another generation and premature ends change nothing.\<close>

theorem scans_refine_their_specification:
  assumes "list_all (\<lambda>x. scan_op user (snd x)) ops" and "scan_open db user account"
  shows "view_of (run_ops ops db) account = fold (scan_step account) ops (view_of db account)"
  using runs_refine [OF assms] by simp

text \<open>C6: a completed scan mirrors the provider's listing. From no active scan, a scan of a fresh
  generation over all pages of a listing deletes exactly the cached messages that the listing does not
  name and that are not newer than the final history id (or, without a numeric history id, were
  written before the scan began), leaves all others unchanged, and is over afterwards.\<close>

theorem completed_scan_mirrors_the_listing:
  assumes "scan_open db user account" and "sv_scan (view_of db account) = None" and "sv_seen (view_of db account) g = {}"
    and "complete_listing pages" and "g \<noteq> ''''" "strip g = g" "c \<noteq> ''''" and "isdigit (strip h0)" "isdigit (strip h)"
  shows "sv_messages (view_of (run_ops (whole_scan user g t0 h0 c pages t1 h) db) account)
      = (\<lambda>i. case sv_messages (view_of db account) i of None \<Rightarrow> None
           | Some m \<Rightarrow> if dropped (strip h) t0 (listed pages) m then None else Some m)
    \<and> sv_scan (view_of (run_ops (whole_scan user g t0 h0 c pages t1 h) db) account) = None"
proof -
  let ?v = "view_of db account"
  have start: "scan_step account (t0, Start_scan user g h0 c) ?v
      = ?v\<lparr>sv_scan := Some (g, Some c, Some t0), sv_seen := (\<lambda>x. {})\<rparr>" (is "_ = ?v1")
    using assms by (simp add: spec_start_def Let_def fun_eq_iff cong: if_cong)
  have pages: "fold (scan_step account) (page_ops user g c pages) ?v1
      = ?v1\<lparr>sv_scan := Some (g, None, Some t0), sv_seen := (\<lambda>x. {})(g := listed pages)\<rparr>"
    by (subst pages_seen [OF assms(4)]) simp_all
  have "view_of (run_ops (whole_scan user g t0 h0 c pages t1 h) db) account
      = fold (scan_step account) (whole_scan user g t0 h0 c pages t1 h) ?v"
    by (rule conjunct1 [OF runs_refine [OF _ assms(1)]]) (simp add: whole_scan_def page_ops_scan)
  also have "\<dots> = spec_finish g (strip h) (?v1\<lparr>sv_scan := Some (g, None, Some t0), sv_seen := (\<lambda>x. {})(g := listed pages)\<rparr>)"
    using assms(9) unfolding whole_scan_def by (simp del: scan_step.simps(1) add: start pages)
  finally show ?thesis by (simp add: spec_finish_def cong: option.case_cong if_cong)
qed

section \<open>Witnesses\<close>

definition sample_scan_db :: mail_db where
  "sample_scan_db = sample_mail_db [new_import_row 0 ''u1'' ''u1'']
     [sample_message ''m1'' (Some ''5'') [''INBOX''], sample_message ''m2'' (Some ''6'') [''INBOX'']] [] []"

lemma sample_scan_open: "scan_open sample_scan_db ''u1'' ''u1''"
  by (simp add: scan_open_def guard_passes_def exclusively_held_def user_mail_work_allowed_def sample_scan_db_def sample_mail_db_def
      sample_user_def sample_token_def scan_ready_def account_owned_def scoped_account_def primary_account_def guard_connection_def nonempty_def
      message_key_def sample_message_def new_import_row_def)

theorem scans_refine_their_specification_witness:
  "view_of (run_ops [(5, Start_scan ''u1'' ''g1'' ''7'' ''c1''), (6, Reset_scan ''u1'' ''g1'')] sample_scan_db) ''u1''
   = fold (scan_step ''u1'') [(5, Start_scan ''u1'' ''g1'' ''7'' ''c1''), (6, Reset_scan ''u1'' ''g1'')] (view_of sample_scan_db ''u1'')"
  by (rule scans_refine_their_specification [OF _ sample_scan_open]) simp

theorem completed_scan_mirrors_the_listing_witness:
  "let after = sv_messages (view_of (run_ops (whole_scan ''u1'' ''g1'' 5 ''7'' ''c1''
         [(6, Some ''c2'', [''m1'']), (7, None, [''m3''])] 8 ''9'') sample_scan_db) ''u1'')
   in after ''m1'' = Some (sample_message ''m1'' (Some ''5'') [''INBOX'']) \<and> after ''m2'' = None"
proof -
  have start: "sv_scan (view_of sample_scan_db ''u1'') = None" "sv_seen (view_of sample_scan_db ''u1'') ''g1'' = {}"
    "sv_messages (view_of sample_scan_db ''u1'') ''m1'' = Some (sample_message ''m1'' (Some ''5'') [''INBOX''])"
    "sv_messages (view_of sample_scan_db ''u1'') ''m2'' = Some (sample_message ''m2'' (Some ''6'') [''INBOX''])"
    by (simp_all add: view_of_def account_import_def sample_scan_db_def sample_mail_db_def new_import_row_def scan_of_def
        seen_of_def messages_of_def sample_message_def)
  have digits: "strip ''g1'' = ''g1''" "isdigit (strip ''7'')" "isdigit (strip ''9'')" "strip ''9'' = ''9''"
    by (simp_all add: strip_def lstrip_def rstrip_def is_space_def isdigit_def is_digit_def)
  have gone: "dropped ''9'' 5 (listed [(6, Some ''c2'', [''m1'']), (7, None, [''m3''])]) (sample_message ''m2'' (Some ''6'') [''INBOX''])"
    "\<not> dropped ''9'' 5 (listed [(6, Some ''c2'', [''m1'']), (7, None, [''m3''])]) (sample_message ''m1'' (Some ''5'') [''INBOX''])"
    by (simp_all add: dropped_def listed_def sample_message_def numeric_def isdigit_def is_digit_def numeral_of_def digit_val_def)
  note mirrored = completed_scan_mirrors_the_listing [OF sample_scan_open start(1,2), of "[(6, Some ''c2'', [''m1'']), (7, None, [''m3''])]" "''c1''" "''7''" "''9''" 5 8]
  show ?thesis using mirrored digits start gone by (simp add: Let_def)
qed

end
