(* ===== verification/Scan_Safety.thy ===== *)
theory Scan_Safety
  imports Scan_Mirror
begin

text \<open>
  Safety of the reconciliation under interleaving: a published history cursor only
  moves forward, and a cached message that the active scan has seen survives the
  end of the scan whatever else runs in between.
\<close>

section \<open>The published history cursor\<close>

definition cursor_at_least :: "string \<Rightarrow> nat \<Rightarrow> 'a mail_db_scheme \<Rightarrow> bool" where
  "cursor_at_least account n db \<longleftrightarrow>
     list_ex (\<lambda>r. is_gmail_account_id r = account) (gmail_import_states db)
     \<and> list_all (\<lambda>r. is_gmail_account_id r = account \<longrightarrow> is_history_cursor_authoritative r
          \<and> numeric (is_last_history_id r) \<and> n \<le> numeral_of (str_or_empty (is_last_history_id r))) (gmail_import_states db)"

definition cursor_row :: "nat \<Rightarrow> import_row \<Rightarrow> bool" where
  "cursor_row n r \<longleftrightarrow> is_history_cursor_authoritative r \<and> numeric (is_last_history_id r)
     \<and> n \<le> numeral_of (str_or_empty (is_last_history_id r))"

lemma cursor_at_least_alt:
  "cursor_at_least account n db \<longleftrightarrow>
     (\<exists>r \<in> set (gmail_import_states db). is_gmail_account_id r = account)
     \<and> (\<forall>r \<in> set (gmail_import_states db). is_gmail_account_id r = account \<longrightarrow> cursor_row n r)"
  by (simp add: cursor_at_least_def cursor_row_def list_ex_iff list_all_iff)

lemma advanced_cursor: "isdigit h \<Longrightarrow> cursor_row n r \<Longrightarrow> numeric (advanced_history h r) \<and> n \<le> numeral_of (str_or_empty (advanced_history h r))"
  by (auto simp: advanced_history_def cursor_row_def numeric_def)

lemma change_cursor: "import_change now db p f \<Longrightarrow> cursor_row n r \<Longrightarrow> cursor_row n (f r)"
proof (induction rule: import_change.induct)
  case (delta h p)
  from advanced_cursor [OF this] show ?case by (simp add: cursor_row_def history_delta_row_def)
qed (simp_all add: cursor_row_def mark_rows body_progress_row_def window_progress_row_def sync_started_row_def
    window_discovered_row_def batch_progress_row_def adopted_row_def metadata_page_row_def Let_def split: prod.split)

lemma cursor_update:
  assumes "cursor_at_least account n db" and "\<And>r. is_gmail_account_id (f r) = is_gmail_account_id r"
    and "\<And>r. cursor_row n r \<Longrightarrow> cursor_row n (f r)"
  shows "cursor_at_least account n (snd (update_import now fires p f db))"
proof -
  have "\<exists>r \<in> set (update_where p f (gmail_import_states db)). is_gmail_account_id r = account"
  proof -
    from assms(1) obtain r where "r \<in> set (gmail_import_states db)" "is_gmail_account_id r = account"
      by (auto simp: cursor_at_least_alt)
    then show ?thesis unfolding in_update_where Bex_def
      by (intro exI [of _ "if p r then f r else r"]) (auto simp: assms(2) in_update_where)
  qed
  with assms show ?thesis by (auto simp: cursor_at_least_alt in_update_where)
qed

interpretation cursor: scan_finals "cursor_at_least account n" for account n
proof unfold_locales
  fix now :: instant and db :: "'a mail_db_scheme" and p f fires
  assume "import_change now db p f" and "cursor_at_least account n db"
  then show "cursor_at_least account n (snd (update_import now fires p f db))"
    by (intro cursor_update) (auto simp: change_keeps_account intro: change_cursor)
next
  fix now :: instant and db :: "'a mail_db_scheme" and new conn user account'
  assume new: "import_insert now new" and db: "cursor_at_least account n db"
    and fresh: "\<not> list_ex (\<lambda>r. is_gmail_account_id r = account') (gmail_import_states db)"
  from db fresh have "account' \<noteq> account" by (auto simp: cursor_at_least_def)
  with db import_inserts_ok [OF new, of now user account']
  show "cursor_at_least account n (mark_gmail_account_initial_ready now (new (new_import_row now user account'))
      (db\<lparr>gmail_import_states := gmail_import_states db @ [new (new_import_row now user account')]\<rparr>))"
    by (simp add: cursor_at_least_def ready_frame)
next
  fix h now and db :: "'a mail_db_scheme" and conn user g
  assume h: "isdigit h" and "cursor_at_least account n db"
  then show "cursor_at_least account n (snd (update_import now True (reconcile_row db conn user g)
      (finalized_row now h (thread_count db conn user) (ready_thread_count db conn user) (all_bodies_terminal db conn user)) db))"
    using advanced_cursor [OF h] by (intro cursor_update) (auto simp: finalized_row_def cursor_row_def)
qed (auto simp: epreserves_def cursor_at_least_def upsert_message_def insert_window_def insert_seen_def Let_def split: option.split)

fun rescans :: "mailbox_op \<Rightarrow> bool" where
  "rescans (Start_scan user g h c) = True"
| "rescans (Reset_scan user g) = True"
| "rescans _ = False"

lemma cursor_op:
  assumes "\<not> rescans op"
  shows "epreserves (cursor_at_least account n) (perform_op now op)"
proof (cases "deletes op")
  case True
  with assms show ?thesis
    by (cases op) (simp_all add: epreserves_drop cursor.messages_deleted cursor.scan_finalized)
next
  case False
  show ?thesis
  proof (cases "disconnects op")
    case True
    then obtain user where op: "op = Disconnect_google user" by (cases op) simp_all
    have "cursor_at_least account n (mark_google_disconnected now user db)" if "cursor_at_least account n db" for db :: "'a mail_db_scheme"
    proof -
      let ?f = "watch_stopped_row now"
      have "cursor_at_least account n (snd (update_import now False (own_import db (begin_connection db) user) ?f db))"
        by (rule cursor_update [OF that]) (simp_all add: watch_stopped_row_def cursor_row_def)
      then show ?thesis
        by (simp add: cursor_at_least_def mark_google_disconnected_def watch_stopped_row_def [abs_def])
    qed
    then show ?thesis by (simp add: op epreserves_update)
  qed (use False in \<open>rule cursor.write_preserves\<close>)
qed
section \<open>Messages a scan has seen\<close>

text \<open>The account's scan \<open>g\<close> is active, has seen the message \<open>i\<close> and the message is cached.\<close>

definition scan_active :: "string \<Rightarrow> string \<Rightarrow> 'a mail_db_scheme \<Rightarrow> bool" where
  "scan_active account g db \<longleftrightarrow>
     (\<exists>r \<in> set (gmail_import_states db). is_gmail_account_id r = account)
     \<and> (\<forall>r \<in> set (gmail_import_states db). is_gmail_account_id r = account \<longrightarrow> is_reconcile_generation r = Some g)"

definition cached :: "string \<Rightarrow> string \<Rightarrow> string \<Rightarrow> 'a mail_db_scheme \<Rightarrow> bool" where
  "cached user account i db \<longleftrightarrow>
     (\<exists>m \<in> set (gmail_messages db). gm_user_id m = user \<and> gm_gmail_account_id m = account \<and> gm_message_id m = i)"

definition identity_seen :: "string \<Rightarrow> string \<Rightarrow> string \<Rightarrow> string \<Rightarrow> 'a mail_db_scheme \<Rightarrow> bool" where
  "identity_seen user account g i db \<longleftrightarrow>
     (\<exists>s \<in> set (reconcile_seen db). sn_user_id s = user \<and> sn_gmail_account_id s = account
        \<and> sn_generation_id s = g \<and> sn_message_id s = i)"

definition seen_and_cached :: "string \<Rightarrow> string \<Rightarrow> string \<Rightarrow> string \<Rightarrow> 'a mail_db_scheme \<Rightarrow> bool" where
  "seen_and_cached user account g i db \<longleftrightarrow>
     scan_active account g db \<and> cached user account i db \<and> identity_seen user account g i db"

lemma change_keeps_scan: "import_change now db p f \<Longrightarrow> is_reconcile_generation (f r) = is_reconcile_generation r"
  by (induction rule: import_change.induct)
    (simp_all add: mark_rows body_progress_row_def window_progress_row_def sync_started_row_def window_discovered_row_def
      batch_progress_row_def adopted_row_def metadata_page_row_def Let_def split: prod.split)

lemma active_update:
  assumes "scan_active account g db" and "\<And>r. is_gmail_account_id (f r) = is_gmail_account_id r"
    and "\<And>r. r \<in> set (gmail_import_states db) \<Longrightarrow> p r \<Longrightarrow> is_gmail_account_id r = account \<Longrightarrow>
        is_reconcile_generation (f r) = is_reconcile_generation r"
  shows "scan_active account g (snd (update_import now fires p f db))"
proof -
  from assms(1) obtain r where r: "r \<in> set (gmail_import_states db)" "is_gmail_account_id r = account"
    by (auto simp: scan_active_def)
  then have "(if p r then f r else r) \<in> set (update_where p f (gmail_import_states db))" by (auto simp: in_update_where)
  with r(2) assms(2) have "\<exists>r \<in> set (update_where p f (gmail_import_states db)). is_gmail_account_id r = account"
    by (metis (full_types))
  with assms show ?thesis by (auto simp: scan_active_def in_update_where)
qed

lemma seen_frame:
  "scan_active account g db' = scan_active account g db \<Longrightarrow> gmail_messages db' = gmail_messages db \<Longrightarrow>
   reconcile_seen db' = reconcile_seen db \<Longrightarrow> seen_and_cached user account g i db' = seen_and_cached user account g i db"
  by (simp add: seen_and_cached_def cached_def identity_seen_def)

lemma active_frame:
  "gmail_import_states db' = gmail_import_states db \<Longrightarrow> scan_active account g db' = scan_active account g db"
  by (simp add: scan_active_def)

lemma cached_update:
  assumes "\<And>m. gm_user_id (f m) = gm_user_id m \<and> gm_gmail_account_id (f m) = gm_gmail_account_id m \<and> gm_message_id (f m) = gm_message_id m"
    and "cached user account i db"
  shows "cached user account i (db\<lparr>gmail_messages := update_where p f (gmail_messages db)\<rparr>)"
proof -
  from assms(2) obtain m where m: "m \<in> set (gmail_messages db)" "gm_user_id m = user" "gm_gmail_account_id m = account" "gm_message_id m = i"
    by (auto simp: cached_def)
  from m(1) have "(if p m then f m else m) \<in> set (update_where p f (gmail_messages db))" by (auto simp: in_update_where)
  with m(2-4) assms(1) [of m] show ?thesis
    unfolding cached_def by (intro bexI [of _ "if p m then f m else m"]) auto
qed

lemma seen_update:
  assumes "\<And>m. gm_user_id (f m) = gm_user_id m \<and> gm_gmail_account_id (f m) = gm_gmail_account_id m \<and> gm_message_id (f m) = gm_message_id m"
    and "seen_and_cached user account g i db"
  shows "seen_and_cached user account g i (db\<lparr>gmail_messages := update_where p f (gmail_messages db)\<rparr>)"
proof -
  have "cached user account i (db\<lparr>gmail_messages := update_where p f (gmail_messages db)\<rparr>)"
    by (rule cached_update [OF assms(1)]) (use assms(2) in \<open>simp add: seen_and_cached_def\<close>)
  with assms(2) show ?thesis by (simp add: seen_and_cached_def scan_active_def identity_seen_def)
qed

lemma seen_upsert: "epreserves (seen_and_cached user account g i) (upsert_message now conn m)"
  unfolding epreserves_def
proof (intro allI impI)
  fix db assume db: "seen_and_cached user account g i db"
  have "seen_and_cached user account g i (db\<lparr>gmail_messages := update_where p (\<lambda>old. merge_message now old new) (gmail_messages db)\<rparr>)"
    for p new by (rule seen_update [OF _ db]) simp
  moreover have "seen_and_cached user account g i (db\<lparr>gmail_messages := gmail_messages db @ [x]\<rparr>)" for x
    using db by (auto simp: seen_and_cached_def scan_active_def cached_def identity_seen_def)
  ultimately show "seen_and_cached user account g i (snd (upsert_message now conn m db))"
    using db by (simp add: upsert_message_def Let_def split: option.split)
qed

lemma seen_import_update:
  assumes "seen_and_cached user account g i db" and "\<And>r. is_gmail_account_id (f r) = is_gmail_account_id r"
    and "\<And>r. r \<in> set (gmail_import_states db) \<Longrightarrow> p r \<Longrightarrow> is_gmail_account_id r = account \<Longrightarrow>
        is_reconcile_generation (f r) = is_reconcile_generation r"
  shows "seen_and_cached user account g i (snd (update_import now fires p f db))"
proof -
  have "scan_active account g (snd (update_import now fires p f db))"
    by (rule active_update [OF _ assms(2,3)]) (use assms(1) in \<open>simp_all add: seen_and_cached_def\<close>)
  with assms(1) show ?thesis by (simp add: seen_and_cached_def cached_def identity_seen_def)
qed

interpretation scanned: mailbox_writes "seen_and_cached user account g i" for user account g i
proof unfold_locales
  fix now :: instant and db :: "'a mail_db_scheme" and p f fires
  assume "import_change now db p f" and "seen_and_cached user account g i db"
  then show "seen_and_cached user account g i (snd (update_import now fires p f db))"
    by (intro seen_import_update) (simp_all add: change_keeps_account change_keeps_scan)
next
  fix now :: instant and db :: "'a mail_db_scheme" and new conn u account'
  assume new: "import_insert now new" and db: "seen_and_cached user account g i db"
    and fresh: "\<not> list_ex (\<lambda>r. is_gmail_account_id r = account') (gmail_import_states db)"
  from db fresh have "account' \<noteq> account" by (auto simp: seen_and_cached_def scan_active_def list_ex_iff)
  with db import_inserts_ok [OF new, of now u account']
  show "seen_and_cached user account g i (mark_gmail_account_initial_ready now (new (new_import_row now u account'))
      (db\<lparr>gmail_import_states := gmail_import_states db @ [new (new_import_row now u account')]\<rparr>))"
    by (auto simp: seen_and_cached_def scan_active_def cached_def identity_seen_def ready_frame)
qed (simp_all add: seen_upsert seen_update label_row_def body_row_def body_state_row_def descriptor_row_def Let_def,
  auto simp: epreserves_def insert_window_def insert_seen_def Let_def seen_and_cached_def scan_active_def cached_def identity_seen_def
    split: option.split)

text \<open>Starting a scan keeps the active one: it drops no identity of its generation.\<close>

lemma seen_after_start:
  assumes db: "seen_and_cached user account g i db" and scope: "scoped_account db conn u = Some (is_gmail_account_id r)"
    and r: "is_gmail_account_id r = account \<longrightarrow> is_reconcile_generation r = Some g"
  shows "seen_and_cached user account g i (snd (drop_seen (\<lambda>s. own_seen db conn u s
      \<and> sn_generation_id s \<noteq> str_or_empty (is_reconcile_generation r)) db))"
proof -
  from db obtain s where s: "s \<in> set (reconcile_seen db)" "sn_user_id s = user" "sn_gmail_account_id s = account"
      "sn_generation_id s = g" "sn_message_id s = i"
    by (auto simp: seen_and_cached_def identity_seen_def)
  then have "\<not> (own_seen db conn u s \<and> sn_generation_id s \<noteq> str_or_empty (is_reconcile_generation r))"
    using scope r by (auto simp: own_seen_def owned_def row_visible_def)
  with s db show ?thesis
    by (auto simp: seen_and_cached_def scan_active_def cached_def identity_seen_def drop_seen_def in_delete_where)
qed

lemma scoped_update: "scoped_account (snd (update_import now fires p f db)) conn u = scoped_account db conn u"
  by (simp add: scoped_account_def primary_account_def)

lemma own_import_scope: "own_import db conn u r \<Longrightarrow> scoped_account db conn u = Some (is_gmail_account_id r)"
  by (simp add: own_import_def owned_def row_visible_def)

lemma seen_start: "epreserves (seen_and_cached user account g i) (start_gmail_reconciliation now u g' h c)"
proof -
  have body: "seen_and_cached user account g i (snd (ebind (upsert_import now conn u False (\<lambda>r. r) (\<lambda>r. r)) (\<lambda>_.
      ebind (\<lambda>db. update_import now False (\<lambda>r. own_import db conn u r \<and> is_reconcile_generation r = None)
          (scan_started_row now gen c base) db) (\<lambda>started.
      ebind (case started of Some r \<Rightarrow> ereturn r
             | None \<Rightarrow> (\<lambda>db. case import_on_connection db conn u of
                           None \<Rightarrow> (Inl (OtherError ''NoResultFound''), db) | Some r \<Rightarrow> (Inr r, db))) (\<lambda>row.
      ebind (\<lambda>db. drop_seen (\<lambda>s. own_seen db conn u s \<and> sn_generation_id s \<noteq> str_or_empty (is_reconcile_generation row)) db)
        (\<lambda>_. ereturn row)))) db))" (is "?P (snd (ebind ?one ?two db))")
    if db: "seen_and_cached user account g i db" for db :: "'a mail_db_scheme" and conn gen base
  proof -
    obtain r1 db1 where one: "?one db = (r1, db1)" by (cases "?one db")
    have db1: "?P db1"
      using epreserves_outcome [OF scanned.upsert_state [OF import_insert.blank import_change.unchanged] db one] .
    let ?p = "\<lambda>r. own_import db1 conn u r \<and> is_reconcile_generation r = None"
    let ?db2 = "snd (update_import now False ?p (scan_started_row now gen c base) db1)"
    have db2: "?P ?db2"
      by (rule seen_import_update [OF db1])
        (use db1 in \<open>auto simp: scan_started_row_def seen_and_cached_def scan_active_def\<close>)
    show ?thesis
    proof (cases r1)
      case (Inl e)
      with db1 one show ?thesis by (simp add: ebind_apply)
    next
      case (Inr x)
      with one have first: "ebind ?one ?two db = ?two x db1" by (simp add: ebind_apply)
      show ?thesis
      proof (cases "select_first ?p (gmail_import_states db1)")
        case (Some r0)
        from select_first_Some [OF Some] have r0: "r0 \<in> set (gmail_import_states db1)" "own_import db1 conn u r0" "is_reconcile_generation r0 = None"
          by auto
        with db1 have "is_gmail_account_id r0 \<noteq> account" by (auto simp: seen_and_cached_def scan_active_def)
        then have "?P (snd (drop_seen (\<lambda>s. own_seen ?db2 conn u s \<and> sn_generation_id s \<noteq> str_or_empty
            (is_reconcile_generation (scan_started_row now gen c base r0))) ?db2))" (is "?P (snd ?drop)")
          using r0(2) by (intro seen_after_start [OF db2])
            (simp_all add: scoped_update own_import_def owned_def row_visible_def scan_started_row_def)
        moreover have "snd (?two x db1) = snd ?drop"
          by (simp only: update_bind(2) Some option.map option.case) (simp add: ebind_apply drop_seen_def)
        ultimately show ?thesis by (simp only: first)
      next
        case None
        have "?P (snd (drop_seen (\<lambda>s. own_seen ?db2 conn u s \<and> sn_generation_id s \<noteq> str_or_empty (is_reconcile_generation r)) ?db2))"
          if "import_on_connection ?db2 conn u = Some r" for r
        proof (rule seen_after_start [OF db2])
          from select_first_Some [OF that [unfolded import_on_connection_def]]
          have r: "r \<in> set (gmail_import_states ?db2)" "own_import ?db2 conn u r" by (rule conjunct1, rule conjunct2)
          from r(2) show "scoped_account ?db2 conn u = Some (is_gmail_account_id r)"
            by (rule own_import_scope)
          from r(1) db2 show "is_gmail_account_id r = account \<longrightarrow> is_reconcile_generation r = Some g"
            by (simp add: seen_and_cached_def scan_active_def)
        qed
        note started = this
        show ?thesis
        proof (cases "import_on_connection ?db2 conn u")
          case missing: None
          have "snd (?two x db1) = ?db2"
            by (simp only: update_bind(2) None option.map option.case) (simp add: ebind_apply missing)
          with db2 show ?thesis by (simp only: first)
        next
          case (Some r)
          have "snd (?two x db1) = snd (drop_seen (\<lambda>s. own_seen ?db2 conn u s \<and> sn_generation_id s \<noteq> str_or_empty (is_reconcile_generation r)) ?db2)"
            by (simp only: update_bind(2) None option.map option.case) (simp add: ebind_apply Some drop_seen_def)
          with started [OF Some] show ?thesis by (simp only: first)
        qed
      qed
    qed
  qed
  then have "epreserves ?P (user_mail_write_transaction u None (\<lambda>conn.
      ebind (upsert_import now conn u False (\<lambda>r. r) (\<lambda>r. r)) (\<lambda>_.
      ebind (\<lambda>db. update_import now False (\<lambda>r. own_import db conn u r \<and> is_reconcile_generation r = None)
          (scan_started_row now gen c base) db) (\<lambda>started.
      ebind (case started of Some r \<Rightarrow> ereturn r
             | None \<Rightarrow> (\<lambda>db. case import_on_connection db conn u of
                           None \<Rightarrow> (Inl (OtherError ''NoResultFound''), db) | Some r \<Rightarrow> (Inr r, db))) (\<lambda>row.
      ebind (\<lambda>db. drop_seen (\<lambda>s. own_seen db conn u s \<and> sn_generation_id s \<noteq> str_or_empty (is_reconcile_generation row)) db)
        (\<lambda>_. ereturn row))))))" for gen base
    by (intro epreserves_write_transaction) (simp add: epreserves_def)
  then show ?thesis
    unfolding start_gmail_reconciliation_def Let_def by (intro epreserves_if epreserves_raise)
qed

text \<open>The end of any scan keeps a seen message; the end of another scan keeps all of it.\<close>

lemma seen_finalize:
  assumes db: "seen_and_cached user account g i db"
  shows "cached user account i (snd (finalize_gmail_reconciliation now u g' h db))"
    and "g' \<noteq> g \<Longrightarrow> seen_and_cached user account g i (snd (finalize_gmail_reconciliation now u g' h db))"
proof -
  have scan: "cached user account i (snd (finalize_scan now u g' h' started conn db))
      \<and> (g' \<noteq> g \<longrightarrow> seen_and_cached user account g i (snd (finalize_scan now u g' h' started conn db)))"
    if r: "r \<in> set (gmail_import_states db)" "reconcile_row db conn u g' r" for r h' started conn
  proof -
    let ?gone = "missing_message db conn u g' h' started"
    from db obtain m where m: "m \<in> set (gmail_messages db)" "gm_user_id m = user" "gm_gmail_account_id m = account" "gm_message_id m = i"
      by (auto simp: seen_and_cached_def cached_def)
    from db obtain s where s: "s \<in> set (reconcile_seen db)" "sn_user_id s = user" "sn_gmail_account_id s = account"
        "sn_generation_id s = g" "sn_message_id s = i" by (auto simp: seen_and_cached_def identity_seen_def)
    have same: "g' = g" if "scoped_account db conn u = Some account"
      using that r db by (auto simp: reconcile_row_def own_import_def owned_def row_visible_def seen_and_cached_def scan_active_def)
    have kept: "\<not> ?gone m"
    proof
      assume gone: "?gone m"
      then have "own_message db conn u m" by (simp add: missing_message_def)
      with m have "u = user" "scoped_account db conn u = Some account" by (simp_all add: own_message_def owned_def row_visible_def)
      with s same m(4) gone show False
        by (auto simp: missing_message_def list_ex_iff own_seen_def owned_def row_visible_def)
    qed
    define db1 where "db1 = db\<lparr>mail_group_members := delete_where (\<lambda>x. own_member db conn u x
         \<and> list_ex (\<lambda>m. ?gone m \<and> gm_user_id m = mm_user_id x \<and> gm_message_id m = mm_gmail_message_id x) (gmail_messages db)) (mail_group_members db),
       gmail_messages := delete_where ?gone (gmail_messages db)\<rparr>"
    have db1: "seen_and_cached user account g i db1"
      using db m kept by (auto simp: db1_def seen_and_cached_def scan_active_def identity_seen_def cached_def in_delete_where)
    define db2 where "db2 = snd (update_import now True (reconcile_row db1 conn u g')
       (finalized_row now h' (thread_count db1 conn u) (ready_thread_count db1 conn u) (all_bodies_terminal db1 conn u)) db1)"
    have ended: "snd (finalize_scan now u g' h' started conn db) = db2\<lparr>reconcile_seen :=
        delete_where (\<lambda>s. own_seen db2 conn u s \<and> sn_generation_id s = g') (reconcile_seen db2)\<rparr>"
      unfolding db2_def db1_def
      by (simp only: finalize_scan_def Let_def update_bind) (simp add: ebind_apply drop_seen_def)
    have "cached user account i db2" using db1 by (simp add: db2_def seen_and_cached_def cached_def)
    moreover have "seen_and_cached user account g i db2" if "g' \<noteq> g"
      unfolding db2_def
      by (rule seen_import_update [OF db1]) (use that db1 in \<open>auto simp: finalized_row_def reconcile_row_def seen_and_cached_def scan_active_def\<close>)
    ultimately show ?thesis unfolding ended
      by (auto simp: cached_def seen_and_cached_def scan_active_def identity_seen_def in_delete_where Bex_def)
  qed
  have base: "cached user account i db" using db by (simp add: seen_and_cached_def)
  have all: "cached user account i (snd (finalize_gmail_reconciliation now u g' h db))
      \<and> (g' \<noteq> g \<longrightarrow> seen_and_cached user account g i (snd (finalize_gmail_reconciliation now u g' h db)))"
  proof (cases "isdigit (strip h)")
    case False
    with db base show ?thesis by (simp add: finalize_gmail_reconciliation_def)
  next
    case True
    let ?body = "\<lambda>conn db. case select_first (\<lambda>r. reconcile_row db conn u g' r \<and> is_reconcile_cursor r = None) (gmail_import_states db) of
        None \<Rightarrow> (Inr None, db)
      | Some r \<Rightarrow> (case is_reconcile_started_at r of None \<Rightarrow> (Inr None, db)
          | Some started \<Rightarrow> finalize_scan now u g' (strip h) started conn db)"
    have "finalize_gmail_reconciliation now u g' h db = user_mail_write_transaction u None ?body db"
      using True by (simp add: finalize_gmail_reconciliation_def Let_def)
    note run = this
    have body: "cached user account i (snd (?body conn db)) \<and> (g' \<noteq> g \<longrightarrow> seen_and_cached user account g i (snd (?body conn db)))" for conn
      using db base scan by (auto split: option.split dest!: select_first_Some)
    show ?thesis
    proof (cases rule: write_transaction_cases [of db u None ?body])
      case (committed x s)
      with body [of "guard_connection db u None"] show ?thesis by (simp add: run)
    qed (use db base in \<open>simp_all only: run snd_conv, simp_all\<close>)
  qed
  then show "cached user account i (snd (finalize_gmail_reconciliation now u g' h db))"
    and "g' \<noteq> g \<Longrightarrow> seen_and_cached user account g i (snd (finalize_gmail_reconciliation now u g' h db))" by blast+
qed

text \<open>The operations that take a seen message out of the scan \<open>g\<close>.\<close>

fun leaves_scan :: "string \<Rightarrow> mailbox_op \<Rightarrow> bool" where
  "leaves_scan g (Delete_messages user ids) = True"
| "leaves_scan g (Finalize_scan user g' h) = (g' = g)"
| "leaves_scan g (Reset_scan user g') = (g' = g)"
| "leaves_scan g _ = False"

lemma seen_reset:
  assumes "g' \<noteq> g"
  shows "epreserves (seen_and_cached user account g i) (reset_gmail_reconciliation now u g')"
  unfolding reset_gmail_reconciliation_def
proof (intro epreserves_write_transaction epreserves_bind epreserves_return)
  fix conn
  show "epreserves (seen_and_cached user account g i) (\<lambda>db. update_import now False (reconcile_row db conn u g') (reset_row now) db)"
    unfolding epreserves_def
    by (intro allI impI seen_import_update)
      (use assms in \<open>auto simp: reset_row_def reconcile_row_def seen_and_cached_def scan_active_def\<close>)
  show "epreserves (seen_and_cached user account g i) (\<lambda>db. drop_seen (\<lambda>s. own_seen db conn u s \<and> sn_generation_id s = g') db)"
    using assms by (auto simp: epreserves_def drop_seen_def seen_and_cached_def scan_active_def cached_def identity_seen_def in_delete_where Bex_def)
qed

lemma seen_op:
  assumes "\<not> leaves_scan g op"
  shows "epreserves (seen_and_cached user account g i) (perform_op now op)"
proof (cases "deletes op")
  case True
  have finalize: "epreserves (seen_and_cached user account g i) (finalize_gmail_reconciliation now u g' h)" if "g' \<noteq> g" for u g' h
    unfolding epreserves_def by (intro allI impI seen_finalize(2) that)
  from True assms show ?thesis
    by (cases op) (simp_all add: epreserves_drop seen_start seen_reset finalize)
next
  case False
  show ?thesis
  proof (cases "disconnects op")
    case True
    then obtain u where op: "op = Disconnect_google u" by (cases op) simp_all
    have "seen_and_cached user account g i (mark_google_disconnected now u db)" if "seen_and_cached user account g i db" for db :: "'a mail_db_scheme"
    proof -
      have "seen_and_cached user account g i (snd (update_import now False (own_import db (begin_connection db) u) (watch_stopped_row now) db))"
        by (rule seen_import_update [OF that]) (simp_all add: watch_stopped_row_def)
      then show ?thesis
        by (simp add: seen_and_cached_def scan_active_def cached_def identity_seen_def mark_google_disconnected_def
            watch_stopped_row_def [abs_def])
    qed
    then show ?thesis by (simp add: op epreserves_update)
  qed (use False in \<open>rule scanned.write_preserves\<close>)
qed

section \<open>Properties\<close>

text \<open>C10: a published history cursor never regresses. Once the authoritative cursor of an account has
  reached \<open>n\<close>, it is at least \<open>n\<close>, numeric and authoritative after any sequence of operations
  by any users that neither starts nor resets a scan; stale completions of history deltas and scans
  with smaller history ids do not take it back.\<close>

theorem history_cursor_never_regresses:
  assumes "cursor_at_least account n db" and "\<forall>x \<in> set ops. \<not> rescans (snd x)"
  shows "cursor_at_least account n (run_ops ops db)"
proof (rule run_ops_preserves [where P = "cursor_at_least account n"])
  fix now op assume "(now, op) \<in> set ops"
  with assms(2) show "epreserves (cursor_at_least account n) (perform_op now op)" by (intro cursor_op) auto
qed (rule assms(1))

text \<open>C8: a message the scan has seen survives it. While a scan is active, any operations of any users
  may run in any order, starts of scans and ends of other scans included; if none of them deletes
  messages by name, ends or resets this scan, then the message is still cached after the scan is
  finalized, whatever its history id.\<close>

theorem seen_messages_survive_the_scan:
  assumes "seen_and_cached user account g i db" and "\<forall>x \<in> set ops. \<not> leaves_scan g (snd x)"
  shows "cached user account i (run_ops (ops @ [(now, Finalize_scan u g h)]) db)"
proof -
  have "seen_and_cached user account g i (run_ops ops db)"
  proof (rule run_ops_preserves [where P = "seen_and_cached user account g i"])
    fix now op assume "(now, op) \<in> set ops"
    with assms(2) show "epreserves (seen_and_cached user account g i) (perform_op now op)" by (intro seen_op) auto
  qed (rule assms(1))
  from seen_finalize(1) [OF this] show ?thesis by simp
qed

section \<open>Witnesses\<close>

theorem history_cursor_never_regresses_witness:
  "cursor_at_least ''u1'' 9 (run_ops [(5, Delta_completed ''u1'' ''4''), (6, Import_started ''u1'')]
     (sample_mail_db [(new_import_row 0 ''u1'' ''u1'')\<lparr>is_last_history_id := Some ''12'', is_history_cursor_authoritative := True\<rparr>] [] [] []))"
  by (rule history_cursor_never_regresses)
    (simp_all add: cursor_at_least_def sample_mail_db_def new_import_row_def numeric_def isdigit_def is_digit_def
      numeral_of_def digit_val_def)

theorem seen_messages_survive_the_scan_witness:
  "cached ''u1'' ''u1'' ''m1'' (run_ops ([(5, Start_scan ''u1'' ''g2'' ''7'' ''c1''), (6, Record_page ''u1'' ''g1'' ''c2'' None [])]
      @ [(8, Finalize_scan ''u1'' ''g1'' ''9'')])
     (sample_mail_db [(new_import_row 0 ''u1'' ''u1'')\<lparr>is_reconcile_generation := Some ''g1'', is_reconcile_cursor := Some ''c2'',
          is_reconcile_started_at := Some 1, is_reconcile_baseline_history_id := Some ''7''\<rparr>]
        [sample_message ''m1'' (Some ''5'') [''INBOX'']] []
        [\<lparr>sn_user_id = ''u1'', sn_gmail_account_id = ''u1'', sn_generation_id = ''g1'', sn_message_id = ''m1''\<rparr>]))"
  by (rule seen_messages_survive_the_scan)
    (simp_all add: seen_and_cached_def scan_active_def cached_def identity_seen_def sample_mail_db_def new_import_row_def sample_message_def)

end
