(* ===== verification/Action_Labels.thy ===== *)
theory Action_Labels
  imports Mail_Prelude
begin

text \<open>
  Optimistic label changes of mailbox actions and their undoing
  (\<open>_labels_after_action\<close> and \<open>_labels_after_failed_action\<close> of
  \<open>backend/app/services/mailbox_actions.py\<close>). Gmail labels are compared without
  regard to case.
\<close>

datatype thread_action =
    Archive | Unarchive | Mark_read | Mark_unread | Move_trash | Restore_trash
  | Mark_spam | Not_spam | Star | Unstar | Delete_forever

definition drop_labels :: "string list \<Rightarrow> string list \<Rightarrow> string list" where
  "drop_labels gone labels = filter (\<lambda>l. upper l \<notin> set gone) labels"

definition add_label :: "string \<Rightarrow> string list \<Rightarrow> string list" where
  "add_label label labels = (if label \<in> set (map upper labels) then labels else labels @ [label])"

definition labels_after_action :: "string list \<Rightarrow> thread_action \<Rightarrow> string list" where
  "labels_after_action labels action =
     (let next_labels = dict_fromkeys labels in
      case action of
        Archive \<Rightarrow> drop_labels [''INBOX''] next_labels
      | Unarchive \<Rightarrow> add_label ''INBOX'' next_labels
      | Mark_read \<Rightarrow> drop_labels [''UNREAD''] next_labels
      | Mark_unread \<Rightarrow> add_label ''UNREAD'' next_labels
      | Move_trash \<Rightarrow> add_label ''TRASH'' (drop_labels [''INBOX'', ''SPAM''] next_labels)
      | Restore_trash \<Rightarrow> add_label ''INBOX'' (drop_labels [''TRASH''] next_labels)
      | Mark_spam \<Rightarrow> add_label ''SPAM'' (drop_labels [''INBOX'', ''TRASH''] next_labels)
      | Not_spam \<Rightarrow> add_label ''INBOX'' (drop_labels [''SPAM''] next_labels)
      | Star \<Rightarrow> add_label ''STARRED'' next_labels
      | Unstar \<Rightarrow> drop_labels [''STARRED''] next_labels
      | Delete_forever \<Rightarrow> next_labels)"

text \<open>The loop of the undo: \<open>list.insert(min(index, len(..)), label)\<close>, with the membership so far.\<close>

definition insert_at :: "nat \<Rightarrow> 'a \<Rightarrow> 'a list \<Rightarrow> 'a list" where
  "insert_at i x xs = take (min i (length xs)) xs @ x # drop (min i (length xs)) xs"

fun restore_labels :: "string set \<Rightarrow> nat \<Rightarrow> string list \<Rightarrow> string set \<Rightarrow> string list \<Rightarrow> string list" where
  "restore_labels affected i [] present restored = restored"
| "restore_labels affected i (l # ls) present restored =
     (if upper l \<in> affected \<and> upper l \<notin> present
      then restore_labels affected (Suc i) ls (insert (upper l) present) (insert_at i l restored)
      else restore_labels affected (Suc i) ls present restored)"

definition affected_labels :: "string list \<Rightarrow> thread_action \<Rightarrow> string set" where
  "affected_labels previous action =
     (let before = upper ` set previous; after = upper ` set (labels_after_action previous action)
      in (before - after) \<union> (after - before))"

definition labels_after_failed_action :: "string list \<Rightarrow> string list \<Rightarrow> thread_action \<Rightarrow> string list" where
  "labels_after_failed_action current previous action =
     (let affected = affected_labels previous action;
          restored = filter (\<lambda>l. upper l \<notin> affected) (dict_fromkeys current)
      in restore_labels affected 0 previous (upper ` set restored) restored)"

section \<open>What an action changes\<close>

text \<open>Every action drops a fixed set of labels and adds at most one.\<close>

definition dropped_by :: "thread_action \<Rightarrow> string list" where
  "dropped_by action =
     (case action of Archive \<Rightarrow> [''INBOX''] | Mark_read \<Rightarrow> [''UNREAD''] | Move_trash \<Rightarrow> [''INBOX'', ''SPAM'']
      | Restore_trash \<Rightarrow> [''TRASH''] | Mark_spam \<Rightarrow> [''INBOX'', ''TRASH''] | Not_spam \<Rightarrow> [''SPAM'']
      | Unstar \<Rightarrow> [''STARRED''] | _ \<Rightarrow> [])"

definition added_by :: "thread_action \<Rightarrow> string option" where
  "added_by action =
     (case action of Unarchive \<Rightarrow> Some ''INBOX'' | Mark_unread \<Rightarrow> Some ''UNREAD'' | Move_trash \<Rightarrow> Some ''TRASH''
      | Restore_trash \<Rightarrow> Some ''INBOX'' | Mark_spam \<Rightarrow> Some ''SPAM'' | Not_spam \<Rightarrow> Some ''INBOX''
      | Star \<Rightarrow> Some ''STARRED'' | _ \<Rightarrow> None)"

lemma labels_after_action_alt:
  "labels_after_action labels action =
     (let kept = drop_labels (dropped_by action) (dict_fromkeys labels)
      in case added_by action of None \<Rightarrow> kept | Some l \<Rightarrow> add_label l kept)"
  by (cases action) (simp_all add: labels_after_action_def dropped_by_def added_by_def drop_labels_def)

lemma added_upper: "added_by action = Some l \<Longrightarrow> upper l = l \<and> l \<notin> set (dropped_by action)"
  by (cases action) (auto simp: added_by_def dropped_by_def upper_def upper_char_def)

lemma upper_after_action:
  "upper ` set (labels_after_action labels action) =
     (upper ` set labels - set (dropped_by action)) \<union> set_option (added_by action)"
  using added_upper [of action]
  by (auto simp: labels_after_action_alt drop_labels_def add_label_def Let_def split: option.split)

lemma affected_alt:
  "affected_labels previous action =
     (upper ` set previous \<inter> set (dropped_by action)) \<union> (set_option (added_by action) - upper ` set previous)"
  using added_upper [of action]
  by (auto simp: affected_labels_def Let_def upper_after_action)

lemma distinct_add_label: "distinct ls \<Longrightarrow> upper l = l \<Longrightarrow> distinct (add_label l ls)"
  by (auto simp: add_label_def) (metis image_eqI)

section \<open>Undoing\<close>

lemma set_insert_at [simp]: "set (insert_at i x xs) = insert x (set xs)"
proof -
  have "set (take n xs) \<union> set (drop n xs) = set xs" for n by (metis append_take_drop_id set_append)
  then show ?thesis by (auto simp: insert_at_def)
qed

lemma filter_insert_at: "\<not> p x \<Longrightarrow> filter p (insert_at i x xs) = filter p xs"
proof -
  assume "\<not> p x"
  then have "filter p (insert_at i x xs) = filter p (take (min i (length xs)) xs @ drop (min i (length xs)) xs)"
    by (simp only: insert_at_def filter_append filter.simps) simp
  then show ?thesis by simp
qed

lemma restored_membership:
  "present = upper ` set restored \<Longrightarrow>
   upper ` set (restore_labels affected i ls present restored) = present \<union> (upper ` set ls \<inter> affected)"
  by (induction affected i ls present restored rule: restore_labels.induct) auto

lemma restored_unaffected:
  "filter (\<lambda>l. upper l \<notin> affected) (restore_labels affected i ls present restored)
     = filter (\<lambda>l. upper l \<notin> affected) restored"
  by (induction affected i ls present restored rule: restore_labels.induct) (simp_all add: filter_insert_at)

lemma restore_exact:
  assumes "distinct (map upper ls)" and "\<And>l. l \<in> set ls \<Longrightarrow> upper l \<in> affected \<Longrightarrow> upper l \<notin> present" and "i = length done"
  shows "restore_labels affected i ls present (done @ filter (\<lambda>l. upper l \<notin> affected) ls) = done @ ls"
  using assms
proof (induction ls arbitrary: i present "done")
  case (Cons l ls)
  show ?case
  proof (cases "upper l \<in> affected")
    case True
    have "insert_at i l (done @ filter (\<lambda>l. upper l \<notin> affected) ls) = (done @ [l]) @ filter (\<lambda>l. upper l \<notin> affected) ls"
      using Cons.prems(3) by (simp add: insert_at_def)
    moreover have "upper x \<noteq> upper l" if "x \<in> set ls" for x
      using Cons.prems(1) that by (metis distinct.simps(2) image_eqI list.simps(9) set_map)
    ultimately show ?thesis using True Cons.IH [of "insert (upper l) present" "Suc i" "done @ [l]"] Cons.prems by simp
  next
    case False
    with Cons.IH [of present "Suc i" "done @ [l]"] Cons.prems show ?thesis by auto
  qed
qed simp

section \<open>Properties\<close>

text \<open>C24: undoing an optimistic action right after it restores the labels, in their order, for labels
  that are distinct without regard to case.\<close>

theorem undo_restores_the_labels:
  assumes "distinct (map upper previous)"
  shows "labels_after_failed_action (labels_after_action previous action) previous action = previous"
proof -
  let ?after = "labels_after_action previous action" and ?hit = "affected_labels previous action"
  let ?un = "filter (\<lambda>l. upper l \<notin> ?hit)"
  have distinct: "distinct previous" using assms by (simp add: distinct_map)
  then have kept: "dict_fromkeys previous = previous" by (rule dict_fromkeys_distinct)
  have "distinct ?after"
    using distinct added_upper [of action]
    by (auto simp: labels_after_action_alt kept drop_labels_def Let_def intro!: distinct_add_label split: option.split)
  then have same: "dict_fromkeys ?after = ?after" by (rule dict_fromkeys_distinct)
  have un: "?un ?after = ?un previous"
  proof -
    have "?un (drop_labels (dropped_by action) previous) = ?un previous"
      unfolding drop_labels_def filter_filter by (rule filter_cong) (auto simp: affected_alt)
    moreover have "?un (add_label l (drop_labels (dropped_by action) previous)) = ?un (drop_labels (dropped_by action) previous)"
      if "added_by action = Some l" for l
      using that added_upper [OF that] by (auto simp: add_label_def drop_labels_def affected_alt image_iff)
    ultimately show ?thesis by (simp add: labels_after_action_alt kept Let_def split: option.split)
  qed
  have "upper l \<notin> upper ` set (?un previous)" if "upper l \<in> ?hit" for l using that by auto
  with restore_exact [of previous ?hit "upper ` set (?un previous)" 0 "[]"] assms
  have "restore_labels ?hit 0 previous (upper ` set (?un previous)) (?un previous) = previous" by simp
  then show ?thesis by (simp only: labels_after_failed_action_def Let_def same un)
qed

text \<open>Undoing a failed action later touches only what that action changed. Whatever the labels are by
  now: a label is present afterwards iff it was present before the action, where the action
  changed it, and iff it is present now otherwise; the labels the action did not change keep their order.\<close>

theorem undo_touches_only_the_action:
  "(l \<in> upper ` set (labels_after_failed_action current previous action)) =
     (if l \<in> affected_labels previous action then l \<in> upper ` set previous else l \<in> upper ` set current)
   \<and> filter (\<lambda>l. upper l \<notin> affected_labels previous action) (labels_after_failed_action current previous action)
     = filter (\<lambda>l. upper l \<notin> affected_labels previous action) (dict_fromkeys current)"
proof
  let ?hit = "affected_labels previous action"
  let ?un = "filter (\<lambda>l. upper l \<notin> ?hit)"
  let ?kept = "?un (dict_fromkeys current)"
  let ?restored = "labels_after_failed_action current previous action"
  have un: "?un ?restored = ?kept"
    by (simp add: labels_after_failed_action_def Let_def restored_unaffected)
  then show "?un ?restored = ?un (dict_fromkeys current)" .
  have all: "upper ` set ?restored = upper ` set ?kept \<union> (upper ` set previous \<inter> ?hit)"
    using restored_membership [of "upper ` set ?kept" ?kept ?hit 0 previous]
    by (simp add: labels_after_failed_action_def Let_def)
  have kept: "upper ` set ?kept = upper ` set current - ?hit" by auto
  show "(l \<in> upper ` set ?restored) = (if l \<in> ?hit then l \<in> upper ` set previous else l \<in> upper ` set current)"
    unfolding all kept by auto
qed

section \<open>Witness\<close>

theorem undo_restores_the_labels_witness:
  "labels_after_failed_action (labels_after_action [''INBOX'', ''UNREAD''] Move_trash) [''INBOX'', ''UNREAD''] Move_trash
     = [''INBOX'', ''UNREAD'']"
  by (rule undo_restores_the_labels) (simp add: upper_def upper_char_def)

end
