(* ===== verification/Thread_Actions.thy ===== *)
theory Thread_Actions
  imports Import_State Action_Labels Send_Delivery
begin

text \<open>
  Optimistic mailbox actions: \<open>backend/app/services/mailbox_actions.py\<close> over the table
  \<open>gmail_pending_thread_actions\<close> of \<open>db/mail_groups.py\<close>. An action is stored under
  its client id, applied to the cached labels, performed on Gmail by a job, and
  undone when the job fails for good.

  Gmail, the rebuild of the touched mail groups and the emission of client events
  are arguments (record \<open>action_services\<close>). A client timestamp comes with the
  instants PostgreSQL and \<open>datetime.fromisoformat\<close> read it as. The stored labels
  are kept as the list of the dictionary's items.
\<close>

section \<open>Rows\<close>

datatype action_state = Action_queued | Action_applying | Action_applied | Action_failed

record action_row =
  pa_server_action_id :: string
  pa_client_action_id :: string
  pa_user_id :: string
  pa_gmail_account_id :: string
  pa_mailbox_thread_id :: string
  pa_target_message_id :: "string option"
  pa_action :: thread_action
  pa_state :: action_state
  pa_created_at :: instant
  pa_queued_at :: instant
  pa_applied_at :: "instant option"
  pa_error :: "string option"
  pa_previous_labels :: "(string \<times> string list) list"
  pa_updated_at :: instant

record action_db = mail_db +
  gmail_pending_thread_actions :: "action_row list"

record action_request =
  ar_client_action_id :: string
  ar_mailbox_thread_id :: string
  ar_target_message_id :: "string option"
  ar_action :: thread_action
  ar_created_at :: client_time
  ar_created_at_python :: "instant option"

definition own_action :: "'a action_db_scheme \<Rightarrow> connection \<Rightarrow> string \<Rightarrow> action_row \<Rightarrow> bool" where
  "own_action db conn user r \<longleftrightarrow> owned db conn user (pa_user_id r) (pa_gmail_account_id r)"

text \<open>\<open>_pending_thread_action_from_row\<close>: blank labels are dropped.\<close>

definition pending_thread_action_from_row :: "action_row \<Rightarrow> action_row" where
  "pending_thread_action_from_row r =
     r\<lparr>pa_previous_labels := map (\<lambda>(i, labels). (i, nonblank labels)) (pa_previous_labels r)\<rparr>"

section \<open>The table\<close>

definition new_action_row ::
    "instant \<Rightarrow> string \<Rightarrow> string \<Rightarrow> string \<Rightarrow> instant \<Rightarrow> action_request \<Rightarrow> (string \<times> string list) list \<Rightarrow> action_row" where
  "new_action_row now server_id user account created rq previous =
     \<lparr>pa_server_action_id = server_id, pa_client_action_id = ar_client_action_id rq, pa_user_id = user,
      pa_gmail_account_id = account, pa_mailbox_thread_id = ar_mailbox_thread_id rq,
      pa_target_message_id = ar_target_message_id rq, pa_action = ar_action rq, pa_state = Action_queued,
      pa_created_at = created, pa_queued_at = now, pa_applied_at = None, pa_error = None,
      pa_previous_labels = previous, pa_updated_at = now\<rparr>"

text \<open>\<open>INSERT .. ON CONFLICT (gmail_account_id, client_action_id) DO NOTHING\<close>, then the row that was there.\<close>

definition insert_action ::
    "instant \<Rightarrow> string \<Rightarrow> string \<Rightarrow> connection \<Rightarrow> action_request \<Rightarrow> (string \<times> string list) list
      \<Rightarrow> ('a action_db_scheme, action_row \<times> bool) eff" where
  "insert_action now server_id user conn rq previous db =
     (case (ct_instant (ar_created_at rq), scoped_account db conn user) of
        (None, _) \<Rightarrow> (Inl (OtherError ''DataError''), db)
      | (Some created, None) \<Rightarrow> (Inl IntegrityError, db)
      | (Some created, Some account) \<Rightarrow>
          if list_ex (\<lambda>r. pa_server_action_id r = server_id) (gmail_pending_thread_actions db)
          then (Inl IntegrityError, db)
          else if list_ex (\<lambda>r. pa_gmail_account_id r = account \<and> pa_client_action_id r = ar_client_action_id rq)
                 (gmail_pending_thread_actions db)
          then (case select_first (\<lambda>r. own_action db conn user r \<and> pa_client_action_id r = ar_client_action_id rq)
                       (gmail_pending_thread_actions db) of
                  None \<Rightarrow> (Inl (RuntimeError ''Failed to enqueue Gmail thread action''), db)
                | Some r \<Rightarrow> (Inr (r, False), db))
          else (let new = new_action_row now server_id user account created rq previous in
                (Inr (new, True),
                 db\<lparr>gmail_pending_thread_actions := gmail_pending_thread_actions db @ [new]\<rparr>)))"

definition upsert_pending_thread_action ::
    "instant \<Rightarrow> string \<Rightarrow> string \<Rightarrow> action_request \<Rightarrow> (string \<times> string list) list
      \<Rightarrow> ('a action_db_scheme, action_row \<times> bool) eff" where
  "upsert_pending_thread_action now server_id user rq previous =
     ebind (user_mail_write_transaction user None (\<lambda>conn. insert_action now server_id user conn rq previous))
       (\<lambda>(r, created). ereturn (pending_thread_action_from_row r, created))"

definition get_pending_thread_action :: "'a action_db_scheme \<Rightarrow> string \<Rightarrow> string \<Rightarrow> action_row option" where
  "get_pending_thread_action db user server_id =
     map_option pending_thread_action_from_row
       (select_first (\<lambda>r. own_action db (begin_connection db) user r \<and> pa_server_action_id r = server_id)
          (gmail_pending_thread_actions db))"

definition count_pending_thread_actions :: "'a action_db_scheme \<Rightarrow> string \<Rightarrow> nat" where
  "count_pending_thread_actions db user =
     length (filter (\<lambda>r. own_action db (begin_connection db) user r
        \<and> (pa_state r = Action_queued \<or> pa_state r = Action_applying)) (gmail_pending_thread_actions db))"

definition action_state_row :: "instant \<Rightarrow> action_state \<Rightarrow> bool \<Rightarrow> string option \<Rightarrow> action_row \<Rightarrow> action_row" where
  "action_state_row now state applied error r =
     r\<lparr>pa_state := state, pa_applied_at := (if applied then Some now else pa_applied_at r),
       pa_error := error, pa_updated_at := now\<rparr>"

definition update_pending_thread_action_state ::
    "instant \<Rightarrow> string \<Rightarrow> string \<Rightarrow> action_state \<Rightarrow> bool \<Rightarrow> string option \<Rightarrow> ('a action_db_scheme, action_row option) eff" where
  "update_pending_thread_action_state now user server_id state applied error =
     user_mail_write_transaction user None (\<lambda>conn db.
       let target = (\<lambda>r. own_action db conn user r \<and> pa_server_action_id r = server_id);
           f = action_state_row now state applied error
       in (Inr (map_option pending_thread_action_from_row (row_first (returning target f (gmail_pending_thread_actions db)))),
           db\<lparr>gmail_pending_thread_actions := update_where target f (gmail_pending_thread_actions db)\<rparr>))"

definition mark_pending_thread_action_applying :: "instant \<Rightarrow> string \<Rightarrow> string \<Rightarrow> ('a action_db_scheme, unit) eff" where
  "mark_pending_thread_action_applying now user server_id =
     ebind (update_pending_thread_action_state now user server_id Action_applying False None) (\<lambda>_. ereturn ())"

definition mark_pending_thread_action_applied ::
    "instant \<Rightarrow> string \<Rightarrow> string \<Rightarrow> ('a action_db_scheme, action_row option) eff" where
  "mark_pending_thread_action_applied now user server_id =
     update_pending_thread_action_state now user server_id Action_applied True None"

definition mark_pending_thread_action_failed ::
    "instant \<Rightarrow> string \<Rightarrow> string \<Rightarrow> string \<Rightarrow> ('a action_db_scheme, action_row option) eff" where
  "mark_pending_thread_action_failed now user server_id error =
     update_pending_thread_action_state now user server_id Action_failed False (Some (take 4000 error))"

section \<open>Services\<close>

record 's action_services =
  remote_thread :: "thread_action \<Rightarrow> string \<Rightarrow> ('s, unit) eff"
  remote_message :: "thread_action \<Rightarrow> string \<Rightarrow> ('s, unit) eff"
  rebuild_groups :: "string \<Rightarrow> string list \<Rightarrow> ('s, unit) eff"
  emit_event :: "string \<Rightarrow> (string \<times> json) list \<Rightarrow> ('s, unit) eff"
  ai_grouping_enabled :: bool

definition action_name :: "thread_action \<Rightarrow> string" where
  "action_name a =
     (case a of Archive \<Rightarrow> ''archive'' | Unarchive \<Rightarrow> ''unarchive'' | Mark_read \<Rightarrow> ''mark_read''
      | Mark_unread \<Rightarrow> ''mark_unread'' | Move_trash \<Rightarrow> ''move_trash'' | Restore_trash \<Rightarrow> ''restore_trash''
      | Mark_spam \<Rightarrow> ''mark_spam'' | Not_spam \<Rightarrow> ''not_spam'' | Star \<Rightarrow> ''star'' | Unstar \<Rightarrow> ''unstar''
      | Delete_forever \<Rightarrow> ''delete_forever'')"

definition thread_order_membership_action :: "thread_action \<Rightarrow> bool" where
  "thread_order_membership_action a \<longleftrightarrow> a \<noteq> Mark_read \<and> a \<noteq> Mark_unread"

text \<open>A message already gone counts as deleted.\<close>

definition forgive_missing :: "thread_action \<Rightarrow> ('s, unit) eff \<Rightarrow> ('s, unit) eff" where
  "forgive_missing action m =
     (if action = Delete_forever
      then etry m (\<lambda>e. if e = HttpError (Some 404) then ereturn () else eraise e) else m)"

definition apply_remote_action :: "'s action_services \<Rightarrow> thread_action \<Rightarrow> string \<Rightarrow> ('s, unit) eff" where
  "apply_remote_action sv action thread = forgive_missing action (remote_thread sv action thread)"

definition apply_remote_message_action :: "'s action_services \<Rightarrow> thread_action \<Rightarrow> string \<Rightarrow> ('s, unit) eff" where
  "apply_remote_message_action sv action message = forgive_missing action (remote_message sv action message)"

definition enqueue_projection_refresh ::
    "('a send_db_scheme) action_services \<Rightarrow> instant \<Rightarrow> string \<Rightarrow> string \<Rightarrow> int \<Rightarrow> ('a send_db_scheme, unit) eff" where
  "enqueue_projection_refresh sv now job_id user priority db =
     (if \<not> ai_grouping_enabled sv then (Inr (), db)
      else ebind (enqueue_job (background_jobs db) now job_id
             ((job_request_of ''projection_refresh'')
                \<lparr>rq_user_id := Some user, rq_dedupe_key := Some (''projection-refresh:'' @ user), rq_priority := priority,
                 rq_payload := [(''user_id'', JStr user)]\<rparr>)) (\<lambda>_. ereturn ()) db)"

definition enqueue_immediate_thread_order_refresh ::
    "instant \<Rightarrow> string \<Rightarrow> string \<Rightarrow> ('a send_db_scheme, bool) eff" where
  "enqueue_immediate_thread_order_refresh now job_id user db =
     etry (ebind (enqueue_job (background_jobs db) now job_id
             ((job_request_of ''gmail_thread_order_refresh'')
                \<lparr>rq_queue := ''slow'', rq_user_id := Some user,
                 rq_dedupe_key := Some (''gmail-thread-order-refresh:'' @ user @ '':membership-action''), rq_priority := 70,
                 rq_payload := [(''user_id'', JStr user), (''target_history_id'', JNull)]\<rparr>)) (\<lambda>_. ereturn True))
       (\<lambda>_. ereturn False) db"

definition changed_event :: "string \<Rightarrow> action_row \<Rightarrow> (string \<times> json) list" where
  "changed_event source r =
     [(''source'', JStr source), (''action'', JStr (action_name (pa_action r))),
      (''mailbox_thread_id'', JStr (pa_mailbox_thread_id r))]"

section \<open>Resolving the target\<close>

definition thread_ids_of :: "message_row list \<Rightarrow> string list" where
  "thread_ids_of ms = sort (remdups (concat (map (\<lambda>m. if truthy_str (gm_gmail_thread_id m)
     then [str_or_empty (gm_gmail_thread_id m)] else []) ms)))"

definition resolve_action_messages ::
    "'a mail_db_scheme \<Rightarrow> string \<Rightarrow> string \<Rightarrow> string option \<Rightarrow> message_row list \<times> string list" where
  "resolve_action_messages db user mailbox_thread target =
     (if truthy_str target then
        (let ms = list_messages_by_ids db user [str_or_empty target] in (ms, thread_ids_of ms))
      else
        (let ms = list_messages_for_gmail_thread db user mailbox_thread in
         if ms \<noteq> [] then (ms, thread_ids_of ms)
         else (case get_mail_group_detail db user mailbox_thread of
                 None \<Rightarrow> ([], [])
               | Some ms \<Rightarrow> (ms, thread_ids_of ms))))"

section \<open>Enqueueing\<close>

definition same_timestamp :: "instant \<Rightarrow> action_request \<Rightarrow> bool" where
  "same_timestamp created rq \<longleftrightarrow> ar_created_at_python rq = Some created"

definition action_request_matches :: "action_row \<Rightarrow> action_request \<Rightarrow> bool" where
  "action_request_matches r rq \<longleftrightarrow>
     pa_mailbox_thread_id r = ar_mailbox_thread_id rq \<and> pa_target_message_id r = ar_target_message_id rq
     \<and> pa_action r = ar_action rq \<and> same_timestamp (pa_created_at r) rq"

definition changed_labels :: "(message_row \<Rightarrow> string list) \<Rightarrow> message_row list \<Rightarrow> (string \<times> string list) list" where
  "changed_labels f ms = map (\<lambda>m. (gm_message_id m, f m)) (filter (\<lambda>m. f m \<noteq> gm_label_ids m) ms)"

definition apply_local_action ::
    "('a action_db_scheme) action_services \<Rightarrow> instant \<Rightarrow> string \<Rightarrow> thread_action \<Rightarrow> message_row list
      \<Rightarrow> ('a action_db_scheme, unit) eff" where
  "apply_local_action sv now user action messages =
     (let changed = changed_labels (\<lambda>m. labels_after_action (gm_label_ids m) action) messages in
      if changed = [] then ereturn ()
      else ebind (force_update_gmail_message_labels now user changed) (\<lambda>_.
           rebuild_groups sv user (map fst changed)))"

definition enqueue_action_job :: "instant \<Rightarrow> string \<Rightarrow> string \<Rightarrow> action_row \<Rightarrow> ('a send_db_scheme, job_row) eff" where
  "enqueue_action_job now job_id user r db =
     enqueue_job (background_jobs db) now job_id
       ((job_request_of ''gmail_thread_action'')
          \<lparr>rq_user_id := Some user,
           rq_dedupe_key := Some (''gmail-thread-action:'' @ user @ '':'' @ pa_server_action_id r), rq_priority := 70,
           rq_payload := [(''user_id'', JStr user), (''server_action_id'', JStr (pa_server_action_id r))]\<rparr>) db"

definition enqueue_thread_action ::
    "('a action_db_scheme) action_services \<Rightarrow> instant \<Rightarrow> string \<Rightarrow> string \<Rightarrow> string \<Rightarrow> string \<Rightarrow> action_request
      \<Rightarrow> ('a action_db_scheme, action_row) eff" where
  "enqueue_thread_action sv now server_id job_id refresh_id user rq db =
     (let messages = (if ar_action rq = Delete_forever then []
                      else fst (resolve_action_messages db user (ar_mailbox_thread_id rq) (ar_target_message_id rq)));
          previous = map (\<lambda>m. (gm_message_id m, gm_label_ids m)) messages
      in ebind (upsert_pending_thread_action now server_id user rq previous) (\<lambda>(r, created).
           if \<not> created then
             (if action_request_matches r rq then ereturn r else eraise ThreadActionIdempotencyConflict)
           else
             ebind (if pa_action r = Delete_forever then ereturn ()
                    else apply_local_action sv now user (pa_action r) messages) (\<lambda>_.
             ebind (enqueue_action_job now job_id user r) (\<lambda>_.
             ebind (enqueue_projection_refresh sv now refresh_id user 10) (\<lambda>_.
             ebind (emit_event sv user (changed_event ''thread_action'' r)) (\<lambda>_.
             ereturn r))))) db)"

section \<open>Performing an action\<close>

fun apply_to_threads :: "'s action_services \<Rightarrow> thread_action \<Rightarrow> string list \<Rightarrow> ('s, unit) eff" where
  "apply_to_threads sv action [] = ereturn ()"
| "apply_to_threads sv action (t # ts) =
     ebind (apply_remote_action sv action t) (\<lambda>_. apply_to_threads sv action ts)"

text \<open>The Gmail part: one message where the action names one and is not about the inbox, else every thread.\<close>

definition perform_remote ::
    "'s action_services \<Rightarrow> action_row \<Rightarrow> message_row list \<Rightarrow> string list \<Rightarrow> ('s, unit) eff" where
  "perform_remote sv r messages threads =
     (if \<not> truthy_str (pa_target_message_id r) \<and> threads = [] \<and> messages = []
      then eraise (RuntimeError ''Mail group not found'')
      else if truthy_str (pa_target_message_id r) \<and> messages = []
      then eraise (RuntimeError ''Gmail message not found'')
      else if truthy_str (pa_target_message_id r) \<and> pa_action r \<noteq> Archive \<and> pa_action r \<noteq> Unarchive
      then apply_remote_message_action sv (pa_action r) (str_or_empty (pa_target_message_id r))
      else if threads = [] then eraise (RuntimeError ''No Gmail thread IDs found for mailbox thread'')
      else apply_to_threads sv (pa_action r) threads)"

definition finish_action ::
    "('a action_db_scheme) action_services \<Rightarrow> instant \<Rightarrow> string \<Rightarrow> string \<Rightarrow> string \<Rightarrow> action_row \<Rightarrow> message_row list
      \<Rightarrow> ('a action_db_scheme, action_row) eff" where
  "finish_action sv now order_id refresh_id user r messages =
     ebind (if pa_action r = Delete_forever
            then ebind (delete_gmail_messages now user (map gm_message_id messages))
                   (\<lambda>groups. ebind (prune_empty_mail_groups now user groups) (\<lambda>_. ereturn ()))
            else ereturn ()) (\<lambda>_.
     ebind (mark_pending_thread_action_applied now user (pa_server_action_id r)) (\<lambda>applied.
     ebind (if applied \<noteq> None \<and> thread_order_membership_action (pa_action r)
            then enqueue_immediate_thread_order_refresh now order_id user else ereturn False) (\<lambda>_.
     ebind (enqueue_projection_refresh sv now refresh_id user 10) (\<lambda>_.
     ebind (emit_event sv user (changed_event ''thread_action_applied'' r)) (\<lambda>_.
     ereturn (case applied of None \<Rightarrow> r | Some a \<Rightarrow> a))))))"

definition perform_action ::
    "('a action_db_scheme) action_services \<Rightarrow> instant \<Rightarrow> string \<Rightarrow> string \<Rightarrow> string \<Rightarrow> action_row
      \<Rightarrow> ('a action_db_scheme, action_row) eff" where
  "perform_action sv now order_id refresh_id user r =
     ebind (mark_pending_thread_action_applying now user (pa_server_action_id r)) (\<lambda>_.
     ebind (eget (\<lambda>db. resolve_action_messages db user (pa_mailbox_thread_id r) (pa_target_message_id r))) (\<lambda>(messages, threads).
     ebind (perform_remote sv r messages threads) (\<lambda>_.
     finish_action sv now order_id refresh_id user r messages)))"

definition run_pending_thread_action ::
    "('a action_db_scheme) action_services \<Rightarrow> instant \<Rightarrow> string \<Rightarrow> string \<Rightarrow> string \<Rightarrow> string
      \<Rightarrow> ('a action_db_scheme, action_row option) eff" where
  "run_pending_thread_action sv now order_id refresh_id user server_id =
     ebind (eget (\<lambda>db. get_pending_thread_action db user server_id)) (\<lambda>found.
       case found of
         None \<Rightarrow> ereturn None
       | Some r \<Rightarrow>
           if pa_state r = Action_applied then ereturn (Some r)
           else etry
             (ebind (shared_user_mail_lock user (perform_action sv now order_id refresh_id user r)) (\<lambda>a. ereturn (Some a)))
             (\<lambda>e. if e = UserMailWorkBlocked then eraise e
                  else ebind (mark_pending_thread_action_failed now user server_id (safe_google_error ''mailbox update'' e))
                         (\<lambda>_. eraise e)))"

section \<open>Rolling back\<close>

definition previous_labels_of :: "action_row \<Rightarrow> string \<Rightarrow> string list" where
  "previous_labels_of r i = (case map_of (pa_previous_labels r) i of None \<Rightarrow> [] | Some ls \<Rightarrow> ls)"

definition rollback_failed_thread_action ::
    "('a action_db_scheme) action_services \<Rightarrow> instant \<Rightarrow> string \<Rightarrow> string \<Rightarrow> string \<Rightarrow> ('a action_db_scheme, bool) eff" where
  "rollback_failed_thread_action sv now refresh_id user server_id db =
     (case get_pending_thread_action db user server_id of
        None \<Rightarrow> (Inr False, db)
      | Some r \<Rightarrow>
          if pa_state r = Action_applied \<or> pa_previous_labels r = [] then (Inr False, db)
          else
            (let messages = list_messages_by_ids db user (map fst (pa_previous_labels r));
                 restored = changed_labels
                   (\<lambda>m. labels_after_failed_action (gm_label_ids m) (previous_labels_of r (gm_message_id m)) (pa_action r))
                   (filter (\<lambda>m. gm_message_id m \<in> set (map fst (pa_previous_labels r))) messages)
             in if restored = [] then (Inr False, db)
                else ebind (force_update_gmail_message_labels now user restored) (\<lambda>_.
                     ebind (rebuild_groups sv user (map fst restored)) (\<lambda>_.
                     ebind (enqueue_projection_refresh sv now refresh_id user 10) (\<lambda>_.
                     ebind (emit_event sv user (changed_event ''thread_action_rollback'' r)) (\<lambda>_.
                     ereturn True)))) db))"

end
