(* ===== verification/Action_Safety.thy ===== *)
theory Action_Safety
  imports Thread_Actions Message_Laws
begin

text \<open>
  What the durable actions guarantee: an action id names one row, an action that
  succeeded is never performed again, and one that failed is recorded as failed
  with a text that names no secret.
\<close>

section \<open>One row per client id\<close>

definition action_key :: "action_row \<Rightarrow> string option \<times> string" where
  "action_key r = (Some (pa_gmail_account_id r), pa_client_action_id r)"

definition submit_action ::
    "instant \<times> string \<times> string \<times> connection \<times> action_request \<times> (string \<times> string list) list
      \<Rightarrow> ('a action_db_scheme, action_row) eff" where
  "submit_action = (\<lambda>(now, server_id, user, conn, rq, previous).
     ebind (insert_action now server_id user conn rq previous) (\<lambda>(r, created). ereturn r))"

lemma insert_action_cases:
  assumes "insert_action now server_id user conn rq previous db = (res, db')"
  obtains (failed) e where "res = Inl e" "db' = db"
  | (found) old account where "scoped_account db conn user = Some account" "res = Inr (old, False)" "db' = db"
      "old \<in> set (gmail_pending_thread_actions db)" "action_key old = (Some account, ar_client_action_id rq)"
  | (added) new account where "scoped_account db conn user = Some account" "res = Inr (new, True)"
      "db' = db\<lparr>gmail_pending_thread_actions := gmail_pending_thread_actions db @ [new]\<rparr>"
      "action_key new = (Some account, ar_client_action_id rq)"
      "\<forall>r \<in> set (gmail_pending_thread_actions db). action_key r \<noteq> action_key new"
      "\<forall>r \<in> set (gmail_pending_thread_actions db). pa_server_action_id r \<noteq> server_id"
proof -
  let ?rows = "gmail_pending_thread_actions db"
  show thesis
  proof (cases "ct_instant (ar_created_at rq)")
    case None
    with assms failed show thesis by (auto simp: insert_action_def)
  next
    case time: (Some created)
    show thesis
    proof (cases "scoped_account db conn user")
      case None
      with time assms failed show thesis by (auto simp: insert_action_def)
    next
      case scope: (Some account)
      let ?same = "\<lambda>r. pa_gmail_account_id r = account \<and> pa_client_action_id r = ar_client_action_id rq"
      show thesis
      proof (cases "list_ex (\<lambda>r. pa_server_action_id r = server_id) ?rows")
        case True
        with time scope assms failed show thesis by (auto simp: insert_action_def)
      next
        case fresh: False
        show thesis
        proof (cases "list_ex ?same ?rows")
          case False
          let ?new = "new_action_row now server_id user account created rq previous"
          have "action_key ?new = (Some account, ar_client_action_id rq)" by (simp add: action_key_def new_action_row_def)
          moreover from False this have "\<forall>r \<in> set ?rows. action_key r \<noteq> action_key ?new" by (auto simp: action_key_def list_ex_iff)
          moreover have "res = Inr (?new, True)" "db' = db\<lparr>gmail_pending_thread_actions := ?rows @ [?new]\<rparr>"
            using assms time scope fresh False by (simp_all add: insert_action_def Let_def)
          moreover have "\<forall>r \<in> set ?rows. pa_server_action_id r \<noteq> server_id" using fresh by (auto simp: list_ex_iff)
          ultimately show thesis using added [of account ?new] scope by simp
        next
          case True
          show thesis
          proof (cases "select_first (\<lambda>r. own_action db conn user r \<and> pa_client_action_id r = ar_client_action_id rq) ?rows")
            case None
            with True fresh time scope assms failed show thesis by (auto simp: insert_action_def)
          next
            case (Some old)
            from select_first_Some [OF this] scope have "old \<in> set ?rows" "action_key old = (Some account, ar_client_action_id rq)"
              by (auto simp: action_key_def own_action_def owned_def row_visible_def)
            with found [of account old] True fresh time scope Some assms show thesis by (auto simp: insert_action_def)
          qed
        qed
      qed
    qed
  qed
qed

interpretation actions: keyed_submission gmail_pending_thread_actions action_key pa_server_action_id
    "\<lambda>db (now, server_id, user, conn, rq, previous). (scoped_account db conn user, ar_client_action_id rq)" submit_action
proof
  fix q s r s'
  assume unique: "distinct (map action_key (gmail_pending_thread_actions s))" and run: "submit_action q s = (Inr r, s')"
  obtain now server_id user conn rq previous where q: "q = (now, server_id, user, conn, rq, previous)" by (metis prod_cases6)
  obtain res s1 where ins: "insert_action now server_id user conn rq previous s = (res, s1)"
    by (cases "insert_action now server_id user conn rq previous s")
  from run obtain created where res: "res = Inr (r, created)" "s1 = s'"
    by (auto simp: q submit_action_def ebind_apply ins split: outcome_splits)
  from ins show "action_key r = (case q of (now, server_id, user, conn, rq, previous) \<Rightarrow> (scoped_account s conn user, ar_client_action_id rq))
      \<and> ((\<exists>old\<in>set (gmail_pending_thread_actions s). action_key old = action_key r \<and> pa_server_action_id old = pa_server_action_id r
            \<and> gmail_pending_thread_actions s' = map (\<lambda>x. if action_key x = action_key r then r else x) (gmail_pending_thread_actions s))
         \<or> ((\<forall>x\<in>set (gmail_pending_thread_actions s). action_key x \<noteq> action_key r)
            \<and> gmail_pending_thread_actions s' = gmail_pending_thread_actions s @ [r]))"
  proof (cases rule: insert_action_cases)
    case (found old account)
    with res have "r = old" "s' = s" by simp_all
    with found unique map_if_same_key [of action_key "gmail_pending_thread_actions s" old] show ?thesis
      by (auto simp: q)
  qed (use res in \<open>auto simp: q\<close>)
next
  fix q s e s'
  assume run: "submit_action q s = (Inl e, s')"
  obtain now server_id user conn rq previous where q: "q = (now, server_id, user, conn, rq, previous)" by (metis prod_cases6)
  obtain res s1 where ins: "insert_action now server_id user conn rq previous s = (res, s1)"
    by (cases "insert_action now server_id user conn rq previous s")
  with run have "res = Inl e \<and> s1 = s'" by (auto simp: q submit_action_def ebind_apply split: outcome_splits)
  with ins show "gmail_pending_thread_actions s' = gmail_pending_thread_actions s"
    by (cases rule: insert_action_cases) auto
qed

section \<open>Settled actions\<close>

definition action_settled :: "string \<Rightarrow> string \<Rightarrow> (action_row \<Rightarrow> bool) \<Rightarrow> 'a action_db_scheme \<Rightarrow> bool" where
  "action_settled user server_id p db \<longleftrightarrow>
     (\<forall>r \<in> set (gmail_pending_thread_actions db). own_action db (begin_connection db) user r
        \<and> pa_server_action_id r = server_id \<longrightarrow> p r)"


lemma own_action_connection: "own_action db (guard_connection db user None) user r = own_action db (begin_connection db) user r"
  by (simp add: own_action_def owned_def row_visible_def scoped_account_def guard_connection_def begin_connection_def)





section \<open>Marks\<close>

lemma marked_settles:
  assumes "update_pending_thread_action_state now user server_id state applied error db = (Inr x, db')"
  shows "action_settled user server_id (\<lambda>r. pa_state r = state \<and> pa_error r = error) db'"
proof -
  from write_transaction_Inr [OF assms [unfolded update_pending_thread_action_state_def]]
  have db': "db' = db\<lparr>gmail_pending_thread_actions :=
      update_where (\<lambda>r. own_action db (guard_connection db user None) user r \<and> pa_server_action_id r = server_id)
        (action_state_row now state applied error) (gmail_pending_thread_actions db)\<rparr>"
    by (simp add: Let_def)
  have own: "own_action db' (begin_connection db') user r = own_action db (begin_connection db) user r" for r
    by (simp add: db' own_action_def owned_def row_visible_def scoped_account_def primary_account_def begin_connection_def)
  have same: "own_action db (begin_connection db) user (action_state_row now state applied error r)
      = own_action db (begin_connection db) user r" for r
    by (simp add: action_state_row_def own_action_def)
  show ?thesis
    unfolding action_settled_def own
  proof (intro ballI impI)
    fix r' assume r': "r' \<in> set (gmail_pending_thread_actions db')"
      "own_action db (begin_connection db) user r' \<and> pa_server_action_id r' = server_id"
    let ?p = "\<lambda>r. own_action db (guard_connection db user None) user r \<and> pa_server_action_id r = server_id"
    from r'(1) obtain r where r: "r' = (if ?p r then action_state_row now state applied error r else r)"
      unfolding db' by (auto simp: in_update_where simp del: if_split)
    have "?p r"
    proof (rule ccontr)
      assume hit: "\<not> ?p r"
      with r have "r' = r" by (simp only: if_False)
      with hit r'(2) show False by (simp add: own_action_connection)
    qed
    have "r' = action_state_row now state applied error r" by (rule trans [OF r if_P [OF \<open>?p r\<close>]])
    then show "pa_state r' = state \<and> pa_error r' = error" by (simp add: action_state_row_def)
  qed
qed

lemma marks_fail_by_guard:
  assumes "update_pending_thread_action_state now user server_id state applied error db = (Inl e, db')"
  shows "e = AdvisoryLockUnavailable \<or> e = UserMailWorkBlocked"
proof (rule write_transaction_refused [OF assms [unfolded update_pending_thread_action_state_def]])
  fix conn
  show "\<exists>x s. (let target = \<lambda>r. own_action db conn user r \<and> pa_server_action_id r = server_id;
          f = action_state_row now state applied error
        in (Inr (map_option pending_thread_action_from_row (row_first (returning target f (gmail_pending_thread_actions db)))),
            db\<lparr>gmail_pending_thread_actions := update_where target f (gmail_pending_thread_actions db)\<rparr>))
      = (Inr x, s)"
    unfolding Let_def by blast
qed

section \<open>Performing once\<close>




section \<open>Properties\<close>


text \<open>C23: a failed attempt is recorded. If a run of the job raises, then either the guard refused the write, because
  the user's data is being disconnected or deleted, or the stored action is marked failed with the
  category of that error: never left as applying, and never marked applied.\<close>

theorem failed_action_is_recorded:
  fixes db :: "'a action_db_scheme"
  assumes "run_pending_thread_action sv now order_id refresh_id user server_id db = (Inl e, db')"
  shows "e = UserMailWorkBlocked \<or> e = AdvisoryLockUnavailable
    \<or> action_settled user server_id
        (\<lambda>r. pa_state r = Action_failed \<and> pa_error r = Some (take 4000 (safe_google_error ''mailbox update'' e))) db'"
proof -
  from assms obtain r where r: "get_pending_thread_action db user server_id = Some r" "pa_state r \<noteq> Action_applied"
    by (auto simp: run_pending_thread_action_def ebind_apply split: option.splits if_splits)
  obtain x db0 where lock: "shared_user_mail_lock user (perform_action sv now order_id refresh_id user r) db = (x, db0)"
    by (cases "shared_user_mail_lock user (perform_action sv now order_id refresh_id user r) db")
  from assms r lock obtain e0 where "x = Inl e0"
    by (cases x) (simp_all add: run_pending_thread_action_def ebind_apply etry_apply)
  with assms r lock have body: "(if e0 = UserMailWorkBlocked then eraise e0
      else ebind (mark_pending_thread_action_failed now user server_id (safe_google_error ''mailbox update'' e0)) (\<lambda>_. eraise e0)) db0
      = (Inl e, db' :: 'a action_db_scheme)"
    by (simp add: run_pending_thread_action_def ebind_apply etry_apply split: if_splits prod.splits sum.splits)
  show ?thesis
  proof (cases "e0 = UserMailWorkBlocked")
    case True
    with body show ?thesis by simp
  next
    case False
    obtain m db1 where m: "mark_pending_thread_action_failed now user server_id (safe_google_error ''mailbox update'' e0) db0 = (m, db1)"
      by (cases "mark_pending_thread_action_failed now user server_id (safe_google_error ''mailbox update'' e0) db0")
    show ?thesis
    proof (cases m)
      case (Inl e1)
      with marks_fail_by_guard [OF m [unfolded mark_pending_thread_action_failed_def Inl]] body m False show ?thesis
        by (auto simp: ebind_apply)
    next
      case (Inr x)
      with marked_settles [OF m [unfolded mark_pending_thread_action_failed_def Inr]] body m False show ?thesis
        by (auto simp: ebind_apply)
    qed
  qed
qed

text \<open>A resubmitted action has no effect. When the account already has an action under the client id, a
  submission answers with the stored action, in its current state, if it names the same mutation, and is
  refused if it does not; either way nothing changes: no label, no job, no event.\<close>

theorem resubmitted_action_has_no_effect:
  assumes "guard_passes db user None" and "distinct (map action_key (gmail_pending_thread_actions db))"
    and "r \<in> set (gmail_pending_thread_actions db)" and "own_action db (begin_connection db) user r"
    and "pa_client_action_id r = ar_client_action_id rq" and "ct_instant (ar_created_at rq) \<noteq> None"
    and "\<forall>x \<in> set (gmail_pending_thread_actions db). pa_server_action_id x \<noteq> server_id"
  shows "enqueue_thread_action sv now server_id job_id refresh_id user rq db
    = (if action_request_matches r rq then Inr (pending_thread_action_from_row r) else Inl ThreadActionIdempotencyConflict, db)"
proof -
  let ?rows = "gmail_pending_thread_actions db" and ?conn = "guard_connection db user None"
  have own: "own_action db ?conn user r" using assms(4) by (simp add: own_action_connection)
  then have scope: "scoped_account db ?conn user = Some (pa_gmail_account_id r)"
    by (simp add: own_action_def owned_def row_visible_def)
  have first: "select_first (\<lambda>x. own_action db ?conn user x \<and> pa_client_action_id x = ar_client_action_id rq) ?rows = Some r"
    by (rule select_first_unique [OF assms(2,3)])
      (use own scope assms(5) in \<open>auto simp: action_key_def own_action_def owned_def row_visible_def\<close>)
  have "\<not> list_ex (\<lambda>x. pa_server_action_id x = server_id) ?rows" using assms(7) by (simp add: list_ex_iff)
  moreover have "list_ex (\<lambda>x. pa_gmail_account_id x = pa_gmail_account_id r \<and> pa_client_action_id x = ar_client_action_id rq) ?rows"
    using assms(3,5) by (auto simp: list_ex_iff)
  ultimately have insert: "insert_action now server_id user ?conn rq previous db = (Inr (r, False), db)" for previous
    using assms(6) scope first by (auto simp: insert_action_def)
  have "upsert_pending_thread_action now server_id user rq previous db = (Inr (pending_thread_action_from_row r, False), db)" for previous
    using insert assms(1) by (simp add: upsert_pending_thread_action_def ebind_apply write_transaction_passes etransaction_apply)
  moreover have "action_request_matches (pending_thread_action_from_row r) rq = action_request_matches r rq"
    by (simp add: action_request_matches_def pending_thread_action_from_row_def)
  ultimately show ?thesis by (simp add: enqueue_thread_action_def ebind_apply Let_def)
qed

section \<open>Witnesses\<close>

definition sample_action :: "action_state \<Rightarrow> action_row" where
  "sample_action state =
     \<lparr>pa_server_action_id = ''a1'', pa_client_action_id = ''c1'', pa_user_id = ''u1'', pa_gmail_account_id = ''u1'',
      pa_mailbox_thread_id = ''t1'', pa_target_message_id = None, pa_action = Archive, pa_state = state,
      pa_created_at = 3, pa_queued_at = 4, pa_applied_at = None, pa_error = None,
      pa_previous_labels = [], pa_updated_at = 4\<rparr>"

definition sample_action_db :: "action_row list \<Rightarrow> action_db" where
  "sample_action_db rows =
     \<lparr>users = [sample_user], google_oauth_tokens = [sample_token],
      gmail_accounts = [sample_account], advisory_locks = [], next_session = 0, active_lock_session = None,
      active_gmail_account = None, app_sessions = [], oauth_login_sessions = [], mobile_login_codes = [],
     mobile_oauth_handoffs = [], google_subject_tombstones = [], identity_epoch = 0, rate_limit_buckets = [],
     allowed_emails = [], migration_audits = [], background_jobs = [], background_job_events = [], worker_heartbeats = [],
      gmail_pending_sends = [], gmail_import_states = [], gmail_messages = [],
      initial_window_entries = [], reconcile_seen = [], mail_groups = [], mail_group_members = [],
      gmail_pending_thread_actions = rows\<rparr>"

definition sample_action_request :: action_request where
  "sample_action_request = \<lparr>ar_client_action_id = ''c1'', ar_mailbox_thread_id = ''t1'', ar_target_message_id = None,
     ar_action = Star, ar_created_at = \<lparr>ct_text = ''2026'', ct_instant = Some 3\<rparr>, ar_created_at_python = Some 3\<rparr>"

definition quiet_gmail :: "action_db action_services" where
  "quiet_gmail = \<lparr>remote_thread = (\<lambda>_ _. ereturn ()), remote_message = (\<lambda>_ _. ereturn ()),
     rebuild_groups = (\<lambda>_ _. ereturn ()), emit_event = (\<lambda>_ _. ereturn ()), ai_grouping_enabled = False\<rparr>"

lemmas sample_action_simps = sample_action_db_def sample_user_def sample_token_def sample_account_def sample_action_def

lemma sample_action_guard: "guard_passes (sample_action_db rows) ''u1'' None"
  by (simp add: guard_passes_def exclusively_held_def user_mail_work_allowed_def sample_action_simps)

lemma sample_action_own: "own_action (sample_action_db rows) (begin_connection (sample_action_db rows)) ''u1'' (sample_action state)"
  by (simp add: own_action_def owned_def row_visible_def scoped_account_def primary_account_def begin_connection_def
      nonempty_def sample_action_simps)

theorem resubmitted_action_has_no_effect_witness:
  "enqueue_thread_action quiet_gmail 9 ''a2'' ''j1'' ''j2'' ''u1'' sample_action_request (sample_action_db [sample_action Action_applied])
   = (Inl ThreadActionIdempotencyConflict, sample_action_db [sample_action Action_applied])"
proof -
  let ?db = "sample_action_db [sample_action Action_applied]"
  have rows: "gmail_pending_thread_actions ?db = [sample_action Action_applied]" by (simp add: sample_action_db_def)
  have "\<not> action_request_matches (sample_action Action_applied) sample_action_request"
    by (simp add: action_request_matches_def sample_action_def sample_action_request_def)
  moreover have "enqueue_thread_action quiet_gmail 9 ''a2'' ''j1'' ''j2'' ''u1'' sample_action_request ?db
      = (if action_request_matches (sample_action Action_applied) sample_action_request
         then Inr (pending_thread_action_from_row (sample_action Action_applied)) else Inl ThreadActionIdempotencyConflict, ?db)"
    by (rule resubmitted_action_has_no_effect [OF sample_action_guard _ _ sample_action_own])
      (simp_all add: rows, simp_all add: sample_action_request_def sample_action_def)
  ultimately show ?thesis by simp
qed

lemmas action_run_simps = run_pending_thread_action_def get_pending_thread_action_def ebind_apply etry_apply efinally_apply
    own_action_def owned_def row_visible_def scoped_account_def primary_account_def begin_connection_def nonempty_def
    sample_action_simps pending_thread_action_from_row_def shared_user_mail_lock_def advisory_lock_scope_def advisory_lock_connection_def
    lock_compatible_def require_user_mail_work_allowed_def user_mail_work_allowed_def perform_action_def
    mark_pending_thread_action_applying_def update_pending_thread_action_state_def user_mail_write_transaction_def
    etransaction_apply guard_outcome exclusively_held_def Let_def action_state_row_def update_where_def
    resolve_action_messages_def list_messages_for_gmail_thread_def own_messages_def own_message_def sample_message_def thread_key_def
    strip_def lstrip_def rstrip_def is_space_def oldest_first_def thread_ids_of_def perform_remote_def
    apply_remote_action_def forgive_missing_def quiet_gmail_def finish_action_def mark_pending_thread_action_applied_def
    thread_order_membership_action_def enqueue_projection_refresh_def

definition unread_db :: action_db where
  "unread_db = (sample_action_db [(sample_action Action_queued)\<lparr>pa_action := Mark_read\<rparr>])
     \<lparr>gmail_messages := [sample_message ''m1'' None [''UNREAD'']]\<rparr>"

definition failing_gmail :: "action_db action_services" where
  "failing_gmail = quiet_gmail\<lparr>remote_thread := (\<lambda>_ _. eraise (HttpError (Some 500)))\<rparr>"


lemma failing_run: "\<exists>e db'. run_pending_thread_action failing_gmail 9 ''j1'' ''j2'' ''u1'' ''a1'' unread_db = (Inl e, db')"
  by (simp add: unread_db_def failing_gmail_def mark_pending_thread_action_failed_def action_run_simps)


theorem failed_action_is_recorded_witness:
  "\<exists>e db'. run_pending_thread_action failing_gmail 9 ''j1'' ''j2'' ''u1'' ''a1'' unread_db = (Inl e, db')
     \<and> (e = UserMailWorkBlocked \<or> e = AdvisoryLockUnavailable \<or> action_settled ''u1'' ''a1''
          (\<lambda>r. pa_state r = Action_failed \<and> pa_error r = Some (take 4000 (safe_google_error ''mailbox update'' e))) db')"
  using failing_run failed_action_is_recorded by blast

end
