(* ===== verification/Py_Json.thy ===== *)
theory Py_Json
  imports Py_Encoding
begin

text \<open>
  Reading what \<open>Py_Encoding\<close> writes: \<open>json.loads\<close> and the URL-safe base64 coder of the
  Python standard library, both total on any text. The values are those of the type
  \<open>json\<close>: a text with a fraction, an exponent, an infinity or a character beyond
  Latin-1 counts as unreadable here, and so do decoded bytes that are not ASCII.

  The parser has fuel. Every call consumes a character, so the length of the text is
  enough (\<open>parse_dumps\<close>).
\<close>

section \<open>Scanning JSON\<close>

definition skip_ws :: "string \<Rightarrow> string" where
  "skip_ws s = dropWhile (\<lambda>c. (of_char c :: nat) \<in> {9, 10, 13, 32}) s"

definition hex_val :: "char \<Rightarrow> nat option" where
  "hex_val c =
     (let n = of_char c :: nat in
      if 48 \<le> n \<and> n \<le> 57 then Some (n - 48)
      else if 65 \<le> n \<and> n \<le> 70 then Some (n - 55)
      else if 97 \<le> n \<and> n \<le> 102 then Some (n - 87)
      else None)"

definition hex4 :: "char \<Rightarrow> char \<Rightarrow> char \<Rightarrow> char \<Rightarrow> nat option" where
  "hex4 a b c d =
     (case (hex_val a, hex_val b, hex_val c, hex_val d) of
        (Some w, Some x, Some y, Some z) \<Rightarrow> Some (((w * 16 + x) * 16 + y) * 16 + z)
      | _ \<Rightarrow> None)"

definition simple_escape :: "char \<Rightarrow> char option" where
  "simple_escape c =
     (let n = of_char c :: nat in
      if n = 34 \<or> n = 92 \<or> n = 47 then Some c
      else if c = CHR ''n'' then Some (char_of (10::nat))
      else if c = CHR ''r'' then Some (char_of (13::nat))
      else if c = CHR ''t'' then Some (char_of (9::nat))
      else if c = CHR ''b'' then Some (char_of (8::nat))
      else if c = CHR ''f'' then Some (char_of (12::nat))
      else None)"

definition econs :: "'a \<Rightarrow> ('a list \<times> 'b) option \<Rightarrow> ('a list \<times> 'b) option" where
  "econs x = map_option (\<lambda>(xs, r). (x # xs, r))"

lemma econs_simps [simp]: "econs x None = None" "econs x (Some (xs, r)) = Some (x # xs, r)"
  by (simp_all add: econs_def)

text \<open>The characters of a string literal, after its opening quote.\<close>

fun scan_string :: "string \<Rightarrow> (string \<times> string) option" where
  "scan_string [] = None"
| "scan_string (c # s) =
     (if (of_char c :: nat) = 34 then Some ('''', s)
      else if (of_char c :: nat) < 32 then None
      else if (of_char c :: nat) \<noteq> 92 then econs c (scan_string s)
      else
        (case s of
           [] \<Rightarrow> None
         | e # r \<Rightarrow>
             if e = CHR ''u'' then
               (case r of
                  h1 # h2 # h3 # h4 # t \<Rightarrow>
                    (case hex4 h1 h2 h3 h4 of
                       None \<Rightarrow> None
                     | Some n \<Rightarrow> if n < 256 then econs (char_of n) (scan_string t) else None)
                | _ \<Rightarrow> None)
             else (case simple_escape e of None \<Rightarrow> None | Some d \<Rightarrow> econs d (scan_string r))))"

text \<open>An integer literal without leading zeros; the character after it must not continue a number.\<close>

definition scan_nat :: "string \<Rightarrow> (nat \<times> string) option" where
  "scan_nat s =
     (let ds = takeWhile is_digit s; r = dropWhile is_digit s in
      if ds = '''' then None
      else if hd ds = CHR ''0'' \<and> ds \<noteq> ''0'' then None
      else if r \<noteq> [] \<and> hd r \<in> {CHR ''.'', CHR ''e'', CHR ''E''} then None
      else Some (numeral_of ds, r))"

definition scan_number :: "string \<Rightarrow> (json \<times> string) option" where
  "scan_number s =
     (case s of
        [] \<Rightarrow> None
      | c # r \<Rightarrow>
          if c = CHR ''-'' then map_option (\<lambda>(n, t). (JInt (- int n), t)) (scan_nat r)
          else map_option (\<lambda>(n, t). (JInt (int n), t)) (scan_nat s))"

definition scan_literal :: "string \<Rightarrow> (json \<times> string) option" where
  "scan_literal s =
     (if startswith s ''null'' then Some (JNull, drop 4 s)
      else if startswith s ''true'' then Some (JBool True, drop 4 s)
      else if startswith s ''false'' then Some (JBool False, drop 5 s)
      else scan_number s)"

section \<open>Parsing JSON\<close>

fun parse_value :: "nat \<Rightarrow> string \<Rightarrow> (json \<times> string) option"
  and parse_items :: "nat \<Rightarrow> string \<Rightarrow> (json list \<times> string) option"
  and parse_fields :: "nat \<Rightarrow> string \<Rightarrow> ((string \<times> json) list \<times> string) option" where
  "parse_value 0 s = None"
| "parse_value (Suc n) s =
     (case s of
        [] \<Rightarrow> None
      | c # r \<Rightarrow>
          if (of_char c :: nat) = 34 then map_option (\<lambda>(t, r'). (JStr t, r')) (scan_string r)
          else if c = CHR ''['' then
            (case skip_ws r of
               [] \<Rightarrow> None
             | d # r' \<Rightarrow> if d = CHR '']'' then Some (JArr [], r')
                         else map_option (\<lambda>(vs, t). (JArr vs, t)) (parse_items n (d # r')))
          else if c = CHR ''{'' then
            (case skip_ws r of
               [] \<Rightarrow> None
             | d # r' \<Rightarrow> if d = CHR ''}'' then Some (JObj [], r')
                         else map_option (\<lambda>(fs, t). (JObj fs, t)) (parse_fields n (d # r')))
          else scan_literal s)"
| "parse_items 0 s = None"
| "parse_items (Suc n) s =
     (case parse_value n s of
        None \<Rightarrow> None
      | Some (v, r) \<Rightarrow>
          (case skip_ws r of
             [] \<Rightarrow> None
           | c # r' \<Rightarrow> if c = CHR '']'' then Some ([v], r')
                       else if c = CHR '','' then econs v (parse_items n (skip_ws r'))
                       else None))"
| "parse_fields 0 s = None"
| "parse_fields (Suc n) s =
     (case s of
        [] \<Rightarrow> None
      | q # r0 \<Rightarrow>
          if (of_char q :: nat) \<noteq> 34 then None
          else
            (case scan_string r0 of
               None \<Rightarrow> None
             | Some (k, r1) \<Rightarrow>
                 (case skip_ws r1 of
                    [] \<Rightarrow> None
                  | c # r2 \<Rightarrow>
                      if c \<noteq> CHR '':'' then None
                      else
                        (case parse_value n (skip_ws r2) of
                           None \<Rightarrow> None
                         | Some (v, r3) \<Rightarrow>
                             (case skip_ws r3 of
                                [] \<Rightarrow> None
                              | d # r4 \<Rightarrow>
                                  if d = CHR ''}'' then Some ([(k, v)], r4)
                                  else if d = CHR '','' then econs (k, v) (parse_fields n (skip_ws r4))
                                  else None)))))"

definition json_loads :: "string \<Rightarrow> json option" where
  "json_loads s =
     (case parse_value (length s) (skip_ws s) of
        Some (v, r) \<Rightarrow> if skip_ws r = '''' then Some v else None
      | None \<Rightarrow> None)"

section \<open>URL-safe base64\<close>

definition b64_char :: "nat \<Rightarrow> char" where
  "b64_char i =
     (if i < 26 then char_of (65 + i) else if i < 52 then char_of (71 + i)
      else if i < 62 then char_of (i - 4) else if i = 62 then CHR ''-'' else CHR ''_'')"

text \<open>The standard alphabet is accepted, too: only \<open>-\<close> and \<open>_\<close> are translated.\<close>

definition b64_index :: "char \<Rightarrow> nat option" where
  "b64_index c =
     (let n = of_char c :: nat in
      if 65 \<le> n \<and> n \<le> 90 then Some (n - 65)
      else if 97 \<le> n \<and> n \<le> 122 then Some (n - 71)
      else if 48 \<le> n \<and> n \<le> 57 then Some (n + 4)
      else if n = 45 \<or> n = 43 then Some 62
      else if n = 95 \<or> n = 47 then Some 63
      else None)"

fun urlsafe_b64encode :: "string \<Rightarrow> string" where
  "urlsafe_b64encode [] = []"
| "urlsafe_b64encode [a] =
     (let x = of_char a :: nat in [b64_char (x div 4), b64_char (x mod 4 * 16), CHR ''='', CHR ''=''])"
| "urlsafe_b64encode [a, b] =
     (let x = of_char a :: nat; y = of_char b :: nat in
      [b64_char (x div 4), b64_char (x mod 4 * 16 + y div 16), b64_char (y mod 16 * 4), CHR ''=''])"
| "urlsafe_b64encode (a # b # c # s) =
     (let x = of_char a :: nat; y = of_char b :: nat; z = of_char c :: nat in
      [b64_char (x div 4), b64_char (x mod 4 * 16 + y div 16), b64_char (y mod 16 * 4 + z div 64), b64_char (z mod 64)]
      @ urlsafe_b64encode s)"

text \<open>
  \<open>binascii.a2b_base64\<close> without strict mode: foreign characters are skipped, input ends
  at a complete padding, and missing padding is an error. \<open>quad\<close> counts the characters
  of the current group, \<open>left\<close> holds the bits that are not written yet.
\<close>

fun b64_scan :: "nat \<Rightarrow> nat \<Rightarrow> nat \<Rightarrow> string \<Rightarrow> string option" where
  "b64_scan quad left pads [] = (if quad = 0 then Some [] else None)"
| "b64_scan quad left pads (c # s) =
     (if c = CHR ''='' then
        (if 2 \<le> quad \<and> 4 \<le> quad + Suc pads then Some []
         else b64_scan quad left (if 2 \<le> quad then Suc pads else pads) s)
      else
        (case b64_index c of
           None \<Rightarrow> b64_scan quad left pads s
         | Some i \<Rightarrow>
             if quad = 0 then b64_scan 1 i 0 s
             else if quad = 1 then map_option ((#) (char_of (left * 4 + i div 16))) (b64_scan 2 (i mod 16) 0 s)
             else if quad = 2 then map_option ((#) (char_of (left * 16 + i div 4))) (b64_scan 3 (i mod 4) 0 s)
             else map_option ((#) (char_of (left * 64 + i))) (b64_scan 0 0 0 s)))"

definition is_ascii :: "string \<Rightarrow> bool" where
  "is_ascii s \<longleftrightarrow> list_all (\<lambda>c. (of_char c :: nat) < 128) s"

definition urlsafe_b64decode :: "string \<Rightarrow> string option" where
  "urlsafe_b64decode s = (if is_ascii s then b64_scan 0 0 0 s else None)"

text \<open>\<open>text.rstrip("=")\<close>\<close>

definition rstrip_pads :: "string \<Rightarrow> string" where
  "rstrip_pads s = rev (dropWhile (\<lambda>c. c = CHR ''='') (rev s))"

section \<open>Reading what was written\<close>

lemma nat_str_small [simp]: "n < 10 \<Longrightarrow> nat_str n = [char_of (48 + n)]"
  by (simp add: nat_str_def nat_str_rev.simps)

lemma nat_str_0: "nat_str 0 = ''0''"
  by code_simp

lemma nat_str_large: "10 \<le> n \<Longrightarrow> nat_str n = nat_str (n div 10) @ [char_of (48 + n mod 10)]"
  by (simp add: nat_str_def nat_str_rev.simps [of n])

lemma digit_char [simp]: "n < 10 \<Longrightarrow> is_digit (char_of (48 + n))" "n < 10 \<Longrightarrow> digit_val (char_of (48 + n)) = n"
  by (simp_all add: is_digit_def digit_val_def Let_def)

lemma nat_str_spec:
  "list_all is_digit (nat_str n) \<and> numeral_of (nat_str n) = n \<and> nat_str n \<noteq> [] \<and> (hd (nat_str n) = CHR ''0'' \<longrightarrow> n = 0)"
proof (induction n rule: less_induct)
  case (less n)
  show ?case
  proof (cases "n < 10")
    case True
    have "n = 0" if "char_of (48 + n) = CHR ''0''"
    proof -
      have "(of_char (char_of (48 + n)) :: nat) = of_char CHR ''0''" using that by simp
      then show ?thesis using True by simp
    qed
    with True show ?thesis by (simp add: numeral_of_def)
  next
    case False
    then have "n div 10 < n" by simp
    note IH = less.IH [OF this]
    have "n div 10 \<noteq> 0" using False by simp
    with IH False show ?thesis
      by (auto simp: nat_str_large numeral_of_def hd_append)
  qed
qed

definition json_delimited :: "string \<Rightarrow> bool" where
  "json_delimited rest \<longleftrightarrow> rest = [] \<or> hd rest \<in> {CHR '','', CHR '']'', CHR ''}''}"

lemma delimited_not_digit: "json_delimited rest \<Longrightarrow> rest \<noteq> [] \<Longrightarrow> \<not> is_digit (hd rest)"
  by (auto simp: json_delimited_def is_digit_def)

lemma scan_nat_str:
  assumes "json_delimited rest"
  shows "scan_nat (nat_str n @ rest) = Some (n, rest)"
proof -
  note s = nat_str_spec [of n]
  have "takeWhile is_digit (nat_str n @ rest) = nat_str n" "dropWhile is_digit (nat_str n @ rest) = rest"
    using s delimited_not_digit [OF assms]
    by (cases rest; simp add: takeWhile_append dropWhile_append list_all_iff)+
  moreover have "n = 0 \<longrightarrow> nat_str n = ''0''" using nat_str_0 by blast
  ultimately show ?thesis
    using s assms by (auto simp: scan_nat_def json_delimited_def Let_def)
qed

lemma hex_digit_val [simp]: "n < 16 \<Longrightarrow> hex_val (hex_digit n) = Some n"
  by (auto simp: hex_val_def hex_digit_def Let_def)

lemma scan_json_escape:
  "scan_string (json_escape c @ t) = econs c (scan_string t)"
proof -
  have c: "(of_char c :: nat) < 256" by simp
  have code: "c = char_of n" if "(of_char c :: nat) = n" for n :: nat by (simp flip: that)
  show ?thesis
  proof (cases "(of_char c :: nat) \<in> {34, 92, 10, 13, 9, 8, 12}")
    case True
    then have "c \<in> {char_of (34::nat), char_of (92::nat), char_of (10::nat), char_of (13::nat), char_of (9::nat),
      char_of (8::nat), char_of (12::nat)}"
      using code by blast
    then show ?thesis by (auto simp: json_escape_def simple_escape_def Let_def)
  next
    case False
    show ?thesis
    proof (cases "32 \<le> (of_char c :: nat) \<and> (of_char c :: nat) < 127")
      case True
      with False show ?thesis by (auto simp: json_escape_def Let_def)
    next
      case other: False
      have "(of_char c :: nat) div 16 < 16" using c by linarith
      moreover have "hex_val CHR ''0'' = Some 0" by code_simp
      ultimately have "hex4 CHR ''0'' CHR ''0'' (hex_digit (of_char c div 16)) (hex_digit (of_char c mod 16)) = Some (of_char c)"
        by (simp add: hex4_def)
      with False other c show ?thesis by (auto simp: json_escape_def Let_def)
    qed
  qed
qed

lemma scan_json_string:
  "scan_string (concat (map json_escape s) @ char_of (34::nat) # rest) = Some (s, rest)"
  by (induction s) (simp_all add: scan_json_escape)

lemma nat_str_digit: "c \<in> set (nat_str n) \<Longrightarrow> is_digit c"
  using nat_str_spec [of n] by (simp add: list_all_iff)

lemma digit_starts:
  assumes "is_digit c"
  shows "(of_char c :: nat) \<noteq> 34" "c \<noteq> CHR ''[''" "c \<noteq> CHR ''{''" "c \<noteq> CHR ''-''"
    "c \<noteq> CHR ''n''" "c \<noteq> CHR ''t''" "c \<noteq> CHR ''f''" "(of_char c :: nat) \<notin> {9, 10, 13, 32}"
  using assms by (auto simp: is_digit_def Let_def)

lemma parse_int:
  assumes "json_delimited rest" and "0 < n"
  shows "parse_value n (int_str i @ rest) = Some (JInt i, rest)"
proof -
  obtain m where n: "n = Suc m" using assms(2) by (cases n) auto
  obtain c ds where ds: "nat_str (nat \<bar>i\<bar>) = c # ds"
    using nat_str_spec [of "nat \<bar>i\<bar>"] by (cases "nat_str (nat \<bar>i\<bar>)") auto
  then have c: "is_digit c" using nat_str_digit [of c "nat \<bar>i\<bar>"] by simp
  note s = scan_nat_str [OF assms(1), of "nat \<bar>i\<bar>", unfolded ds]
  show ?thesis
  proof (cases "i < 0")
    case True
    then show ?thesis
      using s ds by (simp add: n int_str_def scan_literal_def startswith_def scan_number_def)
  next
    case False
    then show ?thesis
      using s ds digit_starts [OF c] by (simp add: n int_str_def scan_literal_def startswith_def scan_number_def)
  qed
qed

text \<open>A rendered value starts with a character that is neither white space nor a closing bracket.\<close>

lemma dumps_starts:
  "\<exists>c r. json_dumps_sep si sk v = c # r \<and> (of_char c :: nat) \<notin> {9, 10, 13, 32}
     \<and> c \<noteq> CHR '']'' \<and> c \<noteq> CHR ''}''"
proof (cases v)
  case (JInt i)
  obtain c ds where ds: "nat_str (nat i) = c # ds"
    using nat_str_spec [of "nat i"] by (cases "nat_str (nat i)") auto
  then have "is_digit c" using nat_str_digit [of c "nat i"] by simp
  then have "(of_char c :: nat) \<notin> {9, 10, 13, 32} \<and> c \<noteq> CHR '']'' \<and> c \<noteq> CHR ''}''"
    by (auto simp: is_digit_def Let_def)
  with ds JInt show ?thesis by (cases "i < 0") (simp_all add: int_str_def)
next
  case (JStr s)
  have "char_of (34::nat) = CHR 0x22" by code_simp
  with JStr show ?thesis by (simp add: json_string_def)
qed simp_all

lemma skip_ws_dumps [simp]: "skip_ws (json_dumps_sep si sk v @ rest) = json_dumps_sep si sk v @ rest"
  using dumps_starts [of si sk v] by (auto simp: skip_ws_def)

lemma skip_ws_quote [simp]: "skip_ws (json_string k @ rest) = json_string k @ rest"
  by (simp add: skip_ws_def json_string_def)

lemma skip_ws_punctuation [simp]:
  "c \<in> {CHR '','', CHR '':'', CHR '']'', CHR ''}''} \<Longrightarrow> skip_ws (c # rest) = c # rest"
  by (auto simp: skip_ws_def)

definition parses :: "json \<Rightarrow> bool" where
  "parses v \<longleftrightarrow> (\<forall>n rest. length (json_dumps_sep '','' '':'' v) \<le> n \<longrightarrow> json_delimited rest \<longrightarrow>
     parse_value n (json_dumps_sep '','' '':'' v @ rest) = Some (v, rest))"

lemma parsesD:
  "parses v \<Longrightarrow> length (json_dumps_sep '','' '':'' v) \<le> n \<Longrightarrow> json_delimited rest \<Longrightarrow>
   parse_value n (json_dumps_sep '','' '':'' v @ rest) = Some (v, rest)"
  by (simp add: parses_def)

lemma parse_rendered_items:
  assumes "\<And>v. v \<in> set xs \<Longrightarrow> parses v" and "xs \<noteq> []"
    and "length (join_with '','' (map (json_dumps_sep '','' '':'') xs)) < n"
  shows "parse_items n (join_with '','' (map (json_dumps_sep '','' '':'') xs) @ CHR '']'' # rest) = Some (xs, rest)"
  using assms
proof (induction xs arbitrary: n)
  case (Cons v xs)
  obtain m where n: "n = Suc m" using Cons.prems(3) by (cases n) auto
  show ?case
  proof (cases xs)
    case Nil
    with Cons.prems n show ?thesis by (simp add: parsesD json_delimited_def)
  next
    case (Cons w ys)
    let ?rest = "join_with '','' (map (json_dumps_sep '','' '':'') xs)"
    have "length ?rest < m" "length (json_dumps_sep '','' '':'' v) \<le> m"
      using Cons.prems(3) n Cons by simp_all
    moreover have "skip_ws (?rest @ CHR '']'' # rest) = ?rest @ CHR '']'' # rest"
      using Cons by (cases ys) simp_all
    ultimately show ?thesis
      using Cons.IH [of m] Cons.prems(1) n Cons by (simp add: parsesD json_delimited_def)
  qed
qed simp

abbreviation json_field :: "string \<times> json \<Rightarrow> string" where
  "json_field \<equiv> \<lambda>(k, v). json_string k @ '':'' @ json_dumps_sep '','' '':'' v"

lemma parse_rendered_fields:
  assumes "\<And>k v. (k, v) \<in> set fs \<Longrightarrow> parses v" and "fs \<noteq> []"
    and "length (join_with '','' (map json_field fs)) < n"
  shows "parse_fields n (join_with '','' (map json_field fs) @ CHR ''}'' # rest) = Some (fs, rest)"
  using assms
proof (induction fs arbitrary: n)
  case (Cons f fs)
  obtain m where n: "n = Suc m" using Cons.prems(3) by (cases n) auto
  obtain k v where f: "f = (k, v)" by (cases f)
  show ?case
  proof (cases fs)
    case Nil
    with Cons.prems n f show ?thesis
      by (simp add: parsesD json_delimited_def json_string_def scan_json_string)
  next
    case (Cons g gs)
    let ?rest = "join_with '','' (map json_field fs)"
    have "length ?rest < m" "length (json_dumps_sep '','' '':'' v) \<le> m"
      using Cons.prems(3) n f Cons by simp_all
    moreover have "skip_ws (?rest @ CHR ''}'' # rest) = ?rest @ CHR ''}'' # rest"
      using Cons by (cases gs; cases g) simp_all
    moreover have "parses v" using Cons.prems(1) [of k v] f by simp
    moreover have "parse_fields m (?rest @ CHR ''}'' # rest) = Some (fs, rest)"
      using Cons.IH [of m] Cons.prems(1) Cons calculation(1) by auto
    moreover have "join_with '','' (map json_field (f # fs)) @ CHR ''}'' # rest
        = char_of (34::nat) # concat (map json_escape k) @ char_of (34::nat) # CHR '':''
          # json_dumps_sep '','' '':'' v @ CHR '','' # ?rest @ CHR ''}'' # rest"
      using f Cons by (simp add: json_string_def)
    ultimately show ?thesis
      using n f by (simp add: parsesD json_delimited_def scan_json_string del: join_with.simps list.map)
  qed
qed simp

lemma parse_constants:
  assumes "0 < n"
  shows "parse_value n (''null'' @ rest) = Some (JNull, rest)"
    "parse_value n (''true'' @ rest) = Some (JBool True, rest)"
    "parse_value n (''false'' @ rest) = Some (JBool False, rest)"
  using assms by (cases n; simp add: scan_literal_def startswith_def)+

theorem parse_dumps: "parses v"
proof (induction v)
  case (JInt i)
  have "int_str i \<noteq> []" using nat_str_spec by (simp add: int_str_def)
  then have "0 < n" if "length (int_str i) \<le> n" for n using that by (cases n) auto
  then show ?case using parse_int by (simp add: parses_def)
next
  case (JArr xs)
  show ?case unfolding parses_def
  proof (intro allI impI)
    fix n rest assume n: "length (json_dumps_sep '','' '':'' (JArr xs)) \<le> n"
    then obtain m where m: "n = Suc m" by (cases n) auto
    show "parse_value n (json_dumps_sep '','' '':'' (JArr xs) @ rest) = Some (JArr xs, rest)"
    proof (cases xs)
      case Nil
      then show ?thesis by (simp add: m)
    next
      case (Cons v vs)
      let ?text = "join_with '','' (map (json_dumps_sep '','' '':'') xs) @ CHR '']'' # rest"
      have "parse_items m ?text = Some (xs, rest)"
        using parse_rendered_items [of xs m rest] JArr Cons n m by simp
      moreover obtain c r where "?text = c # r" "c \<noteq> CHR '']''" "skip_ws ?text = c # r"
        using dumps_starts [of "'',''" "'':''" v] Cons by (cases vs) (auto simp: skip_ws_def)
      ultimately show ?thesis by (simp add: m)
    qed
  qed
next
  case (JObj fs)
  show ?case unfolding parses_def
  proof (intro allI impI)
    fix n rest assume n: "length (json_dumps_sep '','' '':'' (JObj fs)) \<le> n"
    then obtain m where m: "n = Suc m" by (cases n) auto
    show "parse_value n (json_dumps_sep '','' '':'' (JObj fs) @ rest) = Some (JObj fs, rest)"
    proof (cases fs)
      case Nil
      then show ?thesis by (simp add: m)
    next
      case (Cons f gs)
      let ?text = "join_with '','' (map json_field fs) @ CHR ''}'' # rest"
      have "parse_fields m ?text = Some (fs, rest)"
        using parse_rendered_fields [of fs m rest] JObj Cons n m by force
      moreover obtain r where "?text = char_of (34::nat) # r" "skip_ws ?text = char_of (34::nat) # r"
        using Cons by (cases gs; cases f) (auto simp: json_string_def skip_ws_def)
      moreover have "char_of (34::nat) \<noteq> CHR ''}''" by code_simp
      ultimately show ?thesis by (simp add: m)
    qed
  qed
next
  case JNull
  then show ?case using parse_constants(1) by (simp add: parses_def)
next
  case (JBool b)
  then show ?case using parse_constants(2,3) by (cases b) (simp_all add: parses_def)
next
  case (JStr t)
  have "parse_value n (json_string t @ rest) = Some (JStr t, rest)" if "length (json_string t) \<le> n" for n rest
    using that by (cases n) (simp_all add: json_string_def scan_json_string)
  then show ?case by (simp add: parses_def)
qed

theorem json_loads_dumps: "json_loads (json_dumps_sep '','' '':'' v) = Some v"
proof -
  let ?s = "json_dumps_sep '','' '':'' v"
  have "skip_ws (?s @ []) = ?s @ []" by (rule skip_ws_dumps)
  moreover have "parse_value (length ?s) (?s @ []) = Some (v, [])"
    by (rule parsesD) (simp_all add: parse_dumps json_delimited_def)
  ultimately show ?thesis by (simp add: json_loads_def skip_ws_def)
qed

lemma b64_index_char: "i < 64 \<Longrightarrow> b64_index (b64_char i) = Some i"
  by (auto simp: b64_char_def b64_index_def Let_def)

lemma b64_index_ascii: "b64_index c \<noteq> None \<Longrightarrow> c \<noteq> CHR ''='' \<and> (of_char c :: nat) < 128"
  by (auto simp: b64_index_def Let_def split: if_splits)

lemma b64_char_index:
  "i < 64 \<Longrightarrow> b64_index (b64_char i) = Some i \<and> b64_char i \<noteq> CHR ''='' \<and> (of_char (b64_char i) :: nat) < 128"
  using b64_index_char [of i] b64_index_ascii [of "b64_char i"] by simp

lemma b64_scan_char:
  assumes "i < 64"
  shows "b64_scan quad left pads (b64_char i # s) =
     (if quad = 0 then b64_scan 1 i 0 s
      else if quad = 1 then map_option ((#) (char_of (left * 4 + i div 16))) (b64_scan 2 (i mod 16) 0 s)
      else if quad = 2 then map_option ((#) (char_of (left * 16 + i div 4))) (b64_scan 3 (i mod 4) 0 s)
      else map_option ((#) (char_of (left * 64 + i))) (b64_scan 0 0 0 s))"
  using b64_char_index [OF assms] by simp

lemma div_block:
  fixes q r :: nat
  assumes "r < d"
  shows "(q * d + r) div d = q" "(q * d + r) mod d = r"
  using assms by simp_all

lemma b64_bits:
  fixes x y z :: nat
  assumes "x < 256" "y < 256" "z < 256"
  shows "x div 4 < 64" "x mod 4 * 16 + y div 16 < 64" "y mod 16 * 4 + z div 64 < 64" "z mod 64 < 64"
    "x mod 4 * 16 < 64" "y mod 16 * 4 < 64"
    "x div 4 * 4 + (x mod 4 * 16 + y div 16) div 16 = x" "x div 4 * 4 + x mod 4 * 16 div 16 = x"
    "(x mod 4 * 16 + y div 16) mod 16 * 16 + (y mod 16 * 4 + z div 64) div 4 = y"
    "(x mod 4 * 16 + y div 16) mod 16 * 16 + y mod 16 * 4 div 4 = y"
    "(y mod 16 * 4 + z div 64) mod 4 * 64 + z mod 64 = z"
proof -
  have small: "y div 16 < 16" "z div 64 < 4" "x mod 4 < 4" "y mod 16 < 16" using assms by simp_all
  then show "x div 4 < 64" "x mod 4 * 16 + y div 16 < 64" "y mod 16 * 4 + z div 64 < 64" "z mod 64 < 64"
    "x mod 4 * 16 < 64" "y mod 16 * 4 < 64"
    using assms by linarith+
  note blocks = div_block [OF small(1), of "x mod 4"] div_block [OF small(2), of "y mod 16"]
  show "x div 4 * 4 + (x mod 4 * 16 + y div 16) div 16 = x" "x div 4 * 4 + x mod 4 * 16 div 16 = x"
    "(x mod 4 * 16 + y div 16) mod 16 * 16 + (y mod 16 * 4 + z div 64) div 4 = y"
    "(x mod 4 * 16 + y div 16) mod 16 * 16 + y mod 16 * 4 div 4 = y"
    "(y mod 16 * 4 + z div 64) mod 4 * 64 + z mod 64 = z"
    by (simp_all only: blocks) (simp_all add: div_mod_decomp)
qed

lemma of_char_less [simp]: "(of_char c :: nat) < 256"
  by (metis of_char_mod_256 mod_less_divisor zero_less_numeral)

lemma b64_scan_pad:
  "b64_scan quad left pads (CHR ''='' # s) =
     (if 2 \<le> quad \<and> 4 \<le> quad + Suc pads then Some []
      else b64_scan quad left (if 2 \<le> quad then Suc pads else pads) s)"
  by simp

declare b64_scan.simps(2) [simp del]

theorem b64_scan_encode: "b64_scan 0 0 0 (urlsafe_b64encode s) = Some s"
proof (induction s rule: urlsafe_b64encode.induct)
  case (2 a)
  show ?case using b64_bits [of "of_char a" 0 0] by (simp add: Let_def b64_scan_char b64_scan_pad)
next
  case (3 a b)
  show ?case using b64_bits [of "of_char a" "of_char b" 0] by (simp add: Let_def b64_scan_char b64_scan_pad)
next
  case (4 a b c s)
  then show ?case using b64_bits [of "of_char a" "of_char b" "of_char c"] by (simp add: Let_def b64_scan_char b64_scan_pad)
qed simp

lemma is_ascii_simps [simp]:
  "is_ascii []" "is_ascii (c # s) \<longleftrightarrow> (of_char c :: nat) < 128 \<and> is_ascii s" "is_ascii (s @ t) \<longleftrightarrow> is_ascii s \<and> is_ascii t"
  by (simp_all add: is_ascii_def)

lemma encode_ascii: "is_ascii (urlsafe_b64encode s)"
proof (induction s rule: urlsafe_b64encode.induct)
  case (2 a)
  then show ?case using b64_bits [of "of_char a" 0 0] by (simp add: Let_def b64_char_index)
next
  case (3 a b)
  then show ?case using b64_bits [of "of_char a" "of_char b" 0] by (simp add: Let_def b64_char_index)
next
  case (4 a b c s)
  then show ?case using b64_bits [of "of_char a" "of_char b" "of_char c"] by (simp add: Let_def b64_char_index)
qed simp

inductive padded :: "string \<Rightarrow> string \<Rightarrow> nat \<Rightarrow> bool" where
  "d = [] \<or> last d \<noteq> CHR ''='' \<Longrightarrow> k < 4 \<Longrightarrow> (length d + k) mod 4 = 0 \<Longrightarrow> padded (d @ replicate k (CHR ''='')) d k"

lemma encode_padded: "\<exists>d k. padded (urlsafe_b64encode s) d k"
proof (induction s rule: urlsafe_b64encode.induct)
  case 1
  show ?case using padded.intros [of "[]" 0] by auto
next
  case (2 a)
  let ?d = "[b64_char (of_char a div 4), b64_char (of_char a mod 4 * 16)]"
  have "last ?d \<noteq> CHR ''=''" using b64_bits [of "of_char a" 0 0] by (simp add: b64_char_index)
  then have "padded (?d @ replicate 2 (CHR ''='')) ?d 2" by (intro padded.intros) simp_all
  then show ?case by (auto simp: Let_def numeral_2_eq_2)
next
  case (3 a b)
  let ?d = "[b64_char (of_char a div 4), b64_char (of_char a mod 4 * 16 + of_char b div 16), b64_char (of_char b mod 16 * 4)]"
  have "last ?d \<noteq> CHR ''=''" using b64_bits [of "of_char a" "of_char b" 0] by (simp add: b64_char_index)
  then have "padded (?d @ replicate 1 (CHR ''='')) ?d 1" by (intro padded.intros) simp_all
  then show ?case by (auto simp: Let_def)
next
  case (4 a b c s)
  then obtain d k where IH: "padded (urlsafe_b64encode s) d k" by blast
  let ?h = "[b64_char (of_char a div 4), b64_char (of_char a mod 4 * 16 + of_char b div 16),
    b64_char (of_char b mod 16 * 4 + of_char c div 64), b64_char (of_char c mod 64)]"
  have h: "last ?h \<noteq> CHR ''=''"
    using b64_bits [of "of_char a" "of_char b" "of_char c"] by (simp add: b64_char_index)
  from IH have "padded (?h @ urlsafe_b64encode s) (?h @ d) k"
  proof cases
    case 1
    have "?h @ d = [] \<or> last (?h @ d) \<noteq> CHR ''=''" using h 1(2) by (cases "d = []") simp_all
    then have "padded ((?h @ d) @ replicate k (CHR ''='')) (?h @ d) k"
      using 1(3,4) by (intro padded.intros) simp_all
    then show ?thesis by (simp add: 1(1))
  qed
  then show ?case by (auto simp: Let_def)
qed

lemma rstrip_pads_data:
  "d = [] \<or> last d \<noteq> CHR ''='' \<Longrightarrow> rstrip_pads (d @ replicate k (CHR ''='')) = d"
proof (induction k)
  case 0
  then show ?case by (cases d rule: rev_cases) (simp_all add: rstrip_pads_def)
next
  case (Suc k)
  have "d @ replicate (Suc k) (CHR ''='') = (d @ replicate k (CHR ''='')) @ [CHR ''='']"
    by (simp add: replicate_append_same)
  then show ?case using Suc by (simp only: rstrip_pads_def rev_append) simp
qed

text \<open>The coder used for cursors: pads are stripped on writing and restored on reading.\<close>

definition pad_base64 :: "string \<Rightarrow> string" where
  "pad_base64 s = s @ replicate (nat (- int (length s) mod 4)) (CHR ''='')"

lemma pad_count:
  assumes "k < 4" "(n + k) mod 4 = 0"
  shows "nat (- int n mod 4) = k"
proof -
  obtain q where "n + k = 4 * q" using assms(2) by auto
  then have "int n + int k = 4 * int q" by linarith
  then have "- int n = int k + 4 * (- int q)" by linarith
  then have "- int n mod 4 = (int k + 4 * (- int q)) mod 4" by simp
  also have "\<dots> = int k" using assms(1) by (simp only: mod_mult_self2) simp
  finally show ?thesis by simp
qed

theorem stripped_base64_roundtrip:
  "urlsafe_b64decode (pad_base64 (rstrip_pads (urlsafe_b64encode s))) = Some s"
proof -
  obtain d k where "padded (urlsafe_b64encode s) d k" using encode_padded [of s] by blast
  then show ?thesis
  proof cases
    case 1
    have "nat (- int (length d) mod 4) = k" using pad_count [OF 1(3,4)] .
    then have "pad_base64 d = urlsafe_b64encode s" by (simp add: pad_base64_def 1(1))
    then show ?thesis
      using 1 b64_scan_encode [of s] rstrip_pads_data [OF 1(2), of k] encode_ascii [of s]
      by (simp add: urlsafe_b64decode_def)
  qed
qed

end
