(* ===== verification/Gmail_Cursor.thy ===== *)
theory Gmail_Cursor
  imports Py_Json
begin

text \<open>
  The durable listing cursors of \<open>backend/app/services/gmail_importer.py\<close>: a JSON object
  in URL-safe base64 without padding. There are three kinds, told apart by their
  \<open>type\<close> field: the recent window of the first run, the message listing and the
  thread listing. A decoder answers None for a text of another kind and for any text that no
  encoder wrote.
\<close>

section \<open>Coder\<close>

definition encode_cursor_payload :: "(string \<times> json) list \<Rightarrow> string" where
  "encode_cursor_payload payload = rstrip_pads (urlsafe_b64encode (json_dumps_sep '','' '':'' (JObj payload)))"

definition decode_cursor_payload :: "string option \<Rightarrow> (string \<times> json) list option" where
  "decode_cursor_payload cursor =
     (if \<not> truthy_str cursor then None
      else (case urlsafe_b64decode (pad_base64 (str_or_empty cursor)) of
              None \<Rightarrow> None
            | Some t \<Rightarrow> (case json_loads t of None \<Rightarrow> None | Some v \<Rightarrow> jfields v)))"

definition payload_of_type :: "string \<Rightarrow> (string \<times> json) list option \<Rightarrow> (string \<times> json) list option" where
  "payload_of_type kind payload =
     (case payload of None \<Rightarrow> None | Some fs \<Rightarrow> if jget fs ''type'' = JStr kind then Some fs else None)"

section \<open>The three kinds\<close>

text \<open>A dictionary of page tokens by label, a set of completed labels in any order.\<close>

definition encode_first_run_cursor ::
    "(string \<times> string option) list \<Rightarrow> string list \<Rightarrow> int \<Rightarrow> string option" where
  "encode_first_run_cursor next_tokens completed_labels cutoff_ms =
     (let active = filter (\<lambda>(label, token). truthy_str token \<and> label \<notin> set completed_labels) next_tokens in
      if active = [] then None
      else Some (encode_cursor_payload
        [(''type'', JStr ''first_run_90d''),
         (''next_tokens'', JObj (map (\<lambda>(label, token). (label, jstr_opt token)) active)),
         (''completed_labels'', JArr (map JStr (sort (remdups completed_labels)))),
         (''cutoff_ms'', JInt cutoff_ms)]))"

definition full_mailbox_payload :: "string option \<Rightarrow> bool \<Rightarrow> string option \<Rightarrow> bool \<Rightarrow> (string \<times> json) list" where
  "full_mailbox_payload page_token all_mail_completed draft_page_token drafts_completed =
     [(''type'', JStr ''full_mailbox''), (''page_token'', jstr_opt page_token),
      (''all_mail_completed'', JBool all_mail_completed), (''draft_page_token'', jstr_opt draft_page_token),
      (''drafts_completed'', JBool drafts_completed)]"

definition encode_full_mailbox_cursor :: "string option \<Rightarrow> bool \<Rightarrow> string option \<Rightarrow> bool \<Rightarrow> string" where
  "encode_full_mailbox_cursor page_token all_mail_completed draft_page_token drafts_completed =
     encode_cursor_payload (full_mailbox_payload page_token all_mail_completed draft_page_token drafts_completed)"

definition encode_full_thread_mailbox_cursor :: "string option \<Rightarrow> string" where
  "encode_full_thread_mailbox_cursor page_token =
     encode_cursor_payload [(''type'', JStr ''full_thread_mailbox''), (''page_token'', jstr_opt page_token)]"

definition decode_first_run_cursor :: "string option \<Rightarrow> (string \<times> json) list option" where
  "decode_first_run_cursor cursor = payload_of_type ''first_run_90d'' (decode_cursor_payload cursor)"

definition decode_full_mailbox_cursor :: "string option \<Rightarrow> (string \<times> json) list option" where
  "decode_full_mailbox_cursor cursor =
     (if \<not> truthy_str cursor then Some (full_mailbox_payload None False None False)
      else payload_of_type ''full_mailbox'' (decode_cursor_payload cursor))"

definition decode_full_thread_mailbox_cursor :: "string option \<Rightarrow> (string \<times> json) list option" where
  "decode_full_thread_mailbox_cursor cursor = payload_of_type ''full_thread_mailbox'' (decode_cursor_payload cursor)"

text \<open>\<open>str(cursor.get(key) or "") or None\<close>, as the page readers take a token from a payload.\<close>

definition cursor_token :: "(string \<times> json) list \<Rightarrow> string \<Rightarrow> string option" where
  "cursor_token fs key = nonempty (json_str_or_empty (jget fs key))"

text \<open>What the page readers take from a payload before they call Gmail.\<close>

definition full_mailbox_position :: "(string \<times> json) list \<Rightarrow> string option \<times> bool \<times> string option \<times> bool" where
  "full_mailbox_position fs =
     (cursor_token fs ''page_token'', truthy (jget fs ''all_mail_completed''),
      cursor_token fs ''draft_page_token'', truthy (jget fs ''drafts_completed''))"

text \<open>\<open>list(value or [])\<close>\<close>

fun json_items :: "json \<Rightarrow> exn + json list" where
  "json_items (JArr xs) = Inr xs"
| "json_items (JStr s) = Inr (map (\<lambda>c. JStr [c]) s)"
| "json_items (JObj fs) = Inr (map JStr (dict_fromkeys (map fst fs)))"
| "json_items v = (if truthy v then Inl TypeError else Inr [])"

text \<open>The nonempty string tokens by label, the completed labels, and \<open>int(cursor.get("cutoff_ms") or 0)\<close>.\<close>

definition first_run_position :: "(string \<times> json) list \<Rightarrow> exn + (string \<times> string) list \<times> string list \<times> int" where
  "first_run_position fs =
     (case jint (jor (jget fs ''cutoff_ms'') (JInt 0)) of Inl e \<Rightarrow> Inl e
      | Inr cutoff \<Rightarrow>
         (case jfields (jor (jget fs ''next_tokens'') (JObj [])) of None \<Rightarrow> Inl TypeError
          | Some ts \<Rightarrow>
             (case json_items (jget fs ''completed_labels'') of Inl e \<Rightarrow> Inl e
              | Inr ls \<Rightarrow>
                  Inr (concat (map (\<lambda>(label, v). case v of JStr t \<Rightarrow> if t = '''' then [] else [(label, t)] | _ \<Rightarrow> []) ts),
                       map json_str_or_empty ls, cutoff))))"

section \<open>Round trip\<close>

lemma rstrip_pads_nonempty: "rstrip_pads (urlsafe_b64encode (c # s)) \<noteq> ''''"
proof
  assume "rstrip_pads (urlsafe_b64encode (c # s)) = ''''"
  then have "urlsafe_b64decode (pad_base64 '''') = Some (c # s)"
    using stripped_base64_roundtrip [of "c # s"] by simp
  then show False by (simp add: pad_base64_def urlsafe_b64decode_def)
qed

lemma encoded_nonempty: "encode_cursor_payload fs \<noteq> ''''"
  using rstrip_pads_nonempty by (simp add: encode_cursor_payload_def)

lemma decode_encoded_payload [simp]: "decode_cursor_payload (Some (encode_cursor_payload fs)) = Some fs"
  using encoded_nonempty [of fs]
  by (simp add: decode_cursor_payload_def encode_cursor_payload_def stripped_base64_roundtrip json_loads_dumps
      truthy_str_def str_or_empty_def del: json_dumps_sep.simps)

lemmas cursor_simps = payload_of_type_def decode_first_run_cursor_def decode_full_mailbox_cursor_def
  decode_full_thread_mailbox_cursor_def encode_full_mailbox_cursor_def encode_full_thread_mailbox_cursor_def
  full_mailbox_payload_def truthy_str_def str_or_empty_def encoded_nonempty jget_Cons jhas_def

lemma cursor_token_jstr [simp]: "nonempty (json_str_or_empty (jstr_opt v)) = nonempty (str_or_empty v)"
  by (cases v) (simp_all add: jstr_opt_def str_or_empty_def)

lemma mailbox_cursor_roundtrip:
  "map_option full_mailbox_position (decode_full_mailbox_cursor (Some (encode_full_mailbox_cursor p a d b)))
     = Some (nonempty (str_or_empty p), a, nonempty (str_or_empty d), b)"
  by (simp add: cursor_simps full_mailbox_position_def cursor_token_def)

lemma thread_cursor_roundtrip:
  "map_option (\<lambda>fs. cursor_token fs ''page_token'')
     (decode_full_thread_mailbox_cursor (Some (encode_full_thread_mailbox_cursor p))) = Some (nonempty (str_or_empty p))"
  by (simp add: cursor_simps cursor_token_def)

lemma cursor_kinds_apart:
  "decode_full_thread_mailbox_cursor (Some (encode_full_mailbox_cursor p a d b)) = None"
  "decode_first_run_cursor (Some (encode_full_mailbox_cursor p a d b)) = None"
  "decode_full_mailbox_cursor (Some (encode_full_thread_mailbox_cursor p)) = None"
  "decode_first_run_cursor (Some (encode_full_thread_mailbox_cursor p)) = None"
  by (simp_all add: cursor_simps)

text \<open>C27: a stored listing cursor comes back as it was written. The reader of a full-mailbox cursor gets
  the two page tokens and the two completion flags it was encoded from (an empty token counts as no
  token), the reader of a thread cursor its token, and the reader of a first-run cursor the tokens of the
  labels that are not completed, the completed labels and the cutoff. No decoder takes a cursor of
  another kind for its own.\<close>

theorem cursors_survive_storage:
  "map_option full_mailbox_position (decode_full_mailbox_cursor (Some (encode_full_mailbox_cursor p a d b)))
     = Some (nonempty (str_or_empty p), a, nonempty (str_or_empty d), b)
   \<and> decode_full_thread_mailbox_cursor (Some (encode_full_mailbox_cursor p a d b)) = None
   \<and> decode_first_run_cursor (Some (encode_full_mailbox_cursor p a d b)) = None
   \<and> map_option (\<lambda>fs. cursor_token fs ''page_token'')
       (decode_full_thread_mailbox_cursor (Some (encode_full_thread_mailbox_cursor p))) = Some (nonempty (str_or_empty p))
   \<and> decode_full_mailbox_cursor (Some (encode_full_thread_mailbox_cursor p)) = None
   \<and> decode_first_run_cursor (Some (encode_full_thread_mailbox_cursor p)) = None
   \<and> (case encode_first_run_cursor tokens labels cutoff of
        None \<Rightarrow> filter (\<lambda>(l, t). truthy_str t \<and> l \<notin> set labels) tokens = []
      | Some c \<Rightarrow>
          map_option first_run_position (decode_first_run_cursor (Some c))
            = Some (Inr (filter (\<lambda>(l, t). l \<notin> set labels) (concat (map (\<lambda>(l, t). if truthy_str t then [(l, str_or_empty t)] else []) tokens)),
                    sort (remdups labels), cutoff))
          \<and> decode_full_mailbox_cursor (Some c) = None \<and> decode_full_thread_mailbox_cursor (Some c) = None)"
proof -
  let ?open = "\<lambda>(l, t). truthy_str t \<and> l \<notin> set labels"
  let ?tokens = "concat (map (\<lambda>(l, t). if truthy_str t then [(l, str_or_empty t)] else []) tokens)"
  have read: "concat (map (\<lambda>(l, v). case v of JStr t \<Rightarrow> if t = '''' then [] else [(l, t)] | _ \<Rightarrow> [])
      (map (\<lambda>(l, t). (l, jstr_opt t)) (filter ?open tokens))) = filter (\<lambda>(l, t). l \<notin> set labels) ?tokens"
  proof (induction tokens)
    case (Cons x tokens)
    obtain l t where "x = (l, t)" by (cases x)
    with Cons show ?case by (cases t) (auto simp: truthy_str_def jstr_opt_def str_or_empty_def)
  qed simp
  have items: "map json_str_or_empty (map JStr xs) = xs" for xs by (induction xs) simp_all
  show ?thesis
  proof (cases "filter ?open tokens = []")
    case True
    then show ?thesis
      by (simp add: mailbox_cursor_roundtrip thread_cursor_roundtrip cursor_kinds_apart encode_first_run_cursor_def Let_def)
  next
    case False
    let ?fs = "[(''type'', JStr ''first_run_90d''),
         (''next_tokens'', JObj (map (\<lambda>(l, t). (l, jstr_opt t)) (filter ?open tokens))),
         (''completed_labels'', JArr (map JStr (sort (remdups labels)))), (''cutoff_ms'', JInt cutoff)]"
    have enc: "encode_first_run_cursor tokens labels cutoff = Some (encode_cursor_payload ?fs)"
      using False by (simp add: encode_first_run_cursor_def Let_def)
    have dec: "decode_first_run_cursor (Some (encode_cursor_payload ?fs)) = Some ?fs"
      "decode_full_mailbox_cursor (Some (encode_cursor_payload ?fs)) = None"
      "decode_full_thread_mailbox_cursor (Some (encode_cursor_payload ?fs)) = None"
      by (simp_all add: cursor_simps)
    have "jor (jget ?fs ''cutoff_ms'') (JInt 0) = JInt cutoff"
      "jor (jget ?fs ''next_tokens'') (JObj []) = JObj (map (\<lambda>(l, t). (l, jstr_opt t)) (filter ?open tokens))"
      "jget ?fs ''completed_labels'' = JArr (map JStr (sort (remdups labels)))"
      by (simp_all add: jget_Cons jhas_def jor_def)
    then have "first_run_position ?fs = Inr (filter (\<lambda>(l, t). l \<notin> set labels) ?tokens, sort (remdups labels), cutoff)"
      by (simp only: first_run_position_def jint.simps sum.case jfields.simps option.case json_items.simps read items)
    then show ?thesis
      by (simp add: mailbox_cursor_roundtrip thread_cursor_roundtrip cursor_kinds_apart enc dec del: list.map filter.simps)
  qed
qed

end
