(* ===== verification/Body_Status.thy ===== *)
theory Body_Status
  imports Message_Store
begin

text \<open>
  What a full Gmail payload says about the body of a message, the functions of
  \<open>backend/app/services/email_extraction.py\<close> between the MIME parser and the cached row:
  which parts are attachments, whether a text body is present or still behind an
  attachment id, and the projection of the payload that is stored once the body is. The
  projection keeps the attachments of the message.
\<close>

section \<open>Parts of the reader\<close>

definition is_attachment_part :: "(string \<times> json) list \<Rightarrow> bool" where
  "is_attachment_part part \<longleftrightarrow>
     lower (strip (or_text (jget part ''mimeType'') '''')) = ''message/rfc822''
     \<or> strip (or_text (jget part ''filename'') '''') \<noteq> ''''
     \<or> startswith (lower (part_header part ''content-disposition'')) ''attachment''"

lemma child_size: "c \<in> set (jlist (jget fs k)) \<Longrightarrow> size c < Suc (size_list (size_prod (\<lambda>_. 0) size) fs)"
  using children_size [of fs k] size_list_estimation' [of c "jlist (jget fs k)" "size c" size] by simp

text \<open>The parts that \<open>walk\<close> visits: attachments are not entered.\<close>

function reader_parts :: "json \<Rightarrow> (string \<times> json) list list" where
  "reader_parts v =
     (case jfields v of None \<Rightarrow> []
      | Some fs \<Rightarrow> if is_attachment_part fs then []
                   else fs # concat (map reader_parts (jlist (jget fs ''parts''))))"
  by pat_completeness auto

termination
  by (relation "measure size") (auto simp: child_size elim!: jfields.elims)

definition payload_root :: "json \<Rightarrow> json" where
  "payload_root payload =
     (case jfields payload of None \<Rightarrow> payload
      | Some fs \<Rightarrow> if jfields (jget fs ''payload'') \<noteq> None then jget fs ''payload'' else payload)"

definition is_text_part :: "(string \<times> json) list \<Rightarrow> bool" where
  "is_text_part part \<longleftrightarrow> lower (or_text (jget part ''mimeType'') '''') \<in> {''text/html'', ''text/plain''}"

definition has_text_data :: "(string \<times> json) list \<Rightarrow> bool" where
  "has_text_data part \<longleftrightarrow>
     is_jstr (jget (part_body part) ''data'') \<and> strip (json_str_or_empty (jget (part_body part) ''data'')) \<noteq> ''''"

definition gmail_payload_has_renderable_body :: "json \<Rightarrow> bool" where
  "gmail_payload_has_renderable_body payload =
     list_ex (\<lambda>part. is_text_part part \<and> has_text_data part) (reader_parts (payload_root payload))"

definition gmail_payload_has_unresolved_text_body :: "json \<Rightarrow> bool" where
  "gmail_payload_has_unresolved_text_body payload =
     list_ex (\<lambda>part. is_text_part part
         \<and> is_jstr (jget (part_body part) ''attachmentId'') \<and> truthy (jget (part_body part) ''attachmentId'')
         \<and> \<not> has_text_data part) (reader_parts (payload_root payload))"

definition has_persisted_renderable_body :: "message_row \<Rightarrow> bool" where
  "has_persisted_renderable_body m \<longleftrightarrow>
     truthy_str (gm_html_render_document m) \<or> truthy_str (gm_html_body_sanitized m)
     \<or> truthy_str (gm_text_body m) \<and> gmail_payload_has_renderable_body (gm_raw_payload m)"

section \<open>The stored projection of a payload\<close>

definition kept_fields :: "string list \<Rightarrow> (string \<times> json) list \<Rightarrow> (string \<times> json) list" where
  "kept_fields keys fs = concat (map (\<lambda>k. if jget fs k = JNull then [] else [(k, jget fs k)]) keys)"

definition is_jarr :: "json \<Rightarrow> bool" where
  "is_jarr v = (case v of JArr _ \<Rightarrow> True | _ \<Rightarrow> False)"

definition project_header :: "json \<Rightarrow> json list" where
  "project_header h =
     (case jfields h of None \<Rightarrow> []
      | Some fs \<Rightarrow> if jget fs ''name'' = JNull then []
                   else [JObj [(''name'', jget fs ''name''), (''value'', jget fs ''value'')]])"

definition projected_headers :: "(string \<times> json) list \<Rightarrow> (string \<times> json) list" where
  "projected_headers part =
     (if is_jarr (jget part ''headers'')
      then [(''headers'', JArr (concat (map project_header (jlist (jget part ''headers'')))))] else [])"

definition projected_body :: "(string \<times> json) list \<Rightarrow> (string \<times> json) list" where
  "projected_body part =
     (let descriptor = kept_fields [''attachmentId'', ''size''] (part_body part)
      in if descriptor = [] then [] else [(''body'', JObj descriptor)])"

function project_part :: "json \<Rightarrow> json" where
  "project_part v =
     (case jfields v of None \<Rightarrow> v
      | Some part \<Rightarrow> JObj (kept_fields [''partId'', ''mimeType'', ''filename''] part @ projected_headers part
          @ projected_body part
          @ (if is_jarr (jget part ''parts'')
             then [(''parts'', JArr (map project_part (filter (\<lambda>c. jfields c \<noteq> None) (jlist (jget part ''parts'')))))]
             else [])))"
  by pat_completeness auto

termination
  by (relation "measure size") (auto dest!: child_size elim!: jfields.elims)

definition normalized_gmail_payload_projection :: "(string \<times> json) list \<Rightarrow> json" where
  "normalized_gmail_payload_projection payload =
     JObj (kept_fields [''id'', ''threadId'', ''historyId'', ''labelIds'', ''internalDate'', ''snippet''] payload
       @ (if jfields (jget payload ''payload'') = None then [] else [(''payload'', project_part (jget payload ''payload''))]))"

section \<open>The status of a full payload\<close>

definition has_text :: "string option \<Rightarrow> bool" where
  "has_text v \<longleftrightarrow> strip (str_or_empty v) \<noteq> ''''"

text \<open>\<open>parsed.get("raw_payload") or {}\<close>\<close>

definition payload_fields :: "json \<Rightarrow> (string \<times> json) list" where
  "payload_fields v = (case jfields v of None \<Rightarrow> [] | Some fs \<Rightarrow> fs)"

definition mark_full_gmail_payload_body_fetch_status :: "message_row \<Rightarrow> message_row" where
  "mark_full_gmail_payload_body_fetch_status m =
     (let resolved = (has_text (gm_text_body m) \<or> has_text (gm_html_body_sanitized m) \<or> has_text (gm_html_render_document m));
          unresolved = gmail_payload_has_unresolved_text_body (gm_raw_payload m);
          status = (if unresolved \<and> \<not> resolved then Body_missing else Body_fetched)
      in m\<lparr>gm_attachment_descriptors_ready := True, gm_body_fetch_status := Some status,
           gm_raw_payload := (if status = Body_fetched
             then normalized_gmail_payload_projection (payload_fields (gm_raw_payload m)) else gm_raw_payload m)\<rparr>)"

declare reader_parts.simps [simp del] project_part.simps [simp del]

section \<open>The projection keeps the attachments\<close>

lemma jhas_kept [simp]: "jhas (kept_fields keys fs) k \<longleftrightarrow> k \<in> set keys \<and> jget fs k \<noteq> JNull"
  by (induction keys) (auto simp: jhas_def kept_fields_def)

lemma kept_fields_Cons: "kept_fields (j # keys) fs = (if jget fs j = JNull then [] else [(j, jget fs j)]) @ kept_fields keys fs"
  by (simp add: kept_fields_def)

lemma jget_kept: "jget (kept_fields keys fs) k = (if k \<in> set keys then jget fs k else JNull)"
proof (induction keys)
  case (Cons j keys)
  then show ?case by (cases "k = j") (auto simp: jget_simps kept_fields_Cons)
qed (simp add: kept_fields_def jget_Nil)

definition projected :: "(string \<times> json) list \<Rightarrow> (string \<times> json) list" where
  "projected part = payload_fields (project_part (JObj part))"

lemma project_JObj: "project_part (JObj part) = JObj (projected part)"
  by (simp add: projected_def payload_fields_def project_part.simps)

lemma projected_unfold:
  "projected part = kept_fields [''partId'', ''mimeType'', ''filename''] part @ projected_headers part @ projected_body part
     @ (if is_jarr (jget part ''parts'')
        then [(''parts'', JArr (map project_part (filter (\<lambda>c. jfields c \<noteq> None) (jlist (jget part ''parts'')))))] else [])"
  by (simp add: projected_def payload_fields_def project_part.simps)

lemma jhas_pieces [simp]:
  "jhas (projected_headers part) k \<longleftrightarrow> k = ''headers'' \<and> is_jarr (jget part ''headers'')"
  "jhas (projected_body part) k \<longleftrightarrow> k = ''body'' \<and> kept_fields [''attachmentId'', ''size''] (part_body part) \<noteq> []"
  by (auto simp: projected_headers_def projected_body_def Let_def jhas_pairs)

lemma projected_scalars:
  "jget (projected part) ''partId'' = jget part ''partId''"
  "jget (projected part) ''mimeType'' = jget part ''mimeType''"
  "jget (projected part) ''filename'' = jget part ''filename''"
  by (simp_all add: projected_unfold jget_simps jget_kept)

lemma projected_children:
  "jlist (jget (projected part) ''parts'') = map project_part (filter (\<lambda>c. jfields c \<noteq> None) (jlist (jget part ''parts'')))"
  by (cases "jget part ''parts''") (simp_all add: projected_unfold jget_simps jget_kept is_jarr_def)

lemma projected_part_body: "part_body (projected part) = kept_fields [''attachmentId'', ''size''] (part_body part)"
proof -
  let ?kept = "kept_fields [''attachmentId'', ''size''] (part_body part)"
  have "jget (projected part) ''body'' = (if ?kept = [] then JNull else JObj ?kept)"
    by (simp add: projected_unfold jget_simps jget_kept projected_body_def Let_def)
  then show ?thesis by (simp add: part_body_def [of "projected part"])
qed

lemma projected_part_header:
  assumes "name \<noteq> ''''"
  shows "part_header (projected part) name = part_header part name"
proof -
  define read where "read = (\<lambda>found h. case jfields h of None \<Rightarrow> found
      | Some fs \<Rightarrow> (let value = strip (or_text (jget fs ''value'') '''') in
          if lower (strip (or_text (jget fs ''name'') '''')) = name \<and> value \<noteq> '''' then value else found))"
  have kept: "foldl read found (project_header h) = read found h" for found h
  proof (cases "jfields h")
    case (Some fs)
    have "strip '''' = ''''" "lower '''' = ''''" by (simp_all add: strip_def lstrip_def rstrip_def lower_def)
    with assms have "read found h = found" if "jget fs ''name'' = JNull"
      using that Some by (simp add: read_def or_text_def)
    with Some show ?thesis by (simp add: project_header_def) (simp add: read_def jget_simps)
  qed (simp add: project_header_def read_def)
  have "foldl read found (concat (map project_header hs)) = foldl read found hs" for found hs
    by (induction hs arbitrary: found) (simp_all add: kept)
  moreover have "jlist (jget (projected part) ''headers'') = concat (map project_header (jlist (jget part ''headers'')))"
    by (cases "jget part ''headers''") (simp_all add: projected_unfold jget_simps jget_kept projected_headers_def is_jarr_def)
  ultimately show ?thesis
    by (simp add: part_header_def flip: read_def)
qed

lemma projected_attachment:
  "attachment_descriptor n (projected part) path = attachment_descriptor n part path"
  unfolding attachment_descriptor_def Let_def
  by (simp add: projected_scalars projected_part_body projected_part_header jget_kept)

text \<open>A MIME tree whose \<open>parts\<close> hold parts only, as Gmail's do.\<close>

inductive mime_tree :: "json \<Rightarrow> bool" where
  "(\<And>c. c \<in> set (jlist (jget fs ''parts'')) \<Longrightarrow> mime_tree c) \<Longrightarrow> mime_tree (JObj fs)"

inductive_cases mime_treeE: "mime_tree (JObj fs)"
inductive_simps mime_tree_simps [simp]: "mime_tree (JObj fs)" "mime_tree JNull"

lemma mime_tree_fields: "mime_tree v \<Longrightarrow> jfields v \<noteq> None"
  by (induction rule: mime_tree.induct) simp

lemma project_tree:
  "mime_tree v \<Longrightarrow> part_tree (project_part v) path = map (\<lambda>(part, p). (projected part, p)) (part_tree v path)"
  "\<forall>c \<in> set cs. mime_tree c \<Longrightarrow> part_children i (map project_part cs) path
     = map (\<lambda>(part, p). (projected part, p)) (part_children i cs path)"
proof (induction v path and i cs path rule: part_tree_part_children.induct)
  case (1 fs path)
  then have "\<forall>c \<in> set (jlist (jget fs ''parts'')). mime_tree c" by simp
  moreover then have "filter (\<lambda>c. jfields c \<noteq> None) (jlist (jget fs ''parts'')) = jlist (jget fs ''parts'')"
    by (auto intro!: filter_True dest: mime_tree_fields)
  ultimately show ?case using 1 by (simp add: project_JObj projected_children)
qed (auto elim: mime_tree.cases)

lemma descriptors_projected:
  "foldl (\<lambda>found (part, path). case attachment_descriptor (length found) part path of None \<Rightarrow> found | Some d \<Rightarrow> found @ [d]) acc
     (map (\<lambda>(part, p). (projected part, p)) ps)
   = foldl (\<lambda>found (part, path). case attachment_descriptor (length found) part path of None \<Rightarrow> found | Some d \<Rightarrow> found @ [d]) acc ps"
  by (induction ps arbitrary: acc) (auto simp: projected_attachment)

text \<open>The projection of a payload that replaces it in the cache loses no attachment and keeps no body.
  For a full Gmail payload whose MIME parts are well formed, the projection has the same attachment
  descriptors (names, types, sizes, attachment and part ids, in the same order), holds no body data,
  and keeps the identity fields of the message.\<close>

theorem projection_keeps_attachments:
  assumes "jget payload ''payload'' = JNull \<or> mime_tree (jget payload ''payload'')"
  shows "gmail_attachment_descriptors (normalized_gmail_payload_projection payload) = gmail_attachment_descriptors (JObj payload)
    \<and> \<not> payload_has_body_data (normalized_gmail_payload_projection payload)
    \<and> list_all (\<lambda>k. jget (payload_fields (normalized_gmail_payload_projection payload)) k = jget payload k)
         [''id'', ''threadId'', ''historyId'', ''labelIds'', ''internalDate'', ''snippet'']"
proof -
  let ?root = "jget payload ''payload''"
  define p where "p = payload_fields (normalized_gmail_payload_projection payload)"
  have fields: "normalized_gmail_payload_projection payload = JObj p"
    by (simp add: p_def normalized_gmail_payload_projection_def payload_fields_def)
  have root: "jget p ''payload'' = (if jfields ?root = None then JNull else project_part ?root)"
    by (simp add: p_def normalized_gmail_payload_projection_def payload_fields_def jget_simps jget_kept)
  have tree: "part_tree (jget p ''payload'') path = map (\<lambda>(part, p). (projected part, p)) (part_tree ?root path)" for path
    using assms by (auto simp: root project_tree(1) dest: mime_tree_fields)
  have "gmail_attachment_descriptors (JObj p) = gmail_attachment_descriptors (JObj payload)"
    by (simp add: gmail_attachment_descriptors_def tree descriptors_projected)
  moreover have "\<not> payload_has_body_data (JObj p)"
    by (auto simp: payload_has_body_data_def tree list_ex_iff projected_part_body jget_kept)
  moreover have "list_all (\<lambda>k. jget p k = jget payload k) [''id'', ''threadId'', ''historyId'', ''labelIds'', ''internalDate'', ''snippet'']"
    by (simp add: p_def normalized_gmail_payload_projection_def payload_fields_def jget_simps jget_kept)
  ultimately show ?thesis by (simp add: fields payload_fields_def)
qed

text \<open>The witness has a nested attachment and a text part with data.\<close>

definition sample_payload :: "(string \<times> json) list" where
  "sample_payload =
     [(''id'', JStr ''m1''), (''payload'', JObj [(''mimeType'', JStr ''multipart/mixed''), (''parts'', JArr
        [JObj [(''mimeType'', JStr ''text/plain''), (''body'', JObj [(''data'', JStr ''aGk='')])],
         JObj [(''partId'', JStr ''1''), (''filename'', JStr ''a.pdf''), (''body'', JObj [(''attachmentId'', JStr ''x''), (''size'', JInt 7)])]])])]"

theorem projection_keeps_attachments_witness:
  "gmail_attachment_descriptors (normalized_gmail_payload_projection sample_payload) = gmail_attachment_descriptors (JObj sample_payload)
   \<and> \<not> payload_has_body_data (normalized_gmail_payload_projection sample_payload)
   \<and> list_all (\<lambda>k. jget (payload_fields (normalized_gmail_payload_projection sample_payload)) k = jget sample_payload k)
         [''id'', ''threadId'', ''historyId'', ''labelIds'', ''internalDate'', ''snippet'']"
  by (rule projection_keeps_attachments) (auto simp: sample_payload_def jget_simps)

end
