(* ===== verification/Gmail_Fetch.thy ===== *)
theory Gmail_Fetch
  imports Gmail_Cursor Send_Delivery Body_Status
begin

text \<open>
  How \<open>backend/app/services/gmail_importer.py\<close> reads Gmail: list pages of messages, drafts
  and threads, the traversal of the history, and the batched fetch of messages and
  threads with a direct request for every answer a batch left out.

  A Gmail call is an effect of the record \<open>gmail_api\<close>: it may fail, and it may stand for
  what other processes commit while the call is in flight. A batch answers with the
  callbacks that ran, in their order, and the exception that ended it, if any. The
  decoder of a message (\<open>parse_gmail_message\<close> with its attachment resolver) is an effect,
  too. The \<open>str\<close> of a decoded array or object is not modelled: identifiers are texts or
  numbers.
\<close>

section \<open>The Gmail API\<close>

type_synonym batch_answer = "(string \<times> (exn + json)) list \<times> exn option"

record 's gmail_api =
  ga_authorized :: "string \<Rightarrow> ('s, bool) eff"
  ga_profile :: "('s, json) eff"
  ga_history :: "string \<Rightarrow> int \<Rightarrow> string option \<Rightarrow> ('s, json) eff"
  ga_messages :: "int \<Rightarrow> string option \<Rightarrow> string list \<Rightarrow> ('s, json) eff"
  ga_drafts :: "int \<Rightarrow> string option \<Rightarrow> ('s, json) eff"
  ga_threads :: "string option \<Rightarrow> int \<Rightarrow> string option \<Rightarrow> ('s, json) eff"
  ga_search :: "string \<Rightarrow> int \<Rightarrow> string option \<Rightarrow> ('s, json) eff"
  ga_message_batch :: "bool \<Rightarrow> string list \<Rightarrow> ('s, batch_answer) eff"
  ga_message :: "bool \<Rightarrow> string \<Rightarrow> ('s, json) eff"
  ga_thread_batch :: "string list \<Rightarrow> ('s, batch_answer) eff"
  ga_thread :: "string \<Rightarrow> ('s, json) eff"
  ga_parse :: "bool \<Rightarrow> string \<Rightarrow> (string \<times> json) list \<Rightarrow> ('s, message_row) eff"

text \<open>\<open>create_authorized_credentials\<close> and \<open>build_google_service\<close> before the calls of a function.\<close>

definition with_gmail :: "('s, 'b) gmail_api_scheme \<Rightarrow> string \<Rightarrow> ('s, 'a) eff \<Rightarrow> ('s, 'a) eff" where
  "with_gmail g user m =
     ebind (ga_authorized g user) (\<lambda>ok. if ok then m else eraise GoogleCredentialsUnavailable)"

text \<open>\<open>response.get\<close> on an answer that is not a dictionary raises.\<close>

definition as_fields :: "json \<Rightarrow> ('s, (string \<times> json) list) eff" where
  "as_fields v = (case jfields v of None \<Rightarrow> eraise (OtherError ''AttributeError'') | Some fs \<Rightarrow> ereturn fs)"

definition is_history_cursor_expired :: "exn \<Rightarrow> bool" where
  "is_history_cursor_expired e \<longleftrightarrow> e = HttpError (Some 404)"

definition is_provider_page_token_rejected :: "exn \<Rightarrow> bool" where
  "is_provider_page_token_rejected e \<longleftrightarrow> e = HttpError (Some 400) \<or> e = HttpError (Some 404)"

definition history_traversal_limit :: exn where
  "history_traversal_limit = OtherError ''GmailHistoryTraversalLimit''"

definition durable_page_token_rejected :: exn where
  "durable_page_token_rejected = OtherError ''GmailDurablePageTokenRejected''"

definition is_http_error :: "exn \<Rightarrow> bool" where
  "is_http_error e = (case e of HttpError _ \<Rightarrow> True | _ \<Rightarrow> False)"

section \<open>Scalars of an answer\<close>

text \<open>\<open>str(value)\<close> of a text, a number or a boolean.\<close>

fun json_str :: "json \<Rightarrow> string" where
  "json_str (JStr s) = s"
| "json_str (JInt i) = int_str i"
| "json_str (JBool b) = (if b then ''True'' else ''False'')"
| "json_str _ = ''''"

definition max_history_id :: "string option \<Rightarrow> json \<Rightarrow> string option" where
  "max_history_id left right =
     (if right = JNull then left
      else (case left of
              None \<Rightarrow> Some (json_str right)
            | Some l \<Rightarrow>
                (case (int_of_string l, int_of_string (json_str right)) of
                   (Inr a, Inr b) \<Rightarrow> Some (int_str (max a b))
                 | _ \<Rightarrow> Some (json_str right))))"

text \<open>\<open>token if isinstance(token, str) else None\<close>, and an empty token ends a listing, too.\<close>

definition next_page_token :: "(string \<times> json) list \<Rightarrow> string option" where
  "next_page_token fs = (case jget fs ''nextPageToken'' of JStr t \<Rightarrow> Some t | _ \<Rightarrow> None)"

definition jlist_of :: "json \<Rightarrow> json list" where
  "jlist_of v = (case v of JArr xs \<Rightarrow> xs | _ \<Rightarrow> [])"

definition id_of :: "string \<Rightarrow> json \<Rightarrow> string list" where
  "id_of key v =
     (case jfields v of None \<Rightarrow> []
      | Some fs \<Rightarrow> if truthy (jget fs key) then [json_str (jget fs key)] else [])"

definition provider_result_size_estimate :: "(string \<times> json) list \<Rightarrow> int" where
  "provider_result_size_estimate fs =
     (case jint (jor (jget fs ''resultSizeEstimate'') (JInt 0)) of Inr n \<Rightarrow> max 0 n | Inl _ \<Rightarrow> 0)"

section \<open>List pages\<close>

definition clamp :: "int \<Rightarrow> int \<Rightarrow> int \<Rightarrow> int" where
  "clamp low high n = max low (min n high)"

definition list_messages ::
    "('s, 'b) gmail_api_scheme \<Rightarrow> string \<Rightarrow> int \<Rightarrow> string option \<Rightarrow> string list \<Rightarrow> ('s, json) eff" where
  "list_messages g user batch_size page_token label_ids =
     with_gmail g user
       (ga_messages g (clamp 1 500 batch_size) (nonempty (str_or_empty page_token)) label_ids)"

text \<open>The listed drafts, as a message listing: their message ids and the next token.\<close>

definition list_draft_messages ::
    "('s, 'b) gmail_api_scheme \<Rightarrow> string \<Rightarrow> int \<Rightarrow> string option \<Rightarrow> ('s, json) eff" where
  "list_draft_messages g user batch_size page_token =
     with_gmail g user
       (ebind (ebind (ga_drafts g (clamp 1 500 batch_size) (nonempty (str_or_empty page_token))) as_fields) (\<lambda>fs.
        ereturn (JObj
          ((''messages'', JArr (concat (map (\<lambda>d. case jfields d of None \<Rightarrow> []
              | Some draft \<Rightarrow> map (\<lambda>i. JObj [(''id'', JStr i)]) (id_of ''id'' (jget draft ''message'')))
              (jlist_of (jget fs ''drafts'')))))
           # (case next_page_token fs of None \<Rightarrow> [] | Some t \<Rightarrow> [(''nextPageToken'', JStr t)])))))"

text \<open>The message ids of the two listings, each once, in order.\<close>

definition merge_listed_messages :: "(string \<times> json) list \<Rightarrow> (string \<times> json) list \<Rightarrow> string list" where
  "merge_listed_messages primary secondary =
     dict_fromkeys (concat (map (id_of ''id'') (jlist_of (jget primary ''messages'') @ jlist_of (jget secondary ''messages''))))"

section \<open>The history\<close>

text \<open>\<open>_history_messages\<close>: the message ids an entry names under the given keys.\<close>

definition history_message_ids :: "string \<Rightarrow> json \<Rightarrow> string list" where
  "history_message_ids key v =
     (case jfields v of None \<Rightarrow> []
      | Some fs \<Rightarrow> id_of ''id'' (if key = ''messages'' then v else jget fs ''message''))"

definition history_messages :: "string list \<Rightarrow> (string \<times> json) list \<Rightarrow> string list" where
  "history_messages keys entry =
     concat (map (\<lambda>key. concat (map (history_message_ids key) (jlist_of (jget entry key)))) keys)"

text \<open>What the traversal has collected so far.\<close>

record history_acc =
  ha_messages :: "string list"
  ha_deleted :: "string list"
  ha_added :: "string list"
  ha_latest :: "string option"

definition no_history :: history_acc where
  "no_history = \<lparr>ha_messages = [], ha_deleted = [], ha_added = [], ha_latest = None\<rparr>"

definition read_history_entry :: "history_acc \<Rightarrow> json \<Rightarrow> history_acc" where
  "read_history_entry acc v =
     (case jfields v of None \<Rightarrow> acc
      | Some entry \<Rightarrow>
          acc\<lparr>ha_latest := max_history_id (ha_latest acc) (jget entry ''id''),
              ha_messages := ha_messages acc
                @ history_messages [''messages'', ''messagesAdded'', ''labelsAdded'', ''labelsRemoved''] entry,
              ha_deleted := ha_deleted acc @ history_messages [''messagesDeleted''] entry,
              ha_added := ha_added acc @ history_messages [''messagesAdded''] entry\<rparr>)"

definition read_history_page :: "history_acc \<Rightarrow> (string \<times> json) list \<Rightarrow> history_acc" where
  "read_history_page acc fs =
     foldl read_history_entry (acc\<lparr>ha_latest := max_history_id (ha_latest acc) (jget fs ''historyId'')\<rparr>)
       (jlist_of (jget fs ''history''))"

text \<open>The loop over the pages; \<open>budget\<close> is the number of pages it may still read.\<close>

fun history_walk ::
    "('s, 'b) gmail_api_scheme \<Rightarrow> string \<Rightarrow> int \<Rightarrow> nat \<Rightarrow> string option \<Rightarrow> string list \<Rightarrow> history_acc
      \<Rightarrow> ('s, history_acc) eff" where
  "history_walk g start limit 0 page_token seen acc = eraise history_traversal_limit"
| "history_walk g start limit (Suc budget) page_token seen acc =
     ebind (ebind (ga_history g start limit page_token) as_fields) (\<lambda>fs.
       let acc' = read_history_page acc fs in
       case next_page_token fs of
         None \<Rightarrow> ereturn acc'
       | Some t \<Rightarrow>
           if t = '''' then ereturn acc'
           else if budget = 0 \<or> t \<in> set seen then eraise history_traversal_limit
           else history_walk g start limit budget (Some t) (t # seen) acc')"

record history_delta =
  hd_message_ids :: "string list"
  hd_deleted_message_ids :: "string list"
  hd_added_message_ids :: "string list"
  hd_latest_history_id :: "string option"

definition delta_of :: "history_acc \<Rightarrow> history_delta" where
  "delta_of acc =
     (let alive = filter (\<lambda>i. i \<notin> set (ha_deleted acc)) in
      \<lparr>hd_message_ids = alive (dict_fromkeys (ha_messages acc)), hd_deleted_message_ids = dict_fromkeys (ha_deleted acc),
       hd_added_message_ids = alive (dict_fromkeys (ha_added acc)), hd_latest_history_id = ha_latest acc\<rparr>)"

definition history_max_pages :: nat where
  "history_max_pages = 2000"

definition list_history_delta ::
    "('s, 'b) gmail_api_scheme \<Rightarrow> string \<Rightarrow> string \<Rightarrow> int \<Rightarrow> ('s, history_delta) eff" where
  "list_history_delta g user start page_size =
     with_gmail g user
       (ebind (history_walk g start (clamp 1 500 page_size) history_max_pages None [] no_history) (\<lambda>acc.
        ereturn (delta_of acc)))"

section \<open>Messages by id\<close>

type_synonym payloads = "(string \<times> (string \<times> json) list) list"

text \<open>\<open>payloads[id] = response\<close> on a dictionary that is only ever looked up.\<close>

definition payload_of :: "payloads \<Rightarrow> string \<Rightarrow> (string \<times> json) list option" where
  "payload_of ps i = map_of ps i"

text \<open>The callback of a message batch: answers are kept, a missing message is terminal where the caller allows it.\<close>

definition message_callback ::
    "bool \<Rightarrow> payloads \<times> string list \<Rightarrow> string \<times> (exn + json) \<Rightarrow> payloads \<times> string list" where
  "message_callback forgiving acc answer =
     (case acc of (ps, gone) \<Rightarrow>
        (case answer of
           (i, Inr v) \<Rightarrow> (case jfields v of None \<Rightarrow> (ps, gone) | Some fs \<Rightarrow> ((i, fs) # ps, gone))
         | (i, Inl e) \<Rightarrow> if e = HttpError (Some 404) \<and> forgiving then (ps, i # gone) else (ps, gone)))"

fun chunks_of :: "nat \<Rightarrow> 'a list \<Rightarrow> 'a list list" where
  "chunks_of n [] = []"
| "chunks_of n (x # xs) = take (Suc n) (x # xs) # chunks_of n (drop n xs)"

text \<open>The batches of 50 requests. The first one that fails, in any way, ends the loop.\<close>

fun message_batches ::
    "('s, 'b) gmail_api_scheme \<Rightarrow> bool \<Rightarrow> bool \<Rightarrow> string list list \<Rightarrow> payloads \<times> string list
      \<Rightarrow> ('s, payloads \<times> string list) eff" where
  "message_batches g full forgiving [] acc = ereturn acc"
| "message_batches g full forgiving (ids # rest) acc =
     ebind (etry (ga_message_batch g full ids) (\<lambda>e. ereturn ([], Some e))) (\<lambda>(answers, failed).
       let acc' = foldl (message_callback forgiving) acc answers in
       if failed = None then message_batches g full forgiving rest acc' else ereturn acc')"

text \<open>The direct requests for the messages no batch answered. A missing message is skipped where the
  caller allows it; any other failure ends the fetch.\<close>

fun fetch_missing ::
    "('s, 'b) gmail_api_scheme \<Rightarrow> bool \<Rightarrow> bool \<Rightarrow> string list \<Rightarrow> payloads \<times> string list
      \<Rightarrow> ('s, payloads \<times> string list) eff" where
  "fetch_missing g full forgiving [] acc = ereturn acc"
| "fetch_missing g full forgiving (i # ids) acc =
     ebind (etry (ebind (ga_message g full i) (\<lambda>v. ereturn (Some v)))
             (\<lambda>e. if forgiving \<and> is_history_cursor_expired e then ereturn None else eraise e)) (\<lambda>answer.
       fetch_missing g full forgiving ids
         (case answer of None \<Rightarrow> (fst acc, i # snd acc)
          | Some v \<Rightarrow> (case jfields v of None \<Rightarrow> acc | Some fs \<Rightarrow> ((i, fs) # fst acc, snd acc))))"

text \<open>\<open>_batch_get_message_payloads\<close>: the payloads by id and the ids that Gmail no longer has.\<close>

definition batch_get_message_payloads ::
    "('s, 'b) gmail_api_scheme \<Rightarrow> string list \<Rightarrow> bool \<Rightarrow> bool \<Rightarrow> bool \<Rightarrow> ('s, payloads \<times> string list) eff" where
  "batch_get_message_payloads g message_ids full skip_not_found continue_on_error =
     (let ids = dict_fromkeys message_ids; forgiving = (skip_not_found \<or> continue_on_error) in
      ebind (message_batches g full forgiving (chunks_of 49 ids) ([], [])) (\<lambda>(ps, gone).
        fetch_missing g full forgiving (filter (\<lambda>i. payload_of ps i = None \<and> i \<notin> set gone) ids) (ps, gone)))"

text \<open>Decoding the payloads in the order of the ids; the newest history id among them.\<close>

fun parse_payloads ::
    "('s, 'b) gmail_api_scheme \<Rightarrow> bool \<Rightarrow> string \<Rightarrow> payloads \<Rightarrow> string list \<Rightarrow> ('s, message_row list) eff" where
  "parse_payloads g full user ps [] = ereturn []"
| "parse_payloads g full user ps (i # ids) =
     (case payload_of ps i of
        None \<Rightarrow> parse_payloads g full user ps ids
      | Some fs \<Rightarrow>
          ebind (ga_parse g full user fs) (\<lambda>m.
          ebind (parse_payloads g full user ps ids) (\<lambda>ms.
          ereturn ((if full then mark_full_gmail_payload_body_fetch_status m else m) # ms))))"

definition newest_history :: "message_row list \<Rightarrow> string option" where
  "newest_history ms = foldl (\<lambda>h m. max_history_id h (jstr_opt (gm_history_id m))) None ms"

definition hydrate_messages ::
    "('s, 'b) gmail_api_scheme \<Rightarrow> string \<Rightarrow> string list \<Rightarrow> bool \<Rightarrow> bool
      \<Rightarrow> ('s, message_row list \<times> string option) eff" where
  "hydrate_messages g user message_ids full skip_not_found =
     with_gmail g user
       (ebind (batch_get_message_payloads g message_ids full skip_not_found False) (\<lambda>(ps, gone).
        ebind (parse_payloads g full user ps message_ids) (\<lambda>ms.
        ereturn (ms, newest_history ms))))"

definition listed_ids :: "(string \<times> json) list \<Rightarrow> string list" where
  "listed_ids fs = concat (map (id_of ''id'') (jlist_of (jget fs ''messages'')))"

definition hydrate_message_ids ::
    "('s, 'b) gmail_api_scheme \<Rightarrow> string \<Rightarrow> string list \<Rightarrow> bool \<Rightarrow> bool
      \<Rightarrow> ('s, message_row list \<times> string option) eff" where
  "hydrate_message_ids g user message_ids full skip_not_found =
     hydrate_messages g user (filter (\<lambda>i. i \<noteq> '''') (dict_fromkeys message_ids)) full skip_not_found"

section \<open>Threads by id\<close>

definition thread_callback ::
    "payloads \<times> (string \<times> exn) list \<Rightarrow> string \<times> (exn + json) \<Rightarrow> payloads \<times> (string \<times> exn) list" where
  "thread_callback acc answer =
     (case acc of (ps, errors) \<Rightarrow>
        (case answer of
           (i, Inr v) \<Rightarrow> (case jfields v of None \<Rightarrow> (ps, errors) | Some fs \<Rightarrow> ((i, fs) # ps, errors))
         | (i, Inl e) \<Rightarrow> (ps, dict_set errors i e)))"

text \<open>A failed batch is forgiven, its answers kept, unless the failure is one of the transport.\<close>

definition is_transport_error :: "exn \<Rightarrow> bool" where
  "is_transport_error e \<longleftrightarrow> is_http_error e \<or> is_os_error e"

text \<open>Failures of single requests: a thread that is gone is terminal, any other failure is raised.\<close>

fun sort_thread_errors :: "(string \<times> exn) list \<Rightarrow> string list \<Rightarrow> exn + string list" where
  "sort_thread_errors [] gone = Inr gone"
| "sort_thread_errors ((i, e) # errors) gone =
     (if is_history_cursor_expired e then sort_thread_errors errors (i # gone) else Inl e)"

fun fetch_missing_threads ::
    "('s, 'b) gmail_api_scheme \<Rightarrow> string list \<Rightarrow> payloads \<times> string list \<Rightarrow> ('s, payloads \<times> string list) eff" where
  "fetch_missing_threads g [] acc = ereturn acc"
| "fetch_missing_threads g (i # ids) acc =
     (if payload_of (fst acc) i \<noteq> None \<or> i \<in> set (snd acc) then fetch_missing_threads g ids acc
      else ebind (etry (ebind (ga_thread g i) (\<lambda>v. ereturn (Some v)))
                  (\<lambda>e. if is_history_cursor_expired e then ereturn None else eraise e)) (\<lambda>answer.
        fetch_missing_threads g ids
          (case answer of None \<Rightarrow> (fst acc, i # snd acc)
           | Some v \<Rightarrow> (case jfields v of None \<Rightarrow> acc | Some fs \<Rightarrow> ((i, fs) # fst acc, snd acc)))))"

fun thread_batches ::
    "('s, 'b) gmail_api_scheme \<Rightarrow> string list list \<Rightarrow> payloads \<times> string list \<Rightarrow> ('s, payloads \<times> string list) eff" where
  "thread_batches g [] acc = ereturn acc"
| "thread_batches g (ids # rest) acc =
     ebind (ga_thread_batch g ids) (\<lambda>(answers, failed).
       if failed \<noteq> None \<and> is_transport_error (the failed) then eraise (the failed)
       else (case foldl thread_callback (fst acc, []) answers of (ps, errors) \<Rightarrow>
         (case sort_thread_errors errors (snd acc) of
            Inl e \<Rightarrow> eraise e
          | Inr gone \<Rightarrow> ebind (fetch_missing_threads g ids (ps, gone)) (thread_batches g rest))))"

text \<open>\<open>_batch_get_thread_metadata_payloads\<close>: batches of 25.\<close>

definition batch_get_thread_metadata_payloads ::
    "('s, 'b) gmail_api_scheme \<Rightarrow> string list \<Rightarrow> ('s, payloads \<times> string list) eff" where
  "batch_get_thread_metadata_payloads g thread_ids =
     thread_batches g (chunks_of 24 (dict_fromkeys (filter (\<lambda>i. i \<noteq> '''') thread_ids))) ([], [])"

fun parse_thread_messages ::
    "('s, 'b) gmail_api_scheme \<Rightarrow> string \<Rightarrow> json list \<Rightarrow> ('s, (string \<times> message_row) list) eff" where
  "parse_thread_messages g user [] = ereturn []"
| "parse_thread_messages g user (v # vs) =
     (case id_of ''id'' v of
        i # _ \<Rightarrow>
          ebind (ga_parse g False user (the (jfields v))) (\<lambda>m.
          ebind (parse_thread_messages g user vs) (\<lambda>ms. ereturn ((i, m) # ms)))
      | [] \<Rightarrow> parse_thread_messages g user vs)"

text \<open>The outcome of a thread fetch: messages by id, the threads that have messages, and those that have none.\<close>

type_synonym thread_outcome = "(string \<times> message_row) list \<times> string list \<times> string list"

fun hydrate_threads ::
    "('s, 'b) gmail_api_scheme \<Rightarrow> string \<Rightarrow> payloads \<Rightarrow> string list \<Rightarrow> thread_outcome \<Rightarrow> ('s, thread_outcome) eff" where
  "hydrate_threads g user ps [] acc = ereturn acc"
| "hydrate_threads g user ps (i # ids) acc =
     (case payload_of ps i of
        None \<Rightarrow> hydrate_threads g user ps ids acc
      | Some fs \<Rightarrow>
          ebind (parse_thread_messages g user (jlist_of (jget fs ''messages''))) (\<lambda>ms.
          hydrate_threads g user ps ids
            (case acc of (found, ok, gone) \<Rightarrow>
               (foldl (\<lambda>d (k, m). dict_set d k m) found ms,
                if ms = [] then ok else ok @ [i], if ms = [] then gone @ [i] else gone))))"

definition hydrate_gmail_thread_ids_metadata ::
    "('s, 'b) gmail_api_scheme \<Rightarrow> string \<Rightarrow> string list \<Rightarrow> ('s, message_row list \<times> string list \<times> string list) eff" where
  "hydrate_gmail_thread_ids_metadata g user thread_ids =
     with_gmail g user
       (ebind (batch_get_thread_metadata_payloads g thread_ids) (\<lambda>(ps, missing).
        ebind (hydrate_threads g user ps (dict_fromkeys thread_ids) ([], [], [])) (\<lambda>(found, ok, gone).
        ereturn (map snd found, ok, missing @ gone))))"

text \<open>\<open>successful_thread_ids.update(..)\<close> of the callers: the threads of the messages themselves.\<close>

definition successful_threads :: "message_row list \<Rightarrow> string list \<Rightarrow> string list" where
  "successful_threads ms ok = ok @ concat (map (\<lambda>m. if truthy_str (gm_gmail_thread_id m)
     then [str_or_empty (gm_gmail_thread_id m)] else []) ms)"

section \<open>The recent window\<close>

record thread_window =
  tw_threads :: "string list"
  tw_estimate :: "int option"
  tw_continuation :: "string option"

text \<open>The new thread ids of a page, up to 100 in all.\<close>

definition add_window_threads :: "string list \<Rightarrow> json list \<Rightarrow> string list" where
  "add_window_threads threads items = take 100 (dict_fromkeys (threads @ concat (map (id_of ''id'') items)))"

definition window_estimate :: "int option \<Rightarrow> (string \<times> json) list \<Rightarrow> int option" where
  "window_estimate estimate fs =
     (if jget fs ''resultSizeEstimate'' = JNull then estimate
      else (case jint (jget fs ''resultSizeEstimate'') of
              Inl _ \<Rightarrow> estimate
            | Inr n \<Rightarrow> Some (max (case estimate of None \<Rightarrow> 0 | Some e \<Rightarrow> e) (max 0 n))))"

text \<open>
  The loop over the pages. Gmail decides how many pages there are; the source has no bound of its own.
  \<open>fuel\<close> is one, and \<open>initial_window_walk_ends\<close> below says how much is enough.
\<close>

fun initial_window_walk ::
    "('s, 'b) gmail_api_scheme \<Rightarrow> string \<Rightarrow> nat \<Rightarrow> string option \<Rightarrow> string list \<Rightarrow> thread_window
      \<Rightarrow> ('s, thread_window option) eff" where
  "initial_window_walk g query 0 page_token seen w = ereturn None"
| "initial_window_walk g query (Suc fuel) page_token seen w =
     ebind (ga_threads g (Some query) (100 - int (length (tw_threads w))) page_token) (\<lambda>response.
       case jfields response of
         None \<Rightarrow> eraise (RuntimeError ''Gmail returned an invalid initial thread window'')
       | Some fs \<Rightarrow>
           (let next_token = nonempty (json_str_or_empty (jget fs ''nextPageToken''));
                w' = \<lparr>tw_threads = add_window_threads (tw_threads w) (jlist_of (jget fs ''threads'')),
                      tw_estimate = window_estimate (tw_estimate w) fs, tw_continuation = next_token\<rparr>
            in case next_token of
                 None \<Rightarrow> ereturn (Some w')
               | Some t \<Rightarrow>
                   if 100 \<le> length (tw_threads w') then ereturn (Some w')
                   else if page_token = Some t \<or> t \<in> set seen
                   then eraise (RuntimeError ''Gmail initial thread pagination repeated a page token'')
                   else initial_window_walk g query fuel (Some t) (t # seen) w'))"

definition recent_query :: "instant \<Rightarrow> string" where
  "recent_query now = ''after:'' @ int_str ((now - days 90) div 1000000)"

definition list_initial_window_threads ::
    "('s, 'b) gmail_api_scheme \<Rightarrow> nat \<Rightarrow> instant \<Rightarrow> string \<Rightarrow> ('s, thread_window option) eff" where
  "list_initial_window_threads g fuel now user =
     with_gmail g user
       (initial_window_walk g (recent_query now) fuel None []
          \<lparr>tw_threads = [], tw_estimate = None, tw_continuation = None\<rparr>)"

end
