(* ===== verification/Fetch_Laws.thy ===== *)
theory Fetch_Laws
  imports Gmail_Fetch
begin

text \<open>
  What the readers of Gmail guarantee: the traversal of the history reads every page or
  fails, the delta is the union of the pages, the batched fetch of messages agrees with
  one request per message, and the recent window ends.
\<close>

section \<open>The traversal of the history\<close>

text \<open>The pages from a token on, if the listing ends.\<close>

inductive page_chain :: "(string option \<Rightarrow> (string \<times> json) list) \<Rightarrow> string option \<Rightarrow> (string \<times> json) list list \<Rightarrow> bool"
  for pages where
  last_page: "\<not> truthy_str (next_page_token (pages token)) \<Longrightarrow> page_chain pages token [pages token]"
| more_pages: "next_page_token (pages token) = Some t \<Longrightarrow> t \<noteq> '''' \<Longrightarrow> page_chain pages (Some t) ps \<Longrightarrow>
    page_chain pages token (pages token # ps)"

inductive_cases page_chain_cases: "page_chain pages token ps"

lemma page_chain_unfold:
  assumes "page_chain pages token qs"
  shows "(\<not> truthy_str (next_page_token (pages token)) \<longrightarrow> qs = [pages token])
    \<and> (\<forall>t. next_page_token (pages token) = Some t \<and> t \<noteq> '''' \<longrightarrow> (\<exists>ps. qs = pages token # ps \<and> page_chain pages (Some t) ps))"
  using assms by (rule page_chain_cases) (auto simp: truthy_str_def str_or_empty_def)

lemma page_chain_unique: "page_chain pages token ps \<Longrightarrow> page_chain pages token qs \<Longrightarrow> ps = qs"
proof (induction arbitrary: qs rule: page_chain.induct)
  case (last_page token)
  then show ?case using page_chain_unfold by blast
next
  case (more_pages token t ps)
  from page_chain_unfold [OF more_pages.prems] more_pages.hyps(1,2)
  obtain ps' where "qs = pages token # ps'" "page_chain pages (Some t) ps'" by auto
  with more_pages.IH show ?case by simp
qed

lemma page_chain_nonempty: "page_chain pages token ps \<Longrightarrow> ps \<noteq> []"
  by (erule page_chain_cases) simp_all

definition history_reader ::
    "('s, 'b) gmail_api_scheme \<Rightarrow> string \<Rightarrow> int \<Rightarrow> (string option \<Rightarrow> (string \<times> json) list) \<Rightarrow> bool" where
  "history_reader g start limit pages \<longleftrightarrow>
     (\<forall>token s. ga_history g start limit token s = (Inr (JObj (pages token)), s))"

lemma history_walk_step:
  assumes "history_reader g start limit pages"
  shows "history_walk g start limit (Suc budget) token seen acc s =
     (let acc' = read_history_page acc (pages token) in
      case next_page_token (pages token) of
        None \<Rightarrow> (Inr acc', s)
      | Some t \<Rightarrow>
          if t = '''' then (Inr acc', s)
          else if budget = 0 \<or> t \<in> set seen then (Inl history_traversal_limit, s)
          else history_walk g start limit budget (Some t) (t # seen) acc' s)"
  using assms by (simp add: history_reader_def ebind_apply as_fields_def Let_def split: option.split)

declare history_walk.simps(2) [simp del]

lemma history_walk_complete:
  assumes reader: "history_reader g start limit pages"
    and "page_chain pages token ps" and "length ps \<le> budget"
    and "\<forall>t \<in> set seen. \<exists>qs. page_chain pages (Some t) qs \<and> length ps \<le> length qs"
  shows "history_walk g start limit budget token seen acc s = (Inr (foldl read_history_page acc ps), s)"
  using assms(2-)
proof (induction arbitrary: budget seen acc rule: page_chain.induct)
  case (last_page token)
  then obtain n where "budget = Suc n" by (cases budget) auto
  with last_page(1) show ?case
    by (cases "next_page_token (pages token)")
      (simp_all add: history_walk_step [OF reader] Let_def truthy_str_def str_or_empty_def)
next
  case (more_pages token t ps)
  then obtain n where n: "budget = Suc n" by (cases budget) auto
  have "n \<noteq> 0" using more_pages.prems(1) n page_chain_nonempty [OF more_pages.hyps(3)] by (cases ps) auto
  moreover have "t \<notin> set seen"
  proof
    assume "t \<in> set seen"
    then obtain qs where qs: "page_chain pages (Some t) qs" "length (pages token # ps) \<le> length qs"
      using more_pages.prems(2) by auto
    from page_chain_unique [OF more_pages.hyps(3) qs(1)] qs(2) show False by simp
  qed
  moreover have "history_walk g start limit n (Some t) (t # seen) acc' s = (Inr (foldl read_history_page acc' ps), s)" for acc'
  proof (rule more_pages.IH)
    show "length ps \<le> n" using more_pages.prems(1) n by simp
    show "\<forall>t' \<in> set (t # seen). \<exists>qs. page_chain pages (Some t') qs \<and> length ps \<le> length qs"
      using more_pages.prems(2) more_pages.hyps(3) by fastforce
  qed
  ultimately show ?case
    using more_pages.hyps(1,2) n by (simp add: history_walk_step [OF reader] Let_def)
qed

lemma history_walk_limit:
  assumes reader: "history_reader g start limit pages"
    and "\<forall>ps. page_chain pages token ps \<longrightarrow> budget < length ps"
  shows "history_walk g start limit budget token seen acc s = (Inl history_traversal_limit, s)"
  using assms(2)
proof (induction budget arbitrary: token seen acc)
  case (Suc n)
  show ?case
  proof (cases "truthy_str (next_page_token (pages token))")
    case False
    with Suc.prems page_chain.last_page [of pages token] show ?thesis by fastforce
  next
    case True
    then obtain t where t: "next_page_token (pages token) = Some t" "t \<noteq> ''''"
      by (auto simp: truthy_str_def str_or_empty_def split: option.splits)
    have "n < length ps" if "page_chain pages (Some t) ps" for ps
      using Suc.prems page_chain.more_pages [OF t that] by fastforce
    then have "history_walk g start limit n (Some t) (t # seen) acc' s = (Inl history_traversal_limit, s)" for acc'
      using Suc.IH by blast
    with t show ?thesis by (simp add: history_walk_step [OF reader] Let_def)
  qed
qed simp

section \<open>What a delta holds\<close>

text \<open>The message ids that the entries of the pages name under some keys.\<close>

definition named_in :: "string list \<Rightarrow> (string \<times> json) list list \<Rightarrow> string set" where
  "named_in keys pages =
     (\<Union>fs \<in> set pages. \<Union>v \<in> set (jlist_of (jget fs ''history'')).
        case jfields v of None \<Rightarrow> {} | Some entry \<Rightarrow> set (history_messages keys entry))"

abbreviation changed_keys :: "string list" where
  "changed_keys \<equiv> [''messages'', ''messagesAdded'', ''labelsAdded'', ''labelsRemoved'']"

text \<open>The history ids of the pages and of their entries.\<close>

definition history_ids_in :: "(string \<times> json) list list \<Rightarrow> json list" where
  "history_ids_in pages =
     concat (map (\<lambda>fs. jget fs ''historyId'' # concat (map (\<lambda>v. case jfields v of None \<Rightarrow> []
        | Some entry \<Rightarrow> [jget entry ''id'']) (jlist_of (jget fs ''history'')))) pages)"

lemma named_in_simps [simp]:
  "named_in keys [] = {}"
  "named_in keys (fs # pages) = (\<Union>v \<in> set (jlist_of (jget fs ''history'')).
     case jfields v of None \<Rightarrow> {} | Some entry \<Rightarrow> set (history_messages keys entry)) \<union> named_in keys pages"
  by (simp_all add: named_in_def)

lemma read_entries:
  "set (ha_messages (foldl read_history_entry acc vs)) = set (ha_messages acc)
     \<union> (\<Union>v \<in> set vs. case jfields v of None \<Rightarrow> {} | Some e \<Rightarrow> set (history_messages changed_keys e))"
  "set (ha_deleted (foldl read_history_entry acc vs)) = set (ha_deleted acc)
     \<union> (\<Union>v \<in> set vs. case jfields v of None \<Rightarrow> {} | Some e \<Rightarrow> set (history_messages [''messagesDeleted''] e))"
  "set (ha_added (foldl read_history_entry acc vs)) = set (ha_added acc)
     \<union> (\<Union>v \<in> set vs. case jfields v of None \<Rightarrow> {} | Some e \<Rightarrow> set (history_messages [''messagesAdded''] e))"
  "ha_latest (foldl read_history_entry acc vs) = foldl max_history_id (ha_latest acc)
     (concat (map (\<lambda>v. case jfields v of None \<Rightarrow> [] | Some e \<Rightarrow> [jget e ''id'']) vs))"
  by (induction vs arbitrary: acc) (auto simp: read_history_entry_def split: option.split)

lemma read_pages:
  "set (ha_messages (foldl read_history_page acc ps)) = set (ha_messages acc) \<union> named_in changed_keys ps"
  "set (ha_deleted (foldl read_history_page acc ps)) = set (ha_deleted acc) \<union> named_in [''messagesDeleted''] ps"
  "set (ha_added (foldl read_history_page acc ps)) = set (ha_added acc) \<union> named_in [''messagesAdded''] ps"
  "ha_latest (foldl read_history_page acc ps) = foldl max_history_id (ha_latest acc) (history_ids_in ps)"
  by (induction ps arbitrary: acc) (auto simp: read_history_page_def read_entries history_ids_in_def)

lemma int_of_digits:
  assumes "isdigit s"
  shows "int_of_string s = Inr (int (numeral_of s))"
proof -
  from assms obtain c r where s: "s = c # r" "is_digit c" "list_all is_digit s"
    by (cases s) (simp_all add: isdigit_def)
  have no_space: "\<not> is_space d" if "is_digit d" for d
    using that by (auto simp: is_digit_def is_space_def Let_def)
  have stripped: "dropWhile is_space t = t" if "list_all is_digit t" for t
    using that no_space by (cases t) simp_all
  have "strip s = s" using s(3) stripped [of s] stripped [of "rev s"]
    by (simp add: strip_def lstrip_def rstrip_def list_all_iff)
  moreover have "digit_groups t" if "list_all is_digit t" "t \<noteq> []" for t
    using that by (induction t rule: digit_groups.induct) (auto simp: is_digit_def)
  moreover have "digits_value s = numeral_of s"
    using s(3) by (simp add: digits_value_def list_all_iff)
  moreover have "c \<noteq> CHR ''-''" "c \<noteq> CHR ''+''" using s(2) by (auto simp: is_digit_def)
  ultimately show ?thesis using s by (simp add: int_of_string_def Let_def)
qed

lemma isdigit_nat_str [simp]: "isdigit (nat_str n)" "numeral_of (nat_str n) = n"
  using nat_str_spec [of n] by (simp_all add: isdigit_def)

lemma max_history_simps [simp]:
  "max_history_id left JNull = left" "max_history_id None (JStr h) = Some h"
  by (simp_all add: max_history_id_def)

lemma max_history_numeric:
  assumes "isdigit m" "isdigit h"
  shows "\<exists>m'. max_history_id (Some m) (JStr h) = Some m' \<and> isdigit m' \<and> numeral_of m' = max (numeral_of m) (numeral_of h)"
  using assms by (simp add: max_history_id_def int_of_digits int_str_def flip: of_nat_max)

text \<open>The ids of a list are all digit texts, or absent.\<close>

definition numeric_ids :: "json list \<Rightarrow> bool" where
  "numeric_ids ids \<longleftrightarrow> (\<forall>v \<in> set ids. v = JNull \<or> (\<exists>h. v = JStr h \<and> isdigit h))"

definition newest_of :: "json list \<Rightarrow> string \<Rightarrow> bool" where
  "newest_of ids m \<longleftrightarrow> isdigit m \<and> (\<exists>h. JStr h \<in> set ids \<and> numeral_of m = numeral_of h)
     \<and> (\<forall>h. JStr h \<in> set ids \<longrightarrow> numeral_of h \<le> numeral_of m)"

lemma fold_max_history:
  "numeric_ids ids \<Longrightarrow> newest_of (JStr m # ids') m \<Longrightarrow>
   \<exists>m'. foldl max_history_id (Some m) ids = Some m' \<and> newest_of (JStr m # ids' @ ids) m'"
proof (induction ids arbitrary: m ids')
  case (Cons v ids)
  show ?case
  proof (cases v)
    case JNull
    with Cons.IH [of m "ids' @ [v]"] Cons.prems show ?thesis
      by (simp add: numeric_ids_def newest_of_def)
  next
    case (JStr h)
    then have h: "isdigit h" using Cons.prems(1) by (simp add: numeric_ids_def)
    from max_history_numeric [OF _ h, of m] Cons.prems(2) obtain m1
      where m1: "max_history_id (Some m) (JStr h) = Some m1" "isdigit m1" "numeral_of m1 = max (numeral_of m) (numeral_of h)"
      by (auto simp: newest_of_def)
    have "newest_of (JStr m1 # JStr m # ids' @ [v]) m1"
      using Cons.prems(2) m1(2,3) JStr by (auto simp: newest_of_def)
    from Cons.IH [OF _ this] Cons.prems(1) obtain m'
      where m': "foldl max_history_id (Some m1) ids = Some m'" "newest_of (JStr m1 # JStr m # ids' @ v # ids) m'"
      by (auto simp: numeric_ids_def)
    have "newest_of (JStr m # ids' @ v # ids) m'"
      using m'(2) m1(3) JStr by (auto simp: newest_of_def max_def split: if_splits)
    with m'(1) m1(1) JStr show ?thesis by auto
  qed (use Cons.prems in \<open>simp_all add: numeric_ids_def\<close>)
qed simp

lemma latest_history:
  assumes "numeric_ids ids" and "\<exists>h. JStr h \<in> set ids"
  shows "\<exists>m. foldl max_history_id None ids = Some m \<and> newest_of ids m"
  using assms
proof (induction ids)
  case (Cons v ids)
  show ?case
  proof (cases v)
    case JNull
    with Cons show ?thesis by (simp add: numeric_ids_def newest_of_def)
  next
    case (JStr h)
    with Cons.prems fold_max_history [of ids h "[]"] show ?thesis
      by (simp add: numeric_ids_def newest_of_def)
  qed (use Cons.prems in \<open>simp_all add: numeric_ids_def\<close>)
qed simp

text \<open>C25: the traversal of the history reads the whole listing or fails. If the pages that Gmail serves
  from the start form a listing of at most 2000 pages, the traversal ends with a delta over all of
  them: the changed, deleted and added messages are those that any entry of any page names, a deleted
  message is reported as neither changed nor added, every id once, and the cursor is the greatest
  history id of the pages and entries (which are numeric). In every other case, a longer listing or
  one whose tokens run in a circle, it ends with the traversal limit, and no cursor is produced.\<close>

theorem history_delta_covers_every_page:
  assumes "\<forall>s. ga_authorized g user s = (Inr True, s)" and "history_reader g start (clamp 1 500 n) pages"
  shows "if \<exists>ps. page_chain pages None ps \<and> length ps \<le> 2000
     then \<exists>ps d. page_chain pages None ps \<and> list_history_delta g user start n s = (Inr d, s)
       \<and> set (hd_deleted_message_ids d) = named_in [''messagesDeleted''] ps
       \<and> set (hd_message_ids d) = named_in changed_keys ps - named_in [''messagesDeleted''] ps
       \<and> set (hd_added_message_ids d) = named_in [''messagesAdded''] ps - named_in [''messagesDeleted''] ps
       \<and> distinct (hd_message_ids d) \<and> distinct (hd_deleted_message_ids d)
       \<and> (numeric_ids (history_ids_in ps) \<and> (\<exists>h. JStr h \<in> set (history_ids_in ps)) \<longrightarrow>
            (\<exists>m. hd_latest_history_id d = Some m \<and> newest_of (history_ids_in ps) m))
     else list_history_delta g user start n s = (Inl history_traversal_limit, s)"
proof -
  let ?walk = "history_walk g start (clamp 1 500 n) 2000 None [] no_history s"
  have delta: "list_history_delta g user start n s = (case ?walk of (Inl e, s') \<Rightarrow> (Inl e, s') | (Inr acc, s') \<Rightarrow> (Inr (delta_of acc), s'))"
    using assms(1) by (simp add: list_history_delta_def with_gmail_def ebind_apply history_max_pages_def split: outcome_splits)
  show ?thesis
  proof (cases "\<exists>ps. page_chain pages None ps \<and> length ps \<le> 2000")
    case True
    then obtain ps where ps: "page_chain pages None ps" "length ps \<le> 2000" by blast
    let ?d = "delta_of (foldl read_history_page no_history ps)"
    have "list_history_delta g user start n s = (Inr ?d, s)"
      using history_walk_complete [OF assms(2) ps] by (simp add: delta)
    moreover have "hd_latest_history_id ?d = foldl max_history_id None (history_ids_in ps)"
      by (simp add: delta_of_def Let_def read_pages no_history_def)
    then have "numeric_ids (history_ids_in ps) \<and> (\<exists>h. JStr h \<in> set (history_ids_in ps)) \<longrightarrow>
        (\<exists>m. hd_latest_history_id ?d = Some m \<and> newest_of (history_ids_in ps) m)"
      using latest_history by simp
    moreover have "set (hd_deleted_message_ids ?d) = named_in [''messagesDeleted''] ps"
      "set (hd_message_ids ?d) = named_in changed_keys ps - named_in [''messagesDeleted''] ps"
      "set (hd_added_message_ids ?d) = named_in [''messagesAdded''] ps - named_in [''messagesDeleted''] ps"
      "distinct (hd_message_ids ?d)" "distinct (hd_deleted_message_ids ?d)"
      by (auto simp: delta_of_def Let_def read_pages no_history_def)
    ultimately show ?thesis using True ps(1) by (simp only: if_True) blast
  next
    case False
    then have "\<forall>ps. page_chain pages None ps \<longrightarrow> 2000 < length ps" by (meson not_le)
    from history_walk_limit [OF assms(2) this] False show ?thesis by (simp add: delta)
  qed
qed

text \<open>Two pages: a message changed on the first and deleted on the second.\<close>

definition sample_history :: "string option \<Rightarrow> (string \<times> json) list" where
  "sample_history token =
     (if token = None
      then [(''historyId'', JStr ''120''), (''nextPageToken'', JStr ''p2''),
            (''history'', JArr [JObj [(''id'', JStr ''101''), (''messages'', JArr [JObj [(''id'', JStr ''m1'')], JObj [(''id'', JStr ''m2'')]])]])]
      else [(''historyId'', JStr ''120''),
            (''history'', JArr [JObj [(''id'', JStr ''110''),
               (''messagesDeleted'', JArr [JObj [(''message'', JObj [(''id'', JStr ''m2'')])]])]])])"

definition quiet_api :: "'s gmail_api" where
  "quiet_api = \<lparr>ga_authorized = (\<lambda>_. ereturn True), ga_profile = ereturn JNull,
     ga_history = (\<lambda>start limit token. ereturn (JObj (sample_history token))),
     ga_messages = (\<lambda>_ _ _. ereturn JNull), ga_drafts = (\<lambda>_ _. ereturn JNull), ga_threads = (\<lambda>_ _ _. ereturn JNull), ga_search = (\<lambda>_ _ _. ereturn JNull),
     ga_message_batch = (\<lambda>_ _. ereturn ([], None)), ga_message = (\<lambda>_ _. eraise (HttpError (Some 404))),
     ga_thread_batch = (\<lambda>_. ereturn ([], None)), ga_thread = (\<lambda>_. eraise (HttpError (Some 404))),
     ga_parse = (\<lambda>_ _ _. eraise KeyError)\<rparr>"

theorem history_delta_covers_every_page_witness:
  "\<exists>ps d. page_chain sample_history None ps \<and> list_history_delta quiet_api ''u1'' ''100'' 500 () = (Inr d, ())
     \<and> set (hd_deleted_message_ids d) = named_in [''messagesDeleted''] ps
     \<and> set (hd_message_ids d) = named_in changed_keys ps - named_in [''messagesDeleted''] ps
     \<and> set (hd_added_message_ids d) = named_in [''messagesAdded''] ps - named_in [''messagesDeleted''] ps
     \<and> distinct (hd_message_ids d) \<and> distinct (hd_deleted_message_ids d)
     \<and> (numeric_ids (history_ids_in ps) \<and> (\<exists>h. JStr h \<in> set (history_ids_in ps)) \<longrightarrow>
          (\<exists>m. hd_latest_history_id d = Some m \<and> newest_of (history_ids_in ps) m))"
proof -
  have first: "next_page_token (sample_history None) = Some ''p2''"
    and second: "\<not> truthy_str (next_page_token (sample_history (Some ''p2'')))"
    by (simp_all add: sample_history_def next_page_token_def jget_def truthy_str_def str_or_empty_def)
  have "page_chain sample_history None [sample_history None, sample_history (Some ''p2'')]"
    by (rule page_chain.more_pages [OF first _ page_chain.last_page [of sample_history "Some ''p2''", OF second]]) simp
  then have "\<exists>ps. page_chain sample_history None ps \<and> length ps \<le> 2000"
    by (intro exI [of _ "[sample_history None, sample_history (Some ''p2'')]"]) simp
  then show ?thesis
    using history_delta_covers_every_page [of quiet_api "''u1''" "''100''" 500 sample_history "()"]
    by (simp add: quiet_api_def history_reader_def)
qed

section \<open>Batches and single requests\<close>

text \<open>A Gmail whose messages do not change during the fetch: \<open>get\<close> answers a single request.\<close>

definition message_reader :: "('s, 'b) gmail_api_scheme \<Rightarrow> bool \<Rightarrow> (string \<Rightarrow> exn + json) \<Rightarrow> bool" where
  "message_reader g full get \<longleftrightarrow> (\<forall>i s. ga_message g full i s = (get i, s))"

text \<open>A batch that fails at once, or after any of its requests were answered as a single request is.\<close>

definition truthful_batches :: "('s, 'b) gmail_api_scheme \<Rightarrow> bool \<Rightarrow> (string \<Rightarrow> exn + json) \<Rightarrow> bool" where
  "truthful_batches g full get \<longleftrightarrow>
     (\<forall>ids s. (\<exists>e. ga_message_batch g full ids s = (Inl e, s))
        \<or> (\<exists>answers failed. ga_message_batch g full ids s = (Inr (answers, failed), s)
             \<and> (\<forall>(i, r) \<in> set answers. r = get i)))"

definition fetched :: "(string \<Rightarrow> exn + json) \<Rightarrow> string \<Rightarrow> (string \<times> json) list option" where
  "fetched get i = (case get i of Inr v \<Rightarrow> jfields v | Inl _ \<Rightarrow> None)"

definition fetch_failure :: "(string \<Rightarrow> exn + json) \<Rightarrow> bool \<Rightarrow> string \<Rightarrow> exn option" where
  "fetch_failure get forgiving i =
     (case get i of Inl e \<Rightarrow> if forgiving \<and> is_history_cursor_expired e then None else Some e | Inr _ \<Rightarrow> None)"

definition fetch_gone :: "(string \<Rightarrow> exn + json) \<Rightarrow> bool \<Rightarrow> string \<Rightarrow> bool" where
  "fetch_gone get forgiving i \<longleftrightarrow> forgiving \<and> get i = Inl (HttpError (Some 404))"

definition fetched_list :: "(string \<Rightarrow> exn + json) \<Rightarrow> string list \<Rightarrow> payloads" where
  "fetched_list get ids = concat (map (\<lambda>i. case fetched get i of None \<Rightarrow> [] | Some fs \<Rightarrow> [(i, fs)]) ids)"

lemma fetch_missing_run:
  assumes "message_reader g full get"
  shows "fetch_missing g full forgiving ids acc s =
     (case filter (\<lambda>i. fetch_failure get forgiving i \<noteq> None) ids of
        i # _ \<Rightarrow> (Inl (the (fetch_failure get forgiving i)), s)
      | [] \<Rightarrow> (Inr (rev (fetched_list get ids) @ fst acc, rev (filter (fetch_gone get forgiving) ids) @ snd acc), s))"
proof (induction ids arbitrary: acc)
  case Nil
  show ?case by (simp add: fetched_list_def)
next
  case (Cons i ids)
  have get: "ga_message g full i s = (get i, s)" using assms by (simp add: message_reader_def)
  have list: "fetched_list get (i # ids) = (case fetched get i of None \<Rightarrow> [] | Some fs \<Rightarrow> [(i, fs)]) @ fetched_list get ids"
    by (simp add: fetched_list_def)
  show ?case
  proof (cases "get i")
    case (Inl e)
    then have "fetch_failure get forgiving i = (if forgiving \<and> is_history_cursor_expired e then None else Some e)"
      "fetched get i = None" "fetch_gone get forgiving i = (forgiving \<and> is_history_cursor_expired e)"
      by (simp_all add: fetch_failure_def fetched_def fetch_gone_def is_history_cursor_expired_def)
    with Cons.IH get Inl list show ?thesis
      by (cases "forgiving \<and> is_history_cursor_expired e") (auto simp: ebind_apply etry_apply split: list.split)
  next
    case (Inr v)
    then have "fetch_failure get forgiving i = None" "fetched get i = jfields v" "\<not> fetch_gone get forgiving i"
      by (simp_all add: fetch_failure_def fetched_def fetch_gone_def)
    with Cons.IH get Inr list show ?thesis
      by (cases "jfields v") (simp_all add: ebind_apply etry_apply split: list.split)
  qed
qed

lemma lookup_fetched:
  "payload_of (rev (fetched_list get ids) @ ps) i = (if i \<in> set ids \<and> fetched get i \<noteq> None then fetched get i else payload_of ps i)"
proof (induction ids arbitrary: ps)
  case (Cons j ids)
  let ?x = "case fetched get j of None \<Rightarrow> [] | Some fs \<Rightarrow> [(j, fs)]"
  have "rev (fetched_list get (j # ids)) @ ps = rev (fetched_list get ids) @ ?x @ ps"
    by (simp add: fetched_list_def split: option.split)
  moreover have "payload_of (?x @ ps) i = (if i = j \<and> fetched get j \<noteq> None then fetched get j else payload_of ps i)"
    by (auto simp: payload_of_def split: option.split)
  ultimately show ?case by (simp only: Cons.IH) auto
qed (simp add: fetched_list_def)

definition agrees :: "(string \<Rightarrow> exn + json) \<Rightarrow> bool \<Rightarrow> payloads \<times> string list \<Rightarrow> bool" where
  "agrees get forgiving acc \<longleftrightarrow>
     (\<forall>i fs. payload_of (fst acc) i = Some fs \<longrightarrow> fetched get i = Some fs) \<and> (\<forall>i \<in> set (snd acc). fetch_gone get forgiving i)"

lemma agrees_callback:
  assumes "agrees get forgiving acc"
  shows "agrees get forgiving (message_callback forgiving acc (i, get i))"
proof (cases "get i")
  case (Inl e)
  with assms show ?thesis by (auto simp: agrees_def message_callback_def fetch_gone_def split: prod.split)
next
  case (Inr v)
  then have "fetched get i = jfields v" by (simp add: fetched_def)
  with assms Inr show ?thesis
    by (cases "jfields v") (auto simp: agrees_def message_callback_def payload_of_def split: prod.split)
qed

lemma agrees_callbacks:
  "\<forall>(i, r) \<in> set answers. r = get i \<Longrightarrow> agrees get forgiving acc \<Longrightarrow>
   agrees get forgiving (foldl (message_callback forgiving) acc answers)"
proof (induction answers arbitrary: acc)
  case (Cons x answers)
  then obtain i where "x = (i, get i)" by (cases x) auto
  with Cons agrees_callback [OF Cons.prems(2), of i] show ?case by simp
qed simp

lemma message_batches_agree:
  assumes "truthful_batches g full get" and "agrees get forgiving acc"
  shows "\<exists>acc'. message_batches g full forgiving batches acc s = (Inr acc', s) \<and> agrees get forgiving acc'"
  using assms(2)
proof (induction batches arbitrary: acc)
  case (Cons ids batches)
  from assms(1) consider e where "ga_message_batch g full ids s = (Inl e, s)"
    | answers failed where "ga_message_batch g full ids s = (Inr (answers, failed), s)" "\<forall>(i, r) \<in> set answers. r = get i"
    unfolding truthful_batches_def by meson
  then show ?case
  proof cases
    case 1
    with Cons.prems show ?thesis by (simp add: ebind_apply etry_apply)
  next
    case 2
    from agrees_callbacks [OF 2(2) Cons.prems] have "agrees get forgiving (foldl (message_callback forgiving) acc answers)" .
    with Cons.IH 2(1) show ?thesis by (cases failed) (simp_all add: ebind_apply etry_apply)
  qed
qed simp

text \<open>C26: fetching messages in batches is fetching them one by one. Whatever subset of its requests a
  batch answers, in whatever order and however it ends, \<open>_batch_get_message_payloads\<close> has the outcome of
  a single request for every id: the same payloads, the same ids that Gmail no longer has, and, where a
  single request fails for good, the failure of the first such id. The hypotheses say that Gmail's
  messages do not change during the fetch.\<close>

theorem batched_fetch_is_direct_fetch:
  assumes "message_reader g full get" and "truthful_batches g full get"
  shows "case fetch_missing g full (skip \<or> continue) (dict_fromkeys ids) ([], []) s of
       (Inl e, _) \<Rightarrow> batch_get_message_payloads g ids full skip continue s = (Inl e, s)
     | (Inr (ps, gone), _) \<Rightarrow> \<exists>ps' gone'. batch_get_message_payloads g ids full skip continue s = (Inr (ps', gone'), s)
         \<and> (\<forall>i \<in> set ids. payload_of ps' i = payload_of ps i \<and> (i \<in> set gone' \<longleftrightarrow> i \<in> set gone))"
proof -
  let ?f = "skip \<or> continue" let ?ids = "dict_fromkeys ids"
  have "agrees get ?f ([], [])" by (simp add: agrees_def payload_of_def)
  from message_batches_agree [OF assms(2) this] obtain acc
    where acc: "message_batches g full ?f (chunks_of 49 ?ids) ([], []) s = (Inr acc, s)" "agrees get ?f acc" by blast
  obtain ps1 gone1 where split: "acc = (ps1, gone1)" by (cases acc)
  let ?rest = "filter (\<lambda>i. payload_of ps1 i = None \<and> i \<notin> set gone1) ?ids"
  have "fetch_failure get ?f i \<noteq> None \<Longrightarrow> payload_of ps1 i = None \<and> i \<notin> set gone1" for i
    using acc(2) split by (cases "payload_of ps1 i")
      (auto simp: agrees_def fetch_failure_def fetched_def fetch_gone_def is_history_cursor_expired_def split: sum.splits)
  then have same: "filter (\<lambda>i. fetch_failure get ?f i \<noteq> None) ?rest = filter (\<lambda>i. fetch_failure get ?f i \<noteq> None) ?ids"
    by (simp only: filter_filter) (metis (mono_tags, lifting))
  have run: "batch_get_message_payloads g ids full skip continue s = fetch_missing g full ?f ?rest (ps1, gone1) s"
    using acc(1) split by (simp add: batch_get_message_payloads_def Let_def ebind_apply)
  show ?thesis
  proof (cases "filter (\<lambda>i. fetch_failure get ?f i \<noteq> None) ?ids")
    case (Cons i js)
    then show ?thesis by (simp only: run fetch_missing_run [OF assms(1)] same list.case) simp
  next
    case Nil
    have "payload_of (rev (fetched_list get ?rest) @ ps1) i = payload_of (rev (fetched_list get ?ids) @ []) i
        \<and> (i \<in> set (rev (filter (fetch_gone get ?f) ?rest) @ gone1) \<longleftrightarrow> i \<in> set (rev (filter (fetch_gone get ?f) ?ids) @ []))"
      if "i \<in> set ids" for i
    proof -
      have known: "payload_of ps1 i \<noteq> None \<Longrightarrow> fetched get i = payload_of ps1 i"
        and gone1: "i \<in> set gone1 \<Longrightarrow> fetch_gone get ?f i"
        using acc(2) split by (auto simp: agrees_def)
      have none: "fetch_gone get ?f i \<Longrightarrow> fetched get i = None" by (simp add: fetch_gone_def fetched_def)
      have "payload_of (rev (fetched_list get ?ids) @ []) i = fetched get i"
        using that by (simp only: lookup_fetched) (simp add: payload_of_def)
      moreover have "payload_of (rev (fetched_list get ?rest) @ ps1) i = fetched get i"
        using that known gone1 none by (cases "payload_of ps1 i"; simp only: lookup_fetched) auto
      moreover have "(i \<in> set (rev (filter (fetch_gone get ?f) ?rest) @ gone1)) = fetch_gone get ?f i"
        using that known gone1 none by (cases "payload_of ps1 i") auto
      ultimately show ?thesis using that by simp
    qed
    then show ?thesis
      using Nil by (simp only: run fetch_missing_run [OF assms(1)] same list.case) simp
  qed
qed

text \<open>Gmail answers one of two requests in the batch, then drops the connection.\<close>

definition sample_get :: "string \<Rightarrow> exn + json" where
  "sample_get i = (if i = ''gone'' then Inl (HttpError (Some 404)) else Inr (JObj [(''id'', JStr i)]))"

definition lossy_api :: "'s gmail_api" where
  "lossy_api = quiet_api\<lparr>ga_message := (\<lambda>_ i s. (sample_get i, s)),
     ga_message_batch := (\<lambda>_ ids. ereturn (map (\<lambda>i. (i, sample_get i)) (take 1 ids), Some ConnectionError))\<rparr>"

theorem batched_fetch_is_direct_fetch_witness:
  "case fetch_missing lossy_api False (True \<or> False) (dict_fromkeys [''m1'', ''gone'', ''m2'']) ([], []) () of
       (Inl e, _) \<Rightarrow> batch_get_message_payloads lossy_api [''m1'', ''gone'', ''m2''] False True False () = (Inl e, ())
     | (Inr (ps, gone), _) \<Rightarrow> \<exists>ps' gone'. batch_get_message_payloads lossy_api [''m1'', ''gone'', ''m2''] False True False () = (Inr (ps', gone'), ())
         \<and> (\<forall>i \<in> set [''m1'', ''gone'', ''m2'']. payload_of ps' i = payload_of ps i \<and> (i \<in> set gone' \<longleftrightarrow> i \<in> set gone))"
  by (rule batched_fetch_is_direct_fetch [where get = sample_get])
    (auto simp: message_reader_def truthful_batches_def lossy_api_def)

section \<open>The recent window\<close>

text \<open>The continuation tokens that Gmail may hand out lie in a set.\<close>

definition tokens_within :: "('s, 'b) gmail_api_scheme \<Rightarrow> string set \<Rightarrow> bool" where
  "tokens_within g tokens \<longleftrightarrow>
     (\<forall>q n token s. case fst (ga_threads g q n token s) of Inl _ \<Rightarrow> True
        | Inr v \<Rightarrow> (case jfields v of None \<Rightarrow> True
            | Some fs \<Rightarrow> json_str_or_empty (jget fs ''nextPageToken'') \<in> insert '''' tokens))"

definition window_result_ok :: "exn + thread_window option \<Rightarrow> bool" where
  "window_result_ok r =
     (case r of Inl _ \<Rightarrow> True | Inr None \<Rightarrow> False
      | Inr (Some w) \<Rightarrow> distinct (tw_threads w) \<and> length (tw_threads w) \<le> 100
          \<and> (tw_continuation w \<noteq> None \<longrightarrow> length (tw_threads w) = 100))"

lemma initial_window_walk_ok:
  assumes tokens: "tokens_within g tokens" and "finite tokens"
    and "distinct seen" and "set seen \<subseteq> tokens" and "card tokens < fuel + length seen"
  shows "window_result_ok (fst (initial_window_walk g query fuel token seen w s))"
  using assms(3-)
proof (induction fuel arbitrary: token seen w s)
  case 0
  then have "length seen \<le> card tokens" using assms(2) by (metis card_mono distinct_card)
  with 0 show ?case by simp
next
  case (Suc fuel)
  obtain r s1 where call: "ga_threads g (Some query) (100 - int (length (tw_threads w))) token s = (r, s1)"
    by fastforce
  show ?case
  proof (cases "\<exists>v fs. r = Inr v \<and> jfields v = Some fs")
    case False
    then show ?thesis using call by (cases r) (auto simp: ebind_apply window_result_ok_def split: option.split)
  next
    case True
    then obtain v fs where v: "r = Inr v" "jfields v = Some fs" by blast
    let ?t = "json_str_or_empty (jget fs ''nextPageToken'')"
    let ?w = "\<lparr>tw_threads = add_window_threads (tw_threads w) (jlist_of (jget fs ''threads'')),
      tw_estimate = window_estimate (tw_estimate w) fs, tw_continuation = nonempty ?t\<rparr>"
    have threads: "distinct (tw_threads ?w)" "length (tw_threads ?w) \<le> 100"
      by (simp_all add: add_window_threads_def)
    have t: "?t \<in> insert '''' tokens"
      using tokens [unfolded tokens_within_def, rule_format, of "Some query" "100 - int (length (tw_threads w))" token s]
        call v by simp
    have next_step: "window_result_ok (fst (initial_window_walk g query fuel (Some ?t) (?t # seen) ?w s1))"
      if "?t \<noteq> ''''" "?t \<notin> set seen"
      by (rule Suc.IH) (use Suc.prems that t in auto)
    show ?thesis
      using threads next_step call v
      by (auto simp: ebind_apply Let_def nonempty_def window_result_ok_def)
  qed
qed

text \<open>C28: the search for the recent window ends, although its loop has no bound of its own. If Gmail hands
  out continuation tokens from a finite set, then more iterations than there are tokens are always enough,
  whatever else Gmail answers and whatever happens to the state in between: the search ends with an error
  or with at most 100 conversations, each once, and if it leaves a continuation behind, the window is full.\<close>

theorem initial_window_search_ends:
  assumes "tokens_within g tokens" and "finite tokens" and "card tokens < fuel"
  shows "window_result_ok (fst (list_initial_window_threads g fuel now user s))"
proof -
  have "window_result_ok (fst (initial_window_walk g (recent_query now) fuel None []
      \<lparr>tw_threads = [], tw_estimate = None, tw_continuation = None\<rparr> s'))" for s'
    by (rule initial_window_walk_ok [OF assms(1,2)]) (use assms(3) in simp_all)
  then show ?thesis
    by (cases "ga_authorized g user s"; cases "fst (ga_authorized g user s)")
      (auto simp: list_initial_window_threads_def with_gmail_def ebind_apply window_result_ok_def [of "Inl _"])
qed

theorem initial_window_search_ends_witness:
  "window_result_ok (fst (list_initial_window_threads
     (quiet_api\<lparr>ga_threads := (\<lambda>_ _ token. ereturn (JObj [(''threads'', JArr [JObj [(''id'', JStr ''t1'')]]), (''nextPageToken'', JStr ''a'')]))\<rparr>)
     5 (days 1000) ''u1'' ()))"
  by (rule initial_window_search_ends [where tokens = "{''a''}"])
    (simp_all add: tokens_within_def jget_def)

end
