(* ===== verification/Gmail_Sync.thy ===== *)
theory Gmail_Sync
  imports Reconciliation Gmail_Fetch
begin

text \<open>
  The jobs of \<open>backend/app/services/gmail_importer.py\<close> that fill the cached mailbox: the
  progressive first run, the recent sync, the delta sync along Gmail's history, the
  backfill, and the full reconciliation with its restarts.

  The record \<open>sync_services\<close> extends the Gmail API by the clock, fresh uuids, the rebuild
  of touched mail groups, client events, the push queue and the queue of the AI inbox. Every transaction takes its
  own time from the clock. \<open>sy_pages\<close> is the fuel of the one listing without a bound.
\<close>

section \<open>Services\<close>

record 's sync_services = "'s gmail_api" +
  sy_clock :: "('s, instant) eff"
  sy_uuid :: "('s, string) eff"
  sy_rebuild :: "string \<Rightarrow> string list \<Rightarrow> ('s, nat) eff"
  sy_emit :: "string \<Rightarrow> string \<Rightarrow> (string \<times> json) list \<Rightarrow> ('s, unit) eff"
  sy_queue_new_mail :: "string \<Rightarrow> message_row list \<Rightarrow> ('s, unit) eff"
  sy_organize :: "string \<Rightarrow> message_row \<Rightarrow> ('s, unit) eff"
  sy_pages :: nat

definition at_time :: "('s, 'b) sync_services_scheme \<Rightarrow> (instant \<Rightarrow> ('s, 'a) eff) \<Rightarrow> ('s, 'a) eff" where
  "at_time g f = ebind (sy_clock g) f"

text \<open>\<open>try: m except Exception: log\<close>\<close>

definition best_effort :: "('s, 'a) eff \<Rightarrow> ('s, bool) eff" where
  "best_effort m = etry (ebind m (\<lambda>_. ereturn True)) (\<lambda>_. ereturn False)"

definition ai_grouping_enabled_here :: bool where
  "ai_grouping_enabled_here = False"

definition sync_enqueue ::
    "('a mail_db_scheme, 'b) sync_services_scheme \<Rightarrow> job_request \<Rightarrow> ('a mail_db_scheme, job_row) eff" where
  "sync_enqueue g rq =
     at_time g (\<lambda>now. ebind (sy_uuid g) (\<lambda>job_id db. enqueue_job (background_jobs db) now job_id rq db))"

definition changed_mail_event :: "string \<Rightarrow> (string \<times> json) list \<Rightarrow> (string \<times> json) list" where
  "changed_mail_event source details = (''source'', JStr source) # details"

primrec phase_name :: "sync_phase \<Rightarrow> string" where
  "phase_name Discovering_recent = ''discovering_recent''"
| "phase_name Importing_metadata = ''importing_metadata''"
| "phase_name Hydrating_priority_content = ''hydrating_priority_content''"
| "phase_name Usable = ''usable''"
| "phase_name Syncing_recent = ''syncing_recent''"
| "phase_name Syncing_history = ''syncing_history''"
| "phase_name Sync_complete = ''complete''"
| "phase_name Sync_failed = ''failed''"

text \<open>The fields of the event; a time is its microseconds.\<close>

definition progress_fields :: "sync_progress \<Rightarrow> (string \<times> json) list" where
  "progress_fields p =
     [(''sync_generation'', jstr_opt (sp_sync_generation p)),
      (''phase'', jstr_opt (map_option phase_name (sp_phase p))),
      (''initial_target_count'', JInt (sp_initial_target_count p)),
      (''initial_metadata_count'', JInt (sp_initial_metadata_count p)),
      (''initial_body_target_count'', JInt (sp_initial_body_target_count p)),
      (''initial_body_ready_count'', JInt (sp_initial_body_ready_count p)),
      (''history_metadata_count'', JInt (sp_history_metadata_count p)),
      (''history_body_ready_count'', JInt (sp_history_body_ready_count p)),
      (''estimated_total_count'', JInt (sp_estimated_total_count p)),
      (''initial_window_complete'', JBool (sp_initial_window_complete p)),
      (''history_metadata_complete'', JBool (sp_history_metadata_complete p)),
      (''history_body_complete'', JBool (sp_history_body_complete p)),
      (''last_progress_at'', case sp_last_progress_at p of None \<Rightarrow> JNull | Some t \<Rightarrow> JInt t)]"

definition emit_sync_progress ::
    "('s, 'b) sync_services_scheme \<Rightarrow> string \<Rightarrow> sync_progress \<Rightarrow> string \<Rightarrow> ('s, unit) eff" where
  "emit_sync_progress g user progress source =
     ebind (best_effort (sy_emit g user ''mailbox-sync-progress''
              ((''source'', JStr source) # progress_fields progress))) (\<lambda>_. ereturn ())"

definition emit_changed ::
    "('s, 'b) sync_services_scheme \<Rightarrow> string \<Rightarrow> string \<Rightarrow> (string \<times> json) list \<Rightarrow> ('s, unit) eff" where
  "emit_changed g user source details = sy_emit g user ''mailbox-changed'' (changed_mail_event source details)"

section \<open>Jobs that the importer queues\<close>

definition reconcile_request :: "string \<Rightarrow> string \<Rightarrow> job_request" where
  "reconcile_request user key =
     (job_request_of ''gmail_full_reconcile'')
       \<lparr>rq_queue := ''slow'', rq_user_id := Some user, rq_dedupe_key := Some (''gmail-full-reconcile:'' @ user @ '':'' @ key),
        rq_priority := 90, rq_payload := [(''user_id'', JStr user), (''batch_size'', JInt 100)]\<rparr>"

text \<open>A job per position of the scan: the key holds the generation and a digest of the cursor.\<close>

definition reconcile_position :: "import_row option \<Rightarrow> string" where
  "reconcile_position state =
     (let generation = (case state of None \<Rightarrow> '''' | Some r \<Rightarrow> str_or_empty (is_reconcile_generation r));
          cursor = (case state of None \<Rightarrow> '''' | Some r \<Rightarrow> str_or_empty (is_reconcile_cursor r))
      in if generation = '''' then ''trigger''
         else generation @ '':'' @ take 16 (sha256_hex (if cursor = '''' then ''finalize'' else cursor)))"

definition enqueue_gmail_full_reconciliation ::
    "('a mail_db_scheme, 'b) sync_services_scheme \<Rightarrow> string \<Rightarrow> ('a mail_db_scheme, string) eff" where
  "enqueue_gmail_full_reconciliation g user =
     ebind (eget (\<lambda>db. get_import_state db user)) (\<lambda>state.
     ebind (sync_enqueue g (reconcile_request user (reconcile_position state))) (\<lambda>job. ereturn (bj_id job)))"

definition body_backfill_request :: "string \<Rightarrow> string \<Rightarrow> string option \<Rightarrow> bool \<Rightarrow> job_request" where
  "body_backfill_request user continuation after complete =
     (job_request_of ''gmail_body_backfill'')
       \<lparr>rq_queue := ''slow'', rq_user_id := Some user,
        rq_dedupe_key := Some (''gmail-body-backfill:'' @ user
          @ (if continuation = '''' then '''' else '':resume:'' @ take 64 continuation)),
        rq_priority := 40, rq_max_attempts := 10,
        rq_payload := [(''user_id'', JStr user), (''batch_size'', JInt 25)]
          @ (if continuation = '''' then [] else [(''continuation_key'', JStr (take 64 continuation))])
          @ (if truthy_str after then [(''descriptor_after_message_id'', jstr_opt after)] else [])
          @ (if complete then [(''descriptor_backfill_complete'', JBool True)] else []),
        rq_run_after_seconds := (if continuation = '''' then 0 else 1), rq_wake_existing := False\<rparr>"

text \<open>A trigger is dropped while any body backfill of the user is active; a continuation never is.\<close>

definition enqueue_gmail_body_backfill ::
    "('a mail_db_scheme, 'b) sync_services_scheme \<Rightarrow> string \<Rightarrow> string option \<Rightarrow> string option \<Rightarrow> bool
      \<Rightarrow> ('a mail_db_scheme, string) eff" where
  "enqueue_gmail_body_backfill g user continuation_key after complete =
     (let continuation = strip (str_or_empty continuation_key) in
      ebind (eget (\<lambda>db. count_active_jobs db user [''gmail_body_backfill''])) (\<lambda>active.
      if continuation = '''' \<and> active \<noteq> 0 then ereturn ''''
      else ebind (sync_enqueue g (body_backfill_request user continuation after complete)) (\<lambda>job. ereturn (bj_id job))))"

abbreviation trigger_body_backfill ::
    "('a mail_db_scheme, 'b) sync_services_scheme \<Rightarrow> string \<Rightarrow> ('a mail_db_scheme, string) eff" where
  "trigger_body_backfill g user \<equiv> enqueue_gmail_body_backfill g user None None False"

definition refresh_gmail_thread_order_best_effort ::
    "('a mail_db_scheme, 'b) sync_services_scheme \<Rightarrow> string \<Rightarrow> string option \<Rightarrow> ('a mail_db_scheme, bool) eff" where
  "refresh_gmail_thread_order_best_effort g user target =
     best_effort (sync_enqueue g
       ((job_request_of ''gmail_thread_order_refresh'')
          \<lparr>rq_queue := ''slow'', rq_user_id := Some user,
           rq_dedupe_key := Some (''gmail-thread-order-refresh:'' @ user @ '':''
             @ (if truthy_str target then str_or_empty target else ''snapshot'')),
           rq_priority := 20, rq_payload := [(''user_id'', JStr user), (''target_history_id'', jstr_opt target)],
           rq_run_after_seconds := 30\<rparr>))"

definition enqueue_enrichment_and_projection ::
    "('a mail_db_scheme, 'b) sync_services_scheme \<Rightarrow> string \<Rightarrow> int \<Rightarrow> ('a mail_db_scheme, unit) eff" where
  "enqueue_enrichment_and_projection g user priority =
     (if \<not> ai_grouping_enabled_here then ereturn ()
      else ebind (sync_enqueue g
             ((job_request_of ''mail_group_enrich'')
                \<lparr>rq_user_id := Some user, rq_dedupe_key := Some (''mail-group-enrich:'' @ user), rq_priority := priority,
                 rq_payload := [(''user_id'', JStr user)]\<rparr>)) (\<lambda>_.
           ebind (sync_enqueue g
             ((job_request_of ''projection_refresh'')
                \<lparr>rq_user_id := Some user, rq_dedupe_key := Some (''projection-refresh:'' @ user), rq_priority := 20,
                 rq_payload := [(''user_id'', JStr user)]\<rparr>)) (\<lambda>_. ereturn ())))"

section \<open>Starting and restarting the scan\<close>

definition current_gmail_history_id ::
    "('s, 'b) gmail_api_scheme \<Rightarrow> string \<Rightarrow> ('s, string) eff" where
  "current_gmail_history_id g user =
     with_gmail g user (ebind (ga_profile g) (\<lambda>profile.
       let history_id = (case jfields profile of None \<Rightarrow> '''' | Some fs \<Rightarrow> json_str_or_empty (jget fs ''historyId'')) in
       if isdigit history_id then ereturn history_id
       else eraise (RuntimeError ''Gmail profile did not return a valid history cursor'')))"

definition progressive_generation :: "import_row option \<Rightarrow> string" where
  "progressive_generation state = (case state of None \<Rightarrow> '''' | Some r \<Rightarrow> str_or_empty (is_sync_generation r))"

definition progressive_history_pending :: "import_row option \<Rightarrow> bool" where
  "progressive_history_pending state \<longleftrightarrow>
     progressive_generation state \<noteq> ''''
     \<and> (case state of None \<Rightarrow> True | Some r \<Rightarrow> \<not> is_history_metadata_complete r)"

text \<open>A baseline from Gmail, before any page is listed; a pending progressive sync lends its generation.\<close>

definition start_scan ::
    "('a mail_db_scheme, 'b) sync_services_scheme \<Rightarrow> string \<Rightarrow> import_row option \<Rightarrow> bool \<Rightarrow> ('a mail_db_scheme, import_row) eff" where
  "start_scan g user state by_threads =
     (let pending = progressive_history_pending state in
      ebind (current_gmail_history_id g user) (\<lambda>baseline.
      ebind (if pending then ereturn (progressive_generation state) else sy_uuid g) (\<lambda>generation.
      at_time g (\<lambda>now. start_gmail_reconciliation now user generation baseline
        (if by_threads \<or> pending then encode_full_thread_mailbox_cursor None
         else encode_full_mailbox_cursor None False None False)))))"

definition ensure_gmail_reconciliation_started ::
    "('a mail_db_scheme, 'b) sync_services_scheme \<Rightarrow> string \<Rightarrow> bool \<Rightarrow> ('a mail_db_scheme, import_row) eff" where
  "ensure_gmail_reconciliation_started g user use_thread_listing =
     ebind (eget (\<lambda>db. get_import_state db user)) (\<lambda>state.
       case state of
         Some r \<Rightarrow> if truthy_str (is_reconcile_generation r) then ereturn r else start_scan g user state use_thread_listing
       | None \<Rightarrow> start_scan g user state use_thread_listing)"

definition enqueue_restart ::
    "('a mail_db_scheme, 'b) sync_services_scheme \<Rightarrow> string \<Rightarrow> ('a mail_db_scheme, unit) eff" where
  "enqueue_restart g user =
     ebind (sy_uuid g) (\<lambda>u. ebind (sync_enqueue g (reconcile_request user (''restart:'' @ u))) (\<lambda>_. ereturn ()))"

definition queue_clean_reconciliation_restart ::
    "('a mail_db_scheme, 'b) sync_services_scheme \<Rightarrow> string \<Rightarrow> string \<Rightarrow> ('a mail_db_scheme, unit) eff" where
  "queue_clean_reconciliation_restart g user generation =
     ebind (if generation = '''' then ereturn False
            else at_time g (\<lambda>now. reset_gmail_reconciliation now user generation)) (\<lambda>_.
     enqueue_restart g user)"

section \<open>Pages of a scan\<close>

text \<open>A continuation token that Gmail rejects is reported as such; any other failure passes.\<close>

definition reject_token :: "string option \<Rightarrow> ('s, 'a) eff \<Rightarrow> ('s, 'a) eff" where
  "reject_token token m =
     etry m (\<lambda>e. if truthy_str token \<and> is_provider_page_token_rejected e then eraise durable_page_token_rejected
                 else eraise e)"

text \<open>The messages and drafts that follow a position, as two listings; a completed one is not asked again.\<close>

definition list_mailbox_page ::
    "('s, 'b) gmail_api_scheme \<Rightarrow> string \<Rightarrow> int \<Rightarrow> string option \<times> bool \<times> string option \<times> bool
      \<Rightarrow> ('s, (string \<times> json) list \<times> (string \<times> json) list) eff" where
  "list_mailbox_page g user batch_size position =
     (case position of (token, all_done, draft_token, drafts_done) \<Rightarrow>
        ebind (if all_done then ereturn (JObj [(''messages'', JArr [])])
               else reject_token token (list_messages g user batch_size token [])) (\<lambda>listed.
        ebind (if drafts_done then ereturn (JObj [(''messages'', JArr [])])
               else reject_token draft_token (list_draft_messages g user batch_size draft_token)) (\<lambda>drafts.
        ebind (as_fields listed) (\<lambda>l. ebind (as_fields drafts) (\<lambda>d. ereturn (l, d))))))"

text \<open>The cursor after a page: nothing once both listings are completed.\<close>

definition next_mailbox_cursor ::
    "bool \<Rightarrow> bool \<Rightarrow> (string \<times> json) list \<Rightarrow> (string \<times> json) list \<Rightarrow> string option" where
  "next_mailbox_cursor all_done drafts_done listed drafts =
     (let token = next_page_token listed; draft_token = next_page_token drafts;
          all_done' = (all_done \<or> token = None); drafts_done' = (drafts_done \<or> draft_token = None)
      in if \<not> all_done' \<or> \<not> drafts_done' then Some (encode_full_mailbox_cursor token all_done' draft_token drafts_done')
         else None)"

definition hydrate_reconciliation_cursor_page ::
    "('s, 'b) gmail_api_scheme \<Rightarrow> string \<Rightarrow> int \<Rightarrow> (string \<times> json) list \<Rightarrow> ('s, message_row list \<times> string option) eff" where
  "hydrate_reconciliation_cursor_page g user batch_size cursor =
     (case full_mailbox_position cursor of (token, all_done, draft_token, drafts_done) \<Rightarrow>
        ebind (list_mailbox_page g user batch_size (token, all_done, draft_token, drafts_done)) (\<lambda>(listed, drafts).
        ebind (hydrate_message_ids g user (merge_listed_messages listed drafts) False True) (\<lambda>(messages, _).
        ereturn (messages, next_mailbox_cursor all_done drafts_done listed drafts))))"

definition hydrate_reconciliation_thread_cursor_page ::
    "('s, 'b) gmail_api_scheme \<Rightarrow> string \<Rightarrow> int \<Rightarrow> (string \<times> json) list
      \<Rightarrow> ('s, message_row list \<times> string option \<times> int \<times> int) eff" where
  "hydrate_reconciliation_thread_cursor_page g user batch_size cursor =
     (let token = cursor_token cursor ''page_token'' in
      ebind (with_gmail g user (reject_token token (ga_threads g None (clamp 1 100 batch_size) token))) (\<lambda>listed.
      let fs = (case jfields listed of None \<Rightarrow> [] | Some fs \<Rightarrow> fs);
          thread_ids = take 100 (dict_fromkeys (concat (map (id_of ''id'') (jlist_of (jget fs ''threads''))))) in
      ebind (hydrate_gmail_thread_ids_metadata g user thread_ids) (\<lambda>(messages, ok, gone).
      let next_token = json_str_or_empty (jget fs ''nextPageToken'') in
      ereturn (messages,
        if next_token = '''' then None else Some (encode_full_thread_mailbox_cursor (Some next_token)),
        int (length (remdups (successful_threads messages ok))), provider_result_size_estimate fs))))"

section \<open>The end of a scan\<close>

text \<open>The history since the baseline is applied before anything is published.\<close>

definition apply_history ::
    "('a mail_db_scheme, 'b) sync_services_scheme \<Rightarrow> string \<Rightarrow> history_delta
      \<Rightarrow> ('a mail_db_scheme, string list \<times> message_row list) eff" where
  "apply_history g user delta =
     ebind (at_time g (\<lambda>now. delete_gmail_messages now user (hd_deleted_message_ids delta))) (\<lambda>groups.
     ebind (hydrate_message_ids g user (hd_message_ids delta) False True) (\<lambda>(messages, _).
     ebind (if messages = [] then ereturn 0 else at_time g (\<lambda>now. upsert_gmail_messages now messages)) (\<lambda>_.
     ereturn (groups, messages))))"

definition publish_reconciliation ::
    "('a mail_db_scheme, 'b) sync_services_scheme \<Rightarrow> string \<Rightarrow> string list \<Rightarrow> message_row list \<Rightarrow> nat \<Rightarrow> string
      \<Rightarrow> finalize_result \<Rightarrow> ('a mail_db_scheme, nat) eff" where
  "publish_reconciliation g user groups messages deleted final_history result =
     ebind (case fr_progress result of
              None \<Rightarrow> ereturn ()
            | Some p \<Rightarrow>
                ebind (emit_sync_progress g user p ''history_metadata_complete'') (\<lambda>_.
                if sp_history_body_complete p then ereturn ()
                else ebind (trigger_body_backfill g user) (\<lambda>_. ereturn ()))) (\<lambda>_.
     ebind (best_effort (at_time g (\<lambda>now. prune_empty_mail_groups now user
              (dict_fromkeys (groups @ fr_affected_group_ids result))))) (\<lambda>_.
     ebind (refresh_gmail_thread_order_best_effort g user (Some final_history)) (\<lambda>_.
     ebind (best_effort (emit_changed g user ''gmail_full_reconcile''
              [(''changed_count'', JInt (int (length messages))),
               (''deleted_count'', JInt (int (deleted + fr_deleted_message_count result)))])) (\<lambda>_.
     ereturn (length messages + deleted + fr_deleted_message_count result)))))"

definition finalize_gmail_full_reconciliation ::
    "('a mail_db_scheme, 'b) sync_services_scheme \<Rightarrow> string \<Rightarrow> string \<Rightarrow> string \<Rightarrow> ('a mail_db_scheme, nat) eff" where
  "finalize_gmail_full_reconciliation g user generation baseline =
     ebind (etry (ebind (list_history_delta g user baseline 500) (\<lambda>delta. ereturn (Some delta)))
             (\<lambda>e. if is_history_cursor_expired e \<or> e = history_traversal_limit
                  then ebind (at_time g (\<lambda>now. reset_gmail_reconciliation now user generation)) (\<lambda>_.
                       ebind (enqueue_restart g user) (\<lambda>_. ereturn None))
                  else eraise e)) (\<lambda>found.
     case found of
       None \<Rightarrow> ereturn 0
     | Some delta \<Rightarrow>
         ebind (apply_history g user delta) (\<lambda>(groups, messages).
         ebind (record_gmail_reconciliation_seen user generation (map gm_message_id messages)) (\<lambda>recorded.
         if \<not> recorded then ereturn 0
         else
           (case max_history_id (Some baseline) (jstr_opt (hd_latest_history_id delta)) of
              None \<Rightarrow> eraise (RuntimeError ''Gmail reconciliation did not produce a history cursor'')
            | Some final_history \<Rightarrow>
                ebind (at_time g (\<lambda>now. finalize_gmail_reconciliation now user generation final_history)) (\<lambda>result.
                case result of
                  None \<Rightarrow> ereturn 0
                | Some r \<Rightarrow> publish_reconciliation g user groups messages
                    (length (hd_deleted_message_ids delta)) final_history r)))))"

section \<open>One job of the scan\<close>

text \<open>A page of the message listing is cached and recorded, a page of the thread listing is committed at once.\<close>

definition commit_thread_page ::
    "('a mail_db_scheme, 'b) sync_services_scheme \<Rightarrow> string \<Rightarrow> string \<Rightarrow> string \<Rightarrow> string option
      \<Rightarrow> message_row list \<Rightarrow> int \<Rightarrow> int \<Rightarrow> ('a mail_db_scheme, bool) eff" where
  "commit_thread_page g user generation cursor next_cursor messages conversations estimated =
     ebind (at_time g (\<lambda>now. commit_gmail_reconciliation_metadata_page now user generation cursor next_cursor messages
              conversations estimated)) (\<lambda>progress.
     case progress of
       None \<Rightarrow> ereturn False
     | Some p \<Rightarrow>
         ebind (emit_sync_progress g user p ''history_metadata'') (\<lambda>_.
         ebind (emit_changed g user ''history_metadata''
                  [(''message_count'', JInt (int (length messages))), (''thread_count'', JInt conversations),
                   (''history_metadata_count'', JInt (sp_history_metadata_count p)), (''sync_generation'', JStr generation)])
           (\<lambda>_. ereturn True)))"

definition record_message_page ::
    "('a mail_db_scheme, 'b) sync_services_scheme \<Rightarrow> string \<Rightarrow> string \<Rightarrow> string \<Rightarrow> string option
      \<Rightarrow> message_row list \<Rightarrow> ('a mail_db_scheme, bool) eff" where
  "record_message_page g user generation cursor next_cursor messages =
     ebind (if messages = [] then ereturn 0 else at_time g (\<lambda>now. upsert_gmail_messages now messages)) (\<lambda>_.
     at_time g (\<lambda>now. record_gmail_reconciliation_page now user generation cursor next_cursor (map gm_message_id messages)))"

datatype page_result =
    Page_advanced nat "string option"
  | Page_stopped

text \<open>One turn of the loop at a cursor.\<close>

definition reconcile_page ::
    "('a mail_db_scheme, 'b) sync_services_scheme \<Rightarrow> string \<Rightarrow> string \<Rightarrow> int \<Rightarrow> string \<Rightarrow> ('a mail_db_scheme, page_result) eff" where
  "reconcile_page g user generation batch_size cursor =
     (let restart = ebind (queue_clean_reconciliation_restart g user generation) (\<lambda>_. ereturn Page_stopped);
          by_thread = decode_full_thread_mailbox_cursor (Some cursor);
          by_message = decode_full_mailbox_cursor (Some cursor)
      in if by_thread = None \<and> by_message = None then restart
         else
           ebind (etry
             (ebind (case by_thread of
                Some position \<Rightarrow> hydrate_reconciliation_thread_cursor_page g user batch_size position
              | None \<Rightarrow> ebind (hydrate_reconciliation_cursor_page g user batch_size (case by_message of None \<Rightarrow> [] | Some fs \<Rightarrow> fs))
                  (\<lambda>(messages, next_cursor). ereturn (messages, next_cursor, 0, 0))) (\<lambda>page. ereturn (Some page)))
             (\<lambda>e. if e = durable_page_token_rejected then ereturn None else eraise e)) (\<lambda>page.
           case page of
             None \<Rightarrow> restart
           | Some (messages, next_cursor, conversations, estimated) \<Rightarrow>
               if next_cursor = Some cursor then restart
               else
                 ebind (if by_thread \<noteq> None
                        then commit_thread_page g user generation cursor next_cursor messages conversations estimated
                        else record_message_page g user generation cursor next_cursor messages) (\<lambda>advanced.
                 ereturn (if advanced then Page_advanced (length messages) next_cursor else Page_stopped))))"

fun reconcile_pages ::
    "('a mail_db_scheme, 'b) sync_services_scheme \<Rightarrow> string \<Rightarrow> string \<Rightarrow> string \<Rightarrow> int \<Rightarrow> nat \<Rightarrow> string option \<Rightarrow> nat
      \<Rightarrow> ('a mail_db_scheme, nat) eff" where
  "reconcile_pages g user generation baseline batch_size n None touched =
     ebind (finalize_gmail_full_reconciliation g user generation baseline) (\<lambda>k. ereturn (touched + k))"
| "reconcile_pages g user generation baseline batch_size 0 (Some cursor) touched =
     ebind (enqueue_gmail_full_reconciliation g user) (\<lambda>_. ereturn touched)"
| "reconcile_pages g user generation baseline batch_size (Suc n) (Some cursor) touched =
     ebind (reconcile_page g user generation batch_size cursor) (\<lambda>r.
     case r of
       Page_stopped \<Rightarrow> ereturn touched
     | Page_advanced k next_cursor \<Rightarrow> reconcile_pages g user generation baseline batch_size n next_cursor (touched + k))"

definition run_gmail_full_reconciliation ::
    "('a mail_db_scheme, 'b) sync_services_scheme \<Rightarrow> string \<Rightarrow> int \<Rightarrow> int \<Rightarrow> ('a mail_db_scheme, nat) eff" where
  "run_gmail_full_reconciliation g user batch_size max_pages =
     ebind (eget (\<lambda>db. user_can_write_gmail db user)) (\<lambda>allowed.
     if \<not> allowed then ereturn 0
     else
       ebind (ensure_gmail_reconciliation_started g user False) (\<lambda>state.
       let generation = str_or_empty (is_reconcile_generation state);
           baseline = str_or_empty (is_reconcile_baseline_history_id state) in
       if generation = '''' \<or> \<not> isdigit baseline
       then ebind (queue_clean_reconciliation_restart g user generation) (\<lambda>_. ereturn 0)
       else reconcile_pages g user generation baseline (clamp 1 500 batch_size) (nat (clamp 1 20 max_pages))
              (is_reconcile_cursor state) 0))"

section \<open>Recent and delta synchronisation\<close>

definition plain_completion :: import_flags where
  "plain_completion = \<lparr>fl_first_batch = False, fl_groups_ready = False, fl_dashboard_ready = False,
     fl_full_backfill_cursor = None, fl_clear_full_backfill_cursor = False,
     fl_full_backfill_started = False, fl_full_backfill_completed = False\<rparr>"

text \<open>\<open>except Exception: mark_import_error(..); raise\<close>\<close>

definition marking_failure ::
    "('a mail_db_scheme, 'b) sync_services_scheme \<Rightarrow> string \<Rightarrow> exn \<Rightarrow> ('a mail_db_scheme, 'c) eff" where
  "marking_failure g user e =
     ebind (at_time g (\<lambda>now. mark_import_error now user (safe_google_error ''mail sync'' e))) (\<lambda>_. eraise e)"

definition run_recent_metadata_sync ::
    "('a mail_db_scheme, 'b) sync_services_scheme \<Rightarrow> string \<Rightarrow> int \<Rightarrow> ('a mail_db_scheme, nat) eff" where
  "run_recent_metadata_sync g user batch_size =
     ebind (at_time g (\<lambda>now. mark_import_started now user)) (\<lambda>_.
     etry
       (ebind (ebind (list_messages g user batch_size None []) as_fields) (\<lambda>listed.
        ebind (ebind (list_draft_messages g user batch_size None) as_fields) (\<lambda>drafts.
        ebind (hydrate_messages g user (merge_listed_messages listed drafts) False False) (\<lambda>(messages, _).
        ebind (at_time g (\<lambda>now. upsert_gmail_messages now messages)) (\<lambda>_.
        ebind (sy_rebuild g user (map gm_message_id messages)) (\<lambda>touched.
        ebind (at_time g (\<lambda>now. mark_import_completed now user plain_completion)) (\<lambda>_.
        ebind (if messages = [] then ereturn ()
               else ebind (enqueue_enrichment_and_projection g user 40) (\<lambda>_.
                    emit_changed g user ''recent_sync'' [(''message_count'', JInt (int (length messages)))])) (\<lambda>_.
        ereturn touched))))))))
       (marking_failure g user))"

text \<open>Without a usable cursor: a scan is started, the recent mail synchronised, and the scan queued.\<close>

definition fall_back_to_scan ::
    "('a mail_db_scheme, 'b) sync_services_scheme \<Rightarrow> string \<Rightarrow> int \<Rightarrow> ('a mail_db_scheme, nat) eff" where
  "fall_back_to_scan g user batch_size =
     ebind (ensure_gmail_reconciliation_started g user False) (\<lambda>_.
     ebind (run_recent_metadata_sync g user batch_size) (\<lambda>touched.
     ebind (enqueue_gmail_full_reconciliation g user) (\<lambda>_. ereturn touched)))"

text \<open>Deletions, then changed metadata; the groups that became empty and those that are pending.\<close>

definition apply_delta ::
    "('a mail_db_scheme, 'b) sync_services_scheme \<Rightarrow> string \<Rightarrow> history_delta
      \<Rightarrow> ('a mail_db_scheme, string list \<times> string list \<times> message_row list \<times> nat) eff" where
  "apply_delta g user delta =
     ebind (at_time g (\<lambda>now. delete_gmail_messages now user (hd_deleted_message_ids delta))) (\<lambda>groups.
     ebind (at_time g (\<lambda>now. prune_empty_mail_groups now user groups)) (\<lambda>emptied.
     ebind (at_time g (\<lambda>now. mark_mail_groups_pending now user (filter (\<lambda>i. i \<notin> set emptied) groups))) (\<lambda>pending.
     ebind (hydrate_message_ids g user (hd_message_ids delta) False False) (\<lambda>(messages, _).
     ebind (if messages = [] then ereturn 0
            else ebind (at_time g (\<lambda>now. upsert_gmail_messages now messages))
                   (\<lambda>_. sy_rebuild g user (map gm_message_id messages))) (\<lambda>touched.
     ereturn (emptied, pending, messages, touched))))))"

definition publish_delta ::
    "('a mail_db_scheme, 'b) sync_services_scheme \<Rightarrow> string \<Rightarrow> string list \<Rightarrow> string list \<Rightarrow> message_row list \<Rightarrow> nat
      \<Rightarrow> ('a mail_db_scheme, unit) eff" where
  "publish_delta g user emptied pending messages deleted =
     ebind (eget (\<lambda>db. gmail_sync_progress (get_import_state db user))) (\<lambda>progress.
     ebind (if \<not> truthy_str (sp_sync_generation progress) then ereturn ()
            else ebind (emit_sync_progress g user progress ''recent_metadata'') (\<lambda>_.
                 if messages \<noteq> [] \<and> sp_initial_body_target_count progress \<le> sp_initial_body_ready_count progress
                 then ebind (trigger_body_backfill g user) (\<lambda>_. ereturn ()) else ereturn ())) (\<lambda>_.
     if messages \<noteq> [] \<or> pending \<noteq> []
     then ebind (enqueue_enrichment_and_projection g user 60) (\<lambda>_.
          emit_changed g user ''gmail_delta''
            [(''message_count'', JInt (int (length messages))), (''deleted_count'', JInt (int deleted)),
             (''pending_group_count'', JInt (int (length pending)))])
     else if emptied \<noteq> [] then emit_changed g user ''gmail_delta'' [(''deleted_count'', JInt (int deleted))]
     else ereturn ()))"

text \<open>The whole delta. The cursor is checkpointed after everything it covers has been applied.\<close>

definition delta_body ::
    "('a mail_db_scheme, 'b) sync_services_scheme \<Rightarrow> string \<Rightarrow> int \<Rightarrow> import_row option \<Rightarrow> ('a mail_db_scheme, nat) eff" where
  "delta_body g user batch_size state =
     (let cursor = (case state of None \<Rightarrow> None | Some r \<Rightarrow> is_last_history_id r) in
      ebind (list_history_delta g user (str_or_empty cursor) batch_size) (\<lambda>delta.
      case max_history_id cursor (jstr_opt (hd_latest_history_id delta)) of
        None \<Rightarrow> eraise (RuntimeError ''Gmail history traversal did not produce a cursor'')
      | Some latest \<Rightarrow>
          ebind (apply_delta g user delta) (\<lambda>(emptied, pending, messages, touched).
          ebind (if messages \<noteq> [] \<or> hd_deleted_message_ids delta \<noteq> []
                 then refresh_gmail_thread_order_best_effort g user (Some latest) else ereturn False) (\<lambda>_.
          ebind (sy_queue_new_mail g user
                  (filter (\<lambda>m. gm_message_id m \<in> set (hd_added_message_ids delta)) messages)) (\<lambda>_.
          ebind (at_time g (\<lambda>now. mark_history_delta_completed now user latest)) (\<lambda>_.
          ebind (publish_delta g user emptied pending messages (length (hd_deleted_message_ids delta))) (\<lambda>_.
          ereturn (touched + length pending))))))))"

definition run_gmail_delta_sync ::
    "('a mail_db_scheme, 'b) sync_services_scheme \<Rightarrow> string \<Rightarrow> int \<Rightarrow> ('a mail_db_scheme, nat) eff" where
  "run_gmail_delta_sync g user batch_size =
     ebind (eget (\<lambda>db. user_can_write_gmail db user)) (\<lambda>allowed.
     if \<not> allowed then ereturn 0
     else ebind (eget (\<lambda>db. get_import_state db user)) (\<lambda>state.
     if \<not> gmail_history_cursor_is_authoritative state then fall_back_to_scan g user batch_size
     else ebind (at_time g (\<lambda>now. mark_import_started now user)) (\<lambda>_.
     etry (delta_body g user batch_size state)
       (\<lambda>e. if is_history_cursor_expired e \<or> e = history_traversal_limit then fall_back_to_scan g user batch_size
            else marking_failure g user e))))"

section \<open>The progressive first run\<close>

definition ensure_initial_window_body_jobs ::
    "('a mail_db_scheme, 'b) sync_services_scheme \<Rightarrow> string \<Rightarrow> string \<Rightarrow> ('a mail_db_scheme, unit) eff" where
  "ensure_initial_window_body_jobs g user generation =
     ebind (eget (\<lambda>db. list_gmail_initial_window_entries_needing_body_fetch db user generation 100)) (\<lambda>entries.
     ebind (emap (\<lambda>e. sync_enqueue g
        ((job_request_of ''gmail_body_fetch'')
           \<lparr>rq_queue := ''reader'', rq_user_id := Some user,
            rq_dedupe_key := Some (''gmail-body-fetch-thread:'' @ user @ '':'' @ iw_gmail_thread_id e),
            rq_priority := (if iw_position e < 25 then 90 else 60),
            rq_payload := [(''user_id'', JStr user), (''gmail_thread_id'', JStr (iw_gmail_thread_id e)),
              (''sync_generation'', JStr generation)],
            rq_wake_existing := False\<rparr>)) entries) (\<lambda>_. ereturn ()))"

definition first_batch_completion :: import_flags where
  "first_batch_completion = plain_completion\<lparr>fl_first_batch := True\<rparr>"

text \<open>The window is complete: the scan takes over, and bodies once the priority ones are there.\<close>

definition finish_initial_window ::
    "('a mail_db_scheme, 'b) sync_services_scheme \<Rightarrow> string \<Rightarrow> (('a mail_db_scheme, sync_progress) eff)
      \<Rightarrow> ('a mail_db_scheme, sync_progress) eff" where
  "finish_initial_window g user read_progress =
     ebind (at_time g (\<lambda>now. mark_import_completed now user first_batch_completion)) (\<lambda>_.
     ebind (enqueue_gmail_full_reconciliation g user) (\<lambda>_.
     ebind read_progress (\<lambda>progress.
     ebind (if sp_initial_body_target_count progress \<le> sp_initial_body_ready_count progress
            then ebind (trigger_body_backfill g user) (\<lambda>_. ereturn ()) else ereturn ()) (\<lambda>_.
     ereturn progress))))"

definition finish_progressive_gmail_metadata_batch ::
    "('a mail_db_scheme, 'b) sync_services_scheme \<Rightarrow> string \<Rightarrow> string \<Rightarrow> sync_progress \<Rightarrow> message_row list
      \<Rightarrow> string list \<Rightarrow> ('a mail_db_scheme, nat) eff" where
  "finish_progressive_gmail_metadata_batch g user generation progress messages threads =
     ebind (if messages = [] then ereturn ()
            else emit_changed g user ''initial_metadata''
              [(''message_count'', JInt (int (length messages))), (''thread_count'', JInt (int (length threads))),
               (''sync_generation'', JStr generation)]) (\<lambda>_.
     ebind (if sp_initial_window_complete progress
            then ebind (finish_initial_window g user (ereturn progress)) (\<lambda>_. ereturn ())
            else ebind (sync_enqueue g
              ((job_request_of ''gmail_import_batch'')
                 \<lparr>rq_queue := ''critical'', rq_user_id := Some user,
                  rq_dedupe_key := Some (''first-run:'' @ user @ '':'' @ generation @ '':metadata:''
                    @ int_str (sp_initial_metadata_count progress) @ '':target:'' @ int_str (sp_initial_target_count progress)),
                  rq_priority := 100,
                  rq_payload := [(''user_id'', JStr user), (''batch_size'', JInt 25), (''first_run'', JBool True)]\<rparr>))
              (\<lambda>_. ereturn ())) (\<lambda>_.
     ereturn (length messages)))"

text \<open>The listing of the window, once per generation. None: another generation owns the import state.\<close>

definition discover_initial_window ::
    "('a mail_db_scheme, 'b) sync_services_scheme \<Rightarrow> string \<Rightarrow> string \<Rightarrow> import_row \<Rightarrow> ('a mail_db_scheme, bool) eff" where
  "discover_initial_window g user generation state =
     (if is_initial_target_count state = 0 \<and> \<not> is_initial_window_complete state
      then ebind (at_time g (\<lambda>now. list_initial_window_threads g (sy_pages g) now user)) (\<lambda>found.
           case found of
             None \<Rightarrow> eraise (OtherError ''Diverged'')
           | Some w \<Rightarrow>
               (let estimate = max 0 (case tw_estimate w of None \<Rightarrow> 0 | Some n \<Rightarrow> n) in
                if tw_threads w = [] \<and> (tw_continuation w \<noteq> None \<or> 0 < estimate)
                then eraise (RuntimeError ''Gmail returned an inconclusive initial thread window'')
                else ebind (at_time g (\<lambda>now. initialize_gmail_initial_window now user generation (tw_threads w) estimate))
                  (\<lambda>progress. case progress of
                     None \<Rightarrow> ereturn False
                   | Some p \<Rightarrow> ebind (emit_sync_progress g user p ''initial_discovery'') (\<lambda>_. ereturn True))))
      else ereturn True)"

definition import_initial_batch ::
    "('a mail_db_scheme, 'b) sync_services_scheme \<Rightarrow> string \<Rightarrow> string \<Rightarrow> string list \<Rightarrow> ('a mail_db_scheme, nat) eff" where
  "import_initial_batch g user generation threads =
     ebind (hydrate_gmail_thread_ids_metadata g user threads) (\<lambda>(messages, ok, gone).
     let successful = successful_threads messages ok in
     if successful = [] \<and> gone = []
     then eraise (RuntimeError ''Gmail returned no terminal outcomes for the metadata batch'')
     else
       ebind (at_time g (\<lambda>now. commit_gmail_initial_window_metadata_batch now user generation
                (filter (\<lambda>t. t \<in> set successful) threads) messages (filter (\<lambda>t. t \<in> set gone) threads))) (\<lambda>committed.
       case committed of
         None \<Rightarrow> ereturn 0
       | Some progress \<Rightarrow>
           ebind (if messages = [] then ereturn True
                  else best_effort (sy_rebuild g user (map gm_message_id messages))) (\<lambda>_.
           ebind (ensure_initial_window_body_jobs g user generation) (\<lambda>_.
           ebind (emit_sync_progress g user progress ''initial_metadata'') (\<lambda>_.
           finish_progressive_gmail_metadata_batch g user generation progress messages threads)))))"

definition run_progressive_gmail_bootstrap ::
    "('a mail_db_scheme, 'b) sync_services_scheme \<Rightarrow> string \<Rightarrow> ('a mail_db_scheme, nat) eff" where
  "run_progressive_gmail_bootstrap g user =
     ebind (ensure_gmail_reconciliation_started g user True) (\<lambda>scan.
     let generation = str_or_empty (is_reconcile_generation scan) in
     if generation = '''' then eraise (RuntimeError ''Gmail bootstrap did not acquire a reconciliation generation'')
     else
       ebind (at_time g (\<lambda>now. start_gmail_sync_progress now user generation)) (\<lambda>started.
       case started of
         None \<Rightarrow> ereturn 0
       | Some state \<Rightarrow>
           ebind (discover_initial_window g user generation state) (\<lambda>discovered.
           if \<not> discovered then ereturn 0
           else
             ebind (ensure_initial_window_body_jobs g user generation) (\<lambda>_.
             ebind (eget (\<lambda>db. list_pending_gmail_initial_window_entries db user generation 25)) (\<lambda>pending.
             if pending = []
             then ebind (finish_initial_window g user (eget (\<lambda>db. gmail_sync_progress (get_import_state db user)))) (\<lambda>progress.
                  ebind (emit_sync_progress g user progress ''initial_metadata'') (\<lambda>_. ereturn 0))
             else import_initial_batch g user generation (map iw_gmail_thread_id pending))))))"

definition run_gmail_import_batch ::
    "('a mail_db_scheme, 'b) sync_services_scheme \<Rightarrow> string \<Rightarrow> int \<Rightarrow> bool \<Rightarrow> ('a mail_db_scheme, nat) eff" where
  "run_gmail_import_batch g user batch_size first_run =
     ebind (eget (\<lambda>db. user_can_write_gmail db user)) (\<lambda>allowed.
     if \<not> allowed then ereturn 0
     else if \<not> first_run
     then ebind (eget (\<lambda>db. \<not> gmail_history_cursor_is_authoritative (get_import_state db user))) (\<lambda>needs_scan.
          if needs_scan then fall_back_to_scan g user batch_size else run_recent_metadata_sync g user batch_size)
     else ebind (at_time g (\<lambda>now. mark_import_started now user)) (\<lambda>_.
          etry (run_progressive_gmail_bootstrap g user) (marking_failure g user)))"

end
