(* ===== verification/Sync_Client.thy ===== *)
theory Sync_Client
  imports Gmail_Sync Scan_Safety
begin

text \<open>
  The importer as a client of the mailbox tables. The locale \<open>sync_client\<close> names what a
  predicate on the database has to tolerate: the operations of the tables that the
  importer calls, its jobs, and the deletion of messages that Gmail's history reports as
  deleted. Its lemmas say that every synchronisation job preserves such a predicate,
  however Gmail answers and whatever other processes do that preserve it as well;
  \<open>scan_client\<close> adds the end of a scan.
\<close>

section \<open>What the services do to the database\<close>

definition keeps :: "('s \<Rightarrow> bool) \<Rightarrow> ('s, 'b) sync_services_scheme \<Rightarrow> bool" where
  "keeps P g \<longleftrightarrow>
     (\<forall>u. epreserves P (ga_authorized g u)) \<and> epreserves P (ga_profile g)
     \<and> (\<forall>h n t. epreserves P (ga_history g h n t)) \<and> (\<forall>n t ls. epreserves P (ga_messages g n t ls))
     \<and> (\<forall>n t. epreserves P (ga_drafts g n t)) \<and> (\<forall>q n t. epreserves P (ga_threads g q n t)) \<and> (\<forall>q n t. epreserves P (ga_search g q n t))
     \<and> (\<forall>b ids. epreserves P (ga_message_batch g b ids)) \<and> (\<forall>b i. epreserves P (ga_message g b i))
     \<and> (\<forall>ids. epreserves P (ga_thread_batch g ids)) \<and> (\<forall>i. epreserves P (ga_thread g i))
     \<and> (\<forall>b u fs. epreserves P (ga_parse g b u fs)) \<and> epreserves P (sy_clock g) \<and> epreserves P (sy_uuid g)
     \<and> (\<forall>u ids. epreserves P (sy_rebuild g u ids)) \<and> (\<forall>u k fs. epreserves P (sy_emit g u k fs))
     \<and> (\<forall>u ms. epreserves P (sy_queue_new_mail g u ms)) \<and> (\<forall>u m. epreserves P (sy_organize g u m))"

text \<open>Gmail's history reports only messages with the given property as deleted.\<close>

definition reports_deleted :: "('s, 'b) gmail_api_scheme \<Rightarrow> (string \<Rightarrow> bool) \<Rightarrow> bool" where
  "reports_deleted g gone \<longleftrightarrow>
     (\<forall>start n token s. case fst (ga_history g start n token s) of Inl _ \<Rightarrow> True
        | Inr v \<Rightarrow> (case jfields v of None \<Rightarrow> True
            | Some fs \<Rightarrow> \<forall>entry \<in> set (jlist_of (jget fs ''history'')). case jfields entry of None \<Rightarrow> True
                | Some e \<Rightarrow> \<forall>i \<in> set (history_messages [''messagesDeleted''] e). gone i))"

lemma epreserves_split [preserve_intros]:
  "(\<And>a b. epreserves P (f a b)) \<Longrightarrow> epreserves P (case x of (a, b) \<Rightarrow> f a b)"
  by (cases x) simp

lemma epreserves_sum [preserve_intros]:
  "(\<And>e. epreserves P (f e)) \<Longrightarrow> (\<And>x. epreserves P (h x)) \<Longrightarrow> epreserves P (case r of Inl e \<Rightarrow> f e | Inr x \<Rightarrow> h x)"
  by (cases r) simp_all

lemma epreserves_list [preserve_intros]:
  "epreserves P m \<Longrightarrow> (\<And>y ys. epreserves P (f y ys)) \<Longrightarrow> epreserves P (case xs of [] \<Rightarrow> m | y # ys \<Rightarrow> f y ys)"
  by (cases xs) simp_all

lemma epreserves_fields [preserve_intros]: "epreserves P (as_fields v)"
  by (simp add: as_fields_def preserve_intros split: option.split)

lemma epreserves_best_effort [preserve_intros]: "epreserves P m \<Longrightarrow> epreserves P (best_effort m)"
  unfolding best_effort_def by (intro preserve_intros)

lemma keeps_calls:
  assumes "keeps P g"
  shows "epreserves P (ga_authorized g u)" "epreserves P (ga_profile g)" "epreserves P (ga_history g h n t)"
    "epreserves P (ga_messages g n t ls)" "epreserves P (ga_drafts g n t)" "epreserves P (ga_threads g q n t)" "epreserves P (ga_search g x n t)"
    "epreserves P (ga_message_batch g b ids)" "epreserves P (ga_message g b i)" "epreserves P (ga_thread_batch g ids)"
    "epreserves P (ga_thread g i)" "epreserves P (ga_parse g b u fs)" "epreserves P (sy_clock g)" "epreserves P (sy_uuid g)"
    "epreserves P (sy_rebuild g u ids)" "epreserves P (sy_emit g u k fs)" "epreserves P (sy_queue_new_mail g u ms)"
    "epreserves P (sy_organize g u m)"
  using assms by (simp_all add: keeps_def)

section \<open>Reading Gmail\<close>

lemma keeps_with_gmail:
  assumes "keeps P g" and "epreserves P m"
  shows "epreserves P (with_gmail g u m)"
  unfolding with_gmail_def by (intro preserve_intros keeps_calls assms)

lemma keeps_at_time: "keeps P g \<Longrightarrow> (\<And>now. epreserves P (f now)) \<Longrightarrow> epreserves P (at_time g f)"
  unfolding at_time_def by (intro preserve_intros keeps_calls)

lemma keeps_listing:
  assumes "keeps P g"
  shows "epreserves P (list_messages g u n t ls)" "epreserves P (list_draft_messages g u n t)"
  unfolding list_messages_def list_draft_messages_def
  by (intro preserve_intros keeps_with_gmail keeps_calls assms)+

lemma keeps_history_walk:
  assumes "keeps P g"
  shows "epreserves P (history_walk g start n budget t seen acc)"
proof (induction budget arbitrary: t seen acc)
  case (Suc budget)
  show ?case
    unfolding history_walk.simps Let_def
    by (intro preserve_intros keeps_calls assms Suc)
qed (simp only: history_walk.simps epreserves_raise)

lemma keeps_list_history: "keeps P g \<Longrightarrow> epreserves P (list_history_delta g u start n)"
  unfolding list_history_delta_def by (intro preserve_intros keeps_with_gmail keeps_history_walk)

lemma keeps_message_batches:
  assumes "keeps P g"
  shows "epreserves P (message_batches g full forgiving batches acc)"
proof (induction batches arbitrary: acc)
  case (Cons ids batches)
  show ?case
    unfolding message_batches.simps Let_def by (intro preserve_intros keeps_calls assms Cons)
qed (simp only: message_batches.simps epreserves_return)

lemma keeps_fetch_missing:
  assumes "keeps P g"
  shows "epreserves P (fetch_missing g full forgiving ids acc)"
proof (induction ids arbitrary: acc)
  case (Cons i ids)
  show ?case
    unfolding fetch_missing.simps by (intro preserve_intros keeps_calls assms Cons)
qed (simp only: fetch_missing.simps epreserves_return)

lemma keeps_batch_get: "keeps P g \<Longrightarrow> epreserves P (batch_get_message_payloads g ids full skip continue)"
  unfolding batch_get_message_payloads_def Let_def
  by (intro preserve_intros keeps_message_batches keeps_fetch_missing)

lemma keeps_parse_payloads:
  assumes "keeps P g"
  shows "epreserves P (parse_payloads g full u ps ids)"
proof (induction ids)
  case (Cons i ids)
  show ?case
    unfolding parse_payloads.simps by (intro preserve_intros keeps_calls assms Cons)
qed (simp only: parse_payloads.simps epreserves_return)

lemma keeps_hydrate:
  assumes "keeps P g"
  shows "epreserves P (hydrate_messages g u ids full skip)" "epreserves P (hydrate_message_ids g u ids full skip)"
  unfolding hydrate_messages_def hydrate_message_ids_def
  by (intro preserve_intros keeps_with_gmail keeps_batch_get keeps_parse_payloads assms)+

lemma keeps_missing_threads:
  assumes "keeps P g"
  shows "epreserves P (fetch_missing_threads g ids acc)"
proof (induction ids arbitrary: acc)
  case (Cons i ids)
  show ?case
    unfolding fetch_missing_threads.simps by (intro preserve_intros keeps_calls assms Cons)
qed (simp only: fetch_missing_threads.simps epreserves_return)

lemma keeps_thread_batches:
  assumes "keeps P g"
  shows "epreserves P (thread_batches g batches acc)"
proof (induction batches arbitrary: acc)
  case (Cons ids batches)
  show ?case
    unfolding thread_batches.simps
    by (intro preserve_intros keeps_calls keeps_missing_threads assms) (rule Cons)
qed (simp only: thread_batches.simps epreserves_return)

lemma keeps_parse_threads:
  assumes "keeps P g"
  shows "epreserves P (parse_thread_messages g u vs)"
proof (induction vs)
  case (Cons v vs)
  show ?case
    unfolding parse_thread_messages.simps by (intro preserve_intros keeps_calls assms Cons)
qed (simp only: parse_thread_messages.simps epreserves_return)

lemma keeps_hydrate_threads:
  assumes "keeps P g"
  shows "epreserves P (hydrate_threads g u ps ids acc)"
proof (induction ids arbitrary: acc)
  case (Cons i ids)
  show ?case
    unfolding hydrate_threads.simps by (intro preserve_intros keeps_parse_threads assms Cons)
qed (simp only: hydrate_threads.simps epreserves_return)

lemma keeps_hydrate_thread_ids: "keeps P g \<Longrightarrow> epreserves P (hydrate_gmail_thread_ids_metadata g u ids)"
  unfolding hydrate_gmail_thread_ids_metadata_def batch_get_thread_metadata_payloads_def
  by (intro preserve_intros keeps_with_gmail keeps_thread_batches keeps_hydrate_threads)

lemma keeps_window_walk:
  assumes "keeps P g"
  shows "epreserves P (initial_window_walk g q fuel t seen w)"
proof (induction fuel arbitrary: t seen w)
  case (Suc fuel)
  show ?case
    unfolding initial_window_walk.simps Let_def by (intro preserve_intros keeps_calls assms Suc)
qed (simp only: initial_window_walk.simps epreserves_return)

lemma keeps_window: "keeps P g \<Longrightarrow> epreserves P (list_initial_window_threads g fuel now u)"
  unfolding list_initial_window_threads_def by (intro keeps_with_gmail keeps_window_walk)

lemma keeps_history_id: "keeps P g \<Longrightarrow> epreserves P (current_gmail_history_id g u)"
  unfolding current_gmail_history_id_def Let_def by (intro preserve_intros keeps_with_gmail keeps_calls)

lemma keeps_emit:
  assumes "keeps P g"
  shows "epreserves P (emit_sync_progress g u p s)" "epreserves P (emit_changed g u s fs)"
  unfolding emit_sync_progress_def emit_changed_def by (intro preserve_intros keeps_calls assms)+

lemma keeps_reject: "epreserves P m \<Longrightarrow> epreserves P (reject_token t m)"
  unfolding reject_token_def by (intro preserve_intros)

lemma keeps_pages:
  assumes "keeps P g"
  shows "epreserves P (hydrate_reconciliation_cursor_page g u n c)"
    "epreserves P (hydrate_reconciliation_thread_cursor_page g u n c)"
  unfolding hydrate_reconciliation_cursor_page_def hydrate_reconciliation_thread_cursor_page_def list_mailbox_page_def Let_def
  by (intro preserve_intros keeps_with_gmail keeps_reject keeps_listing keeps_hydrate keeps_hydrate_thread_ids keeps_calls assms)+

text \<open>The deletions of a delta are among those that the history reports.\<close>

definition acc_within :: "(string \<Rightarrow> bool) \<Rightarrow> history_acc \<Rightarrow> bool" where
  "acc_within gone acc \<longleftrightarrow> (\<forall>i \<in> set (ha_deleted acc). gone i)"

lemma read_page_within:
  assumes "acc_within gone acc" and "\<forall>entry \<in> set (jlist_of (jget fs ''history'')). case jfields entry of None \<Rightarrow> True
      | Some e \<Rightarrow> \<forall>i \<in> set (history_messages [''messagesDeleted''] e). gone i"
  shows "acc_within gone (read_history_page acc fs)"
proof -
  have "acc_within gone (foldl read_history_entry a vs)"
    if "acc_within gone a" and "\<forall>entry \<in> set vs. case jfields entry of None \<Rightarrow> True
      | Some e \<Rightarrow> \<forall>i \<in> set (history_messages [''messagesDeleted''] e). gone i" for a vs
    using that
  proof (induction vs arbitrary: a)
    case (Cons v vs)
    then have "acc_within gone (read_history_entry a v)"
      by (auto simp: acc_within_def read_history_entry_def split: option.splits)
    with Cons show ?case by simp
  qed simp
  from this [OF _ assms(2), of "acc\<lparr>ha_latest := max_history_id (ha_latest acc) (jget fs ''historyId'')\<rparr>"] assms(1)
  show ?thesis
    by (simp add: read_history_page_def acc_within_def)
qed

lemma walk_within:
  assumes "reports_deleted g gone" and "acc_within gone acc"
  shows "case fst (history_walk g start n budget t seen acc s) of Inl _ \<Rightarrow> True | Inr acc' \<Rightarrow> acc_within gone acc'"
  using assms(2)
proof (induction budget arbitrary: t seen acc s)
  case (Suc budget)
  obtain r s' where call: "ga_history g start n t s = (r, s')" by fastforce
  show ?case
  proof (cases "\<exists>v fs. r = Inr v \<and> jfields v = Some fs")
    case False
    then show ?thesis using call
      by (cases r) (auto simp: ebind_apply as_fields_def split: option.split)
  next
    case True
    then obtain v fs where v: "r = Inr v" "jfields v = Some fs" by blast
    have "acc_within gone (read_history_page acc fs)"
      by (rule read_page_within [OF Suc.prems])
        (use assms(1) [unfolded reports_deleted_def, rule_format, of start n t s] call v in simp)
    with Suc.IH call v show ?thesis
      by (auto simp: ebind_apply as_fields_def Let_def split: option.split)
  qed
qed simp

lemma delta_within:
  assumes "keeps P g" and "reports_deleted g gone"
  shows "ehoare P (list_history_delta g u start n) (\<lambda>d s. P s \<and> (\<forall>i \<in> set (hd_deleted_message_ids d). gone i)) (\<lambda>_. P)"
proof -
  have walk: "ehoare P (history_walk g start k b None [] no_history) (\<lambda>acc s. P s \<and> acc_within gone acc) (\<lambda>_. P)" for k b
    unfolding ehoare_def
  proof (intro allI impI)
    fix s assume "P s"
    with keeps_history_walk [OF assms(1)] have "P (snd (history_walk g start k b None [] no_history s))" by (rule epreservesD)
    moreover have "acc_within gone no_history" by (simp add: acc_within_def no_history_def)
    note walk_within [OF assms(2) this, of start k b None "[]" s]
    ultimately show "case history_walk g start k b None [] no_history s of
        (Inl e, s') \<Rightarrow> P s' | (Inr acc, s') \<Rightarrow> P s' \<and> acc_within gone acc"
      by (cases "history_walk g start k b None [] no_history s") (auto split: sum.splits)
  qed
  show ?thesis
    unfolding list_history_delta_def with_gmail_def
    by (rule ehoare_bind [OF ehoare_preserves [OF keeps_calls(1) [OF assms(1)]]], simp split: if_splits,
        intro conjI impI, rule ehoare_bind [OF walk], rule ehoare_return,
        simp add: delta_of_def Let_def acc_within_def, rule ehoare_raise, simp)
qed

section \<open>The contract of the importer with the tables\<close>

text \<open>The operations that neither delete messages by name, nor end a scan, nor disconnect the user.\<close>

fun gathers :: "mailbox_op \<Rightarrow> bool" where
  "gathers (Delete_messages user ids) = False"
| "gathers (Finalize_scan user g h) = False"
| "gathers (Disconnect_google user) = False"
| "gathers _ = True"

lemma epreserves_edrop: "epreserves P (edrop m) = epreserves P m"
  by (simp add: epreserves_def)

locale sync_client =
  fixes P :: "'a mail_db_scheme \<Rightarrow> bool" and deletable :: "string \<Rightarrow> bool"
  assumes gathering: "gathers op \<Longrightarrow> epreserves P (perform_op now op)"
    and deletion: "\<forall>i \<in> set ids. deletable i \<Longrightarrow> epreserves P (delete_gmail_messages now user ids)"
    and enqueue: "epreserves P (\<lambda>db. enqueue_job (background_jobs db) now job_id rq db)"
    and blind: "lock_blind P"
begin

lemma started: "epreserves P (mark_import_started now user)"
  using gathering [of "Import_started user" now] by simp

lemma completed: "epreserves P (mark_import_completed now user fl)"
  using gathering [of "Import_completed user fl" now] by simp

lemma failed: "epreserves P (mark_import_error now user error)"
  using gathering [of "Import_failed user error" now] by simp

lemma delta_completed: "epreserves P (mark_history_delta_completed now user h)"
  using gathering [of "Delta_completed user h" now] by simp

lemma upserted: "epreserves P (upsert_gmail_messages now rows)"
  using gathering [of "Upsert_messages rows" now] by (simp add: epreserves_edrop)

lemma pruned: "epreserves P (prune_empty_mail_groups now user ids)"
  using gathering [of "Prune_groups user ids" now] by (simp add: epreserves_edrop)

lemma pended: "epreserves P (mark_mail_groups_pending now user ids)"
  using gathering [of "Pend_groups user ids" now] by (simp add: epreserves_edrop)

lemma sync_started: "epreserves P (start_gmail_sync_progress now user g)"
  using gathering [of "Start_sync user g" now] by (simp add: epreserves_edrop)

lemma window_initialized: "epreserves P (initialize_gmail_initial_window now user g threads n)"
  using gathering [of "Initialize_window user g threads n" now] by (simp add: epreserves_edrop)

lemma batch_committed: "epreserves P (commit_gmail_initial_window_metadata_batch now user g threads rows gone)"
  using gathering [of "Commit_batch user g threads rows gone" now] by (simp add: epreserves_edrop)

lemma scan_started: "epreserves P (start_gmail_reconciliation now user g h cursor)"
  using gathering [of "Start_scan user g h cursor" now] by (simp add: epreserves_edrop)

lemma page_recorded: "epreserves P (record_gmail_reconciliation_page now user g cursor after ids)"
  using gathering [of "Record_page user g cursor after ids" now] by (simp add: epreserves_edrop)

lemma page_committed: "epreserves P (commit_gmail_reconciliation_metadata_page now user g cursor after rows n m)"
  using gathering [of "Commit_page user g cursor after rows n m" now] by (simp add: epreserves_edrop)

lemma seen_recorded: "epreserves P (record_gmail_reconciliation_seen user g ids)"
  using gathering [of "Record_seen user g ids"] by (simp add: epreserves_edrop)

lemma scan_reset: "epreserves P (reset_gmail_reconciliation now user g)"
  using gathering [of "Reset_scan user g" now] by (simp add: epreserves_edrop)

lemmas table_intros = preserve_intros keeps_at_time started completed failed delta_completed upserted pruned pended
  sync_started window_initialized batch_committed scan_started page_recorded page_committed seen_recorded scan_reset

lemma queued: "keeps P g \<Longrightarrow> epreserves P (sync_enqueue g rq)"
  unfolding sync_enqueue_def by (intro preserve_intros keeps_at_time keeps_calls enqueue)

lemmas job_intros = table_intros queued

lemma jobs_queued:
  assumes "keeps P g"
  shows "epreserves P (enqueue_gmail_full_reconciliation g user)"
    "epreserves P (enqueue_gmail_body_backfill g user key after complete)"
    "epreserves P (refresh_gmail_thread_order_best_effort g user target)"
    "epreserves P (enqueue_enrichment_and_projection g user priority)"
    "epreserves P (enqueue_restart g user)"
  unfolding enqueue_gmail_full_reconciliation_def enqueue_gmail_body_backfill_def Let_def enqueue_restart_def
    refresh_gmail_thread_order_best_effort_def enqueue_enrichment_and_projection_def
  by (intro job_intros keeps_calls assms)+

lemma scan_begun:
  assumes "keeps P g"
  shows "epreserves P (ensure_gmail_reconciliation_started g user threads)"
  unfolding ensure_gmail_reconciliation_started_def start_scan_def Let_def
  by (intro job_intros keeps_history_id keeps_calls assms)

lemma failure_marked: "keeps P g \<Longrightarrow> epreserves P (marking_failure g user e)"
  unfolding marking_failure_def by (intro job_intros)

lemma recent_synced:
  assumes "keeps P g"
  shows "epreserves P (run_recent_metadata_sync g user n)"
  unfolding run_recent_metadata_sync_def
  by (intro job_intros jobs_queued failure_marked keeps_listing keeps_hydrate keeps_emit keeps_calls assms)

lemma fallen_back: "keeps P g \<Longrightarrow> epreserves P (fall_back_to_scan g user n)"
  unfolding fall_back_to_scan_def by (intro job_intros scan_begun recent_synced jobs_queued)

lemma delta_published: "keeps P g \<Longrightarrow> epreserves P (publish_delta g user emptied pending messages k)"
  unfolding publish_delta_def by (intro job_intros jobs_queued keeps_emit)

lemma delta_applied:
  assumes "keeps P g" and "\<forall>i \<in> set (hd_deleted_message_ids d). deletable i"
  shows "epreserves P (apply_delta g user d)"
  unfolding apply_delta_def by (intro job_intros deletion keeps_hydrate keeps_calls assms)

end

section \<open>The synchronisation jobs\<close>

lemma epreserves_bind_within:
  assumes "ehoare P m (\<lambda>x s. P s \<and> A x) (\<lambda>_. P)" and "\<And>x. A x \<Longrightarrow> epreserves P (f x)"
  shows "epreserves P (ebind m f)"
  unfolding epreserves_def
proof (intro allI impI)
  fix s assume P: "P s"
  obtain r s' where run: "m s = (r, s')" by fastforce
  show "P (snd (ebind m f s))"
  proof (cases r)
    case (Inl e)
    with ehoareD(1) [OF assms(1) P] run show ?thesis by (simp add: ebind_apply)
  next
    case (Inr x)
    with ehoareD(2) [OF assms(1) P] run have "P s'" "A x" by simp_all
    with epreservesD [OF assms(2)] run Inr show ?thesis by (simp add: ebind_apply)
  qed
qed

lemma ehoare_if: "ehoare P m Q E \<Longrightarrow> ehoare P m' Q E \<Longrightarrow> ehoare P (if b then m else m') Q E"
  by simp

definition within :: "(string \<Rightarrow> bool) \<Rightarrow> history_delta \<Rightarrow> bool" where
  "within gone d \<longleftrightarrow> (\<forall>i \<in> set (hd_deleted_message_ids d). gone i)"

lemma history_within:
  "keeps P g \<Longrightarrow> reports_deleted g gone \<Longrightarrow>
   ehoare P (list_history_delta g u start n) (\<lambda>d s. P s \<and> within gone d) (\<lambda>_. P)"
  unfolding within_def by (rule delta_within)

context sync_client
begin

lemma delta_followed:
  assumes "keeps P g" and "reports_deleted g deletable"
  shows "epreserves P (delta_body g user n state)"
  unfolding delta_body_def Let_def
proof (rule epreserves_bind_within [OF history_within [OF assms]])
  fix d assume "within deletable d"
  then have "\<forall>i \<in> set (hd_deleted_message_ids d). deletable i" by (simp add: within_def)
  note apply_d = delta_applied [OF assms(1) this]
  show "epreserves P (case max_history_id (case state of None \<Rightarrow> None | Some r \<Rightarrow> is_last_history_id r)
        (jstr_opt (hd_latest_history_id d)) of
      None \<Rightarrow> eraise (RuntimeError ''Gmail history traversal did not produce a cursor'')
    | Some latest \<Rightarrow>
        ebind (apply_delta g user d) (\<lambda>(emptied, pending, messages, touched).
        ebind (if messages \<noteq> [] \<or> hd_deleted_message_ids d \<noteq> []
               then refresh_gmail_thread_order_best_effort g user (Some latest) else ereturn False) (\<lambda>_.
        ebind (sy_queue_new_mail g user
                (filter (\<lambda>m. gm_message_id m \<in> set (hd_added_message_ids d)) messages)) (\<lambda>_.
        ebind (at_time g (\<lambda>now. mark_history_delta_completed now user latest)) (\<lambda>_.
        ebind (publish_delta g user emptied pending messages (length (hd_deleted_message_ids d))) (\<lambda>_.
        ereturn (touched + length pending)))))))"
    by (intro job_intros jobs_queued delta_published apply_d keeps_calls assms(1))
qed

lemma delta_synced:
  assumes "keeps P g" and "reports_deleted g deletable"
  shows "epreserves P (run_gmail_delta_sync g user n)"
  unfolding run_gmail_delta_sync_def
  by (intro job_intros delta_followed fallen_back failure_marked assms)

lemma bodies_queued: "keeps P g \<Longrightarrow> epreserves P (ensure_initial_window_body_jobs g user gen)"
  unfolding ensure_initial_window_body_jobs_def by (intro job_intros)

lemma window_finished:
  assumes "keeps P g" and "epreserves P read_progress"
  shows "epreserves P (finish_initial_window g user read_progress)"
  unfolding finish_initial_window_def by (intro job_intros jobs_queued assms)

lemma batch_finished:
  assumes "keeps P g"
  shows "epreserves P (finish_progressive_gmail_metadata_batch g user gen progress messages threads)"
  unfolding finish_progressive_gmail_metadata_batch_def
  by (intro job_intros window_finished keeps_emit assms)

lemma window_discovered:
  assumes "keeps P g"
  shows "epreserves P (discover_initial_window g user gen state)"
  unfolding discover_initial_window_def Let_def
  by (intro job_intros keeps_window keeps_emit assms)

lemma batch_imported:
  assumes "keeps P g"
  shows "epreserves P (import_initial_batch g user gen threads)"
  unfolding import_initial_batch_def Let_def
  by (intro job_intros keeps_hydrate_thread_ids bodies_queued keeps_emit batch_finished keeps_calls assms)

lemma bootstrapped:
  assumes "keeps P g"
  shows "epreserves P (run_progressive_gmail_bootstrap g user)"
  unfolding run_progressive_gmail_bootstrap_def Let_def
  by (intro job_intros scan_begun window_discovered bodies_queued window_finished keeps_emit batch_imported assms)

lemma imported: "keeps P g \<Longrightarrow> epreserves P (run_gmail_import_batch g user n first_run)"
  unfolding run_gmail_import_batch_def
  by (intro job_intros fallen_back recent_synced bootstrapped failure_marked)

end

locale scan_client = sync_client +
  assumes finalize: "epreserves P (finalize_gmail_reconciliation now user gen h)"
begin

lemma history_applied:
  assumes "keeps P g" and "within deletable d"
  shows "epreserves P (apply_history g user d)"
  unfolding apply_history_def
  by (intro job_intros deletion keeps_hydrate assms(1)) (use assms(2) in \<open>simp add: within_def\<close>)

lemma scan_published: "keeps P g \<Longrightarrow> epreserves P (publish_reconciliation g user groups messages k h result)"
  unfolding publish_reconciliation_def by (intro job_intros jobs_queued keeps_emit)

lemma scan_ended:
  assumes "keeps P g" and "reports_deleted g deletable"
  shows "epreserves P (finalize_gmail_full_reconciliation g user gen base)"
  unfolding finalize_gmail_full_reconciliation_def
proof (rule epreserves_bind_within [where A = "\<lambda>found. case found of None \<Rightarrow> True | Some d \<Rightarrow> within deletable d"])
  have restart: "epreserves P (at_time g (\<lambda>now. reset_gmail_reconciliation now user gen))"
    "epreserves P (enqueue_restart g user)" by (intro job_intros jobs_queued assms)+
  show "ehoare P (etry (ebind (list_history_delta g user base 500) (\<lambda>delta. ereturn (Some delta)))
      (\<lambda>e. if is_history_cursor_expired e \<or> e = history_traversal_limit
           then ebind (at_time g (\<lambda>now. reset_gmail_reconciliation now user gen)) (\<lambda>_.
                ebind (enqueue_restart g user) (\<lambda>_. ereturn None))
           else eraise e))
      (\<lambda>found s. P s \<and> (case found of None \<Rightarrow> True | Some d \<Rightarrow> within deletable d)) (\<lambda>_. P)"
  proof (rule ehoare_try [where F = "\<lambda>_. P"])
    show "ehoare P (ebind (list_history_delta g user base 500) (\<lambda>delta. ereturn (Some delta)))
        (\<lambda>found s. P s \<and> (case found of None \<Rightarrow> True | Some d \<Rightarrow> within deletable d)) (\<lambda>_. P)"
      by (rule ehoare_bind [OF history_within [OF assms]], rule ehoare_return) simp
  next
    fix e
    show "ehoare P (if is_history_cursor_expired e \<or> e = history_traversal_limit
           then ebind (at_time g (\<lambda>now. reset_gmail_reconciliation now user gen)) (\<lambda>_.
                ebind (enqueue_restart g user) (\<lambda>_. ereturn None))
           else eraise e) (\<lambda>found s. P s \<and> (case found of None \<Rightarrow> True | Some d \<Rightarrow> within deletable d)) (\<lambda>_. P)"
    proof (rule ehoare_if)
      show "ehoare P (ebind (at_time g (\<lambda>now. reset_gmail_reconciliation now user gen)) (\<lambda>_.
          ebind (enqueue_restart g user) (\<lambda>_. ereturn None)))
          (\<lambda>found s. P s \<and> (case found of None \<Rightarrow> True | Some d \<Rightarrow> within deletable d)) (\<lambda>_. P)"
        by (rule ehoare_bind [OF ehoare_preserves [OF restart(1)]], rule ehoare_bind [OF ehoare_preserves [OF restart(2)]],
          rule ehoare_return) simp
    qed (rule ehoare_raise, simp)
  qed
qed (auto split: option.split intro!: job_intros history_applied seen_recorded scan_published finalize assms)

lemma page_processed:
  assumes "keeps P g"
  shows "epreserves P (reconcile_page g user gen n cursor)"
  unfolding reconcile_page_def Let_def queue_clean_reconciliation_restart_def commit_thread_page_def record_message_page_def
  by (intro job_intros jobs_queued keeps_pages keeps_emit assms)

lemma pages_processed:
  assumes "keeps P g" and "reports_deleted g deletable"
  shows "epreserves P (reconcile_pages g user gen base n k cursor touched)"
proof (induction k arbitrary: cursor touched)
  case 0
  show ?case
    by (cases cursor) (simp_all only: reconcile_pages.simps, (intro job_intros jobs_queued scan_ended assms)+)
next
  case (Suc k)
  show ?case
  proof (cases cursor)
    case None
    then show ?thesis by (simp only: reconcile_pages.simps) (intro job_intros scan_ended assms)
  next
    case (Some c)
    have "epreserves P (case r of Page_stopped \<Rightarrow> ereturn touched
        | Page_advanced j next \<Rightarrow> reconcile_pages g user gen base n k next (touched + j))" for r
      using Suc.IH by (cases r) (simp_all add: epreserves_return)
    then show ?thesis by (simp only: Some reconcile_pages.simps) (intro job_intros page_processed assms)
  qed
qed

lemma reconciled:
  assumes "keeps P g" and "reports_deleted g deletable"
  shows "epreserves P (run_gmail_full_reconciliation g user n max_pages)"
  unfolding run_gmail_full_reconciliation_def Let_def queue_clean_reconciliation_restart_def
  by (intro job_intros jobs_queued scan_begun pages_processed assms)

end

section \<open>The contract holds of the tables' invariant and of single messages\<close>

lemma outside_jobs_kept:
  assumes "\<And>db js es. P (db\<lparr>background_jobs := js, background_job_events := es\<rparr>) = P db"
  shows "epreserves P (\<lambda>db. enqueue_job (background_jobs db) now job_id rq db)"
  unfolding epreserves_def
proof (intro allI impI)
  fix db assume "P db"
  let ?db' = "snd (enqueue_job (background_jobs db) now job_id rq db)"
  from enqueue_frame(1) have "?db' = db\<lparr>background_jobs := background_jobs ?db', background_job_events := background_job_events ?db'\<rparr>"
    unfolding same_outside_jobs_def by blast
  with \<open>P db\<close> assms show "P ?db'" by metis
qed

interpretation tables: scan_client mailbox_ok "\<lambda>_. True"
proof unfold_locales
  fix now user ids gen h
  show "epreserves mailbox_ok (delete_gmail_messages now user ids)" by (rule consistent.messages_deleted)
  show "epreserves mailbox_ok (finalize_gmail_reconciliation now user gen h)" by (rule consistent.scan_finalized)
qed (rule consistent.op_preserves, rule outside_jobs_kept, simp add: mailbox_ok_def, simp add: lock_blind_def mailbox_ok_def)

lemma cached_frame: "gmail_messages db' = gmail_messages db \<Longrightarrow> cached user account i db' = cached user account i db"
  by (simp add: cached_def)

lemma cached_upsert: "epreserves (cached user account i) (upsert_message now conn m)"
proof -
  have "cached user account i (db\<lparr>gmail_messages := update_where p (\<lambda>old. merge_message now old new) (gmail_messages db)\<rparr>)"
    if "cached user account i db" for p new and db :: "'a mail_db_scheme" by (rule cached_update [OF _ that]) simp
  moreover have "cached user account i (db\<lparr>gmail_messages := gmail_messages db @ [x]\<rparr>)"
    if "cached user account i db" for x and db :: "'a mail_db_scheme" using that by (auto simp: cached_def)
  ultimately show ?thesis by (simp add: epreserves_def upsert_message_def Let_def split: option.split)
qed

lemma cached_writes:
  "epreserves (cached user account i) (insert_window conn w)" "epreserves (cached user account i) (insert_seen conn u g ids)"
  by (simp_all add: epreserves_def insert_window_def insert_seen_def Let_def cached_def split: option.split)

interpretation holding: scan_starts "cached user account i" for user account i
  by unfold_locales (simp_all add: cached_upsert cached_writes cached_update label_row_def body_row_def body_state_row_def descriptor_row_def Let_def,
    simp_all add: cached_def ready_frame)

interpretation holding_resets: scan_resets "cached user account i" for user account i
  by unfold_locales (simp add: cached_def)

text \<open>A deletion by name keeps every other message.\<close>

lemma cached_delete:
  assumes "i \<notin> set ids"
  shows "epreserves (cached user account i) (delete_gmail_messages now u ids)"
proof -
  have steps: "epreserves (cached user account i) (ebind (if threads = [] then ereturn () else delete_progress now conn u threads) (\<lambda>_. ereturn groups))"
    for threads conn and groups :: "string list" by (intro preserve_intros holding.progress_deleted)
  have kept: "cached user account i (db\<lparr>mail_group_members := ms, gmail_messages := delete_where q (gmail_messages db)\<rparr>)"
    if "\<And>m. q m \<Longrightarrow> gm_message_id m \<noteq> i" "cached user account i db" for db :: "'a mail_db_scheme" and ms q
    using that by (fastforce simp: cached_def in_delete_where)
  have "epreserves (cached user account i) (\<lambda>db. ebind (if f db = [] then ereturn () else delete_progress now conn u (f db)) (\<lambda>_. ereturn (g db))
      (db\<lparr>mail_group_members := delete_where (qx db) (mail_group_members db),
          gmail_messages := delete_where (qm db) (gmail_messages db)\<rparr>))"
    if "\<And>db m. qm db m \<Longrightarrow> gm_message_id m \<noteq> i"
    for conn f qx and qm :: "'a mail_db_scheme \<Rightarrow> message_row \<Rightarrow> bool" and g :: "'a mail_db_scheme \<Rightarrow> string list"
    unfolding epreserves_def by (intro allI impI epreservesD [OF steps] kept that)
  note deleting = this
  show ?thesis
    unfolding delete_gmail_messages_def Let_def by (intro preserve_intros deleting) (use assms in auto)
qed

interpretation others: sync_client "cached user account i" "\<lambda>j. j \<noteq> i" for user account i
proof unfold_locales
  fix now op
  assume "gathers op"
  then show "epreserves (cached user account i) (perform_op now op)"
  proof (cases "deletes op")
    case True
    with \<open>gathers op\<close> show ?thesis
      by (cases op) (simp_all add: epreserves_drop holding.scan_started holding_resets.scan_reset)
  next
    case False
    moreover from \<open>gathers op\<close> have "\<not> disconnects op" by (cases op) simp_all
    ultimately show ?thesis by (rule holding.write_preserves)
  qed
next
  fix ids now u assume "\<forall>j \<in> set ids. j \<noteq> i"
  then show "epreserves (cached user account i) (delete_gmail_messages now u ids)" by (intro cached_delete) auto
qed (rule outside_jobs_kept, simp add: cached_def, simp add: lock_blind_def cached_def)

end
