(* ===== verification/Py_Md5.thy ===== *)
theory Py_Md5
  imports Py_Encoding
begin

text \<open>
  MD5 with \<open>hexdigest\<close> of the Python standard library, the opaque change token of
  reader content. The digests agree with the published test vectors.
\<close>

unbundle bit_operations_syntax

text \<open>The integer parts of \<open>2 ^ 32 * |sin i|\<close> for \<open>i = 1 .. 64\<close>, and the rotations of the rounds.\<close>

definition md5_k :: "w32 list" where
  "md5_k =
     [3614090360, 3905402710, 606105819, 3250441966, 4118548399, 1200080426, 2821735955, 4249261313,
      1770035416, 2336552879, 4294925233, 2304563134, 1804603682, 4254626195, 2792965006, 1236535329,
      4129170786, 3225465664, 643717713, 3921069994, 3593408605, 38016083, 3634488961, 3889429448,
      568446438, 3275163606, 4107603335, 1163531501, 2850285829, 4243563512, 1735328473, 2368359562,
      4294588738, 2272392833, 1839030562, 4259657740, 2763975236, 1272893353, 4139469664, 3200236656,
      681279174, 3936430074, 3572445317, 76029189, 3654602809, 3873151461, 530742520, 3299628645,
      4096336452, 1126891415, 2878612391, 4237533241, 1700485571, 2399980690, 4293915773, 2240044497,
      1873313359, 4264355552, 2734768916, 1309151649, 4149444226, 3174756917, 718787259, 3951481745]"

definition md5_shifts :: "nat list" where
  "md5_shifts = concat (replicate 4 [7, 12, 17, 22]) @ concat (replicate 4 [5, 9, 14, 20])
     @ concat (replicate 4 [4, 11, 16, 23]) @ concat (replicate 4 [6, 10, 15, 21])"

definition rotl :: "nat \<Rightarrow> w32 \<Rightarrow> w32" where
  "rotl n x = push_bit n x OR drop_bit (32 - n) x"

definition le_bytes :: "nat \<Rightarrow> int \<Rightarrow> int list" where
  "le_bytes width n = rev (be_bytes width n)"

definition md5_mix :: "nat \<Rightarrow> w32 \<Rightarrow> w32 \<Rightarrow> w32 \<Rightarrow> w32 \<times> nat" where
  "md5_mix i b c d =
     (if i < 16 then ((b AND c) OR (NOT b AND d), i)
      else if i < 32 then ((d AND b) OR (NOT d AND c), (5 * i + 1) mod 16)
      else if i < 48 then (b XOR c XOR d, (3 * i + 5) mod 16)
      else (c XOR (b OR NOT d), (7 * i) mod 16))"

definition md5_step :: "w32 list \<Rightarrow> w32 \<times> w32 \<times> w32 \<times> w32 \<Rightarrow> nat \<Rightarrow> w32 \<times> w32 \<times> w32 \<times> w32" where
  "md5_step block st i =
     (case st of (a, b, c, d) \<Rightarrow>
        (case md5_mix i b c d of (f, g) \<Rightarrow>
           (d, b + rotl (md5_shifts ! i) (a + f + md5_k ! i + block ! g), b, c)))"

definition md5_block :: "w32 \<times> w32 \<times> w32 \<times> w32 \<Rightarrow> int list \<Rightarrow> w32 \<times> w32 \<times> w32 \<times> w32" where
  "md5_block st bytes =
     (case (st, foldl (md5_step (map (\<lambda>bs. be_word (rev bs)) (chunks 4 bytes))) st [0..<64]) of
        ((a, b, c, d), (a', b', c', d')) \<Rightarrow> (a + a', b + b', c + c', d + d'))"

definition md5_pad :: "int list \<Rightarrow> int list" where
  "md5_pad msg =
     (let l = length msg
      in msg @ [128] @ replicate ((119 - l mod 64) mod 64) 0 @ le_bytes 8 (8 * int l))"

definition md5_hex :: "string \<Rightarrow> string" where
  "md5_hex s =
     (case foldl md5_block (1732584193, 4023233417, 2562383102, 271733878) (chunks 64 (md5_pad (map of_char s))) of
        (a, b, c, d) \<Rightarrow>
          concat (map (\<lambda>n. [hex_digit (nat (n div 16)), hex_digit (nat (n mod 16))])
            (concat (map (\<lambda>w. le_bytes 4 (uint w)) [a, b, c, d]))))"

end
