(* ===== verification/Gmail_Bodies.thy ===== *)
theory Gmail_Bodies
  imports Gmail_Sync Py_Md5 Import_State
begin

text \<open>
  The bodies of cached messages: the body fetch of a group or a thread and the paged
  body backfill of \<open>backend/app/services/gmail_importer.py\<close>, the terminal outcomes of a
  message, and the hydration of Gmail search matches.

  A download holds the throttle lock of the user. The set of messages that Gmail no longer
  has is an out-parameter of the source, filled even when the download raises: here a
  download answers with that list beside its value or exception.
\<close>

section \<open>Downloading a page of bodies\<close>

definition has_body_for_reader :: "message_row \<Rightarrow> bool" where
  "has_body_for_reader m \<longleftrightarrow> body_terminal m \<or> has_persisted_renderable_body m"

definition inline_attachment_retryable :: exn where
  "inline_attachment_retryable = OtherError ''GmailInlineAttachmentRetryable''"

text \<open>The direct requests of a batch fetch that continues on errors; what was found stays with the exception.\<close>

fun fetch_outcome ::
    "('s, 'b) gmail_api_scheme \<Rightarrow> string list \<Rightarrow> payloads \<times> string list
      \<Rightarrow> ('s, (payloads \<times> string list) \<times> exn option) eff" where
  "fetch_outcome g [] acc = ereturn (acc, None)"
| "fetch_outcome g (i # ids) acc =
     ebind (etry (ebind (ga_message g True i) (\<lambda>v. ereturn (Inr (Some v))))
             (\<lambda>e. ereturn (if is_history_cursor_expired e then Inr None else Inl e))) (\<lambda>answer.
       case answer of
         Inl e \<Rightarrow> ereturn (acc, Some e)
       | Inr None \<Rightarrow> fetch_outcome g ids (fst acc, i # snd acc)
       | Inr (Some v) \<Rightarrow> fetch_outcome g ids
           (case jfields v of None \<Rightarrow> acc | Some fs \<Rightarrow> ((i, fs) # fst acc, snd acc)))"

definition batch_get_bodies ::
    "('s, 'b) gmail_api_scheme \<Rightarrow> string list \<Rightarrow> ('s, (payloads \<times> string list) \<times> exn option) eff" where
  "batch_get_bodies g message_ids =
     (let ids = dict_fromkeys message_ids in
      ebind (message_batches g True True (chunks_of 49 ids) ([], [])) (\<lambda>(ps, gone).
        fetch_outcome g (filter (\<lambda>i. payload_of ps i = None \<and> i \<notin> set gone) ids) (ps, gone)))"

text \<open>One payload: decoded, tried again once, retryable, or terminal.\<close>

datatype body_result =
    Body_message message_row
  | Body_retry exn
  | Body_malformed exn

definition parse_full_message ::
    "('s, 'b) gmail_api_scheme \<Rightarrow> string \<Rightarrow> (string \<times> json) list \<Rightarrow> ('s, message_row) eff" where
  "parse_full_message g user fs =
     ebind (ga_parse g True user fs) (\<lambda>m. ereturn (mark_full_gmail_payload_body_fetch_status m))"

definition parse_body ::
    "('s, 'b) gmail_api_scheme \<Rightarrow> string \<Rightarrow> (string \<times> json) list \<Rightarrow> ('s, body_result) eff" where
  "parse_body g user fs =
     (let attempt = ebind (parse_full_message g user fs) (\<lambda>m. ereturn (Body_message m)) in
      etry attempt (\<lambda>e.
        if e = inline_attachment_retryable then ereturn (Body_retry e)
        else etry attempt (\<lambda>e'. ereturn
          (if e' = inline_attachment_retryable then Body_retry e' else Body_malformed e'))))"

record body_page =
  bp_hydrated :: "message_row list"
  bp_unresolved :: "string list"
  bp_terminal :: "string list"
  bp_error :: "exn option"

definition empty_page :: body_page where
  "empty_page = \<lparr>bp_hydrated = [], bp_unresolved = [], bp_terminal = [], bp_error = None\<rparr>"

text \<open>What an outcome adds to a page; the first parse error is kept.\<close>

definition page_with :: "string \<Rightarrow> body_result \<Rightarrow> body_page \<Rightarrow> body_page" where
  "page_with i r page =
     (case r of
        Body_message m \<Rightarrow>
          if gm_body_fetch_status m = Some Body_fetched then page\<lparr>bp_hydrated := bp_hydrated page @ [m]\<rparr>
          else page\<lparr>bp_unresolved := bp_unresolved page @ [i]\<rparr>
      | Body_retry e \<Rightarrow> page\<lparr>bp_unresolved := bp_unresolved page @ [i], bp_error := coalesce (bp_error page) (Some e)\<rparr>
      | Body_malformed e \<Rightarrow> page\<lparr>bp_terminal := bp_terminal page @ [i], bp_error := coalesce (bp_error page) (Some e)\<rparr>)"

fun parse_bodies ::
    "('s, 'b) gmail_api_scheme \<Rightarrow> string \<Rightarrow> payloads \<Rightarrow> string list \<Rightarrow> string list \<Rightarrow> body_page \<Rightarrow> ('s, body_page) eff" where
  "parse_bodies g user ps gone [] page = ereturn page"
| "parse_bodies g user ps gone (i # ids) page =
     (if i \<in> set gone then parse_bodies g user ps gone ids page
      else (case payload_of ps i of
              None \<Rightarrow> parse_bodies g user ps gone ids (page\<lparr>bp_unresolved := bp_unresolved page @ [i]\<rparr>)
            | Some fs \<Rightarrow> ebind (parse_body g user fs) (\<lambda>r. parse_bodies g user ps gone ids (page_with i r page))))"

text \<open>\<open>with advisory_session_lock(..)\<close> around a body that answers instead of raising.\<close>

type_synonym download = "string list \<times> (exn + body_page)"

definition throttled ::
    "int \<Rightarrow> ('a guard_db_scheme, download) eff \<Rightarrow> ('a guard_db_scheme, download) eff" where
  "throttled key body =
     etry (advisory_lock_connection (\<lambda>session.
        ebind (acquire_advisory_locks session [] [(Exclusive, key)]) (\<lambda>_.
        ebind body (\<lambda>(gone, answer).
        etry (ebind (release_advisory_locks session [(Exclusive, key)]) (\<lambda>_. ereturn (gone, answer)))
          (\<lambda>e. ereturn (gone, Inl e))))))
       (\<lambda>e. ereturn ([], Inl e))"

definition still_missing :: "'a mail_db_scheme \<Rightarrow> string \<Rightarrow> string list \<Rightarrow> string list" where
  "still_missing db user ids =
     filter (\<lambda>i. list_ex (\<lambda>m. gm_message_id m = i \<and> \<not> body_terminal m) (list_messages_by_ids db user ids)) ids"

definition download_remaining ::
    "('s, 'b) gmail_api_scheme \<Rightarrow> string \<Rightarrow> string list \<Rightarrow> ('s, download) eff" where
  "download_remaining g user remaining =
     etry (with_gmail g user
       (ebind (batch_get_bodies g remaining) (\<lambda>((ps, gone), failed).
          case failed of
            Some e \<Rightarrow> ereturn (gone, Inl e)
          | None \<Rightarrow> ebind (parse_bodies g user ps gone remaining empty_page) (\<lambda>page. ereturn (gone, Inr page)))))
       (\<lambda>e. ereturn ([], Inl e))"

definition download_gmail_body_messages ::
    "('a mail_db_scheme, 'b) gmail_api_scheme \<Rightarrow> string \<Rightarrow> string list \<Rightarrow> ('a mail_db_scheme, download) eff" where
  "download_gmail_body_messages g user message_ids =
     throttled (gmail_body_fetch_lock_key user)
       (ebind (eget (\<lambda>db. still_missing db user message_ids)) (\<lambda>remaining.
        if remaining = [] then ereturn ([], Inr empty_page) else download_remaining g user remaining))"

section \<open>Terminal outcomes\<close>

definition delete_terminal_gmail_messages ::
    "('a mail_db_scheme, 'b) sync_services_scheme \<Rightarrow> string \<Rightarrow> string list \<Rightarrow> string \<Rightarrow> ('a mail_db_scheme, nat) eff" where
  "delete_terminal_gmail_messages g user message_ids source =
     (let ids = dict_fromkeys (filter (\<lambda>i. i \<noteq> '''') message_ids) in
      if ids = [] then ereturn 0
      else
        ebind (at_time g (\<lambda>now. delete_gmail_messages now user ids)) (\<lambda>groups.
        ebind (at_time g (\<lambda>now. prune_empty_mail_groups now user groups)) (\<lambda>emptied.
        ebind (at_time g (\<lambda>now. mark_mail_groups_pending now user (filter (\<lambda>i. i \<notin> set emptied) groups))) (\<lambda>pending.
        ebind (best_effort (emit_changed g user source
                 [(''deleted_count'', JInt (int (length ids))), (''pending_group_count'', JInt (int (length pending)))])) (\<lambda>_.
        ereturn (length ids))))))"

text \<open>\<open>_gmail_thread_content_revision\<close>: the change token of a thread's readers.\<close>

definition gmail_thread_content_revision :: "message_row list \<Rightarrow> string" where
  "gmail_thread_content_revision ms =
     take 24 (md5_hex (concat (map (\<lambda>m. nat_str (length (gm_message_id m)) @ '':'' @ gm_message_id m @ '':''
       @ int_str (max 1 (gm_content_revision m))) (sort_key gm_message_id ms))))"

definition thread_state :: "'a mail_db_scheme \<Rightarrow> string \<Rightarrow> (string \<times> int) list \<Rightarrow> string \<Rightarrow> json" where
  "thread_state db user positions thread =
     (let ms = list_messages_for_gmail_thread db user thread in
      JObj [(''thread_id'', JStr thread), (''body_ready'', JBool (ms \<noteq> [] \<and> list_all has_body_for_reader ms)),
        (''message_count'', JInt (int (length ms))), (''content_revision'', JStr (gmail_thread_content_revision ms)),
        (''initial_window_position'', case map_of positions thread of None \<Rightarrow> JNull | Some n \<Rightarrow> JInt n)])"

definition read_thread_states :: "string \<Rightarrow> string list \<Rightarrow> ('a mail_db_scheme, json) eff" where
  "read_thread_states user threads =
     ebind (eget (\<lambda>db. list_gmail_initial_window_positions db user threads)) (\<lambda>positions.
     ebind (emap (\<lambda>t. eget (\<lambda>db. thread_state db user positions t)) threads) (\<lambda>states. ereturn (JArr states)))"

definition emit_terminal_body_states ::
    "('a mail_db_scheme, 'b) sync_services_scheme \<Rightarrow> string \<Rightarrow> string list \<Rightarrow> string \<Rightarrow> ('a mail_db_scheme, unit) eff" where
  "emit_terminal_body_states g user message_ids source =
     ebind (eget (\<lambda>db. dict_fromkeys (filter (\<lambda>t. t \<noteq> '''') (map thread_key (list_messages_by_ids db user message_ids))))) (\<lambda>threads.
     if threads = [] then ereturn ()
     else
       ebind (at_time g (\<lambda>now. mark_gmail_history_body_complete_if_ready now user)) (\<lambda>progress.
       ebind (read_thread_states user threads) (\<lambda>states.
       ebind (best_effort (sy_emit g user ''thread-content-hydrated''
                [(''source'', JStr source), (''thread_ids'', JArr (map JStr threads)), (''hydrated_message_count'', JInt 0),
                 (''unavailable_message_count'', JInt (int (length message_ids))), (''threads'', states)])) (\<lambda>_.
       emit_sync_progress g user progress source))))"

definition publish_hydrated ::
    "('a mail_db_scheme, 'b) sync_services_scheme \<Rightarrow> string \<Rightarrow> string \<Rightarrow> string list \<Rightarrow> nat \<Rightarrow> sync_progress option
      \<Rightarrow> ('a mail_db_scheme, unit) eff" where
  "publish_hydrated g user source threads count progress =
     (let fields = [(''source'', JStr source), (''thread_ids'', JArr (map JStr threads)),
            (''hydrated_message_count'', JInt (int count))] in
      ebind (case progress of None \<Rightarrow> ereturn fields
             | Some _ \<Rightarrow> ebind (read_thread_states user threads) (\<lambda>states. ereturn (fields @ [(''threads'', states)]))) (\<lambda>payload.
      ebind (best_effort (sy_emit g user ''thread-content-hydrated'' payload)) (\<lambda>_.
      case progress of
        None \<Rightarrow> ereturn ()
      | Some p \<Rightarrow>
          ebind (emit_sync_progress g user p source) (\<lambda>_.
          if source \<noteq> ''gmail_body_backfill'' \<and> sp_initial_window_complete p
             \<and> sp_initial_body_target_count p \<le> sp_initial_body_ready_count p \<and> \<not> sp_history_body_complete p
          then ebind (trigger_body_backfill g user) (\<lambda>_. ereturn ()) else ereturn ()))))"

definition persist_hydrated_body_messages ::
    "('a mail_db_scheme, 'b) sync_services_scheme \<Rightarrow> string \<Rightarrow> message_row list \<Rightarrow> string \<Rightarrow> ('a mail_db_scheme, nat) eff" where
  "persist_hydrated_body_messages g user messages source =
     ebind (at_time g (\<lambda>now. update_gmail_message_bodies now messages)) (\<lambda>(updated_ids, progress).
     let updated = filter (\<lambda>m. gm_message_id m \<in> set updated_ids) messages;
         threads = dict_fromkeys (concat (map (\<lambda>m. if truthy_str (gm_gmail_thread_id m)
           then [str_or_empty (gm_gmail_thread_id m)] else []) updated)) in
     if updated = [] then ereturn 0
     else
       ebind (best_effort (emap (sy_organize g user) updated)) (\<lambda>_.
       ebind (sy_rebuild g user (map gm_message_id updated)) (\<lambda>_.
       ebind (if threads = [] then ereturn () else publish_hydrated g user source threads (length updated) progress) (\<lambda>_.
       ereturn (length updated)))))"

section \<open>The body jobs\<close>

definition mark_bodies ::
    "('a mail_db_scheme, 'b) sync_services_scheme \<Rightarrow> string \<Rightarrow> string list \<Rightarrow> body_status \<Rightarrow> exn option \<Rightarrow> ('a mail_db_scheme, unit) eff" where
  "mark_bodies g user ids status error =
     (if ids = [] then ereturn ()
      else ebind (at_time g (\<lambda>now. mark_gmail_messages_body_fetch_state now user ids status
             (map_option (safe_google_error ''message download'') error))) (\<lambda>_. ereturn ()))"

text \<open>A failed download: what Gmail no longer has is deleted, the rest is missing again.\<close>

definition give_back ::
    "('a mail_db_scheme, 'b) sync_services_scheme \<Rightarrow> string \<Rightarrow> string \<Rightarrow> string list \<Rightarrow> string list \<Rightarrow> exn option \<Rightarrow> exn
      \<Rightarrow> ('a mail_db_scheme, 'c) eff" where
  "give_back g user source ids gone recorded e =
     ebind (delete_terminal_gmail_messages g user gone source) (\<lambda>_.
     ebind (mark_bodies g user (filter (\<lambda>i. i \<notin> set gone) ids) Body_missing recorded) (\<lambda>_.
     eraise e))"

definition settle_bodies ::
    "('a mail_db_scheme, 'b) sync_services_scheme \<Rightarrow> string \<Rightarrow> string \<Rightarrow> string list \<Rightarrow> body_page \<Rightarrow> ('a mail_db_scheme, nat) eff" where
  "settle_bodies g user source gone page =
     (let lost = RuntimeError ''Gmail returned a text body attachment that could not be downloaded'' in
      ebind (delete_terminal_gmail_messages g user gone source) (\<lambda>_.
      ebind (if bp_hydrated page = [] then ereturn 0
             else persist_hydrated_body_messages g user (bp_hydrated page) source) (\<lambda>persisted.
      ebind (if bp_terminal page = [] then ereturn ()
             else ebind (mark_bodies g user (bp_terminal page) Body_unavailable
                    (coalesce (bp_error page) (Some (RuntimeError ''Gmail returned a message body that could not be parsed''))))
                    (\<lambda>_. emit_terminal_body_states g user (bp_terminal page) source)) (\<lambda>_.
      ebind (mark_bodies g user (bp_unresolved page) Body_missing (Some lost)) (\<lambda>_.
      if bp_unresolved page = [] then ereturn persisted else eraise lost)))))"

definition run_gmail_body_fetch ::
    "('a mail_db_scheme, 'b) sync_services_scheme \<Rightarrow> string \<Rightarrow> string \<Rightarrow> string \<Rightarrow> ('a mail_db_scheme, nat) eff" where
  "run_gmail_body_fetch g user group_id thread_id =
     (if group_id = '''' \<and> thread_id = '''' then ereturn 0
      else ebind (eget (\<lambda>db. user_can_write_gmail db user)) (\<lambda>allowed.
      if \<not> allowed then ereturn 0
      else ebind (eget (\<lambda>db. if group_id \<noteq> '''' then list_group_messages db user group_id
                               else list_messages_for_gmail_thread db user thread_id)) (\<lambda>messages.
      let missing = map gm_message_id (filter (\<lambda>m. \<not> has_body_for_reader m) messages) in
      if missing = [] then ereturn 0
      else
        ebind (mark_bodies g user missing Body_pending None) (\<lambda>_.
        ebind (download_gmail_body_messages g user missing) (\<lambda>(gone, answer).
        case answer of
          Inl e \<Rightarrow> give_back g user ''gmail_body_fetch'' missing gone (Some e) e
        | Inr page \<Rightarrow> settle_bodies g user ''gmail_body_fetch'' gone page)))))"

section \<open>The body backfill\<close>

definition continuation_key :: "(string \<times> json) list \<Rightarrow> string" where
  "continuation_key material = take 24 (sha256_hex (json_dumps_canonical (JObj material)))"

text \<open>No body is missing: the history may be complete, the descriptors may go on.\<close>

definition backfill_idle ::
    "('a mail_db_scheme, 'b) sync_services_scheme \<Rightarrow> string \<Rightarrow> bool \<Rightarrow> string option \<Rightarrow> ('a mail_db_scheme, nat) eff" where
  "backfill_idle g user remaining cursor =
     ebind (at_time g (\<lambda>now. mark_gmail_history_body_complete_if_ready now user)) (\<lambda>progress.
     ebind (emit_sync_progress g user progress ''history_body'') (\<lambda>_.
     ebind (if remaining
            then ebind (enqueue_gmail_body_backfill g user
                   (Some (continuation_key [(''generation'', jstr_opt (sp_sync_generation progress)),
                      (''descriptor_page_cursor'', jstr_opt cursor)])) cursor False) (\<lambda>_. ereturn ())
            else ereturn ()) (\<lambda>_.
     ereturn 0)))"

definition backfill_continue ::
    "('a mail_db_scheme, 'b) sync_services_scheme \<Rightarrow> string \<Rightarrow> bool \<Rightarrow> string option \<Rightarrow> nat \<Rightarrow> ('a mail_db_scheme, nat) eff" where
  "backfill_continue g user descriptors_remaining cursor persisted =
     ebind (at_time g (\<lambda>now. mark_gmail_history_body_complete_if_ready now user)) (\<lambda>progress.
     ebind (emit_sync_progress g user progress ''history_body'') (\<lambda>_.
     ebind (at_time g (\<lambda>now. eget (\<lambda>db. list_messages_needing_body_fetch now db user 1))) (\<lambda>remaining.
     ebind (if remaining \<noteq> [] \<or> descriptors_remaining
            then ebind (enqueue_gmail_body_backfill g user
                   (Some (continuation_key [(''generation'', jstr_opt (sp_sync_generation progress)),
                      (''ready'', JInt (sp_history_body_ready_count progress)),
                      (''next_message_id'', case remaining of [] \<Rightarrow> JNull | m # _ \<Rightarrow> JStr (gm_message_id m)),
                      (''descriptor_page_cursor'', jstr_opt cursor)]))
                   (if descriptors_remaining then cursor else None) (\<not> descriptors_remaining)) (\<lambda>_. ereturn ())
            else ereturn ()) (\<lambda>_.
     ereturn persisted))))"

definition run_gmail_body_backfill ::
    "('a mail_db_scheme, 'b) sync_services_scheme \<Rightarrow> string \<Rightarrow> int \<Rightarrow> string option \<Rightarrow> bool \<Rightarrow> ('a mail_db_scheme, nat) eff" where
  "run_gmail_body_backfill g user batch_size after complete =
     ebind (eget (\<lambda>db. user_can_write_gmail db user)) (\<lambda>allowed.
     if \<not> allowed then ereturn 0
     else
       let limit = clamp 1 25 batch_size in
       ebind (if complete then ereturn (0, False, after)
              else at_time g (\<lambda>now. backfill_gmail_attachment_descriptors_page now user limit after)) (\<lambda>(_, remaining, cursor).
       ebind (at_time g (\<lambda>now. eget (\<lambda>db. list_messages_needing_body_fetch now db user limit))) (\<lambda>messages.
       let ids = map gm_message_id messages in
       if messages = [] then backfill_idle g user remaining cursor
       else
         ebind (mark_bodies g user ids Body_pending None) (\<lambda>_.
         ebind (download_gmail_body_messages g user ids) (\<lambda>(gone, answer).
         case answer of
           Inl e \<Rightarrow> give_back g user ''gmail_body_backfill'' ids gone None e
         | Inr page \<Rightarrow>
             ebind (settle_bodies g user ''gmail_body_backfill'' gone page) (backfill_continue g user remaining cursor))))))"

section \<open>Search matches\<close>

definition hydrate_gmail_search_message_ids ::
    "('a mail_db_scheme, 'b) sync_services_scheme \<Rightarrow> string \<Rightarrow> string list \<Rightarrow> ('a mail_db_scheme, nat) eff" where
  "hydrate_gmail_search_message_ids g user message_ids =
     ebind (eget (\<lambda>db. filter (\<lambda>i. \<not> list_ex (\<lambda>m. gm_message_id m = i \<and> has_body_for_reader m)
              (list_messages_by_ids db user message_ids)) message_ids)) (\<lambda>needed.
     if needed = [] then ereturn 0
     else
       ebind (hydrate_message_ids g user needed True False) (\<lambda>(messages, _).
       if messages = [] then ereturn 0
       else
         ebind (at_time g (\<lambda>now. upsert_gmail_messages now messages)) (\<lambda>_.
         ebind (sy_rebuild g user (map gm_message_id messages)) (\<lambda>_.
         ereturn (length messages)))))"

definition label_term :: "string \<Rightarrow> string" where
  "label_term label =
     (let terms = [(''inbox'', ''label:inbox''), (''sent'', ''label:sent''), (''drafts'', ''label:drafts''),
        (''spam'', ''label:spam''), (''trash'', ''label:trash''), (''starred'', ''is:starred''),
        (''archive'', ''-label:inbox -label:sent -label:drafts -label:spam -label:trash''),
        (''all'', ''-label:spam -label:trash'')]
      in case map_of terms (lower (strip label)) of None \<Rightarrow> '''' | Some t \<Rightarrow> t)"

definition search_query :: "string \<Rightarrow> string \<Rightarrow> string" where
  "search_query query label = join_with '' '' (filter (\<lambda>p. p \<noteq> '''') [query, label_term label])"

text \<open>The pages of a search: each is cached before the next one is asked for. The answer: messages
  hydrated, and the token to continue from once the page budget is used up.\<close>

fun search_pages ::
    "('a mail_db_scheme, 'b) sync_services_scheme \<Rightarrow> (nat \<Rightarrow> ('a mail_db_scheme, unit) eff) \<Rightarrow> string \<Rightarrow> string \<Rightarrow> int
      \<Rightarrow> nat \<Rightarrow> string option \<Rightarrow> string list \<Rightarrow> nat \<Rightarrow> ('a mail_db_scheme, nat \<times> string option) eff" where
  "search_pages g notify user q size_limit 0 token seen count = ereturn (count, token)"
| "search_pages g notify user q size_limit (Suc budget) token seen count =
     ebind (ga_search g q size_limit token) (\<lambda>response.
     let fs = (case jfields response of None \<Rightarrow> [] | Some fs \<Rightarrow> fs);
         next_token = json_str_or_empty (jget fs ''nextPageToken'') in
     ebind (hydrate_gmail_search_message_ids g user (dict_fromkeys (listed_ids fs))) (\<lambda>n.
     ebind (notify n) (\<lambda>_.
     if next_token = '''' then ereturn (count + n, None)
     else if token = Some next_token \<or> next_token \<in> set seen
     then eraise (RuntimeError ''Gmail search pagination repeated a page token'')
     else search_pages g notify user q size_limit budget (Some next_token) (next_token # seen) (count + n))))"

definition hydrate_gmail_search_results ::
    "('a mail_db_scheme, 'b) sync_services_scheme \<Rightarrow> (nat \<Rightarrow> ('a mail_db_scheme, unit) eff)
      \<Rightarrow> (string \<Rightarrow> ('a mail_db_scheme, unit) eff) \<Rightarrow> string \<Rightarrow> string \<Rightarrow> string \<Rightarrow> int \<Rightarrow> int \<Rightarrow> string option
      \<Rightarrow> ('a mail_db_scheme, nat) eff" where
  "hydrate_gmail_search_results g on_page on_continuation user query label limit max_pages page_token =
     ebind (eget (\<lambda>db. user_can_write_gmail db user)) (\<lambda>allowed.
     let normalized = take 200 (strip query); token = nonempty (str_or_empty page_token) in
     if \<not> allowed \<or> normalized = '''' then ereturn 0
     else
       with_gmail g user
         (ebind (search_pages g on_page user (search_query normalized label) (clamp 1 100 limit) (nat (clamp 1 5 max_pages))
            token (case token of None \<Rightarrow> [] | Some t \<Rightarrow> [t]) 0) (\<lambda>(count, pending).
          ebind (case pending of None \<Rightarrow> ereturn () | Some t \<Rightarrow> on_continuation t) (\<lambda>_. ereturn count))))"

end
