(* ===== verification/Gmail_Backfill.thy ===== *)
theory Gmail_Backfill
  imports Gmail_Sync
begin

text \<open>
  The mailbox backfill of \<open>backend/app/services/gmail_importer.py\<close>: a page of the recent
  window, label by label, then pages of the whole mailbox, each behind a durable cursor, and
  the retirement of a cursor that cannot make progress in favour of a reconciliation.

  The date of a message in milliseconds is computed exactly; the float product of the source
  may be one less.
\<close>

section \<open>The recent window by label\<close>

definition first_run_seed_labels :: "string list" where
  "first_run_seed_labels = [''INBOX'', ''SENT'', ''DRAFT'', ''SPAM'', ''TRASH'', ''__ALL_MAIL__'']"

definition label_ids_for_first_run_seed :: "string \<Rightarrow> string list" where
  "label_ids_for_first_run_seed label = (if label = ''__ALL_MAIL__'' then [] else [label])"

definition list_first_run_seed_messages ::
    "('s, 'b) gmail_api_scheme \<Rightarrow> string \<Rightarrow> int \<Rightarrow> string option \<Rightarrow> string \<Rightarrow> ('s, json) eff" where
  "list_first_run_seed_messages g user batch_size token label =
     (if label = ''DRAFT'' then list_draft_messages g user batch_size token
      else list_messages g user batch_size token (label_ids_for_first_run_seed label))"

definition internal_date_ms :: "message_row \<Rightarrow> int option" where
  "internal_date_ms m = map_option (\<lambda>t. if 0 \<le> t then t div 1000 else - ((- t) div 1000)) (gm_internal_date m)"

text \<open>\<open>min(dates, default=None)\<close>: a missing date cannot be compared with another date.\<close>

definition oldest_date :: "message_row list \<Rightarrow> exn + int option" where
  "oldest_date ms =
     (case map internal_date_ms ms of
        [] \<Rightarrow> Inr None
      | [d] \<Rightarrow> Inr d
      | ds \<Rightarrow> if None \<in> set ds then Inl TypeError else Inr (Some (Min (the ` set ds))))"

record seed_state =
  ss_messages :: "(string \<times> message_row) list"
  ss_tokens :: "(string \<times> string) list"
  ss_completed :: "string list"
  ss_latest :: "string option"

definition keep_recent :: "int \<Rightarrow> (string \<times> message_row) list \<Rightarrow> message_row list \<Rightarrow> (string \<times> message_row) list" where
  "keep_recent cutoff found ms =
     foldl (\<lambda>d m. if gm_message_id m \<in> set (map fst d) then d else d @ [(gm_message_id m, m)]) found
       (filter (\<lambda>m. case internal_date_ms m of None \<Rightarrow> True | Some t \<Rightarrow> cutoff \<le> t) ms)"

text \<open>One page of a label. The label is completed by the last page, an empty one, or one that reaches the cutoff.\<close>

definition seed_label ::
    "('s, 'b) gmail_api_scheme \<Rightarrow> string \<Rightarrow> int \<Rightarrow> int \<Rightarrow> string \<Rightarrow> seed_state \<Rightarrow> ('s, seed_state) eff" where
  "seed_label g user page_size cutoff label st =
     (if label \<in> set (ss_completed st) then ereturn st
      else (case map_of (ss_tokens st) label of
              None \<Rightarrow> ereturn (st\<lparr>ss_completed := ss_completed st @ [label]\<rparr>)
            | Some token \<Rightarrow>
                ebind (ebind (etry (list_first_run_seed_messages g user page_size (Some token) label)
                  (\<lambda>e. if is_provider_page_token_rejected e then eraise durable_page_token_rejected else eraise e)) as_fields) (\<lambda>fs.
                ebind (hydrate_messages g user (listed_ids fs) False False) (\<lambda>(ms, latest).
                case oldest_date ms of
                  Inl e \<Rightarrow> eraise e
                | Inr oldest \<Rightarrow>
                    (let st' = st\<lparr>ss_messages := keep_recent cutoff (ss_messages st) ms,
                           ss_latest := max_history_id (ss_latest st) (jstr_opt latest)\<rparr>;
                         next_token = next_page_token fs
                     in ereturn
                       (if next_token = None \<or> ms = [] \<or> (case oldest of None \<Rightarrow> False | Some t \<Rightarrow> t \<le> cutoff)
                        then st'\<lparr>ss_completed := ss_completed st' @ [label],
                               ss_tokens := filter (\<lambda>(l, _). l \<noteq> label) (ss_tokens st')\<rparr>
                        else st'\<lparr>ss_tokens := dict_set (ss_tokens st') label (str_or_empty next_token)\<rparr>))))))"

fun seed_labels ::
    "('s, 'b) gmail_api_scheme \<Rightarrow> string \<Rightarrow> int \<Rightarrow> int \<Rightarrow> string list \<Rightarrow> seed_state \<Rightarrow> ('s, seed_state) eff" where
  "seed_labels g user page_size cutoff [] st = ereturn st"
| "seed_labels g user page_size cutoff (l # ls) st =
     ebind (seed_label g user page_size cutoff l st) (seed_labels g user page_size cutoff ls)"

text \<open>The whole threads of the messages found; a thread that cannot be read is left out.\<close>

fun thread_metadata ::
    "('s, 'b) gmail_api_scheme \<Rightarrow> string \<Rightarrow> string list \<Rightarrow> (string \<times> message_row) list \<Rightarrow> ('s, (string \<times> message_row) list) eff" where
  "thread_metadata g user [] found = ereturn found"
| "thread_metadata g user (t # ts) found =
     ebind (etry (ebind (ga_thread g t) (\<lambda>v. ereturn (Some v))) (\<lambda>e. ereturn None)) (\<lambda>answer.
     case answer of
       None \<Rightarrow> thread_metadata g user ts found
     | Some v \<Rightarrow>
         ebind (parse_thread_messages g user (case jfields v of None \<Rightarrow> [] | Some fs \<Rightarrow> jlist_of (jget fs ''messages''))) (\<lambda>ms.
         thread_metadata g user ts (foldl (\<lambda>d (k, m). dict_set d k m) found ms)))"

definition hydrate_thread_metadata_for_messages ::
    "('s, 'b) gmail_api_scheme \<Rightarrow> string \<Rightarrow> message_row list \<Rightarrow> ('s, message_row list \<times> string option) eff" where
  "hydrate_thread_metadata_for_messages g user messages =
     (let threads = filter (\<lambda>t. t \<noteq> '''') (dict_fromkeys (map (\<lambda>m. str_or_empty (gm_gmail_thread_id m)) messages)) in
      if threads = [] then ereturn ([], None)
      else with_gmail g user (ebind (thread_metadata g user threads []) (\<lambda>found.
             ereturn (map snd found, newest_history (map snd found)))))"

text \<open>\<open>sorted(.., key=internal_date or updated_at, reverse=True)\<close>: a fetched message has no update time.\<close>

definition newest_first :: "message_row list \<Rightarrow> message_row list" where
  "newest_first ms = rev (sort_key gm_internal_date (rev ms))"

definition hydrate_first_run_cursor_page ::
    "('s, 'b) gmail_api_scheme \<Rightarrow> string \<Rightarrow> int \<Rightarrow> (string \<times> json) list
      \<Rightarrow> ('s, message_row list \<times> string option \<times> string option) eff" where
  "hydrate_first_run_cursor_page g user batch_size cursor =
     (case first_run_position cursor of
        Inl e \<Rightarrow> eraise e
      | Inr (tokens, completed, cutoff) \<Rightarrow>
          ebind (seed_labels g user (clamp 1 500 (max batch_size 100)) cutoff first_run_seed_labels
             \<lparr>ss_messages = [], ss_tokens = tokens, ss_completed = completed, ss_latest = None\<rparr>) (\<lambda>st.
          ebind (hydrate_thread_metadata_for_messages g user (map snd (ss_messages st))) (\<lambda>(threads, latest).
          let found = foldl (\<lambda>d m. if gm_message_id m \<in> set (map fst d) then d else d @ [(gm_message_id m, m)])
                        (ss_messages st) threads
          in ereturn (take 5000 (newest_first (map snd found)), max_history_id (ss_latest st) (jstr_opt latest),
               encode_first_run_cursor (map (\<lambda>(l, t). (l, Some t)) (ss_tokens st)) (ss_completed st) cutoff))))"

section \<open>Pages of the mailbox\<close>

definition hydrate_full_mailbox_cursor_page ::
    "('a mail_db_scheme, 'b) gmail_api_scheme \<Rightarrow> string \<Rightarrow> int \<Rightarrow> (string \<times> json) list
      \<Rightarrow> ('a mail_db_scheme, message_row list \<times> string option \<times> string option) eff" where
  "hydrate_full_mailbox_cursor_page g user batch_size cursor =
     (case full_mailbox_position cursor of (token, all_done, draft_token, drafts_done) \<Rightarrow>
        ebind (list_mailbox_page g user batch_size (token, all_done, draft_token, drafts_done)) (\<lambda>(listed, drafts).
        let ids = merge_listed_messages listed drafts in
        ebind (eget (\<lambda>db. filter (\<lambda>i. i \<notin> existing_gmail_message_ids db user ids) ids)) (\<lambda>missing.
        ebind (hydrate_messages g user missing False False) (\<lambda>(messages, latest).
        ereturn (messages, latest, next_mailbox_cursor all_done drafts_done listed drafts)))))"

text \<open>What a page of the backfill leaves: messages, the next cursor, and the two flags of the full mailbox.\<close>

type_synonym backfill_page = "message_row list \<times> string option \<times> bool \<times> bool"

definition backfill_page_at ::
    "('a mail_db_scheme, 'b) gmail_api_scheme \<Rightarrow> string \<Rightarrow> int \<Rightarrow> string option \<Rightarrow> ('a mail_db_scheme, backfill_page) eff" where
  "backfill_page_at g user batch_size token =
     (case decode_first_run_cursor token of
        Some cursor \<Rightarrow>
          ebind (hydrate_first_run_cursor_page g user batch_size cursor) (\<lambda>(messages, _, next_cursor).
          ereturn (case next_cursor of
              None \<Rightarrow> (messages, Some (encode_full_mailbox_cursor None False None False), True, False)
            | Some c \<Rightarrow> (messages, Some c, False, False)))
      | None \<Rightarrow>
          (case decode_full_mailbox_cursor token of
             Some cursor \<Rightarrow>
               ebind (hydrate_full_mailbox_cursor_page g user batch_size cursor) (\<lambda>(messages, _, next_cursor).
               ereturn (messages, next_cursor, True, next_cursor = None))
           | None \<Rightarrow>
               ebind (ebind (reject_token token (list_messages g user batch_size token [])) as_fields) (\<lambda>fs.
               ebind (hydrate_messages g user (listed_ids fs) False False) (\<lambda>(messages, _).
               ereturn (messages, next_page_token fs, False, False)))))"

section \<open>The job\<close>

definition retire_backfill_for_reconciliation ::
    "('a mail_db_scheme, 'b) sync_services_scheme \<Rightarrow> string \<Rightarrow> ('a mail_db_scheme, unit) eff" where
  "retire_backfill_for_reconciliation g user =
     ebind (at_time g (\<lambda>now. mark_import_completed now user
        (plain_completion\<lparr>fl_clear_full_backfill_cursor := True, fl_full_backfill_started := True,
           fl_full_backfill_completed := True\<rparr>))) (\<lambda>_.
     ebind (ensure_gmail_reconciliation_started g user False) (\<lambda>_.
     ebind (enqueue_gmail_full_reconciliation g user) (\<lambda>_. ereturn ())))"

definition backfill_request :: "string \<Rightarrow> int \<Rightarrow> string \<Rightarrow> job_request" where
  "backfill_request user batch_size cursor =
     (job_request_of ''gmail_backfill'')
       \<lparr>rq_queue := ''slow'', rq_user_id := Some user, rq_dedupe_key := Some (''gmail-backfill:'' @ user @ '':'' @ cursor),
        rq_priority := 80, rq_payload := [(''user_id'', JStr user), (''batch_size'', JInt batch_size)]\<rparr>"

definition checkpoint_backfill ::
    "('a mail_db_scheme, 'b) sync_services_scheme \<Rightarrow> string \<Rightarrow> int \<Rightarrow> backfill_page \<Rightarrow> ('a mail_db_scheme, unit) eff" where
  "checkpoint_backfill g user batch_size page =
     (case page of (messages, next_cursor, started, completed) \<Rightarrow>
        ebind (at_time g (\<lambda>now. mark_import_completed now user
          (plain_completion\<lparr>fl_full_backfill_cursor := next_cursor, fl_clear_full_backfill_cursor := (next_cursor = None),
             fl_full_backfill_started := started, fl_full_backfill_completed := completed\<rparr>))) (\<lambda>_.
        ebind (if truthy_str next_cursor
               then ebind (sync_enqueue g (backfill_request user batch_size (str_or_empty next_cursor))) (\<lambda>_. ereturn ())
               else ereturn ()) (\<lambda>_.
        if messages = [] then ereturn ()
        else ebind (enqueue_enrichment_and_projection g user 40) (\<lambda>_.
             emit_changed g user ''gmail_backfill''
               [(''message_count'', JInt (int (length messages))), (''completed'', JBool completed)]))))"

definition backfill_body ::
    "('a mail_db_scheme, 'b) sync_services_scheme \<Rightarrow> string \<Rightarrow> int \<Rightarrow> import_row option \<Rightarrow> string option
      \<Rightarrow> ('a mail_db_scheme, nat) eff" where
  "backfill_body g user batch_size state token =
     ebind (backfill_page_at g user batch_size token) (\<lambda>(messages, next_cursor, started, completed).
     ebind (at_time g (\<lambda>now. upsert_gmail_messages now messages)) (\<lambda>_.
     ebind (sy_rebuild g user (map gm_message_id messages)) (\<lambda>touched.
     ebind (if completed
            then refresh_gmail_thread_order_best_effort g user
                   (if gmail_history_cursor_is_authoritative state
                    then (case state of None \<Rightarrow> None | Some r \<Rightarrow> is_last_history_id r) else None)
            else ereturn False) (\<lambda>_.
     if next_cursor \<noteq> None \<and> next_cursor = token
     then ebind (retire_backfill_for_reconciliation g user) (\<lambda>_. ereturn touched)
     else ebind (checkpoint_backfill g user batch_size (messages, next_cursor, started, completed)) (\<lambda>_. ereturn touched)))))"

definition run_gmail_backfill ::
    "('a mail_db_scheme, 'b) sync_services_scheme \<Rightarrow> string \<Rightarrow> int \<Rightarrow> ('a mail_db_scheme, nat) eff" where
  "run_gmail_backfill g user requested_size =
     (let batch_size = clamp 1 100 requested_size in
      ebind (eget (\<lambda>db. user_can_write_gmail db user)) (\<lambda>allowed.
      if \<not> allowed then ereturn 0
      else ebind (eget (\<lambda>db. get_import_state db user)) (\<lambda>state.
      let token = (case state of None \<Rightarrow> None | Some r \<Rightarrow> is_full_backfill_cursor r) in
      if (case state of None \<Rightarrow> False
          | Some r \<Rightarrow> is_first_batch_imported_at r \<noteq> None \<and> \<not> truthy_str token \<and> is_full_backfill_completed_at r \<noteq> None)
      then ereturn 0
      else ebind (at_time g (\<lambda>now. mark_import_started now user)) (\<lambda>_.
        etry (backfill_body g user batch_size state token)
          (\<lambda>e. if e = durable_page_token_rejected
               then ebind (retire_backfill_for_reconciliation g user) (\<lambda>_. ereturn 0)
               else marking_failure g user e)))))"

end
