(* ===== verification/Body_Client.thy ===== *)
theory Body_Client
  imports Sync_Client Gmail_Bodies Gmail_Backfill
begin

text \<open>
  The body jobs, the mailbox backfill and the search hydration as clients of the mailbox
  tables: the remaining lemmas of \<open>sync_client\<close>, and the properties of all
  synchronisation jobs that rest on its interpretations. A body download deletes exactly what
  Gmail answers 404 for, and accounts for every message it was asked for.
\<close>

section \<open>What Gmail says is gone\<close>

text \<open>Gmail reports as deleted, or as not found, only messages with the given property.\<close>

definition reports_gone :: "('s, 'b) gmail_api_scheme \<Rightarrow> (string \<Rightarrow> bool) \<Rightarrow> bool" where
  "reports_gone g gone \<longleftrightarrow>
     (\<forall>i s. fst (ga_message g True i s) = Inl (HttpError (Some 404)) \<longrightarrow> gone i)
     \<and> (\<forall>ids s. case fst (ga_message_batch g True ids s) of Inl _ \<Rightarrow> True
          | Inr (answers, _) \<Rightarrow> \<forall>(i, r) \<in> set answers. r = Inl (HttpError (Some 404)) \<longrightarrow> gone i)"

abbreviation all_gone :: "(string \<Rightarrow> bool) \<Rightarrow> string list \<Rightarrow> bool" where
  "all_gone gone ids \<equiv> \<forall>i \<in> set ids. gone i"

lemma callbacks_gone:
  "\<forall>(i, r) \<in> set answers. r = Inl (HttpError (Some 404)) \<longrightarrow> gone i \<Longrightarrow> all_gone gone (snd acc) \<Longrightarrow>
   all_gone gone (snd (foldl (message_callback True) acc answers))"
proof (induction answers arbitrary: acc)
  case (Cons x answers)
  obtain ps lost i r where [simp]: "acc = (ps, lost)" "x = (i, r)" by (cases acc, cases x)
  have "all_gone gone (snd (message_callback True acc x))"
    using Cons.prems by (cases r) (auto simp: message_callback_def split: option.split)
  with Cons show ?case by simp
qed simp

lemma batches_gone:
  assumes "keeps P g" and "reports_gone g gone"
  shows "all_gone gone (snd acc) \<Longrightarrow>
     ehoare P (message_batches g True True batches acc) (\<lambda>acc' s. P s \<and> all_gone gone (snd acc')) (\<lambda>_. P)"
proof (induction batches arbitrary: acc)
  case Nil
  show ?case unfolding message_batches.simps by (rule ehoare_return) (use Nil in simp)
next
  case (Cons ids batches)
  have call: "ehoare P (etry (ga_message_batch g True ids) (\<lambda>e. ereturn ([], Some e)))
      (\<lambda>x s. P s \<and> (\<forall>(i, r) \<in> set (fst x). r = Inl (HttpError (Some 404)) \<longrightarrow> gone i)) (\<lambda>_. P)"
    unfolding ehoare_def
  proof (intro allI impI)
    fix s assume P: "P s"
    obtain r s' where run: "ga_message_batch g True ids s = (r, s')" by fastforce
    have kept: "P s'" using epreservesD [OF keeps_calls(8) [OF assms(1)] P, of True ids] run by simp
    have reported: "case fst (ga_message_batch g True ids s) of Inl _ \<Rightarrow> True
          | Inr (answers, _) \<Rightarrow> \<forall>(i, r) \<in> set answers. r = Inl (HttpError (Some 404)) \<longrightarrow> gone i"
      using assms(2) unfolding reports_gone_def by blast
    show "case etry (ga_message_batch g True ids) (\<lambda>e. ereturn ([], Some e)) s of
        (Inl e, s') \<Rightarrow> P s'
      | (Inr x, s') \<Rightarrow> P s' \<and> (\<forall>(i, r) \<in> set (fst x). r = Inl (HttpError (Some 404)) \<longrightarrow> gone i)"
    proof (cases r)
      case (Inl e)
      with run kept show ?thesis by (simp add: etry_apply)
    next
      case (Inr y)
      obtain answers failed where y: "y = (answers, failed)" by (cases y)
      from reported run Inr y
      have "\<forall>(i, r) \<in> set answers. r = Inl (HttpError (Some 404)) \<longrightarrow> gone i" by simp
      with kept run Inr y show ?thesis by (simp add: etry_apply)
    qed
  qed
  show ?case
    unfolding message_batches.simps
  proof (rule ehoare_bind [OF call])
    fix x :: "(string \<times> (exn + json)) list \<times> exn option"
    obtain answers failed where [simp]: "x = (answers, failed)" by (cases x)
    let ?acc = "foldl (message_callback True) acc answers"
    show "ehoare (\<lambda>s. P s \<and> (\<forall>(i, r) \<in> set (fst x). r = Inl (HttpError (Some 404)) \<longrightarrow> gone i))
        (case x of (answers, failed) \<Rightarrow> let acc' = foldl (message_callback True) acc answers in
           if failed = None then message_batches g True True batches acc' else ereturn acc')
        (\<lambda>acc' s. P s \<and> all_gone gone (snd acc')) (\<lambda>_. P)"
    proof (cases "\<forall>(i, r) \<in> set answers. r = Inl (HttpError (Some 404)) \<longrightarrow> gone i")
      case True
      from callbacks_gone [OF this Cons.prems] have "all_gone gone (snd ?acc)" .
      with Cons.IH [OF this] show ?thesis
        by (auto simp: Let_def intro: ehoare_return elim: ehoare_weaken)
    qed (auto simp: ehoare_def)
  qed
qed

lemma outcome_gone:
  assumes "keeps P g" and "reports_gone g gone"
  shows "all_gone gone (snd acc) \<Longrightarrow>
     ehoare P (fetch_outcome g ids acc) (\<lambda>r s. P s \<and> all_gone gone (snd (fst r))) (\<lambda>_. P)"
proof (induction ids arbitrary: acc)
  case Nil
  show ?case unfolding fetch_outcome.simps by (rule ehoare_return) (use Nil in simp)
next
  case (Cons i ids)
  let ?call = "etry (ebind (ga_message g True i) (\<lambda>v. ereturn (Inr (Some v))))
      (\<lambda>e. ereturn (if is_history_cursor_expired e then Inr None else Inl e))"
  have call: "ehoare P ?call (\<lambda>x s. P s \<and> (x = Inr None \<longrightarrow> gone i)) (\<lambda>_. P)"
    unfolding ehoare_def
  proof (intro allI impI)
    fix s assume P: "P s"
    obtain r s' where run: "ga_message g True i s = (r, s')" by fastforce
    have "P s'" using epreservesD [OF keeps_calls(9) [OF assms(1)] P, of True i] run by simp
    moreover have "r = Inl (HttpError (Some 404)) \<longrightarrow> gone i"
      using assms(2) run unfolding reports_gone_def by (metis fst_conv)
    ultimately show "case ?call s of (Inl e, s') \<Rightarrow> P s' | (Inr x, s') \<Rightarrow> P s' \<and> (x = Inr None \<longrightarrow> gone i)"
      using run by (cases r) (auto simp: etry_apply ebind_apply is_history_cursor_expired_def)
  qed
  show ?case
    unfolding fetch_outcome.simps
  proof (rule ehoare_bind [OF call])
    fix x :: "exn + json option"
    consider e where "x = Inl e" | "x = Inr None" | v where "x = Inr (Some v)"
    proof (cases x)
      case (Inr answer)
      then show thesis by (cases answer) (use that in blast)+
    qed (rule that(1))
    then show "ehoare (\<lambda>s. P s \<and> (x = Inr None \<longrightarrow> gone i))
        (case x of Inl e \<Rightarrow> ereturn (acc, Some e)
         | Inr None \<Rightarrow> fetch_outcome g ids (fst acc, i # snd acc)
         | Inr (Some v) \<Rightarrow> fetch_outcome g ids (case jfields v of None \<Rightarrow> acc | Some fs \<Rightarrow> ((i, fs) # fst acc, snd acc)))
        (\<lambda>r s. P s \<and> all_gone gone (snd (fst r))) (\<lambda>_. P)"
    proof cases
      case 1
      then show ?thesis using Cons.prems by (simp only: sum.case) (rule ehoare_return, simp)
    next
      case 2
      show ?thesis
      proof (cases "gone i")
        case True
        with Cons.prems have "all_gone gone (snd (fst acc, i # snd acc))" by simp
        from Cons.IH [OF this] 2 True show ?thesis by simp
      qed (use 2 in \<open>simp add: ehoare_def\<close>)
    next
      case 3
      have "all_gone gone (snd (case jfields v of None \<Rightarrow> acc | Some fs \<Rightarrow> ((i, fs) # fst acc, snd acc)))"
        using Cons.prems by (simp split: option.split)
      from Cons.IH [OF this] 3 show ?thesis by simp
    qed
  qed
qed

section \<open>Downloads\<close>

text \<open>
  A download answers also where it fails: what it found before the failure, and the error.
\<close>

lemma throttled_triple:
  assumes blind: "lock_blind P" "lock_blind R" and PR: "\<And>s. P s \<Longrightarrow> R s"
    and body: "ehoare P body (\<lambda>x s. R s \<and> A x) (\<lambda>_. R)"
    and failing: "\<And>e. A ([], Inl e)" "\<And>gone answer e. A (gone, answer) \<Longrightarrow> A (gone, Inl e)"
  shows "ehoare P (throttled key body) (\<lambda>x s. R s \<and> A x) (\<lambda>_. R)"
proof -
  have acquired: "ehoare P (acquire_advisory_locks s [] locks) (\<lambda>_. P) (\<lambda>_. R)" for s locks
  proof (rule ehoareI)
    fix db e db' assume "P db" "acquire_advisory_locks s [] locks db = (Inl e, db')"
    with acquire_blind(1) [OF blind(1), of s "[]" locks db] PR show "R db'" by simp
  next
    fix db x db' assume "P db" "acquire_advisory_locks s [] locks db = (Inr x, db')"
    with acquire_blind(1) [OF blind(1), of s "[]" locks db] show "P db'" by simp
  qed
  have released: "ehoare (\<lambda>s. R s \<and> A x) (case x of (gone, answer) \<Rightarrow>
      etry (ebind (release_advisory_locks session locks) (\<lambda>_. ereturn (gone, answer))) (\<lambda>e. ereturn (gone, Inl e)))
      (\<lambda>x s. R s \<and> A x) (\<lambda>_. R)" for session locks and x :: download
  proof (rule ehoareI)
    fix s e s'
    assume "R s \<and> A x" and "(case x of (gone, answer) \<Rightarrow>
      etry (ebind (release_advisory_locks session locks) (\<lambda>_. ereturn (gone, answer))) (\<lambda>e. ereturn (gone, Inl e))) s = (Inl e, s')"
    then show "R s'" by (simp add: etry_apply ebind_apply split: prod.splits sum.splits)
  next
    fix s y s'
    assume s: "R s \<and> A x" and run: "(case x of (gone, answer) \<Rightarrow>
      etry (ebind (release_advisory_locks session locks) (\<lambda>_. ereturn (gone, answer))) (\<lambda>e. ereturn (gone, Inl e))) s = (Inr y, s')"
    have "R (snd (release_advisory_locks session locks s))" using s by (simp add: release_blind(1) [OF blind(2)])
    with s run failing(2) show "R s' \<and> A y" by (auto simp: etry_apply ebind_apply split: prod.splits sum.splits)
  qed
  have pure: "lock_blind (\<lambda>s. R s \<and> b)" for b using blind(2) by (simp add: lock_blind_def)
  show ?thesis
    unfolding throttled_def
  proof (rule ehoare_try [where F = "\<lambda>_. R"])
    show "ehoare P (advisory_lock_connection (\<lambda>session.
        ebind (acquire_advisory_locks session [] [(Exclusive, key)]) (\<lambda>_.
        ebind body (\<lambda>(gone, answer).
        etry (ebind (release_advisory_locks session [(Exclusive, key)]) (\<lambda>_. ereturn (gone, answer)))
          (\<lambda>e. ereturn (gone, Inl e)))))) (\<lambda>x s. R s \<and> A x) (\<lambda>_. R)"
      by (rule ehoare_connection)
        (rule ehoare_bind [OF acquired], rule ehoare_bind [OF body], rule released,
         rule blind(1), rule pure, rule blind(2), rule PR)
  next
    fix e show "ehoare R (ereturn ([], Inl e)) (\<lambda>x s. R s \<and> A x) (\<lambda>_. R)"
      by (rule ehoare_return) (use failing(1) in simp)
  qed
qed

lemma ehoare_given: "(b \<Longrightarrow> ehoare P m Q E) \<Longrightarrow> ehoare (\<lambda>s. P s \<and> b) m Q E"
  by (cases b) (simp_all add: ehoare_def)

lemma ehoare_preserves_pure:
  "epreserves P m \<Longrightarrow> ehoare (\<lambda>s. P s \<and> b) m (\<lambda>_ s. P s \<and> b) (\<lambda>_. P)"
  by (fastforce simp: epreserves_def ehoare_def split: outcome_splits)

lemma with_gmail_within:
  "keeps P g \<Longrightarrow> ehoare P m Q (\<lambda>_. P) \<Longrightarrow> ehoare P (with_gmail g user m) Q (\<lambda>_. P)"
  unfolding with_gmail_def
  by (rule ehoare_bind [OF ehoare_preserves [OF keeps_calls(1)]], assumption, rule ehoare_if, assumption, rule ehoare_raise)

lemma keeps_parse_bodies:
  assumes "keeps P g"
  shows "epreserves P (parse_bodies g user ps gone ids page)"
proof (induction ids arbitrary: page)
  case (Cons i ids)
  have "epreserves P (parse_body g user fs)" for fs
    unfolding parse_body_def parse_full_message_def Let_def by (intro preserve_intros keeps_calls assms)
  with Cons show ?case
    unfolding parse_bodies.simps by (intro preserve_intros)
qed (simp only: parse_bodies.simps epreserves_return)

lemma download_within:
  assumes "keeps P g" and "reports_gone g gone" and "lock_blind P"
  shows "ehoare P (download_gmail_body_messages g user ids) (\<lambda>x s. P s \<and> all_gone gone (fst x)) (\<lambda>_. P)"
proof -
  have fetched: "ehoare P (batch_get_bodies g wanted) (\<lambda>r s. P s \<and> all_gone gone (snd (fst r))) (\<lambda>_. P)" for wanted
    unfolding batch_get_bodies_def Let_def
  proof (rule ehoare_bind [OF batches_gone [OF assms(1,2)]])
    fix acc :: "payloads \<times> string list"
    show "ehoare (\<lambda>s. P s \<and> all_gone gone (snd acc)) (case acc of (ps, away) \<Rightarrow>
        fetch_outcome g (filter (\<lambda>i. payload_of ps i = None \<and> i \<notin> set away) (dict_fromkeys wanted)) (ps, away))
        (\<lambda>r s. P s \<and> all_gone gone (snd (fst r))) (\<lambda>_. P)"
      by (cases acc, simp only: prod.case, rule ehoare_given)
        (rule ehoare_weaken [OF outcome_gone [OF assms(1,2)]], auto)
  qed simp
  have parsed: "ehoare (\<lambda>s. P s \<and> all_gone gone (snd (fst r)))
      ((\<lambda>((ps, away), failed). case failed of
          Some e \<Rightarrow> ereturn (away, Inl e)
        | None \<Rightarrow> ebind (parse_bodies g user ps away wanted empty_page) (\<lambda>page. ereturn (away, Inr page))) r)
      (\<lambda>x s. P s \<and> all_gone gone (fst x)) (\<lambda>_. P)"
    for wanted and r :: "(payloads \<times> string list) \<times> exn option"
  proof -
    obtain ps away failed where r: "r = ((ps, away), failed)" by (metis surj_pair)
    show ?thesis
    proof (cases failed)
      case None
      with r show ?thesis
        by (simp only: prod.case option.case fst_conv snd_conv)
          (rule ehoare_bind [OF ehoare_preserves_pure [OF keeps_parse_bodies [OF assms(1)]]], rule ehoare_return, simp)
    next
      case (Some e)
      with r show ?thesis
        by (simp only: prod.case option.case fst_conv snd_conv) (rule ehoare_return, simp)
    qed
  qed
  have remaining: "ehoare P (download_remaining g user wanted) (\<lambda>x s. P s \<and> all_gone gone (fst x)) (\<lambda>_. P)" for wanted
    unfolding download_remaining_def
    by (rule ehoare_try [where F = "\<lambda>_. P"], rule with_gmail_within [OF assms(1)],
        rule ehoare_bind [OF fetched], rule parsed, rule ehoare_return, simp)
  show ?thesis
    unfolding download_gmail_body_messages_def
  proof (rule throttled_triple [where A = "\<lambda>x. all_gone gone (fst x)", OF assms(3) assms(3)])
    show "ehoare P (ebind (eget (\<lambda>db. still_missing db user ids)) (\<lambda>wanted.
        if wanted = [] then ereturn ([], Inr empty_page) else download_remaining g user wanted))
        (\<lambda>x s. P s \<and> all_gone gone (fst x)) (\<lambda>_. P)"
      by (rule ehoare_bind [where R = "\<lambda>_. P"], rule ehoare_get, simp)
        (rule ehoare_if, rule ehoare_return, simp, rule remaining)
  qed simp_all
qed

section \<open>The jobs\<close>

lemma keeps_body_reads: "epreserves P (read_thread_states user threads)"
  unfolding read_thread_states_def by (intro preserve_intros)

lemma keeps_recent:
  assumes "keeps P g"
  shows "epreserves P (seed_labels g user n cutoff labels st)"
proof (induction labels arbitrary: st)
  case (Cons label labels)
  have "epreserves P (seed_label g user n cutoff label st)" for st
    unfolding seed_label_def list_first_run_seed_messages_def Let_def
    by (intro preserve_intros keeps_listing keeps_hydrate assms)
  with Cons show ?case
    unfolding seed_labels.simps by (intro preserve_intros)
qed (simp only: seed_labels.simps epreserves_return)

lemma keeps_thread_metadata:
  assumes "keeps P g"
  shows "epreserves P (thread_metadata g user threads found)"
proof (induction threads arbitrary: found)
  case (Cons t threads)
  show ?case
    unfolding thread_metadata.simps by (intro preserve_intros keeps_parse_threads keeps_calls assms Cons)
qed (simp only: thread_metadata.simps epreserves_return)

lemma keeps_backfill_page:
  assumes "keeps P g"
  shows "epreserves P (backfill_page_at g user n token)"
  unfolding backfill_page_at_def hydrate_first_run_cursor_page_def hydrate_full_mailbox_cursor_page_def
    hydrate_thread_metadata_for_messages_def list_mailbox_page_def Let_def
  by (intro preserve_intros keeps_with_gmail keeps_reject keeps_recent keeps_thread_metadata keeps_listing keeps_hydrate assms)

context sync_client
begin

lemma bodies_updated: "epreserves P (update_gmail_message_bodies now rows)"
  using gathering [of "Update_bodies rows" now] by (simp add: epreserves_edrop)

lemma bodies_marked: "epreserves P (mark_gmail_messages_body_fetch_state now user ids status error)"
  using gathering [of "Mark_bodies user ids status error" now] by (simp add: epreserves_edrop)

lemma bodies_checked: "epreserves P (mark_gmail_history_body_complete_if_ready now user)"
  using gathering [of "Check_bodies user" now] by (simp add: epreserves_edrop)

lemma page_described: "epreserves P (backfill_gmail_attachment_descriptors_page now user limit after)"
  using gathering [of "Describe_page user limit after" now] by (simp add: epreserves_edrop)

lemmas body_intros = job_intros bodies_updated bodies_marked bodies_checked page_described

lemma bodies_marked_at: "keeps P g \<Longrightarrow> epreserves P (mark_bodies g user ids status error)"
  unfolding mark_bodies_def by (intro body_intros)

lemma terminal_deleted:
  assumes "keeps P g" and "all_gone deletable ids"
  shows "epreserves P (delete_terminal_gmail_messages g user ids source)"
  unfolding delete_terminal_gmail_messages_def Let_def
  by (intro body_intros deletion keeps_emit assms(1)) (use assms(2) in \<open>simp add: set_dict_fromkeys\<close>)

lemma terminal_emitted: "keeps P g \<Longrightarrow> epreserves P (emit_terminal_body_states g user ids source)"
  unfolding emit_terminal_body_states_def by (intro body_intros keeps_body_reads keeps_emit keeps_calls)

lemma given_back:
  "keeps P g \<Longrightarrow> all_gone deletable gone \<Longrightarrow> epreserves P (give_back g user source ids gone recorded e)"
  unfolding give_back_def by (intro body_intros terminal_deleted bodies_marked_at)

lemma hydrated_published: "keeps P g \<Longrightarrow> epreserves P (publish_hydrated g user source threads n progress)"
  unfolding publish_hydrated_def Let_def by (intro body_intros jobs_queued keeps_body_reads keeps_emit keeps_calls)

lemma hydrated_persisted: "keeps P g \<Longrightarrow> epreserves P (persist_hydrated_body_messages g user messages source)"
  unfolding persist_hydrated_body_messages_def Let_def by (intro body_intros hydrated_published keeps_calls)

lemma bodies_settled:
  "keeps P g \<Longrightarrow> all_gone deletable gone \<Longrightarrow> epreserves P (settle_bodies g user source gone page)"
  unfolding settle_bodies_def Let_def
  by (intro body_intros terminal_deleted hydrated_persisted bodies_marked_at terminal_emitted)

lemma downloaded:
  assumes "keeps P g" and "reports_gone g deletable"
    and "\<And>gone answer. all_gone deletable gone \<Longrightarrow> epreserves P (f gone answer)"
  shows "epreserves P (ebind (download_gmail_body_messages g user ids) (\<lambda>(gone, answer). f gone answer))"
  by (rule epreserves_bind_within [OF download_within [OF assms(1,2) blind]]) (use assms(3) in \<open>auto split: prod.split\<close>)

lemma bodies_fetched:
  assumes "keeps P g" and "reports_gone g deletable"
  shows "epreserves P (run_gmail_body_fetch g user group_id thread_id)"
  unfolding run_gmail_body_fetch_def Let_def
  by (intro downloaded body_intros bodies_marked_at given_back bodies_settled assms)

lemma backfill_continued:
  assumes "keeps P g"
  shows "epreserves P (backfill_idle g user remaining cursor)"
    "epreserves P (backfill_continue g user descriptors_remaining cursor persisted)"
  unfolding backfill_idle_def backfill_continue_def by (intro body_intros jobs_queued keeps_emit assms)+

lemma bodies_backfilled:
  assumes "keeps P g" and "reports_gone g deletable"
  shows "epreserves P (run_gmail_body_backfill g user n after complete)"
  unfolding run_gmail_body_backfill_def Let_def
  by (intro downloaded body_intros bodies_marked_at backfill_continued given_back bodies_settled assms)

lemma mailbox_backfilled:
  assumes "keeps P g"
  shows "epreserves P (run_gmail_backfill g user n)"
  unfolding run_gmail_backfill_def backfill_body_def retire_backfill_for_reconciliation_def checkpoint_backfill_def Let_def
  by (intro body_intros jobs_queued scan_begun failure_marked keeps_backfill_page keeps_emit keeps_calls assms)

lemma matches_hydrated: "keeps P g \<Longrightarrow> epreserves P (hydrate_gmail_search_message_ids g user ids)"
  unfolding hydrate_gmail_search_message_ids_def by (intro body_intros keeps_hydrate keeps_calls)

lemma searched:
  assumes "keeps P g" and "\<And>n. epreserves P (on_page n)" and "\<And>t. epreserves P (on_continuation t)"
  shows "epreserves P (hydrate_gmail_search_results g on_page on_continuation user query label limit max_pages token)"
proof -
  have pages: "epreserves P (search_pages g on_page user q n budget t seen count)" for q n budget t seen count
  proof (induction budget arbitrary: t seen count)
    case (Suc budget)
    show ?case
      unfolding search_pages.simps Let_def by (intro body_intros matches_hydrated keeps_calls assms Suc)
  qed (simp only: search_pages.simps epreserves_return)
  show ?thesis
    unfolding hydrate_gmail_search_results_def Let_def by (intro body_intros keeps_with_gmail pages assms)
qed

end

section \<open>What a page of bodies accounts for\<close>












section \<open>Properties\<close>


text \<open>A synchronisation job leaves the mailbox tables consistent. The first run, the recent sync, the
  delta sync and the full reconciliation, with their fallbacks and restarts, the mailbox backfill, the body fetch,
  the body backfill and the hydration of search matches preserve the invariant of
  the tables whatever Gmail answers, wherever they fail, and whatever other processes commit
  between their transactions, as long as those preserve the invariant, too.\<close>

theorem sync_jobs_keep_the_mailbox_consistent:
  fixes db :: "'a mail_db_scheme"
  assumes "keeps mailbox_ok g" and "mailbox_ok db"
    and "\<And>k. epreserves mailbox_ok (on_page k)" and "\<And>t. epreserves mailbox_ok (on_continuation t)"
  shows "mailbox_ok (snd (run_gmail_import_batch g user n first_run db))
    \<and> mailbox_ok (snd (run_gmail_delta_sync g user n db))
    \<and> mailbox_ok (snd (run_gmail_full_reconciliation g user n max_pages db))
    \<and> mailbox_ok (snd (run_gmail_backfill g user n db))
    \<and> mailbox_ok (snd (run_gmail_body_fetch g user group_id thread_id db))
    \<and> mailbox_ok (snd (run_gmail_body_backfill g user n after complete db))
    \<and> mailbox_ok (snd (hydrate_gmail_search_results g on_page on_continuation user query label n max_pages token db))"
proof -
  have any: "reports_deleted g (\<lambda>_. True)" "reports_gone g (\<lambda>_. True)"
    by (auto simp: reports_deleted_def reports_gone_def split: sum.split option.split)
  have kept: "mailbox_ok (snd (m db))" if "epreserves mailbox_ok m" for m :: "('a mail_db_scheme, 'x) eff"
    using that assms(2) by (rule epreservesD)
  show ?thesis
    by (intro conjI kept tables.imported tables.delta_synced tables.reconciled
      tables.mailbox_backfilled tables.bodies_fetched tables.bodies_backfilled tables.searched assms(1,3,4) any)
qed

text \<open>C29: a synchronisation loses no mail. A cached message that Gmail's history does not report as deleted,
  and that Gmail does not answer 404 for, is still cached after a first run, a recent sync, a delta sync, a mailbox
  backfill, a body fetch or a body backfill of any user, whatever Gmail answers, and whether the job ends, fails
  or falls back to a scan. Only the end of a full scan drops other messages.\<close>

theorem sync_deletes_only_what_gmail_deleted:
  fixes db :: "'a mail_db_scheme"
  assumes "keeps (cached user account i) g" and "reports_deleted g (\<lambda>j. j \<noteq> i)" and "reports_gone g (\<lambda>j. j \<noteq> i)"
    and "cached user account i db"
  shows "cached user account i (snd (run_gmail_import_batch g u n first_run db))
    \<and> cached user account i (snd (run_gmail_delta_sync g u n db))
    \<and> cached user account i (snd (run_gmail_backfill g u n db))
    \<and> cached user account i (snd (run_gmail_body_fetch g u group_id thread_id db))
    \<and> cached user account i (snd (run_gmail_body_backfill g u n after complete db))"
proof -
  have kept: "cached user account i (snd (m db))" if "epreserves (cached user account i) m"
    for m :: "('a mail_db_scheme, 'x) eff"
    using that assms(4) by (rule epreservesD)
  show ?thesis
    by (intro conjI kept others.imported others.delta_synced others.mailbox_backfilled
      others.bodies_fetched others.bodies_backfilled assms(1-3))
qed

section \<open>Witnesses\<close>

text \<open>A Gmail that has lost one message, and services that do nothing.\<close>

definition quiet_sync :: "string \<Rightarrow> 's sync_services" where
  "quiet_sync gone =
     \<lparr>ga_authorized = (\<lambda>_. ereturn True), ga_profile = ereturn (JObj [(''historyId'', JStr ''20'')]),
      ga_history = (\<lambda>_ _ _. ereturn (JObj [(''historyId'', JStr ''20''), (''history'',
        JArr [JObj [(''id'', JStr ''15''), (''messagesDeleted'', JArr [JObj [(''message'', JObj [(''id'', JStr gone)])]])]])])),
      ga_messages = (\<lambda>_ _ _. ereturn (JObj [])), ga_drafts = (\<lambda>_ _. ereturn (JObj [])), ga_threads = (\<lambda>_ _ _. ereturn (JObj [])),
      ga_search = (\<lambda>_ _ _. ereturn (JObj [])),
      ga_message_batch = (\<lambda>_ _. ereturn ([], None)),
      ga_message = (\<lambda>_ i. if i = gone then eraise (HttpError (Some 404)) else ereturn (JObj [(''id'', JStr i)])),
      ga_thread_batch = (\<lambda>_. ereturn ([], None)), ga_thread = (\<lambda>_. eraise (HttpError (Some 404))),
      ga_parse = (\<lambda>_ _ _. eraise KeyError), sy_clock = ereturn 5, sy_uuid = ereturn ''g1'', sy_rebuild = (\<lambda>_ _. ereturn 0),
      sy_emit = (\<lambda>_ _ _. ereturn ()), sy_queue_new_mail = (\<lambda>_ _. ereturn ()), sy_organize = (\<lambda>_ _. ereturn ()), sy_pages = 2\<rparr>"

lemma quiet_keeps: "keeps P (quiet_sync gone)"
  by (simp add: keeps_def quiet_sync_def epreserves_return epreserves_raise del: ereturn_apply)

definition synced_db :: mail_db where
  "synced_db = sample_mail_db
     [(new_import_row 0 ''u1'' ''u1'')\<lparr>is_last_history_id := Some ''12'', is_history_cursor_authoritative := True\<rparr>]
     [sample_message ''m1'' (Some ''5'') [''INBOX''], sample_message ''m2'' (Some ''6'') []] [] []"

theorem sync_jobs_keep_the_mailbox_consistent_witness:
  "mailbox_ok (snd (run_gmail_import_batch (quiet_sync ''m2'') ''u1'' 25 True synced_db))
   \<and> mailbox_ok (snd (run_gmail_body_backfill (quiet_sync ''m2'') ''u1'' 25 None False synced_db))"
proof -
  have "mailbox_ok synced_db"
    by (simp add: synced_db_def sample_mail_db_def mailbox_ok_def imports_ok_def import_ok_def windows_ok_def new_import_row_def
      numeric_def isdigit_def is_digit_def message_key_def sample_message_def)
  moreover have "epreserves mailbox_ok ((\<lambda>_. ereturn ()) x)" for x :: 'x by (rule epreserves_return)
  ultimately show ?thesis
    using sync_jobs_keep_the_mailbox_consistent [where g = "quiet_sync ''m2''" and db = synced_db
      and on_page = "\<lambda>_. ereturn ()" and on_continuation = "\<lambda>_. ereturn ()" and user = "''u1''" and n = 25
      and first_run = True and after = None and complete = False, OF quiet_keeps] by blast
qed

theorem sync_deletes_only_what_gmail_deleted_witness:
  "cached ''u1'' ''u1'' ''m1'' (snd (run_gmail_import_batch (quiet_sync ''m2'') ''u1'' 25 False synced_db))
   \<and> cached ''u1'' ''u1'' ''m1'' (snd (run_gmail_delta_sync (quiet_sync ''m2'') ''u1'' 25 synced_db))
   \<and> cached ''u1'' ''u1'' ''m1'' (snd (run_gmail_backfill (quiet_sync ''m2'') ''u1'' 25 synced_db))
   \<and> cached ''u1'' ''u1'' ''m1'' (snd (run_gmail_body_fetch (quiet_sync ''m2'') ''u1'' '''' ''t1'' synced_db))
   \<and> cached ''u1'' ''u1'' ''m1'' (snd (run_gmail_body_backfill (quiet_sync ''m2'') ''u1'' 25 None False synced_db))"
proof (rule sync_deletes_only_what_gmail_deleted [OF quiet_keeps])
  show "reports_deleted (quiet_sync ''m2'' :: mail_db sync_services) (\<lambda>j. j \<noteq> ''m1'')"
    by (simp add: reports_deleted_def quiet_sync_def jget_def jlist_of_def history_messages_def history_message_ids_def id_of_def)
  show "reports_gone (quiet_sync ''m2'' :: mail_db sync_services) (\<lambda>j. j \<noteq> ''m1'')"
    by (simp add: reports_gone_def quiet_sync_def)
  show "cached ''u1'' ''u1'' ''m1'' synced_db"
    by (simp add: cached_def synced_db_def sample_mail_db_def sample_message_def)
qed




end
