(* ===== verification/Identity_Safety.thy ===== *)
theory Identity_Safety
  imports Identity_Store
begin

text \<open>
  What the identity tables guarantee over any sequence of their operations: a Google identity
  that was revoked stays locked out of OAuth flows that began before, and a login code or a
  session that was spent stays spent.
\<close>

section \<open>Operations\<close>

datatype identity_op =
    Sign_in string string string "string option" bool "int option"
  | Link_account string string string string "string option" string int nat
  | Store_token string string "int option" "string option"
  | Reconnect string string int "string option"
  | Clear_guards string int
  | Disconnect string
  | Request_deletion string
  | Refresh_token string "string option" string
  | Delete_token string "string option"
  | Revoke_subject string
  | Delete_user string
  | Start_oauth string string "string option" instant string "string option"
  | End_oauth string
  | Open_session string string string string instant
  | Revoke_session string
  | Revoke_sessions string
  | Make_code string string instant
  | Redeem_code string
  | Redeem_bound_code string string string
  | Mark_ready string string
  | Mark_importing string string
  | Mark_reauth string string

fun perform_identity :: "instant \<Rightarrow> identity_op \<Rightarrow> ('a identity_db_scheme, unit) eff" where
  "perform_identity now (Sign_in i email sub name enabled epoch) = edrop (upsert_user now i email sub name enabled epoch)"
| "perform_identity now (Link_account i user email sub name token epoch n) =
     edrop (link_gmail_account now i user email sub name token epoch n)"
| "perform_identity now (Store_token user token epoch account) = edrop (upsert_google_oauth_token now user token epoch account)"
| "perform_identity now (Reconnect user token epoch account) = edrop (reconnect_google_oauth_token now user token epoch account)"
| "perform_identity now (Clear_guards user epoch) = edrop (clear_google_guard_state now user epoch)"
| "perform_identity now (Disconnect user) = eupdate (set_google_guard now user (\<lambda>u. u\<lparr>google_disconnected_at := Some now\<rparr>))"
| "perform_identity now (Request_deletion user) = eupdate (set_google_guard now user
     (\<lambda>u. u\<lparr>google_data_delete_requested_at := coalesce (google_data_delete_requested_at u) (Some now)\<rparr>))"
| "perform_identity now (Refresh_token user account token) = edrop (update_connected_google_oauth_token now user account token)"
| "perform_identity now (Delete_token user account) = delete_google_oauth_token user account"
| "perform_identity now (Revoke_subject h) = edrop (record_google_subject_revocation now h)"
| "perform_identity now (Delete_user user) = edrop (delete_user_account_with_google_subject_tombstone now user)"
| "perform_identity now (Start_oauth state verifier redirect expires intent user) =
     edrop (save_oauth_login_session now state verifier redirect expires intent user)"
| "perform_identity now (End_oauth state) = delete_oauth_login_session state"
| "perform_identity now (Open_session i user h platform expires) = edrop (create_app_session now i user h platform expires)"
| "perform_identity now (Revoke_session h) = edrop (revoke_app_session now h)"
| "perform_identity now (Revoke_sessions user) = edrop (revoke_user_app_sessions now user)"
| "perform_identity now (Make_code h user expires) = edrop (create_mobile_login_code now h user expires)"
| "perform_identity now (Redeem_code h) = edrop (consume_mobile_login_code now h)"
| "perform_identity now (Redeem_bound_code handoff challenge h) = edrop (consume_bound_mobile_login_code now handoff challenge h)"
| "perform_identity now (Mark_ready user account) = edrop (mark_gmail_account_ready now user account)"
| "perform_identity now (Mark_importing user account) = edrop (mark_gmail_account_importing now user account)"
| "perform_identity now (Mark_reauth user account) = edrop (mark_gmail_account_reauth_required now user account)"

definition run_identity :: "(instant \<times> identity_op) list \<Rightarrow> 'a identity_db_scheme \<Rightarrow> 'a identity_db_scheme" where
  "run_identity ops db = foldl (\<lambda>db (now, op). snd (perform_identity now op db)) db ops"

lemma run_identity_simps [simp]:
  "run_identity [] db = db"
  "run_identity ((now, op) # ops) db = run_identity ops (snd (perform_identity now op db))"
  "run_identity (ops @ ops') db = run_identity ops' (run_identity ops db)"
  by (simp_all add: run_identity_def)

lemma run_identity_preserves:
  assumes "P db" and "\<And>now op. (now, op) \<in> set ops \<Longrightarrow> epreserves P (perform_identity now op)"
  shows "P (run_identity ops db)"
  using assms
proof (induction ops arbitrary: db)
  case (Cons x ops)
  obtain now op where [simp]: "x = (now, op)" by (cases x)
  have "P (snd (perform_identity now op db))" using Cons.prems by (auto simp: epreserves_def)
  with Cons show ?case by simp
qed simp

section \<open>Revoked identities\<close>

text \<open>The epoch of the OAuth flow that an operation belongs to.\<close>

fun op_epoch :: "identity_op \<Rightarrow> int option" where
  "op_epoch (Sign_in _ _ _ _ _ epoch) = epoch"
| "op_epoch (Link_account _ _ _ _ _ _ epoch _) = Some epoch"
| "op_epoch (Store_token _ _ epoch _) = epoch"
| "op_epoch (Reconnect _ _ epoch _) = Some epoch"
| "op_epoch (Clear_guards _ epoch) = Some epoch"
| "op_epoch _ = None"

text \<open>Epochs are drawn from the sequence, and account ids are unique.\<close>

definition identity_ok :: "'a identity_db_scheme \<Rightarrow> bool" where
  "identity_ok db \<longleftrightarrow>
     distinct (map acc_id (gmail_accounts db))
     \<and> list_all (\<lambda>t. ts_deleted_epoch t \<le> identity_epoch db) (google_subject_tombstones db)
     \<and> list_all (\<lambda>r. ol_started_epoch r \<le> identity_epoch db) (oauth_login_sessions db)"

definition revoked_since :: "string \<Rightarrow> int \<Rightarrow> 'a identity_db_scheme \<Rightarrow> bool" where
  "revoked_since sub e db \<longleftrightarrow> (case revocation_epoch db (subject_key sub) of None \<Rightarrow> False | Some r \<Rightarrow> e \<le> r)"

text \<open>Every user of the identity is behind a guard, and no account of it has a credential.\<close>

definition locked_out :: "string \<Rightarrow> 'a guard_db_scheme \<Rightarrow> bool" where
  "locked_out sub db \<longleftrightarrow>
     (\<forall>u \<in> set (users db). usr_google_sub u = sub \<longrightarrow> google_guarded u)
     \<and> (\<forall>t \<in> set (google_oauth_tokens db). \<forall>a \<in> set (gmail_accounts db).
          acc_id a = tok_gmail_account_id t \<longrightarrow> acc_google_sub a \<noteq> sub)"

lemma stale_not_fresh: "revoked_since sub e db \<Longrightarrow> (case epoch of None \<Rightarrow> True | Some k \<Rightarrow> k \<le> e) \<Longrightarrow> \<not> fresh_oauth db epoch sub"
  by (auto simp: revoked_since_def fresh_oauth_def split: option.splits)

lemma revocation_recorded:
  assumes "record_google_subject_revocation now h db = (r, db')"
  shows "revocation_epoch db' k = (if k = h then Some (identity_epoch db + 1) else revocation_epoch db k)"
    and "identity_epoch db' = identity_epoch db + 1"
proof -
  have updated: "select_first (\<lambda>t. ts_subject_hash t = k) (update_where (\<lambda>t. ts_subject_hash t = h) (\<lambda>_. stone) ts)
      = (if k = h \<and> list_ex (\<lambda>t. ts_subject_hash t = h) ts then Some stone else select_first (\<lambda>t. ts_subject_hash t = k) ts)"
    if "ts_subject_hash stone = h" for ts stone k
    using that by (induction ts) (auto simp: update_where_def select_first_None list_ex_iff)
  have appended: "select_first (\<lambda>t. ts_subject_hash t = k) (ts @ [stone]) = (if k = h then Some stone else select_first (\<lambda>t. ts_subject_hash t = k) ts)"
    if "ts_subject_hash stone = h" "\<not> list_ex (\<lambda>t. ts_subject_hash t = h) ts" for ts stone k
    using that by (induction ts) (auto simp: list_ex_iff)
  show "revocation_epoch db' k = (if k = h then Some (identity_epoch db + 1) else revocation_epoch db k)"
    using assms by (auto simp: record_google_subject_revocation_def Let_def revocation_epoch_def updated appended)
  show "identity_epoch db' = identity_epoch db + 1"
    using assms by (auto simp: record_google_subject_revocation_def Let_def)
qed

lemma identity_ok_revocation:
  "identity_ok db \<Longrightarrow> record_google_subject_revocation now h db = (r, db') \<Longrightarrow> identity_ok db'"
  by (fastforce simp: identity_ok_def record_google_subject_revocation_def Let_def list_all_iff update_where_def split: if_splits)

text \<open>The part of the invariant that no operation breaks, and the part that only a later flow breaks.\<close>

definition lockout :: "string \<Rightarrow> int \<Rightarrow> 'a identity_db_scheme \<Rightarrow> bool" where
  "lockout sub e db \<longleftrightarrow> identity_ok db \<and> e \<le> identity_epoch db \<and> revoked_since sub e db"

lemma lockout_revocation:
  assumes "lockout sub e db" and "record_google_subject_revocation now h db = (r, db')"
  shows "lockout sub e db'"
  using assms identity_ok_revocation [OF _ assms(2)] revocation_recorded [OF assms(2)]
  by (auto simp: lockout_def revoked_since_def)

text \<open>Updates outside the accounts, the tombstones and the epochs.\<close>

lemma lockout_frame:
  "gmail_accounts db' = gmail_accounts db \<Longrightarrow> google_subject_tombstones db' = google_subject_tombstones db \<Longrightarrow>
   identity_epoch db' = identity_epoch db \<Longrightarrow> oauth_login_sessions db' = oauth_login_sessions db \<Longrightarrow>
   lockout sub e db' = lockout sub e db"
  by (simp add: lockout_def identity_ok_def revoked_since_def revocation_epoch_def)

lemma lockout_guard_set: "lockout sub e db \<Longrightarrow> lockout sub e (set_google_guard now user f db)"
proof -
  assume out: "lockout sub e db"
  let ?db = "db\<lparr>users := update_where (\<lambda>u. usr_id u = user) f (users db)\<rparr>"
  have "lockout sub e ?db" using out lockout_frame [of ?db db] by simp
  moreover from this have "lockout sub e (tombstone_user now u ?db)" for u
    unfolding tombstone_user_def by (rule lockout_revocation) (rule surjective_pairing)
  ultimately show ?thesis
    by (simp add: set_google_guard_def guard_set_trigger_def Let_def split: option.split)
qed

lemma lockout_users: "lockout sub e (db\<lparr>users := us\<rparr>) = lockout sub e db"
  by (rule lockout_frame) simp_all

lemma lockout_tokens: "lockout sub e (db\<lparr>google_oauth_tokens := ts\<rparr>) = lockout sub e db"
  by (rule lockout_frame) simp_all

lemma lockout_clear: "epreserves (lockout sub e) (clear_guards now epoch user)"
  by (simp add: epreserves_def clear_guards_def lockout_users)

lemma lockout_write_token: "epreserves (lockout sub e) (write_token now epoch user account token)"
  by (simp add: epreserves_def write_token_def Let_def lockout_tokens split: option.split)

text \<open>Changes of the accounts that keep their ids, or add a new one.\<close>

lemma lockout_accounts:
  assumes "lockout sub e db" and "distinct (map acc_id accounts)"
  shows "lockout sub e (db\<lparr>gmail_accounts := accounts\<rparr>)"
  using assms by (simp add: lockout_def identity_ok_def revoked_since_def revocation_epoch_def)

lemma accounts_kept: "(\<And>a. acc_id (f a) = acc_id a) \<Longrightarrow> map acc_id (update_where p f accounts) = map acc_id accounts"
  by (simp add: update_where_def)

lemma updated_user_simps [simp]: "usr_id (user_updated_row new u) = usr_id u" "usr_google_sub (user_updated_row new u) = usr_google_sub new"
  by (simp_all add: user_updated_row_def)

lemma lockout_insert_user: "epreserves (lockout sub e) (insert_user epoch new is_new)"
  unfolding epreserves_def
proof (intro allI impI)
  fix db :: "'a identity_db_scheme" assume out: "lockout sub e db"
  define row where "row = (case select_first (\<lambda>u. usr_id u = usr_id new) (users db) of None \<Rightarrow> new | Some u \<Rightarrow> user_updated_row new u)"
  have row: "usr_id row = usr_id new"
    by (auto simp: row_def dest!: select_first_Some split: option.split)
  have "distinct (map acc_id (gmail_accounts db))" using out by (simp add: lockout_def identity_ok_def)
  then have "distinct (map acc_id (if list_ex (\<lambda>a. acc_id a = usr_id new) (gmail_accounts db)
      then update_where (\<lambda>a. acc_id a = usr_id new) (\<lambda>a. a\<lparr>acc_email := x, acc_display_name := y, acc_google_sub := z, acc_updated_at := w\<rparr>) (gmail_accounts db)
      else gmail_accounts db @ [primary_account_row row is_new]))" for x y z w
    by (auto simp: accounts_kept list_ex_iff primary_account_row_def row)
  note accounts = lockout_accounts [OF out this]
  have tables: "lockout sub e (db\<lparr>users := us, gmail_accounts := accounts, migration_audits := ms\<rparr>)
      = lockout sub e (db\<lparr>gmail_accounts := accounts\<rparr>)" for us accounts ms
    by (rule lockout_frame) simp_all
  show "lockout sub e (snd (insert_user epoch new is_new db))"
    unfolding insert_user_def Let_def row_def [symmetric]
    by (simp only: if_distrib [of snd] if_distrib [of "lockout sub e"] snd_conv tables accounts out if_cancel)
qed

lemma lockout_clear_epoch: "epreserves (lockout sub e) (clear_google_guard_state now user epoch)"
  by (simp add: clear_google_guard_state_def lockout_clear preserve_intros)

lemma lockout_upsert_user: "epreserves (lockout sub e) (upsert_user now i email google_sub name enabled epoch)"
  unfolding upsert_user_def Let_def
  by (rule epreserves_transaction) (auto simp: epreserves_def intro: epreservesD [OF lockout_insert_user])

lemma lockout_attach: "epreserves (lockout sub e) (attach_account now i user email google_sub name n)"
proof -
  have "distinct (map acc_id (gmail_accounts db))" if "lockout sub e db" for db :: "'a identity_db_scheme"
    using that by (simp add: lockout_def identity_ok_def)
  then show ?thesis
    by (auto simp: epreserves_def attach_account_def accounts_kept relinked_row_def linked_row_def
        intro!: lockout_accounts split: option.split)
qed

lemma lockout_link: "epreserves (lockout sub e) (link_gmail_account now i user email google_sub name token epoch n)"
  unfolding link_gmail_account_def Let_def
  by (intro preserve_intros lockout_attach lockout_write_token)

lemma lockout_upsert_token: "epreserves (lockout sub e) (upsert_google_oauth_token now user token epoch account)"
  unfolding upsert_google_oauth_token_def by (intro preserve_intros lockout_write_token)

lemma lockout_reconnect: "epreserves (lockout sub e) (reconnect_google_oauth_token now user token epoch account)"
  unfolding reconnect_google_oauth_token_def by (intro preserve_intros lockout_write_token lockout_clear)

lemma lockout_delete_token: "epreserves (lockout sub e) (delete_google_oauth_token user account)"
  by (simp add: epreserves_def delete_google_oauth_token_def lockout_tokens)

lemma lockout_refresh: "epreserves (lockout sub e) (update_connected_google_oauth_token now user account token)"
  unfolding update_connected_google_oauth_token_def Let_def
  by (intro preserve_intros) (simp add: epreserves_def lockout_tokens)

lemma lockout_drop_user: "lockout sub e db \<Longrightarrow> lockout sub e (drop_user user db)"
  by (auto simp: lockout_def identity_ok_def revoked_since_def revocation_epoch_def drop_user_def delete_where_def
      distinct_map_filter list_all_iff)

lemma lockout_delete_user: "epreserves (lockout sub e) (delete_user_account_with_google_subject_tombstone now user)"
proof -
  have "lockout sub e (tombstone_user now u db)" if "lockout sub e db" for u and db :: "'a identity_db_scheme"
    using that unfolding tombstone_user_def by (rule lockout_revocation) (rule surjective_pairing)
  then show ?thesis
    by (auto simp: epreserves_def delete_user_account_with_google_subject_tombstone_def lockout_drop_user split: option.split)
qed

lemma lockout_start_oauth: "epreserves (lockout sub e) (save_oauth_login_session now state verifier redirect expires intent user)"
  by (force simp: epreserves_def save_oauth_login_session_def Let_def lockout_def identity_ok_def revoked_since_def
      revocation_epoch_def list_all_iff update_where_def)

lemma lockout_end_oauth: "epreserves (lockout sub e) (delete_oauth_login_session state)"
  by (auto simp: epreserves_def delete_oauth_login_session_def lockout_def identity_ok_def revoked_since_def
      revocation_epoch_def list_all_iff delete_where_def)

text \<open>Sessions, login codes and handoffs are apart from both.\<close>

lemma lockout_apart:
  "lockout sub e (db\<lparr>app_sessions := ss\<rparr>) = lockout sub e db"
  "lockout sub e (db\<lparr>mobile_login_codes := cs\<rparr>) = lockout sub e db"
  "lockout sub e (db\<lparr>mobile_login_codes := cs, mobile_oauth_handoffs := hs\<rparr>) = lockout sub e db"
  by (rule lockout_frame; simp)+

lemma locked_out_apart:
  "locked_out sub (db\<lparr>app_sessions := ss\<rparr>) = locked_out sub db"
  "locked_out sub (db\<lparr>mobile_login_codes := cs\<rparr>) = locked_out sub db"
  "locked_out sub (db\<lparr>mobile_login_codes := cs, mobile_oauth_handoffs := hs\<rparr>) = locked_out sub db"
  by (simp_all add: locked_out_def)

lemma session_ops_preserve:
  fixes P :: "'a identity_db_scheme \<Rightarrow> bool"
  assumes "\<And>db ss. P (db\<lparr>app_sessions := ss\<rparr>) = P db"
    and "\<And>db cs. P (db\<lparr>mobile_login_codes := cs\<rparr>) = P db"
    and "\<And>db cs hs. P (db\<lparr>mobile_login_codes := cs, mobile_oauth_handoffs := hs\<rparr>) = P db"
  shows "epreserves P (create_app_session now i user h platform expires)"
    and "epreserves P (revoke_app_session now h)"
    and "epreserves P (revoke_user_app_sessions now user)"
    and "epreserves P (create_mobile_login_code now h user expires)"
    and "epreserves P (consume_mobile_login_code now h)"
    and "epreserves P (consume_bound_mobile_login_code now handoff challenge h)"
proof -
  have revoke: "epreserves P (revoke_sessions now p)" for p
    by (simp add: epreserves_def revoke_sessions_def Let_def assms)
  show "epreserves P (revoke_app_session now h)"
    unfolding revoke_app_session_def by (intro preserve_intros revoke)
  show "epreserves P (revoke_user_app_sessions now user)"
    unfolding revoke_user_app_sessions_def by (rule revoke)
qed (simp_all add: epreserves_def create_app_session_def create_mobile_login_code_def consume_mobile_login_code_def
      consume_bound_mobile_login_code_def Let_def assms)

lemma account_update_preserves:
  assumes "\<And>s accounts. P s \<Longrightarrow> map acc_id accounts = map acc_id (gmail_accounts s) \<Longrightarrow>
      map acc_google_sub accounts = map acc_google_sub (gmail_accounts s) \<Longrightarrow> P (s\<lparr>gmail_accounts := accounts\<rparr>)"
  shows "epreserves P (mark_gmail_account_ready now user account)"
    and "epreserves P (mark_gmail_account_importing now user account)"
    and "epreserves P (mark_gmail_account_reauth_required now user account)"
proof -
  have update: "epreserves P (update_account missing user account p f)"
    if "\<And>a. acc_id (f a) = acc_id a" "\<And>a. acc_google_sub (f a) = acc_google_sub a" for missing p f
    using that by (auto simp: epreserves_def update_account_def Let_def update_where_def intro!: assms split: option.split)
  show "epreserves P (mark_gmail_account_ready now user account)"
    "epreserves P (mark_gmail_account_importing now user account)"
    "epreserves P (mark_gmail_account_reauth_required now user account)"
    unfolding mark_gmail_account_ready_def mark_gmail_account_importing_def mark_gmail_account_reauth_required_def
    by (rule update; simp)+
qed

lemma lockout_marks:
  "epreserves (lockout sub e) (mark_gmail_account_ready now user account)"
  "epreserves (lockout sub e) (mark_gmail_account_importing now user account)"
  "epreserves (lockout sub e) (mark_gmail_account_reauth_required now user account)"
  by (intro account_update_preserves lockout_accounts; simp add: lockout_def identity_ok_def)+

lemma perform_identity_lockout: "epreserves (lockout sub e) (perform_identity now op)"
proof (cases op)
  case (Revoke_subject h)
  have "lockout sub e (snd (record_google_subject_revocation now h db))" if "lockout sub e db" for db :: "'a identity_db_scheme"
    using that by (rule lockout_revocation) (rule surjective_pairing)
  with Revoke_subject show ?thesis by (simp add: epreserves_def)
qed (simp_all add: epreserves_drop epreserves_update lockout_guard_set lockout_upsert_user lockout_link lockout_upsert_token
    lockout_reconnect lockout_clear_epoch lockout_delete_token lockout_refresh lockout_delete_user lockout_start_oauth
    lockout_end_oauth session_ops_preserve lockout_apart lockout_marks)

text \<open>An operation of a stale flow, on a database where the identity is locked out.\<close>

definition shut :: "string \<Rightarrow> int \<Rightarrow> 'a identity_db_scheme \<Rightarrow> bool" where
  "shut sub e db \<longleftrightarrow> lockout sub e db \<and> locked_out sub db"

definition stale :: "int \<Rightarrow> int option \<Rightarrow> bool" where
  "stale e epoch \<longleftrightarrow> (case epoch of None \<Rightarrow> True | Some k \<Rightarrow> k \<le> e)"

lemma shutI: "lockout sub e db \<Longrightarrow> locked_out sub db \<Longrightarrow> shut sub e db"
  by (simp add: shut_def)

lemma shut_stale: "shut sub e db \<Longrightarrow> stale e epoch \<Longrightarrow> \<not> fresh_oauth db epoch sub"
  using stale_not_fresh [of sub e db epoch] by (simp add: shut_def lockout_def stale_def)

lemma shut_clear: "stale e epoch \<Longrightarrow> epreserves (shut sub e) (clear_guards now epoch user)"
  unfolding epreserves_def
proof (intro allI impI)
  fix db :: "'a identity_db_scheme" assume stale: "stale e epoch" and shut: "shut sub e db"
  from shut have "lockout sub e (snd (clear_guards now epoch user db))" by (simp add: shut_def epreservesD [OF lockout_clear])
  moreover from shut shut_stale [OF shut stale] have "locked_out sub (snd (clear_guards now epoch user db))"
    by (fastforce simp: shut_def clear_guards_def locked_out_def list_ex_iff update_where_def cleared_row_def split: if_splits)
  ultimately show "shut sub e (snd (clear_guards now epoch user db))" by (rule shutI)
qed

lemma shut_write_token: "stale e epoch \<Longrightarrow> epreserves (shut sub e) (write_token now epoch user account token)"
  unfolding epreserves_def
proof (intro allI impI)
  fix db :: "'a identity_db_scheme" assume stale: "stale e epoch" and shut: "shut sub e db"
  have "distinct (map acc_id (gmail_accounts db))" using shut by (simp add: shut_def lockout_def identity_ok_def)
  then have same: "a = b" if "a \<in> set (gmail_accounts db)" "b \<in> set (gmail_accounts db)" "acc_id a = acc_id b" for a b
    using that by (metis distinct_map inj_onD)
  have other: "acc_google_sub a \<noteq> sub"
    if "token_trigger epoch None user account db = None" "a \<in> set (gmail_accounts db)" "acc_id a = account" for a
    using that shut_stale [OF shut stale] same
    by (auto simp: token_trigger_def dest!: select_first_Some split: option.splits if_splits)
  from shut have "lockout sub e (snd (write_token now epoch user account token db))"
    by (simp add: shut_def epreservesD [OF lockout_write_token])
  moreover have "locked_out sub (snd (write_token now epoch user account token db))"
  proof (cases "token_trigger epoch None user account db")
    case None
    with other have "\<forall>a \<in> set (gmail_accounts db). acc_id a = account \<longrightarrow> acc_google_sub a \<noteq> sub" by blast
    with None shut show ?thesis by (auto simp: shut_def write_token_def locked_out_def Let_def update_where_def)
  qed (use shut in \<open>simp add: shut_def write_token_def\<close>)
  ultimately show "shut sub e (snd (write_token now epoch user account token db))" by (rule shutI)
qed

lemma locked_out_weaken:
  assumes "locked_out sub db"
    and "\<And>u. u \<in> set (users db') \<Longrightarrow> usr_google_sub u = sub \<Longrightarrow> google_guarded u \<or> (\<exists>v \<in> set (users db). usr_google_sub v = sub \<and> (google_guarded v \<longrightarrow> google_guarded u))"
    and "\<And>t. t \<in> set (google_oauth_tokens db') \<Longrightarrow> tok_gmail_account_id t \<in> tok_gmail_account_id ` set (google_oauth_tokens db)"
    and "\<And>a. a \<in> set (gmail_accounts db') \<Longrightarrow> acc_google_sub a = sub \<Longrightarrow> \<exists>b \<in> set (gmail_accounts db). acc_id b = acc_id a \<and> acc_google_sub b = sub"
  shows "locked_out sub db'"
  unfolding locked_out_def
proof (intro conjI ballI impI notI)
  fix u assume "u \<in> set (users db')" "usr_google_sub u = sub"
  with assms(1) assms(2) [OF this] show "google_guarded u" by (auto simp: locked_out_def)
next
  fix t a assume t: "t \<in> set (google_oauth_tokens db')" and a: "a \<in> set (gmail_accounts db')"
    and same: "acc_id a = tok_gmail_account_id t" "acc_google_sub a = sub"
  from assms(3) [OF t] obtain t' where "t' \<in> set (google_oauth_tokens db)" "tok_gmail_account_id t = tok_gmail_account_id t'" ..
  moreover from assms(4) [OF a same(2)] obtain b where "b \<in> set (gmail_accounts db)" "acc_id b = acc_id a" "acc_google_sub b = sub" by blast
  ultimately show False using assms(1) same by (simp add: locked_out_def)
qed

lemma shut_guard_set:
  assumes "shut sub e db" and "\<And>u. usr_google_sub (f u) = usr_google_sub u" and "\<And>u. google_guarded u \<longrightarrow> google_guarded (f u)"
  shows "shut sub e (set_google_guard now user f db)"
proof (rule shutI)
  show "lockout sub e (set_google_guard now user f db)" using assms(1) by (simp add: shut_def lockout_guard_set)
  have frame: "users (tombstone_user now u d) = users d" "google_oauth_tokens (tombstone_user now u d) = google_oauth_tokens d"
    "gmail_accounts (tombstone_user now u d) = gmail_accounts d" for u and d :: "'a identity_db_scheme"
    by (simp_all add: tombstone_user_def record_google_subject_revocation_def Let_def)
  have "locked_out sub (db\<lparr>users := update_where (\<lambda>u. usr_id u = user) f (users db)\<rparr>)"
    using assms by (auto simp: shut_def locked_out_def update_where_def)
  then show "locked_out sub (set_google_guard now user f db)"
    by (simp add: set_google_guard_def guard_set_trigger_def Let_def locked_out_def frame split: option.split)
qed

lemma shut_insert_user:
  assumes "stale e epoch" shows "epreserves (shut sub e) (insert_user epoch new is_new)"
  unfolding epreserves_def
proof (intro allI impI)
  fix db :: "'a identity_db_scheme" assume shut: "shut sub e db"
  define row where "row = (case select_first (\<lambda>u. usr_id u = usr_id new) (users db) of None \<Rightarrow> new | Some u \<Rightarrow> user_updated_row new u)"
  have row: "usr_google_sub row = usr_google_sub new"
    by (auto simp: row_def split: option.split)
  show "shut sub e (snd (insert_user epoch new is_new db))"
  proof (rule shutI)
    show "lockout sub e (snd (insert_user epoch new is_new db))"
      using shut by (simp add: shut_def epreservesD [OF lockout_insert_user])
    show "locked_out sub (snd (insert_user epoch new is_new db))"
    proof (cases "usr_google_sub new = sub")
      case True
      with shut_stale [OF shut assms] shut show ?thesis by (simp add: insert_user_def Let_def shut_def)
    next
      case False
      from shut have "locked_out sub db" by (simp add: shut_def)
      then show ?thesis
        by (rule locked_out_weaken)
          (use False in \<open>auto simp: insert_user_def Let_def row_def [symmetric] row update_where_def primary_account_row_def split: if_splits\<close>)
    qed
  qed
qed

lemma shut_upsert_user: "stale e epoch \<Longrightarrow> epreserves (shut sub e) (upsert_user now i email google_sub name enabled epoch)"
  unfolding upsert_user_def Let_def
  by (rule epreserves_transaction) (auto simp: epreserves_def intro: epreservesD [OF shut_insert_user])

text \<open>An account of the identity may be attached, but the transaction then fails to write its credential.\<close>

lemma shut_attach_other:
  assumes "google_sub \<noteq> sub" shows "epreserves (shut sub e) (attach_account now i user email google_sub name n)"
  unfolding epreserves_def
proof (intro allI impI shutI)
  fix db :: "'a identity_db_scheme" assume shut: "shut sub e db"
  then show "lockout sub e (snd (attach_account now i user email google_sub name n db))"
    by (simp add: shut_def epreservesD [OF lockout_attach])
  from shut have "locked_out sub db" by (simp add: shut_def)
  then show "locked_out sub (snd (attach_account now i user email google_sub name n db))"
    by (rule locked_out_weaken)
      (use assms in \<open>auto simp: attach_account_def update_where_def relinked_row_def linked_row_def split: option.splits if_splits\<close>)
qed

lemma attached_account:
  assumes "attach_account now i user email google_sub name n db = (Inr account, db')"
  shows "\<exists>a \<in> set (gmail_accounts db'). acc_id a = account \<and> acc_google_sub a = google_sub"
proof (cases "select_first (\<lambda>a. acc_google_sub a = google_sub) (gmail_accounts db)")
  case None
  with assms show ?thesis by (auto simp: attach_account_def linked_row_def split: if_splits)
next
  case (Some b)
  from select_first_Some [OF Some] have b: "b \<in> set (gmail_accounts db)" "acc_google_sub b = google_sub" by auto
  from Some assms have "acc_user_id b = user" "account = acc_id b" and accounts: "gmail_accounts db' =
      update_where (\<lambda>a. acc_id a = acc_id b \<and> acc_user_id a = user) (relinked_row now email name) (gmail_accounts db)"
    by (auto simp: attach_account_def split: if_splits)
  with b have "relinked_row now email name b \<in> set (gmail_accounts db')" by (force simp: update_where_def)
  then show ?thesis using b \<open>account = acc_id b\<close> by (intro bexI [of _ "relinked_row now email name b"]) (auto simp: relinked_row_def)
qed

lemma stale_write_fails:
  assumes "lockout sub e db" and "stale e epoch" and "a \<in> set (gmail_accounts db)" "acc_id a = account" "acc_google_sub a = sub"
  shows "\<exists>x. write_token now epoch user account token db = (Inl x, db)"
proof -
  have "distinct (map acc_id (gmail_accounts db))" using assms(1) by (simp add: lockout_def identity_ok_def)
  then have "acc_google_sub b = sub" if "b \<in> set (gmail_accounts db)" "acc_id b = account" for b
    using that assms by (metis distinct_map inj_onD)
  moreover have "\<not> fresh_oauth db epoch sub" using assms(1,2) stale_not_fresh [of sub e db epoch] by (simp add: lockout_def stale_def)
  ultimately have "token_trigger epoch None user account db \<noteq> None"
    by (auto simp: token_trigger_def dest!: select_first_Some split: option.splits)
  then show ?thesis by (auto simp: write_token_def)
qed

lemma shut_link:
  assumes "k \<le> e" shows "epreserves (shut sub e) (link_gmail_account now i user email google_sub name token k n)"
proof (cases "strip google_sub = sub")
  case False
  have "stale e (Some k)" using assms by (simp add: stale_def)
  with False show ?thesis
    unfolding link_gmail_account_def Let_def by (intro preserve_intros shut_attach_other shut_write_token)
next
  case True
  show ?thesis unfolding epreserves_def
  proof (intro allI impI)
    fix db :: "'a identity_db_scheme" assume shut: "shut sub e db"
    have fails: "\<exists>x. write_token now (Some k) user account token db' = (Inl x, db')"
      if "attach_account now i user (lower (strip email)) sub name n db = (Inr account, db')" for account db'
    proof -
      from that shut have "lockout sub e db'" by (metis epreserves_outcome lockout_attach shut_def)
      with attached_account [OF that] assms stale_write_fails [where epoch = "Some k"] show ?thesis
        by (metis option.simps(5) stale_def)
    qed
    have "snd (link_gmail_account now i user email google_sub name token k n db) = db"
    proof (cases "attach_account now i user (lower (strip email)) sub name n db")
      case (Pair r db')
      then show ?thesis using fails True
        by (cases r) (force simp: link_gmail_account_def Let_def etransaction_apply ebind_apply split: option.splits)+
    qed
    with shut show "shut sub e (snd (link_gmail_account now i user email google_sub name token k n db))" by simp
  qed
qed

lemma shut_accounts:
  assumes "shut sub e db" "map acc_id accounts = map acc_id (gmail_accounts db)"
    and "map acc_google_sub accounts = map acc_google_sub (gmail_accounts db)"
  shows "shut sub e (db\<lparr>gmail_accounts := accounts\<rparr>)"
proof (rule shutI)
  from assms have "distinct (map acc_id accounts)" by (simp add: shut_def lockout_def identity_ok_def)
  with assms show "lockout sub e (db\<lparr>gmail_accounts := accounts\<rparr>)" by (simp add: shut_def lockout_accounts)
  from assms(2,3) have "\<forall>a \<in> set accounts. \<exists>b \<in> set (gmail_accounts db). acc_id b = acc_id a \<and> acc_google_sub b = acc_google_sub a"
    by (metis in_set_conv_nth length_map nth_map)
  moreover from assms have "locked_out sub db" by (simp add: shut_def)
  ultimately show "locked_out sub (db\<lparr>gmail_accounts := accounts\<rparr>)" by (auto simp: locked_out_def)
qed

lemma shut_marks:
  "epreserves (shut sub e) (mark_gmail_account_ready now user account)"
  "epreserves (shut sub e) (mark_gmail_account_importing now user account)"
  "epreserves (shut sub e) (mark_gmail_account_reauth_required now user account)"
  by (intro account_update_preserves shut_accounts; assumption)+

lemma shut_lockoutI:
  assumes "epreserves (lockout sub e) m" and "\<And>db. locked_out sub db \<Longrightarrow> locked_out sub (snd (m db))"
  shows "epreserves (shut sub e) m"
  using assms by (simp add: epreserves_def shut_def)

lemma locked_out_delete_token: "locked_out sub db \<Longrightarrow> locked_out sub (snd (delete_google_oauth_token user account db))"
  by (auto simp: locked_out_def delete_google_oauth_token_def delete_where_def)

lemma locked_out_revocation: "locked_out sub db \<Longrightarrow> locked_out sub (snd (record_google_subject_revocation now h db))"
  by (auto simp: locked_out_def record_google_subject_revocation_def Let_def)

lemma locked_out_delete_user:
  "locked_out sub db \<Longrightarrow> locked_out sub (snd (delete_user_account_with_google_subject_tombstone now user db))"
  by (auto simp: locked_out_def delete_user_account_with_google_subject_tombstone_def drop_user_def tombstone_user_def
      record_google_subject_revocation_def Let_def delete_where_def split: option.split)

lemma locked_out_oauth:
  "locked_out sub db \<Longrightarrow> locked_out sub (snd (save_oauth_login_session now state verifier redirect expires intent user db))"
  "locked_out sub db \<Longrightarrow> locked_out sub (snd (delete_oauth_login_session state db))"
  by (auto simp: locked_out_def save_oauth_login_session_def delete_oauth_login_session_def Let_def)

lemma shut_refresh: "epreserves (shut sub e) (update_connected_google_oauth_token now user account token)"
  unfolding update_connected_google_oauth_token_def Let_def
  by (intro preserve_intros)
    (auto simp: epreserves_def shut_def lockout_tokens update_where_def elim!: locked_out_weaken)

lemma shut_apart:
  "shut sub e (db\<lparr>app_sessions := ss\<rparr>) = shut sub e db"
  "shut sub e (db\<lparr>mobile_login_codes := cs\<rparr>) = shut sub e db"
  "shut sub e (db\<lparr>mobile_login_codes := cs, mobile_oauth_handoffs := hs\<rparr>) = shut sub e db"
  by (simp_all add: shut_def lockout_apart locked_out_apart)

lemma perform_identity_shut: "stale e (op_epoch op) \<Longrightarrow> epreserves (shut sub e) (perform_identity now op)"
proof (cases op)
  case (Disconnect user)
  then show ?thesis by (auto simp: google_guarded_def intro!: epreserves_update shut_guard_set)
next
  case (Request_deletion user)
  then show ?thesis by (auto simp: google_guarded_def coalesce_def intro!: epreserves_update shut_guard_set split: option.split)
next
  case (Delete_token user account)
  then show ?thesis by (auto intro: shut_lockoutI lockout_delete_token locked_out_delete_token)
next
  case (Revoke_subject h)
  then show ?thesis using perform_identity_lockout [of sub e now op]
    by (auto intro!: shut_lockoutI locked_out_revocation)
next
  case (Delete_user user)
  then show ?thesis by (auto intro!: epreserves_drop shut_lockoutI lockout_delete_user locked_out_delete_user)
next
  case (Start_oauth state verifier redirect expires intent user)
  then show ?thesis by (auto intro!: epreserves_drop shut_lockoutI lockout_start_oauth locked_out_oauth)
next
  case (End_oauth state)
  then show ?thesis by (auto intro!: shut_lockoutI lockout_end_oauth locked_out_oauth)
next
  case (Store_token user token epoch account)
  assume "stale e (op_epoch op)"
  with Store_token show ?thesis
    by (auto simp: upsert_google_oauth_token_def intro!: preserve_intros shut_write_token)
next
  case (Reconnect user token epoch account)
  assume "stale e (op_epoch op)"
  with Reconnect show ?thesis
    by (auto simp: reconnect_google_oauth_token_def intro!: preserve_intros shut_write_token shut_clear)
next
  case (Clear_guards user epoch)
  assume "stale e (op_epoch op)"
  with Clear_guards show ?thesis
    by (auto simp: clear_google_guard_state_def intro!: preserve_intros shut_clear)
next
  case (Link_account i user email google_sub name token epoch n)
  assume "stale e (op_epoch op)"
  with Link_account show ?thesis by (auto simp: stale_def intro!: epreserves_drop shut_link)
qed (simp_all add: epreserves_drop shut_upsert_user shut_refresh shut_marks session_ops_preserve shut_apart)

text \<open>C31: once a Google identity is revoked and locked out, OAuth flows that were started before
  the revocation never bring it back, whatever else happens to the identity tables.
\<close>

theorem revoked_grants_stay_revoked:
  assumes "identity_ok db"
    and "record_google_subject_revocation now (subject_key sub) db = (Inr epoch, db0)"
    and "locked_out sub (run_identity ops db0)"
    and "list_all (\<lambda>(_, op). case op_epoch op of None \<Rightarrow> True
           | Some e \<Rightarrow> e \<in> ol_started_epoch ` set (oauth_login_sessions db)) later"
  shows "locked_out sub (run_identity (ops @ later) db0)"
proof -
  have "revoked_since sub (identity_epoch db) db0" and ok: "identity_ok db0"
    using revocation_recorded [OF assms(2)] identity_ok_revocation [OF assms(1,2)] by (simp_all add: revoked_since_def)
  then have "lockout sub (identity_epoch db) db0"
    using revocation_recorded [OF assms(2)] by (simp add: lockout_def)
  then have "lockout sub (identity_epoch db) (run_identity ops db0)"
    by (rule run_identity_preserves) (rule perform_identity_lockout)
  with assms(3) have shut: "shut sub (identity_epoch db) (run_identity ops db0)" by (simp add: shut_def)
  have "stale (identity_epoch db) (op_epoch op)" if "(t, op) \<in> set later" for t op
    using that assms(1,4) by (fastforce simp: stale_def identity_ok_def list_all_iff split: option.splits)
  then have "shut sub (identity_epoch db) (run_identity later (run_identity ops db0))"
    using run_identity_preserves [where P = "shut sub (identity_epoch db)", OF shut] perform_identity_shut by blast
  then show ?thesis by (simp add: shut_def)
qed

section \<open>Spent codes and revoked sessions\<close>

fun makes_code :: "string \<Rightarrow> identity_op \<Rightarrow> bool" where
  "makes_code h (Make_code k _ _) \<longleftrightarrow> k = h"
| "makes_code h _ \<longleftrightarrow> False"

definition code_spent :: "string \<Rightarrow> 'a identity_db_scheme \<Rightarrow> bool" where
  "code_spent h db \<longleftrightarrow> (\<forall>c \<in> set (mobile_login_codes db). lc_code_hash c = h \<longrightarrow> lc_consumed_at c \<noteq> None)"

lemma spent_not_redeemed:
  assumes "code_spent h db"
  shows "fst (consume_mobile_login_code now h db) = Inr None"
    and "fst (consume_bound_mobile_login_code now handoff challenge h db) = Inr None"
proof -
  have "filter (code_usable now h) (mobile_login_codes db) = []"
    using assms by (auto simp: code_spent_def code_usable_def filter_empty_conv)
  then have "row_first (returning (code_usable now h) (consume_code now) (mobile_login_codes db)) = None"
    by (simp add: returning_def)
  then show "fst (consume_mobile_login_code now h db) = Inr None"
    "fst (consume_bound_mobile_login_code now handoff challenge h db) = Inr None"
    by (simp_all add: consume_mobile_login_code_def consume_bound_mobile_login_code_def)
qed

lemma redeemed_spent:
  assumes "distinct (map lc_code_hash (mobile_login_codes db))"
    and "consume_mobile_login_code now h db = (Inr (Some c), db')
       \<or> consume_bound_mobile_login_code now handoff challenge h db = (Inr (Some c), db')"
  shows "code_spent h db'"
proof -
  let ?codes = "mobile_login_codes db"
  from assms(2) have codes: "mobile_login_codes db' = update_where (code_usable now h) (consume_code now) ?codes"
    and "row_first (returning (code_usable now h) (consume_code now) ?codes) = Some c"
    by (auto simp: consume_mobile_login_code_def consume_bound_mobile_login_code_def Let_def split: if_splits)
  then obtain d where d: "d \<in> set ?codes" "code_usable now h d"
    by (auto simp: table_simps dest!: select_first_Some)
  have "code_usable now h x" if "x \<in> set ?codes" "lc_code_hash x = h" for x
  proof -
    from d(2) have "lc_code_hash d = h" by (simp add: code_usable_def)
    with that d(1) assms(1) have "x = d" by (metis distinct_map inj_onD)
    with d show ?thesis by simp
  qed
  then show ?thesis by (auto simp: code_spent_def codes update_where_def consume_code_def)
qed

text \<open>Operations whose code table is a part of the old one, updated by consumption only.\<close>

lemma code_spentI:
  assumes "code_spent h db"
    and "\<And>c. c \<in> set (mobile_login_codes db') \<Longrightarrow> lc_code_hash c = h \<Longrightarrow> lc_consumed_at c \<noteq> None \<or> c \<in> set (mobile_login_codes db)"
  shows "code_spent h db'"
  using assms by (fastforce simp: code_spent_def)

lemma code_spent_frame: "mobile_login_codes db' = mobile_login_codes db \<Longrightarrow> code_spent h db \<Longrightarrow> code_spent h db'"
  by (simp add: code_spent_def)

lemma code_spent_apart [simp]:
  "code_spent h (db\<lparr>users := us\<rparr>) = code_spent h db"
  "code_spent h (db\<lparr>google_oauth_tokens := ts\<rparr>) = code_spent h db"
  "code_spent h (db\<lparr>gmail_accounts := accounts\<rparr>) = code_spent h db"
  "code_spent h (db\<lparr>app_sessions := ss\<rparr>) = code_spent h db"
  "code_spent h (db\<lparr>oauth_login_sessions := os\<rparr>) = code_spent h db"
  "code_spent h (db\<lparr>identity_epoch := e\<rparr>) = code_spent h db"
  "code_spent h (db\<lparr>google_subject_tombstones := stones\<rparr>) = code_spent h db"
  "code_spent h (db\<lparr>mobile_oauth_handoffs := hs\<rparr>) = code_spent h db"
  "code_spent h (db\<lparr>migration_audits := audits\<rparr>) = code_spent h db"
  by (simp_all add: code_spent_def)

lemma code_spent_tombstone [simp]: "code_spent h (tombstone_user now u db) = code_spent h db"
  "code_spent h (snd (record_google_subject_revocation now k db)) = code_spent h db"
  by (simp_all add: code_spent_def tombstone_user_def record_google_subject_revocation_def Let_def)

lemma code_spent_identity:
  "epreserves (code_spent h) (clear_guards now epoch user)"
  "epreserves (code_spent h) (write_token now epoch user account token)"
  "epreserves (code_spent h) (insert_user epoch new is_new)"
  "epreserves (code_spent h) (attach_account now i user email google_sub name n)"
  "epreserves (code_spent h) (revoke_sessions now p)"
  "epreserves (code_spent h) (create_app_session now i user k platform expires)"
  "epreserves (code_spent h) (save_oauth_login_session now state verifier redirect expires intent initiating)"
  "epreserves (code_spent h) (delete_oauth_login_session state)"
  "epreserves (code_spent h) (delete_google_oauth_token user acc)"
  by (auto simp: epreserves_def clear_guards_def write_token_def insert_user_def attach_account_def revoke_sessions_def
      create_app_session_def save_oauth_login_session_def delete_oauth_login_session_def delete_google_oauth_token_def Let_def
      split: option.split)

lemma code_spent_delete_user: "epreserves (code_spent h) (delete_user_account_with_google_subject_tombstone now user)"
proof -
  have "code_spent h (drop_user user db)" if "code_spent h db" for db :: "'a identity_db_scheme"
    using that by (auto simp: code_spent_def drop_user_def delete_where_def)
  then show ?thesis by (auto simp: epreserves_def delete_user_account_with_google_subject_tombstone_def split: option.split)
qed

lemma code_spent_codes:
  "k \<noteq> h \<Longrightarrow> epreserves (code_spent h) (create_mobile_login_code now k user expires)"
  "epreserves (code_spent h) (consume_mobile_login_code now k)"
  "epreserves (code_spent h) (consume_bound_mobile_login_code now handoff challenge k)"
  by (auto simp: epreserves_def create_mobile_login_code_def consume_mobile_login_code_def consume_bound_mobile_login_code_def
      consume_code_def update_where_def Let_def code_spent_def)

lemma code_spent_guard_set: "code_spent h db \<Longrightarrow> code_spent h (set_google_guard now user f db)"
  by (simp add: set_google_guard_def guard_set_trigger_def Let_def split: option.split)

lemma code_spent_marks:
  "epreserves (code_spent h) (mark_gmail_account_ready now user account)"
  "epreserves (code_spent h) (mark_gmail_account_importing now user account)"
  "epreserves (code_spent h) (mark_gmail_account_reauth_required now user account)"
  by (intro account_update_preserves; simp)+

lemma code_spent_refresh: "epreserves (code_spent h) (update_connected_google_oauth_token now user account token)"
  unfolding update_connected_google_oauth_token_def Let_def by (intro preserve_intros) (simp add: epreserves_def)

lemma code_spent_revocation: "epreserves (code_spent h) (record_google_subject_revocation now k)"
  by (simp add: epreserves_def)

lemma code_spent_upsert_user: "epreserves (code_spent h) (upsert_user now i email google_sub name enabled epoch)"
  unfolding upsert_user_def Let_def
  by (rule epreserves_transaction) (auto simp: epreserves_def intro: epreservesD [OF code_spent_identity(3)])

lemma perform_identity_code_spent: "\<not> makes_code h op \<Longrightarrow> epreserves (code_spent h) (perform_identity now op)"
  by (cases op) (auto simp: link_gmail_account_def upsert_google_oauth_token_def reconnect_google_oauth_token_def
      clear_google_guard_state_def revoke_app_session_def revoke_user_app_sessions_def Let_def
      intro!: preserve_intros code_spent_identity code_spent_delete_user code_spent_codes code_spent_guard_set code_spent_marks
        code_spent_refresh code_spent_upsert_user code_spent_revocation)

text \<open>C32: a mobile login code opens at most one session: once it was redeemed, with or without a
  handoff, neither way of redeeming returns it again, after any operations of the identity
  tables that do not issue the same code once more.
\<close>

theorem login_codes_are_single_use:
  assumes "distinct (map lc_code_hash (mobile_login_codes db))"
    and "consume_mobile_login_code now h db = (Inr (Some c), db')
       \<or> consume_bound_mobile_login_code now handoff challenge h db = (Inr (Some c), db')"
    and "list_all (\<lambda>(_, op). \<not> makes_code h op) ops"
  shows "fst (consume_mobile_login_code later h (run_identity ops db')) = Inr None
    \<and> fst (consume_bound_mobile_login_code later handoff' challenge' h (run_identity ops db')) = Inr None"
proof -
  have "code_spent h (run_identity ops db')"
    by (rule run_identity_preserves [where P = "code_spent h", OF redeemed_spent [OF assms(1,2)]])
      (use assms(3) in \<open>auto simp: list_all_iff intro: perform_identity_code_spent\<close>)
  then show ?thesis by (simp add: spent_not_redeemed)
qed

section \<open>A concrete history\<close>

text \<open>
  A signed-in user with a linked account, a login code, and two OAuth flows on their way. The
  user disconnects; the flows then try every way back in.
\<close>

definition sample_user :: user_row where
  "sample_user = user_upsert_row 10 ''u'' ''a@b.c'' None ''g'' True 5"

definition sample_identity_db :: identity_db where
  "sample_identity_db =
     \<lparr>users = [sample_user], google_oauth_tokens = [\<lparr>tok_user_id = ''u'', tok_gmail_account_id = ''u'',
        token_json_encrypted = ''t'', tok_updated_at = 10\<rparr>],
      gmail_accounts = [primary_account_row sample_user False], advisory_locks = [], next_session = 0,
      active_lock_session = None, active_gmail_account = None, app_sessions = [],
      oauth_login_sessions = [
        \<lparr>ol_state = ''s1'', ol_code_verifier = ''v'', ol_redirect_to = None, ol_expires_at = 99, ol_created_at = 1,
          ol_started_epoch = 1, ol_intent = ''login'', ol_initiating_user_id = None\<rparr>,
        \<lparr>ol_state = ''s2'', ol_code_verifier = ''v'', ol_redirect_to = None, ol_expires_at = 99, ol_created_at = 2,
          ol_started_epoch = 2, ol_intent = ''reauthorize'', ol_initiating_user_id = Some ''u''\<rparr>],
      mobile_login_codes = [\<lparr>lc_code_hash = ''h'', lc_user_id = ''u'', lc_expires_at = 99, lc_consumed_at = None, lc_created_at = 3\<rparr>],
      mobile_oauth_handoffs = [], google_subject_tombstones = [], identity_epoch = 2, rate_limit_buckets = [],
      allowed_emails = [], migration_audits = [(''u'', ''u'')]\<rparr>"

lemmas sample_identity_simps = sample_identity_db_def sample_user_def user_upsert_row_def primary_account_row_def

lemma revoked_grants_stay_revoked_witness:
  "locked_out ''g'' (run_identity
     ([(20, Disconnect ''u''), (20, Delete_token ''u'' None)] @
      [(21, Clear_guards ''u'' 2), (21, Reconnect ''u'' ''t'' 2 None), (22, Sign_in ''x'' ''a@b.c'' ''g'' None True (Some 1)),
       (23, Link_account ''y'' ''u'' ''a@b.c'' ''g'' None ''t'' 2 5), (24, Store_token ''u'' ''t'' (Some 1) None)])
     (snd (record_google_subject_revocation 15 (subject_key ''g'') sample_identity_db)))"
proof (rule revoked_grants_stay_revoked)
  show "record_google_subject_revocation 15 (subject_key ''g'') sample_identity_db
      = (Inr 3, snd (record_google_subject_revocation 15 (subject_key ''g'') sample_identity_db))"
    by (simp add: record_google_subject_revocation_def Let_def sample_identity_simps)
  show "locked_out ''g'' (run_identity [(20, Disconnect ''u''), (20, Delete_token ''u'' None)]
      (snd (record_google_subject_revocation 15 (subject_key ''g'') sample_identity_db)))"
    by (simp add: record_google_subject_revocation_def set_google_guard_def guard_set_trigger_def find_user_def tombstone_user_def
        delete_google_oauth_token_def own_token_def primary_account_def delete_where_def locked_out_def google_guarded_def
        Let_def sample_identity_simps)
qed (simp_all add: identity_ok_def sample_identity_simps)

lemma login_codes_are_single_use_witness:
  "fst (consume_mobile_login_code 30 ''h'' (run_identity [(21, Redeem_code ''h''), (22, Make_code ''k'' ''u'' 99)]
     (snd (consume_mobile_login_code 20 ''h'' sample_identity_db)))) = Inr None
   \<and> fst (consume_bound_mobile_login_code 30 ''o'' ''c'' ''h'' (run_identity [(21, Redeem_code ''h''), (22, Make_code ''k'' ''u'' 99)]
     (snd (consume_mobile_login_code 20 ''h'' sample_identity_db)))) = Inr None"
proof (rule login_codes_are_single_use)
  show "consume_mobile_login_code 20 ''h'' sample_identity_db
        = (Inr (Some \<lparr>lc_code_hash = ''h'', lc_user_id = ''u'', lc_expires_at = 99, lc_consumed_at = Some 20, lc_created_at = 3\<rparr>),
           snd (consume_mobile_login_code 20 ''h'' sample_identity_db))
      \<or> consume_bound_mobile_login_code 20 ''o'' ''c'' ''h'' sample_identity_db
        = (Inr (Some \<lparr>lc_code_hash = ''h'', lc_user_id = ''u'', lc_expires_at = 99, lc_consumed_at = Some 20, lc_created_at = 3\<rparr>),
           snd (consume_mobile_login_code 20 ''h'' sample_identity_db))"
    by (simp add: consume_mobile_login_code_def code_usable_def consume_code_def sample_identity_simps table_simps)
qed (simp_all add: sample_identity_simps)

end
