(* ===== verification/Rate_Limit.thy ===== *)
theory Rate_Limit
  imports Complex_Main Identity_Store
begin

text \<open>
  \<open>backend/app/core/rate_limit.py\<close>: the limit on the routes that create sessions, OAuth rows
  and mailbox writes. A request belongs to a rule and to an identity; a rule counts its
  requests in this process, or in the shared buckets of the database.

  The process clock is a real number that never goes back (the rounding of floats is left
  out); requests are counted one at a time, as the lock has it. Bytes are characters below
  256. The cookie parser of the standard library is an argument: it yields the value of
  \<open>dp_session\<close>, the empty string if there is none or if the header cannot be parsed.
\<close>

section \<open>Rules\<close>

fun contains :: "string \<Rightarrow> string \<Rightarrow> bool" where
  "contains part [] = (part = [])"
| "contains part (c # s) = (startswith (c # s) part \<or> contains part s)"

definition persistent_rules :: "string list" where
  "persistent_rules = [''oauth'', ''mobile-exchange'', ''mobile-handoff'', ''gmail-pubsub-verification'', ''mailbox-sync'',
     ''mailbox-write'']"

definition is_mailbox_write :: "string \<Rightarrow> string \<Rightarrow> bool" where
  "is_mailbox_write meth path \<longleftrightarrow>
     meth \<in> {''POST'', ''PUT'', ''PATCH'', ''DELETE''}
     \<and> (path = ''/v1/mailbox/compose'' \<or> path = ''/v1/mailbox/thread-actions'' \<or> path = ''/v1/mailbox/entity-actions''
        \<or> path = ''/v1/matter-decisions'' \<or> startswith path ''/v1/ai-organization/''
        \<or> contains ''/reply'' path \<or> contains ''/draft'' path)"

definition rule_for :: "string \<Rightarrow> string \<Rightarrow> (string \<times> int \<times> int) option" where
  "rule_for meth path =
     (if path \<in> {''/auth/google'', ''/auth/google/callback''} then Some (''oauth'', 20, 60)
      else if path = ''/v1/auth/mobile/exchange'' then Some (''mobile-exchange'', 20, 60)
      else if startswith path ''/v1/auth/mobile/handoff/'' \<or> path = ''/auth/mobile/complete'' then Some (''mobile-handoff'', 180, 60)
      else if meth = ''POST'' \<and> path = ''/v1/mailbox/pubsub'' then Some (''gmail-pubsub-verification'', 60, 60)
      else if meth = ''POST'' \<and> path \<in> {''/v1/mailbox/sync'', ''/v1/mailbox/sync-now''} then Some (''mailbox-sync'', 12, 60)
      else if is_mailbox_write meth path then Some (''mailbox-write'', 90, 60)
      else if meth = ''GET'' \<and> contains ''/attachments/'' path then Some (''attachment-download'', 120, 60)
      else if meth = ''GET'' \<and> path = ''/v1/mailbox/search'' then Some (''mailbox-search'', 120, 60)
      else if meth = ''GET'' \<and> path = ''/v1/ai-inbox/search'' then Some (''mailbox-search'', 120, 60)
      else if meth = ''GET'' \<and> path = ''/v1/events/mailbox'' then Some (''mailbox-sse'', 12, 60)
      else None)"

section \<open>Request identity\<close>

record proxy_settings =
  trust_proxy_headers :: bool
  trusted_proxy_hops :: int
  behind_cloudflare :: bool

record request_scope =
  rq_headers :: "(string \<times> string) list"
  rq_client :: "string option"

text \<open>\<open>bytes.strip\<close>, \<open>decode("ascii", errors="ignore")\<close>, \<open>split(",")\<close> and \<open>partition(b" ")\<close>\<close>

definition bytes_strip :: "string \<Rightarrow> string" where
  "bytes_strip s =
     (let blank = (\<lambda>c. let n = of_char c :: nat in (9 \<le> n \<and> n \<le> 13) \<or> n = 32)
      in rev (dropWhile blank (rev (dropWhile blank s))))"

definition decode_ascii :: "string \<Rightarrow> string" where
  "decode_ascii s = filter (\<lambda>c. (of_char c :: nat) < 128) s"

fun split_on :: "char \<Rightarrow> string \<Rightarrow> string list" where
  "split_on d [] = [[]]"
| "split_on d (c # s) = (if c = d then [] # split_on d s
     else case split_on d s of [] \<Rightarrow> [[c]] | part # parts \<Rightarrow> (c # part) # parts)"

definition partition_space :: "string \<Rightarrow> string \<times> string" where
  "partition_space s = (takeWhile (\<lambda>c. c \<noteq> CHR '' '') s, drop 1 (dropWhile (\<lambda>c. c \<noteq> CHR '' '') s))"

text \<open>A later header of the same name replaces an earlier one; a missing header is empty.\<close>

definition header_value :: "request_scope \<Rightarrow> string \<Rightarrow> string" where
  "header_value rq name =
     (case map_of (rev (map (\<lambda>(k, v). (lower k, v)) (rq_headers rq))) name of None \<Rightarrow> [] | Some v \<Rightarrow> v)"

definition bearer_credential :: "string \<Rightarrow> string" where
  "bearer_credential authorization =
     (case partition_space authorization of (auth_scheme, token) \<Rightarrow>
        if lower auth_scheme \<noteq> ''bearer'' \<or> token = [] then [] else bytes_strip token)"

definition session_cookie_value :: "(string \<Rightarrow> string) \<Rightarrow> string \<Rightarrow> string" where
  "session_cookie_value cookie_parser raw = (if raw = [] then [] else cookie_parser raw)"

definition client_address :: "proxy_settings \<Rightarrow> request_scope \<Rightarrow> string" where
  "client_address px rq =
     (let cloudflare = strip (hd (split_on (CHR '','') (decode_ascii (header_value rq ''cf-connecting-ip''))));
          parts = filter (\<lambda>p. p \<noteq> []) (map strip (split_on (CHR '','') (decode_ascii (header_value rq ''x-forwarded-for''))));
          index = nat (max 0 (int (length parts) - trusted_proxy_hops px))
      in if trust_proxy_headers px \<and> behind_cloudflare px \<and> cloudflare \<noteq> [] then cloudflare
         else if trust_proxy_headers px \<and> 0 < trusted_proxy_hops px \<and> parts \<noteq> [] then parts ! index
         else case rq_client rq of None \<Rightarrow> ''unknown'' | Some host \<Rightarrow> host)"

definition request_identity :: "(string \<Rightarrow> string) \<Rightarrow> bool \<Rightarrow> proxy_settings \<Rightarrow> request_scope \<Rightarrow> string" where
  "request_identity cookie_parser use_credentials px rq =
     (let cookie = session_cookie_value cookie_parser (header_value rq ''cookie'');
          credential = (if cookie \<noteq> [] then cookie else bearer_credential (header_value rq ''authorization''))
      in if use_credentials \<and> credential \<noteq> [] then ''credential:'' @ sha256_hex credential
         else ''network:'' @ sha256_hex (client_address px rq))"

text \<open>The routes without authentication are counted by network address only.\<close>

definition public_rules :: "string list" where
  "public_rules = [''oauth'', ''mobile-exchange'', ''mobile-handoff'', ''gmail-pubsub-verification'']"

section \<open>The limiter of a process\<close>

type_synonym limit_key = "string \<times> string"

record limiter =
  lim_events :: "limit_key \<Rightarrow> real list option"
  lim_last_cleanup :: real


definition stale_events :: "real \<Rightarrow> real list \<Rightarrow> bool" where
  "stale_events cutoff es \<longleftrightarrow> es = [] \<or> last es \<le> cutoff"

definition limiter_cleanup :: "real \<Rightarrow> limiter \<Rightarrow> limiter" where
  "limiter_cleanup cutoff lm =
     lm\<lparr>lim_events := (\<lambda>key. case lim_events lm key of None \<Rightarrow> None
        | Some es \<Rightarrow> if stale_events cutoff es then None else Some es)\<rparr>"

definition limiter_events :: "limiter \<Rightarrow> limit_key \<Rightarrow> real list" where
  "limiter_events lm key = (case lim_events lm key of None \<Rightarrow> [] | Some es \<Rightarrow> es)"

definition limiter_consume :: "real \<Rightarrow> string \<Rightarrow> string \<Rightarrow> int \<Rightarrow> int \<Rightarrow> limiter \<Rightarrow> (bool \<times> int) \<times> limiter" where
  "limiter_consume now rule who maximum window lm =
     (let cutoff = now - of_int window; key = (rule, who);
          es = dropWhile (\<lambda>t. t \<le> cutoff) (limiter_events lm key) in
      if maximum \<le> int (length es)
      then ((False, max 1 (\<lfloor>of_int window - (now - hd es)\<rfloor> + 1)), lm\<lparr>lim_events := (lim_events lm)(key := Some es)\<rparr>)
      else (let lm' = lm\<lparr>lim_events := (lim_events lm)(key := Some (es @ [now]))\<rparr> in
            ((True, 0), if 300 < now - lim_last_cleanup lm then (limiter_cleanup cutoff lm')\<lparr>lim_last_cleanup := now\<rparr> else lm')))"

text \<open>
  \<open>_allow\<close>: \<open>fails\<close> says that the database cannot be reached, \<open>clock\<close> is the time of day in
  seconds.
\<close>

definition limiter_allow ::
    "string option \<Rightarrow> bool \<Rightarrow> int \<Rightarrow> real \<Rightarrow> string \<Rightarrow> string \<Rightarrow> int \<Rightarrow> int \<Rightarrow> limiter \<times> 'a identity_db_scheme
      \<Rightarrow> (bool \<times> int) \<times> limiter \<times> 'a identity_db_scheme" where
  "limiter_allow database_url fails clock now rule who maximum window s =
     (case s of (lm, db) \<Rightarrow>
        let process = (case limiter_consume now rule who maximum window lm of (r, lm') \<Rightarrow> (r, lm', db)) in
        if truthy_str database_url \<and> rule \<in> set persistent_rules \<and> \<not> fails
        then case consume_rate_limit_bucket clock rule who maximum window db of
               (Inr r, db') \<Rightarrow> (r, lm, db') | (Inl _, _) \<Rightarrow> process
        else process)"

datatype verdict = Passed | Rejected int

text \<open>\<open>__call__\<close> for an HTTP request\<close>

definition rate_limit_request ::
    "(string \<Rightarrow> string) \<Rightarrow> proxy_settings \<Rightarrow> bool \<Rightarrow> string option \<Rightarrow> bool \<Rightarrow> int \<Rightarrow> real \<Rightarrow> string \<Rightarrow> string \<Rightarrow> request_scope
      \<Rightarrow> limiter \<times> 'a identity_db_scheme \<Rightarrow> verdict \<times> limiter \<times> 'a identity_db_scheme" where
  "rate_limit_request cookie_parser px enabled database_url fails clock now meth path rq s =
     (if \<not> enabled then (Passed, s)
      else case rule_for meth path of
        None \<Rightarrow> (Passed, s)
      | Some (rule, maximum, window) \<Rightarrow>
          (let who = request_identity cookie_parser (rule \<notin> set public_rules) px rq in
           case limiter_allow database_url fails clock now rule who maximum window s of
             ((allowed, retry_after), s') \<Rightarrow> (if allowed then Passed else Rejected retry_after, s')))"

section \<open>The limiter is a sliding window\<close>














section \<open>The limit holds in every window\<close>












end
