(* ===== verification/Worker.thy ===== *)
theory Worker
  imports Thread_Actions Gmail_Bodies Gmail_Backfill Send_Delivery Retry_Policy
begin

text \<open>
  \<open>backend/app/workers/main.py\<close>: a worker claims a job, runs the function of its kind in the
  scope of its Gmail account, and settles it: done, retried, dead or cancelled; with
  \<open>cleanup_old_jobs\<close> of \<open>db/jobs.py\<close> and the readiness of an account from \<open>db/repository.py\<close>.

  The jobs whose functions are not modelled are calls of the service \<open>wk_call\<close>, with the
  arguments that the worker reads from the payload. The heartbeat thread renews the lease while
  a job runs; it is one of the other processes that may commit during a service call. Loop,
  signals and logs of the process are left out.
\<close>

section \<open>Services\<close>

datatype worker_call =
    Deliver_push json "string option"
  | Revoke_token string string string
  | Refresh_snapshot string
  | Hydrate_search string string string int string int int json json json json
  | Account_send string string string
  | Account_action string string string
  | Organize_message string string string int
  | Bootstrap_generation string string bool int bool bool
  | Finalize_generation string string
  | Extract_todos string string string
  | Matter_action string string string "string list"
  | Rebuild_groups string
  | Refresh_projection string
  | Ensure_watch string
  | Refresh_thread_order string

record 's worker_services = "'s sync_services" +
  wk_call :: "worker_call \<Rightarrow> ('s, unit) eff"
  wk_actions :: "'s action_services"
  wk_mail :: "'s mail_services"
  wk_locked_rows :: "'s \<Rightarrow> string list"
  wk_exception :: "exn \<Rightarrow> exc_heap \<times> nat"
  wk_parse_date :: "string \<Rightarrow> instant option"
  wk_release :: string

definition progressive_gmail_job_kinds :: "string list" where
  "progressive_gmail_job_kinds =
     [''gmail_import_batch'', ''gmail_backfill'', ''gmail_full_reconcile'', ''gmail_delta_sync'', ''gmail_pubsub_sync'',
      ''gmail_body_fetch'', ''gmail_body_backfill'']"

definition default_lease_seconds :: int where
  "default_lease_seconds = 300"

definition reconcile_pages_per_job :: int where
  "reconcile_pages_per_job = 4"

section \<open>Readiness of an account\<close>

definition import_is_durable :: "'a mail_db_scheme \<Rightarrow> string \<Rightarrow> string \<Rightarrow> bool" where
  "import_is_durable db user account \<longleftrightarrow>
     list_ex (\<lambda>r. is_user_id r = user \<and> is_gmail_account_id r = account \<and> own_import db (begin_connection db) user r
        \<and> is_first_batch_imported_at r \<noteq> None \<and> is_initial_window_complete r \<and> truthy_str (is_last_history_id r))
       (gmail_import_states db)"

definition gmail_account_import_ready :: "string \<Rightarrow> string \<Rightarrow> ('a mail_db_scheme, bool) eff" where
  "gmail_account_import_ready user account = gmail_account_scope account (eget (\<lambda>db. import_is_durable db user account))"

definition mark_gmail_account_ready_if_imported ::
    "instant \<Rightarrow> string \<Rightarrow> string \<Rightarrow> ('a mail_db_scheme, account_row option) eff" where
  "mark_gmail_account_ready_if_imported now user account =
     gmail_account_scope account (\<lambda>db.
       let target = (\<lambda>a. acc_id a = account \<and> acc_user_id a = user \<and> acc_state a \<in> {Importing, Ready}
             \<and> import_is_durable db user account);
           ready = (\<lambda>a. a\<lparr>acc_state := Ready, acc_initial_ready_at := coalesce (acc_initial_ready_at a) (Some now),
             acc_updated_at := now\<rparr>) in
       (Inr (row_first (returning target ready (gmail_accounts db))),
        db\<lparr>gmail_accounts := update_where target ready (gmail_accounts db)\<rparr>))"

section \<open>Retention\<close>

text \<open>
  \<open>cleanup_old_jobs\<close> for the tables of this development; client events and drafts are other
  tables. Rows of the mail tables are removed for the account that the scope shows.
\<close>

definition expired_session :: "instant \<Rightarrow> session_row \<Rightarrow> bool" where
  "expired_session now s \<longleftrightarrow> as_expires_at s < now - days 7
     \<or> (case as_revoked_at s of None \<Rightarrow> False | Some t \<Rightarrow> t < now - days 7)"

definition expired_action :: "instant \<Rightarrow> 'a action_db_scheme \<Rightarrow> action_row \<Rightarrow> bool" where
  "expired_action now db r \<longleftrightarrow> own_action db (begin_connection db) (pa_user_id r) r
     \<and> ((pa_state r = Action_applied \<and> pa_updated_at r < now - days 30)
        \<or> (pa_state r = Action_failed \<and> pa_updated_at r < now - days 90))"

definition expired_send :: "instant \<Rightarrow> 'a send_db_scheme \<Rightarrow> send_row \<Rightarrow> bool" where
  "expired_send now db r \<longleftrightarrow> row_visible db (begin_connection db) (ps_user_id r) (ps_gmail_account_id r)
     \<and> ps_state r \<in> {Send_sent, Send_failed} \<and> ps_updated_at r < now - days 90"

definition unreferenced_seen :: "'a mail_db_scheme \<Rightarrow> seen_row \<Rightarrow> bool" where
  "unreferenced_seen db s \<longleftrightarrow> own_seen db (begin_connection db) (sn_user_id s) s
     \<and> \<not> list_ex (\<lambda>r. own_import db (begin_connection db) (is_user_id r) r \<and> is_user_id r = sn_user_id s
          \<and> is_reconcile_generation r = Some (sn_generation_id s)) (gmail_import_states db)"

definition delete_expired_runtime_rows :: "instant \<Rightarrow> 'a action_db_scheme \<Rightarrow> nat \<times> 'a action_db_scheme" where
  "delete_expired_runtime_rows now db =
     (let oauth = (\<lambda>r. ol_expires_at r < now); bucket = (\<lambda>b. seconds (rl_window_start b) < now - seconds 7200);
          code = (\<lambda>c. lc_expires_at c < now); handoff = (\<lambda>h. ho_expires_at h < now); beat = (\<lambda>h. hb_last_seen_at h < now - days 7)
      in (length (filter oauth (oauth_login_sessions db)) + length (filter bucket (rate_limit_buckets db))
            + length (filter code (mobile_login_codes db)) + length (filter handoff (mobile_oauth_handoffs db))
            + length (filter (expired_session now) (app_sessions db)) + length (filter beat (worker_heartbeats db))
            + length (filter (expired_action now db) (gmail_pending_thread_actions db))
            + length (filter (expired_send now db) (gmail_pending_sends db))
            + length (filter (unreferenced_seen db) (reconcile_seen db)),
          db\<lparr>oauth_login_sessions := delete_where oauth (oauth_login_sessions db),
             rate_limit_buckets := delete_where bucket (rate_limit_buckets db),
             mobile_login_codes := delete_where code (mobile_login_codes db),
             mobile_oauth_handoffs := delete_where handoff (mobile_oauth_handoffs db),
             app_sessions := delete_where (expired_session now) (app_sessions db),
             worker_heartbeats := delete_where beat (worker_heartbeats db),
             gmail_pending_thread_actions := delete_where (expired_action now db) (gmail_pending_thread_actions db),
             gmail_pending_sends := delete_where (expired_send now db) (gmail_pending_sends db),
             reconcile_seen := delete_where (unreferenced_seen db) (reconcile_seen db)\<rparr>))"

definition cleanup_old_jobs :: "instant \<Rightarrow> int \<Rightarrow> int \<Rightarrow> ('a action_db_scheme, nat) eff" where
  "cleanup_old_jobs now succeeded_days dead_days db =
     (case delete_expired_runtime_rows now db of
        (n, db1) \<Rightarrow> (case delete_expired_jobs now succeeded_days dead_days db1 of (m, db2) \<Rightarrow> (Inr (n + m), db2)))"

section \<open>Dispatch\<close>

definition needs_user :: "string \<Rightarrow> json \<Rightarrow> (string \<Rightarrow> ('s, unit) eff) \<Rightarrow> ('s, unit) eff" where
  "needs_user kind user f = (case user of JStr u \<Rightarrow> f u | _ \<Rightarrow> eraise (RuntimeError (kind @ '' missing user_id'')))"

text \<open>\<open>int(payload.get(key) or default)\<close>\<close>

definition payload_int :: "(string \<times> json) list \<Rightarrow> string \<Rightarrow> int \<Rightarrow> (int \<Rightarrow> ('s, 'a) eff) \<Rightarrow> ('s, 'a) eff" where
  "payload_int p key fallback f = (case jint (jor (jget p key) (JInt fallback)) of Inl e \<Rightarrow> eraise e | Inr n \<Rightarrow> f n)"

definition payload_str :: "(string \<times> json) list \<Rightarrow> string \<Rightarrow> string" where
  "payload_str p key = json_str_or_empty (jget p key)"

definition str_default :: "(string \<times> json) list \<Rightarrow> string \<Rightarrow> string \<Rightarrow> string" where
  "str_default p key fallback = json_str_or_empty (jor (jget p key) (JStr fallback))"

definition get_default :: "(string \<times> json) list \<Rightarrow> string \<Rightarrow> json \<Rightarrow> json" where
  "get_default p key fallback = (if jhas p key then jget p key else fallback)"

definition job_user :: "job_row \<Rightarrow> json" where
  "job_user job = jor (jget (bj_payload job) ''user_id'') (jstr_opt (bj_user_id job))"

definition dashboard_changed :: "('s, 'b) worker_services_scheme \<Rightarrow> string \<Rightarrow> string \<Rightarrow> ('s, unit) eff" where
  "dashboard_changed sv user source = sy_emit sv user ''dashboard-changed'' [(''source'', JStr source)]"

text \<open>The call, and then the snapshot and its event.\<close>

definition and_refresh :: "('s, 'b) worker_services_scheme \<Rightarrow> string \<Rightarrow> string \<Rightarrow> ('s, 'a) eff \<Rightarrow> ('s, unit) eff" where
  "and_refresh sv user source m =
     ebind m (\<lambda>_. ebind (wk_call sv (Refresh_snapshot user)) (\<lambda>_. dashboard_changed sv user source))"

definition decoded_email :: "string \<Rightarrow> string" where
  "decoded_email data =
     (let padded = data @ replicate (nat ((- int (length data)) mod 4)) (CHR ''='') in
      case urlsafe_b64decode padded of
        None \<Rightarrow> ''''
      | Some raw \<Rightarrow> (case json_loads raw of
            Some (JObj fs) \<Rightarrow> lower (strip (payload_str fs ''emailAddress''))
          | _ \<Rightarrow> ''''))"

definition pubsub_email :: "(string \<times> json) list \<Rightarrow> string" where
  "pubsub_email p =
     (let address = lower (strip (payload_str p ''email_address''));
          envelope = jget p ''pubsub'';
          msg = (case envelope of JObj fs \<Rightarrow> (case jget fs ''message'' of JObj ms \<Rightarrow> JObj ms | _ \<Rightarrow> envelope) | _ \<Rightarrow> envelope);
          data = (case msg of JObj ms \<Rightarrow> jget ms ''data'' | _ \<Rightarrow> JNull)
      in if address \<noteq> '''' then address else case data of JStr d \<Rightarrow> decoded_email d | _ \<Rightarrow> '''')"

definition user_id_from_pubsub :: "'a guard_db_scheme \<Rightarrow> (string \<times> json) list \<Rightarrow> string option" where
  "user_id_from_pubsub db p =
     (let address = pubsub_email p in
      if address = '''' then None else map_option usr_id (get_user_by_email db address))"

text \<open>A thread-order refresh whose target the cursor has already passed.\<close>

definition order_refresh_outdated :: "string \<Rightarrow> import_row option \<Rightarrow> bool" where
  "order_refresh_outdated target state \<longleftrightarrow>
     (let current = (if gmail_history_cursor_is_authoritative state
            then (case state of None \<Rightarrow> '''' | Some r \<Rightarrow> str_or_empty (is_last_history_id r)) else '''')
      in target \<noteq> '''' \<and> isdigit target \<and> isdigit current \<and> numeral_of target < numeral_of current)"

definition run_gmail_job ::
    "('a action_db_scheme, 'b) worker_services_scheme \<Rightarrow> job_row \<Rightarrow> ('a action_db_scheme, unit) eff option" where
  "run_gmail_job sv job =
     (let p = bj_payload job; kind = bj_kind job; with_user = needs_user kind (job_user job) in
      if kind = ''gmail_import_batch'' then Some (with_user (\<lambda>u.
        payload_int p ''batch_size'' 30 (\<lambda>n. and_refresh sv u kind (run_gmail_import_batch sv u n (truthy (jget p ''first_run''))))))
      else if kind = ''gmail_backfill'' then Some (with_user (\<lambda>u.
        payload_int p ''batch_size'' 100 (\<lambda>n. and_refresh sv u kind (run_gmail_backfill sv u n))))
      else if kind = ''gmail_full_reconcile'' then Some (with_user (\<lambda>u.
        payload_int p ''batch_size'' 250 (\<lambda>n.
          ebind (run_gmail_full_reconciliation sv u n reconcile_pages_per_job) (\<lambda>_.
          ebind (best_effort (and_refresh sv u kind (ereturn ()))) (\<lambda>_. ereturn ())))))
      else if kind = ''gmail_delta_sync'' then Some (with_user (\<lambda>u.
        payload_int p ''batch_size'' 100 (\<lambda>n. and_refresh sv u kind (run_gmail_delta_sync sv u n))))
      else if kind = ''gmail_body_fetch'' then Some (with_user (\<lambda>u.
        ebind (run_gmail_body_fetch sv u (payload_str p ''group_id'') (payload_str p ''gmail_thread_id''))
          (\<lambda>_. wk_call sv (Refresh_snapshot u))))
      else if kind = ''gmail_body_backfill'' then Some (with_user (\<lambda>u.
        payload_int p ''batch_size'' 25 (\<lambda>n.
          ebind (run_gmail_body_backfill sv u n (nonempty (payload_str p ''descriptor_after_message_id''))
              (truthy (get_default p ''descriptor_backfill_complete'' (JBool False))))
            (\<lambda>_. wk_call sv (Refresh_snapshot u)))))
      else if kind = ''gmail_search_hydrate'' then Some (with_user (\<lambda>u.
        payload_int p ''limit'' 100 (\<lambda>l. payload_int p ''max_pages'' 5 (\<lambda>pages. payload_int p ''response_limit'' 200 (\<lambda>responses.
          wk_call sv (Hydrate_search u (payload_str p ''query'') (str_default p ''label'' ''all'') l (payload_str p ''search_key'')
            pages responses (jget p ''page_token'') (get_default p ''continuation_index'' (JInt 0)) (jget p ''continuation_key'')
            (jget p ''continuation_token_hashes'')))))))
      else if kind = ''gmail_thread_action'' then Some (with_user (\<lambda>u.
        at_time sv (\<lambda>now. ebind (sy_uuid sv) (\<lambda>order_id. ebind (sy_uuid sv) (\<lambda>refresh_id.
          ebind (run_pending_thread_action (wk_actions sv) now order_id refresh_id u (payload_str p ''server_action_id''))
            (\<lambda>_. ereturn ()))))))
      else if kind = ''gmail_send_message'' then Some (with_user (\<lambda>u.
        at_time sv (\<lambda>now. ebind (sy_uuid sv) (\<lambda>job_id.
          ebind (run_pending_send (wk_mail sv) now job_id u (payload_str p ''server_send_id'')) (\<lambda>_. ereturn ())))))
      else if kind = ''gmail_account_send_message'' \<or> kind = ''gmail_account_thread_action''
      then Some (case (job_user job, bj_gmail_account_id job) of
          (JStr u, Some account) \<Rightarrow>
            if account = '''' then eraise (RuntimeError (kind @ '' missing account scope''))
            else if kind = ''gmail_account_send_message'' then wk_call sv (Account_send u account (payload_str p ''server_send_id''))
            else wk_call sv (Account_action u account (payload_str p ''server_action_id''))
        | _ \<Rightarrow> eraise (RuntimeError (kind @ '' missing account scope'')))
      else if kind = ''gmail_pubsub_sync'' then Some (ebind (eget (\<lambda>db. user_id_from_pubsub db p)) (\<lambda>found.
        case jor (jstr_opt found) (job_user job) of
          JStr u \<Rightarrow> payload_int p ''batch_size'' 100 (\<lambda>n. and_refresh sv u kind (run_gmail_delta_sync sv u n))
        | _ \<Rightarrow> ereturn ()))
      else if kind = ''gmail_watch_renewal'' then Some (with_user (\<lambda>u. wk_call sv (Ensure_watch u)))
      else if kind = ''gmail_thread_order_refresh'' then Some (with_user (\<lambda>u.
        ebind (eget (\<lambda>db. get_import_state db u)) (\<lambda>state.
        if order_refresh_outdated (payload_str p ''target_history_id'') state then ereturn ()
        else ebind (wk_call sv (Refresh_thread_order u)) (\<lambda>_.
             ebind (wk_call sv (Refresh_snapshot u)) (\<lambda>_.
             sy_emit sv u ''mailbox-changed'' [(''source'', JStr kind), (''mailbox_labels'', JArr [JStr ''all''])])))))
      else None)"

definition run_ai_job :: "('s, 'b) worker_services_scheme \<Rightarrow> job_row \<Rightarrow> ('s, unit) eff option" where
  "run_ai_job sv job =
     (let p = bj_payload job; kind = bj_kind job; with_user = needs_user kind (job_user job);
          generation = payload_str p ''generation_id'' in
      if kind = ''ai_message_organize'' then Some (with_user (\<lambda>u.
        payload_int p ''content_revision'' 1 (\<lambda>n. wk_call sv (Organize_message u generation (payload_str p ''message_id'') n))))
      else if kind = ''ai_generation_bootstrap'' then Some (with_user (\<lambda>u.
        payload_int p ''offset'' 0 (\<lambda>n.
          wk_call sv (Bootstrap_generation u generation (truthy (get_default p ''recent'' (JBool True))) n
            (truthy (get_default p ''include_history'' (JBool True))) (truthy (get_default p ''chronological_all'' (JBool False)))))))
      else if kind = ''ai_generation_finalize'' then Some (with_user (\<lambda>u. wk_call sv (Finalize_generation u generation)))
      else if kind = ''ai_todo_extract'' then Some (with_user (\<lambda>u.
        wk_call sv (Extract_todos u generation (payload_str p ''matter_id''))))
      else if kind = ''ai_matter_action'' then Some (with_user (\<lambda>u.
        case get_default p ''message_ids'' (JArr []) of
          JArr ids \<Rightarrow> wk_call sv (Matter_action u (payload_str p ''matter_id'') (payload_str p ''action'') (map json_str ids))
        | _ \<Rightarrow> eraise TypeError))
      else None)"

definition run_projection_job :: "('a action_db_scheme, 'b) worker_services_scheme \<Rightarrow> job_row \<Rightarrow> ('a action_db_scheme, unit) eff option" where
  "run_projection_job sv job =
     (let kind = bj_kind job; with_user = needs_user kind (job_user job) in
      if kind = ''mail_group_candidates'' then Some (with_user (\<lambda>u.
        ebind (wk_call sv (Rebuild_groups u)) (\<lambda>_.
        at_time sv (\<lambda>now. ebind (sy_uuid sv) (\<lambda>refresh_id. enqueue_projection_refresh (wk_actions sv) now refresh_id u 15)))))
      else if kind \<in> {''mail_group_enrich'', ''first_run_ai_grouping'', ''first_run_ready_check''} then Some (ereturn ())
      else if kind = ''projection_refresh'' then Some (with_user (\<lambda>u.
        and_refresh sv u kind (wk_call sv (Refresh_projection u))))
      else if kind = ''job_retention_cleanup'' then Some (at_time sv (\<lambda>now. ebind (cleanup_old_jobs now 30 90) (\<lambda>_. ereturn ())))
      else None)"

definition run_job :: "('a action_db_scheme, 'b) worker_services_scheme \<Rightarrow> job_row \<Rightarrow> ('a action_db_scheme, unit) eff" where
  "run_job sv job =
     (let p = bj_payload job; kind = bj_kind job in
      if bj_payload_version job \<noteq> 1 then eraise (RuntimeError ''Unsupported payload version'')
      else if kind = ''push_notification''
      then (if jhas p ''delivery_id'' then wk_call sv (Deliver_push (jget p ''delivery_id'') (bj_user_id job)) else eraise KeyError)
      else if kind = ''google_token_revoke''
      then wk_call sv (Revoke_token (bj_id job) (payload_str p ''subject_hash'') (payload_str p ''token_json_encrypted''))
      else case coalesce (run_gmail_job sv job) (coalesce (run_ai_job sv job) (run_projection_job sv job)) of
             Some m \<Rightarrow> m | None \<Rightarrow> eraise (RuntimeError ''Unknown job kind''))"

section \<open>Settling a job\<close>

definition sync_failed_event :: "('s, 'b) worker_services_scheme \<Rightarrow> string \<Rightarrow> (string \<times> json) list \<Rightarrow> ('s, unit) eff" where
  "sync_failed_event sv user details = sy_emit sv user ''mailbox-sync-progress'' details"

text \<open>\<open>_mark_gmail_reauthorization_required\<close>; its own errors are logged.\<close>

definition pause_secondary_account ::
    "('a mail_db_scheme, 'b) worker_services_scheme \<Rightarrow> string \<Rightarrow> string \<Rightarrow> string \<Rightarrow> ('a mail_db_scheme, unit) eff" where
  "pause_secondary_account sv user account error =
     ebind (at_time sv (\<lambda>now. mark_gmail_account_reauth_required now user account)) (\<lambda>_.
     gmail_account_scope account
       (ebind (at_time sv (\<lambda>now. mark_import_error now user error)) (\<lambda>_.
        sync_failed_event sv user [(''source'', JStr ''gmail_authorization''), (''phase'', JStr ''failed''),
          (''reauthorization_required'', JBool True), (''gmail_account_id'', JStr account)])))"

definition pause_primary_account ::
    "('a mail_db_scheme, 'b) worker_services_scheme \<Rightarrow> string \<Rightarrow> string \<Rightarrow> ('a mail_db_scheme, unit) eff" where
  "pause_primary_account sv user error =
     ebind (at_time sv (\<lambda>now. eupdate (mark_google_disconnected now user))) (\<lambda>_.
     ebind (at_time sv (\<lambda>now. mark_import_error now user error)) (\<lambda>_.
     sync_failed_event sv user [(''source'', JStr ''gmail_authorization''), (''phase'', JStr ''failed''),
       (''reauthorization_required'', JBool True)]))"

definition mark_gmail_reauthorization_required ::
    "('a mail_db_scheme, 'b) worker_services_scheme \<Rightarrow> job_row \<Rightarrow> exn \<Rightarrow> ('a mail_db_scheme, bool) eff" where
  "mark_gmail_reauthorization_required sv job e =
     (case job_user job of
        JStr user \<Rightarrow>
          (let error = safe_google_error ''mail sync'' e in
           best_effort
             (case jor (jstr_opt (bj_gmail_account_id job)) (jget (bj_payload job) ''gmail_account_id'') of
                JStr account \<Rightarrow> if account \<noteq> '''' \<and> account \<noteq> user then pause_secondary_account sv user account error
                  else pause_primary_account sv user error
              | _ \<Rightarrow> pause_primary_account sv user error))
      | _ \<Rightarrow> ereturn True)"

definition mark_progressive_gmail_job_failed ::
    "('a mail_db_scheme, 'b) worker_services_scheme \<Rightarrow> string \<Rightarrow> string \<Rightarrow> string \<Rightarrow> ('a mail_db_scheme, bool) eff" where
  "mark_progressive_gmail_job_failed sv user kind error =
     best_effort
       (ebind (at_time sv (\<lambda>now. mark_import_error now user error)) (\<lambda>_.
        sync_failed_event sv user [(''source'', JStr kind), (''phase'', JStr ''failed''), (''terminal'', JBool True)]))"

text \<open>\<open>_ai_retry_delay_seconds\<close>: the first four exceptions along \<open>__cause__\<close>.\<close>

definition ai_spend_limit_retry_delay_seconds :: int where
  "ai_spend_limit_retry_delay_seconds = 3600"

fun spend_limited :: "nat \<Rightarrow> exc_heap \<Rightarrow> nat \<Rightarrow> bool" where
  "spend_limited 0 heap i = False"
| "spend_limited (Suc n) heap i =
     (case map_of heap i of
        None \<Rightarrow> False
      | Some e \<Rightarrow> exc_code e \<in> {JStr ''project_spend_limit_exceeded'', JStr ''insufficient_quota''}
          \<or> (case exc_cause e of None \<Rightarrow> False | Some j \<Rightarrow> spend_limited n heap j))"

definition ai_retry_delay_seconds :: "exc_heap \<Rightarrow> string \<Rightarrow> nat \<Rightarrow> int option" where
  "ai_retry_delay_seconds heap kind exc =
     (if startswith kind ''ai_'' \<and> spend_limited 4 heap exc then Some ai_spend_limit_retry_delay_seconds else None)"

definition exhausted :: "job_row \<Rightarrow> bool" where
  "exhausted job \<longleftrightarrow> bj_max_attempts job \<le> bj_attempt_count job"

definition cancel_claimed :: "('a job_db_scheme, 'b) worker_services_scheme \<Rightarrow> string \<Rightarrow> job_row \<Rightarrow> ('a job_db_scheme, unit) eff" where
  "cancel_claimed sv worker job = at_time sv (\<lambda>now. ebind (cancel_claimed_job now (bj_id job) worker) (\<lambda>_. ereturn ()))"

definition after_failure ::
    "('a action_db_scheme, 'b) worker_services_scheme \<Rightarrow> job_row \<Rightarrow> string \<Rightarrow> bool \<Rightarrow> ('a action_db_scheme, unit) eff" where
  "after_failure sv job error failed =
     (case job_user job of
        JStr user \<Rightarrow>
          if \<not> failed \<or> \<not> exhausted job then ereturn ()
          else
            ebind (if bj_kind job = ''gmail_thread_action''
                   then at_time sv (\<lambda>now. ebind (sy_uuid sv) (\<lambda>refresh_id. ebind (rollback_failed_thread_action (wk_actions sv) now refresh_id
                          user (payload_str (bj_payload job) ''server_action_id'')) (\<lambda>_. ereturn ())))
                   else ereturn ()) (\<lambda>_.
            if bj_kind job \<in> set progressive_gmail_job_kinds
            then ebind (mark_progressive_gmail_job_failed sv user (bj_kind job) error) (\<lambda>_. ereturn ())
            else ereturn ())
      | _ \<Rightarrow> ereturn ())"

definition settle_error ::
    "('a action_db_scheme, 'b) worker_services_scheme \<Rightarrow> string \<Rightarrow> job_row \<Rightarrow> exn \<Rightarrow> ('a action_db_scheme, unit) eff" where
  "settle_error sv worker job e =
     (case wk_exception sv e of (heap, exc) \<Rightarrow>
      if startswith (bj_kind job) ''gmail_'' \<and> gmail_is_authorization_failure heap exc
      then ebind (mark_gmail_reauthorization_required sv job e) (\<lambda>_. cancel_claimed sv worker job)
      else at_time sv (\<lambda>now.
        let delay = coalesce (gmail_retry_delay_seconds (wk_parse_date sv) now heap (bj_kind job) exc
                (retry_backoff_seconds (bj_attempt_count job)))
              (ai_retry_delay_seconds heap (bj_kind job) exc)
        in ebind (fail_job now job (safe_job_error e) worker delay) (after_failure sv job (safe_job_error e))))"

definition run_in_scope :: "('a action_db_scheme, 'b) worker_services_scheme \<Rightarrow> job_row \<Rightarrow> ('a action_db_scheme, unit) eff" where
  "run_in_scope sv job =
     (case jor (jor (jstr_opt (bj_gmail_account_id job)) (jget (bj_payload job) ''gmail_account_id'')) (jstr_opt (bj_user_id job)) of
        JStr account \<Rightarrow>
          if account = '''' then run_job sv job
          else gmail_account_scope account
            (ebind (run_job sv job) (\<lambda>_.
             case job_user job of
               JStr user \<Rightarrow> if bj_kind job \<in> set progressive_gmail_job_kinds
                 then at_time sv (\<lambda>now. ebind (mark_gmail_account_ready_if_imported now user account) (\<lambda>_. ereturn ()))
                 else ereturn ()
             | _ \<Rightarrow> ereturn ()))
      | _ \<Rightarrow> run_job sv job)"

definition heartbeat ::
    "('a job_db_scheme, 'b) worker_services_scheme \<Rightarrow> string \<Rightarrow> string list \<Rightarrow> string option \<Rightarrow> ('a job_db_scheme, unit) eff" where
  "heartbeat sv worker queues current = at_time sv (\<lambda>now. renew_heartbeat now worker queues (wk_release sv) current default_lease_seconds)"

definition process_job ::
    "('a action_db_scheme, 'b) worker_services_scheme \<Rightarrow> string \<Rightarrow> string list \<Rightarrow> job_row \<Rightarrow> ('a action_db_scheme, unit) eff" where
  "process_job sv worker queues job =
     efinally
       (etry
         (ebind (run_in_scope sv job) (\<lambda>_.
          at_time sv (\<lambda>now. ebind (complete_job now (bj_id job) worker) (\<lambda>_. ereturn ()))))
         (\<lambda>e. if e = UserMailWorkBlocked then cancel_claimed sv worker job
              else if e = GoogleCredentialsUnavailable
              then ebind (mark_gmail_reauthorization_required sv job e) (\<lambda>_. cancel_claimed sv worker job)
              else settle_error sv worker job e))
       (heartbeat sv worker queues None)"

definition run_worker_cycle ::
    "('a action_db_scheme, 'b) worker_services_scheme \<Rightarrow> string \<Rightarrow> string list \<Rightarrow> ('a action_db_scheme, bool) eff" where
  "run_worker_cycle sv worker queues =
     ebind (heartbeat sv worker queues None) (\<lambda>_.
     ebind (at_time sv (\<lambda>now db. claim_job (wk_locked_rows sv db) now worker queues default_lease_seconds db)) (\<lambda>claimed.
     case claimed of
       None \<Rightarrow> ereturn False
     | Some job \<Rightarrow>
         ebind (heartbeat sv worker queues (Some (bj_id job))) (\<lambda>_.
         ebind (process_job sv worker queues job) (\<lambda>_. ereturn True))))"

end
