(* ===== verification/Worker_Safety.thy ===== *)
theory Worker_Safety
  imports Worker Body_Client Action_Safety Job_Lifecycle
begin

text \<open>
  The worker as a client of everything that it runs. The locale \<open>worker_client\<close> extends the
  contract of the importer by the tables of sends, actions, accounts and jobs; its
  lemmas say that a whole cycle preserves such a predicate. It holds of the invariants of the
  mailbox and of the job queue, and of \<open>this worker holds no lease on this job\<close>.
\<close>

section \<open>Locks, clocks and payloads\<close>









section \<open>The contract\<close>


section \<open>The mailbox\<close>



section \<open>The job queue\<close>

text \<open>Predicates on the two tables of the queue tolerate everything that the mailbox does.\<close>

definition on_jobs :: "(job_row list \<Rightarrow> job_event list \<Rightarrow> bool) \<Rightarrow> 'a job_db_scheme \<Rightarrow> bool" where
  "on_jobs Q db \<longleftrightarrow> Q (background_jobs db) (background_job_events db)"

lemma on_jobs_frame:
  "background_jobs db' = background_jobs db \<Longrightarrow> background_job_events db' = background_job_events db \<Longrightarrow> on_jobs Q db' = on_jobs Q db"
  by (simp add: on_jobs_def)

lemma ready_job_tables [simp]:
  "background_jobs (mark_gmail_account_initial_ready now r db) = background_jobs db"
  "background_job_events (mark_gmail_account_initial_ready now r db) = background_job_events db"
  by (simp_all add: mark_gmail_account_initial_ready_def)

lemma fold_ready_job_tables [simp]:
  "background_jobs (fold (mark_gmail_account_initial_ready now) rs db) = background_jobs db
   \<and> background_job_events (fold (mark_gmail_account_initial_ready now) rs db) = background_job_events db"
  by (induction rs arbitrary: db) simp_all












section \<open>A worker gives every lease back\<close>




















section \<open>A cycle of the worker\<close>




text \<open>Revoked authorization of the primary account goes unreported. \<open>_mark_gmail_reauthorization_required\<close>
  disconnects the user first; the guard then refuses the write of the sync error, and the refusal is swallowed. The state
  gets the disconnect and nothing else: no error on the import, no event for the client.\<close>

theorem primary_reauthorization_is_silent:
  assumes "job_user job = JStr u"
    and "jor (jstr_opt (bj_gmail_account_id job)) (jget (bj_payload job) ''gmail_account_id'') \<in> {JNull, JStr u}"
    and "sy_clock sv = ereturn now"
  shows "mark_gmail_reauthorization_required sv job e db = (Inr False, mark_google_disconnected now u db)"
proof -
  have "users (mark_google_disconnected now u db) =
      update_where (\<lambda>x. usr_id x = u) (\<lambda>x. x\<lparr>google_disconnected_at := Some now, usr_updated_at := now\<rparr>) (users db)"
    by (simp add: mark_google_disconnected_def)
  note disconnected = this
  have "google_disconnected_at x \<noteq> None" if "x \<in> set (users (mark_google_disconnected now u db))" "usr_id x = u" for x
  proof -
    from that(1) obtain r where "x = (if usr_id r = u then r\<lparr>google_disconnected_at := Some now, usr_updated_at := now\<rparr> else r)"
      unfolding disconnected in_update_where by blast
    with that(2) show ?thesis by (cases "usr_id r = u") simp_all
  qed
  then have "\<not> user_mail_work_allowed (mark_google_disconnected now u db) u"
    unfolding user_mail_work_allowed_def list_ex_iff by blast
  then have "\<not> guard_passes (mark_google_disconnected now u db) u None" by (simp add: guard_passes_def)
  then have refused: "\<exists>err. mark_import_error now u msg (mark_google_disconnected now u db) = (Inl err, mark_google_disconnected now u db)" for msg
    unfolding mark_import_error_def by (rule write_transaction_blocks) blast
  have paused: "\<exists>err. pause_primary_account sv u msg db = (Inl err, mark_google_disconnected now u db)" for msg
    using refused [of msg] assms(3) by (auto simp: pause_primary_account_def at_time_def ebind_apply)
  have "best_effort (pause_primary_account sv u msg) db = (Inr False, mark_google_disconnected now u db)" for msg
    using paused [of msg] by (auto simp: best_effort_def etry_apply ebind_apply)
  with assms(1,2) show ?thesis by (auto simp: mark_gmail_reauthorization_required_def Let_def)
qed

section \<open>Witnesses\<close>

definition quiet_worker :: "'s worker_services" where
  "quiet_worker = sync_services.extend (quiet_sync ''m2'')
     \<lparr>wk_call = (\<lambda>_. ereturn ()),
      wk_actions = \<lparr>remote_thread = (\<lambda>_ _. ereturn ()), remote_message = (\<lambda>_ _. ereturn ()),
        rebuild_groups = (\<lambda>_ _. ereturn ()), emit_event = (\<lambda>_ _. ereturn ()), ai_grouping_enabled = False\<rparr>,
      wk_mail = \<lparr>api_list_messages = (\<lambda>_. eraise KeyError), api_get_minimal = (\<lambda>_. eraise KeyError),
        api_send = (\<lambda>_ _. eraise KeyError), serialize_message = (\<lambda>_. Inl KeyError), missing_send_scopes = (\<lambda>_ _. []),
        import_sent_message = (\<lambda>_ _. ereturn ()), refresh_after_send = (\<lambda>_ _ _. ereturn ())\<rparr>,
      wk_locked_rows = (\<lambda>_. []), wk_exception = (\<lambda>_. ([], 0)), wk_parse_date = (\<lambda>_. None), wk_release = ''r1''\<rparr>"


lemma quiet_clock: "sy_clock quiet_worker = ereturn 5"
  by (simp add: quiet_worker_def quiet_sync_def sync_services.defs)

definition worker_db :: action_db where
  "worker_db = (sample_action_db [])\<lparr>background_jobs := background_jobs queued_db, background_job_events := background_job_events queued_db\<rparr>"



theorem primary_reauthorization_is_silent_witness:
  "mark_gmail_reauthorization_required quiet_worker
     ((hd (background_jobs queued_db))\<lparr>bj_user_id := Some ''u1'', bj_gmail_account_id := Some ''u1''\<rparr>) GoogleCredentialsUnavailable worker_db
   = (Inr False, mark_google_disconnected 5 ''u1'' worker_db)"
  by (rule primary_reauthorization_is_silent [OF _ _ quiet_clock])
    (simp_all add: job_user_def jor_def jget_def jstr_opt_def sample_job_db_simps)

end
