(* ===== verification/Google_Revocation.thy ===== *)
theory Google_Revocation
  imports Job_Queue Py_Json
begin

text \<open>
  The revocation of Google grants in \<open>backend/app/services/integrations/google.py\<close>: a grant
  that the backend gives up is first put on the job queue, then revoked under the lock of its
  Google identity; a worker retries until Google has answered.

  The POST to Google, the decryption of stored credentials, the encryption (it is randomised),
  the clock and fresh ids are the services of the record \<open>revocation_services\<close>. Bytes are
  characters; JSON has no fractions here, Google's error bodies hold none.
\<close>

section \<open>Google's answer\<close>

text \<open>\<open>bytes.decode("utf-8")\<close> accepts these bytes.\<close>

definition continuation :: "nat \<Rightarrow> bool" where
  "continuation b \<longleftrightarrow> 128 \<le> b \<and> b < 192"

fun utf8 :: "nat list \<Rightarrow> bool" where
  "utf8 [] = True"
| "utf8 (a # bs) =
     (if a < 128 then utf8 bs
      else case bs of
        [] \<Rightarrow> False
      | b # cs \<Rightarrow>
          if 194 \<le> a \<and> a < 224 then continuation b \<and> utf8 cs
          else case cs of
            [] \<Rightarrow> False
          | c # ds \<Rightarrow>
              if 224 \<le> a \<and> a < 240
              then continuation b \<and> (a = 224 \<longrightarrow> 160 \<le> b) \<and> (a = 237 \<longrightarrow> b < 160) \<and> continuation c \<and> utf8 ds
              else case ds of
                [] \<Rightarrow> False
              | d # es \<Rightarrow> 240 \<le> a \<and> a < 245 \<and> continuation b \<and> (a = 240 \<longrightarrow> 144 \<le> b) \<and> (a = 244 \<longrightarrow> b < 144)
                  \<and> continuation c \<and> continuation d \<and> utf8 es)"

datatype revocation_outcome = Project_revoked | Credential_invalid | Retry_revocation

text \<open>A success, or an \<open>HTTPError\<close> with its code and the bytes that can be read of it.\<close>

datatype revoke_response = Revoke_accepted | Revoke_refused int "exn + string"

definition google_revocation_error_body_limit :: nat where
  "google_revocation_error_body_limit = 4096"

definition error_outcome :: "string \<Rightarrow> revocation_outcome" where
  "error_outcome body =
     (let raw_error = take (google_revocation_error_body_limit + 1) body in
      if google_revocation_error_body_limit < length raw_error then Retry_revocation
      else if \<not> utf8 (map of_char raw_error) then Retry_revocation
      else case json_loads raw_error of
        Some (JObj fs) \<Rightarrow> if jget fs ''error'' = JStr ''invalid_token'' then Credential_invalid else Retry_revocation
      | _ \<Rightarrow> Retry_revocation)"

definition response_outcome :: "revoke_response \<Rightarrow> revocation_outcome" where
  "response_outcome response =
     (case response of
        Revoke_accepted \<Rightarrow> Project_revoked
      | Revoke_refused code (Inr body) \<Rightarrow> if code \<noteq> 400 then Retry_revocation else error_outcome body
      | Revoke_refused code (Inl _) \<Rightarrow> Retry_revocation)"

section \<open>Services\<close>

record 's revocation_services =
  rv_post :: "string \<Rightarrow> ('s, revoke_response) eff"
  rv_decrypt :: "string \<Rightarrow> exn + (string \<times> json) list"
  rv_encrypt :: "(string \<times> json) list \<Rightarrow> ('s, string) eff"
  rv_now :: "('s, instant) eff"
  rv_id :: "('s, string) eff"

definition google_credential :: "(string \<times> json) list \<Rightarrow> string" where
  "google_credential tokens =
     strip (json_str_or_empty (jor (jget tokens ''refresh_token'') (jget tokens ''token'')))"

definition revoke_google_token_payload_outcome ::
    "('s, 'b) revocation_services_scheme \<Rightarrow> (string \<times> json) list \<Rightarrow> ('s, revocation_outcome) eff" where
  "revoke_google_token_payload_outcome sv tokens =
     (if google_credential tokens = '''' then ereturn Retry_revocation
      else etry (ebind (rv_post sv (google_credential tokens)) (\<lambda>response. ereturn (response_outcome response)))
             (\<lambda>_. ereturn Retry_revocation))"

definition revoke_google_token_payload ::
    "('s, 'b) revocation_services_scheme \<Rightarrow> (string \<times> json) list \<Rightarrow> ('s, bool) eff" where
  "revoke_google_token_payload sv tokens =
     ebind (revoke_google_token_payload_outcome sv tokens) (\<lambda>outcome. ereturn (outcome \<noteq> Retry_revocation))"

section \<open>Tracked revocation\<close>

definition google_token_revocation_max_attempts :: int where
  "google_token_revocation_max_attempts = 1000000"

definition revocation_dedupe_key :: "string \<Rightarrow> string \<Rightarrow> string" where
  "revocation_dedupe_key subject_hash credential =
     ''google-token-revoke:'' @ subject_hash @ '':'' @ sha256_hex credential"

definition revocation_request :: "string \<Rightarrow> string \<Rightarrow> string \<Rightarrow> job_request" where
  "revocation_request subject_hash credential encrypted =
     (job_request_of ''google_token_revoke'')
       \<lparr>rq_queue := ''critical'', rq_dedupe_key := Some (revocation_dedupe_key subject_hash credential),
        rq_priority := 100, rq_max_attempts := google_token_revocation_max_attempts,
        rq_payload := [(''subject_hash'', JStr subject_hash), (''token_json_encrypted'', JStr encrypted)]\<rparr>"

definition enqueue_google_token_revocation_job ::
    "('a job_db_scheme, 'b) revocation_services_scheme \<Rightarrow> string \<Rightarrow> (string \<times> json) list \<Rightarrow> string
      \<Rightarrow> ('a job_db_scheme, string \<times> job_row) eff" where
  "enqueue_google_token_revocation_job sv subject_hash tokens encrypted =
     (let h = strip subject_hash; credential = google_credential tokens in
      if h = '''' then eraise (RuntimeError ''Google subject hash is required for token revocation'')
      else if credential = '''' then eraise (RuntimeError ''Google token revocation payload is missing'')
      else ebind (rv_now sv) (\<lambda>now. ebind (rv_id sv) (\<lambda>i.
        ebind (\<lambda>db. enqueue_job (background_jobs db) now i (revocation_request h credential encrypted) db)
          (\<lambda>job. ereturn (h, job)))))"

text \<open>After Google's answer: the barrier against older OAuth flows, then the jobs that it settles.\<close>

definition settle_revocation ::
    "('a job_db_scheme, 'b) revocation_services_scheme \<Rightarrow> string \<Rightarrow> string \<Rightarrow> revocation_outcome
      \<Rightarrow> ('a job_db_scheme, unit) eff" where
  "settle_revocation sv h job_id outcome =
     ebind (rv_now sv) (\<lambda>now. ebind (record_google_subject_revocation now h) (\<lambda>_.
     ebind (rv_now sv) (\<lambda>later.
       if outcome = Project_revoked
       then ebind (complete_google_token_revocations_for_subject later h) (\<lambda>_. ereturn ())
       else ebind (complete_google_token_revocation_job later job_id) (\<lambda>_. ereturn ()))))"

definition revoke_locked ::
    "('a job_db_scheme, 'b) revocation_services_scheme \<Rightarrow> string \<Rightarrow> (string \<times> json) list \<Rightarrow> string
      \<Rightarrow> ('a job_db_scheme, bool) eff" where
  "revoke_locked sv h tokens job_id =
     ebind (eget (\<lambda>db. map_option bj_status (get_job db job_id))) (\<lambda>status.
       if status = Some Succeeded then ereturn True
       else if status \<noteq> Some Queued \<and> status \<noteq> Some Running
       then eraise (RuntimeError ''Google token revocation is no longer durably tracked'')
       else ebind (revoke_google_token_payload_outcome sv tokens) (\<lambda>outcome.
         if outcome = Retry_revocation then ereturn False
         else ebind (settle_revocation sv h job_id outcome) (\<lambda>_. ereturn True)))"

definition revoke_tracked_google_token_payload ::
    "('a job_db_scheme, 'b) revocation_services_scheme \<Rightarrow> string \<Rightarrow> (string \<times> json) list \<Rightarrow> string
      \<Rightarrow> ('a job_db_scheme, unit) eff \<Rightarrow> ('a job_db_scheme, bool) eff" where
  "revoke_tracked_google_token_payload sv subject_hash tokens encrypted on_tracked =
     ebind (enqueue_google_token_revocation_job sv subject_hash tokens encrypted) (\<lambda>(h, job).
     ebind on_tracked (\<lambda>_.
       exclusive_google_subject_lock h (revoke_locked sv h tokens (bj_id job))))"

definition revoke_or_enqueue_google_token_payload ::
    "('a job_db_scheme, 'b) revocation_services_scheme \<Rightarrow> string \<Rightarrow> (string \<times> json) list
      \<Rightarrow> ('a job_db_scheme, unit) eff \<Rightarrow> ('a job_db_scheme, bool) eff" where
  "revoke_or_enqueue_google_token_payload sv subject_hash tokens on_tracked =
     ebind (rv_encrypt sv tokens) (\<lambda>encrypted.
       revoke_tracked_google_token_payload sv subject_hash tokens encrypted on_tracked)"

definition enqueue_google_token_revocation_payload ::
    "('a job_db_scheme, 'b) revocation_services_scheme \<Rightarrow> string \<Rightarrow> (string \<times> json) list \<Rightarrow> ('a job_db_scheme, unit) eff" where
  "enqueue_google_token_revocation_payload sv subject_hash tokens =
     ebind (rv_encrypt sv tokens) (\<lambda>encrypted.
     ebind (enqueue_google_token_revocation_job sv subject_hash tokens encrypted) (\<lambda>_. ereturn ()))"

definition revoke_stored_google_token ::
    "('a job_db_scheme, 'b) revocation_services_scheme \<Rightarrow> string \<Rightarrow> ('a job_db_scheme, bool) eff" where
  "revoke_stored_google_token sv user =
     ebind (eget (\<lambda>db. get_google_oauth_token db user None)) (\<lambda>token.
       case token of
         None \<Rightarrow> ereturn False
       | Some t \<Rightarrow> (case rv_decrypt sv (token_json_encrypted t) of
             Inl e \<Rightarrow> eraise e | Inr tokens \<Rightarrow> revoke_google_token_payload sv tokens))"

definition revoke_or_enqueue_stored_google_token ::
    "('a job_db_scheme, 'b) revocation_services_scheme \<Rightarrow> string \<Rightarrow> string \<Rightarrow> ('a job_db_scheme, bool) eff" where
  "revoke_or_enqueue_stored_google_token sv user subject_hash =
     ebind (eget (\<lambda>db. get_google_oauth_token db user None)) (\<lambda>token.
       case token of
         None \<Rightarrow> ereturn True
       | Some t \<Rightarrow> (case rv_decrypt sv (token_json_encrypted t) of
             Inl _ \<Rightarrow> eraise (RuntimeError ''Stored Google credentials could not be prepared for revocation'')
           | Inr tokens \<Rightarrow>
               revoke_tracked_google_token_payload sv subject_hash tokens (token_json_encrypted t) (ereturn ())))"

section \<open>The retry of a worker\<close>

definition retry_locked ::
    "('a job_db_scheme, 'b) revocation_services_scheme \<Rightarrow> string \<Rightarrow> (string \<times> json) list \<Rightarrow> string
      \<Rightarrow> ('a job_db_scheme, unit) eff" where
  "retry_locked sv h tokens job_id =
     ebind (eget (\<lambda>db. map_option bj_status (get_job db job_id))) (\<lambda>status.
       if status = None \<or> status = Some Succeeded then ereturn ()
       else if status \<noteq> Some Running
       then eraise (RuntimeError ''Google token revocation job is no longer owned by this worker'')
       else ebind (revoke_google_token_payload_outcome sv tokens) (\<lambda>outcome.
         if outcome = Retry_revocation then eraise (RuntimeError ''Google token revocation could not be confirmed'')
         else settle_revocation sv h job_id outcome))"

definition retry_encrypted_google_token_revocation ::
    "('a job_db_scheme, 'b) revocation_services_scheme \<Rightarrow> string \<Rightarrow> string \<Rightarrow> string \<Rightarrow> ('a job_db_scheme, unit) eff" where
  "retry_encrypted_google_token_revocation sv job_id subject_hash encrypted =
     (let h = strip subject_hash in
      if h = '''' then eraise (RuntimeError ''Google subject hash is required for token revocation'')
      else if encrypted = '''' then eraise (RuntimeError ''Encrypted Google token revocation payload is missing'')
      else case rv_decrypt sv encrypted of
        Inl _ \<Rightarrow> eraise (RuntimeError ''Encrypted Google token revocation payload could not be read'')
      | Inr tokens \<Rightarrow> exclusive_google_subject_lock h (retry_locked sv h tokens job_id))"

end
