(* ===== verification/Auth_Service.thy ===== *)
theory Auth_Service
  imports Google_Revocation
begin

text \<open>
  \<open>backend/app/services/auth.py\<close>: who is signed in, the sessions of browsers and native
  clients, and the exchange of a one-time login code.

  Random tokens and the check of stored Google credentials join the services. A request is
  what the functions read of it: the session cookie and the \<open>authorization\<close> header.
\<close>

section \<open>Settings, requests and services\<close>

record auth_settings =
  google_configured :: bool
  backend_origin :: string
  mobile_redirect_uri :: string
  app_session_secret :: string
  registration_mode :: string
  app_env :: string
  env_allowed_emails :: "string list"
  multi_gmail_enabled :: bool
  multi_gmail_verified_backup_id :: string
  multi_gmail_max_accounts :: nat

record auth_request =
  req_session_cookie :: "string option"
  req_authorization :: string

record credential_status =
  cs_connected :: bool
  cs_has_stored_tokens :: bool
  cs_reauth_required :: bool
  cs_error :: "string option"

record 's auth_services = "'s revocation_services" +
  au_token :: "('s, string) eff"
  au_check_credentials :: "string \<Rightarrow> ('s, credential_status) eff"
  au_missing_scopes :: "string \<Rightarrow> string list \<Rightarrow> ('s, string list) eff"

record current_user =
  cu_id :: string
  cu_email :: string
  cu_display_name :: "string option"

record issued_session =
  is_token :: string
  is_expires_at :: instant
  is_user :: current_user

definition http :: "int \<Rightarrow> string \<Rightarrow> ('s, 'a) eff" where
  "http status detail = eraise (HTTPException status detail)"

definition user_view :: "user_row \<Rightarrow> current_user" where
  "user_view u = \<lparr>cu_id = usr_id u, cu_email = usr_email u, cu_display_name = usr_display_name u\<rparr>"

section \<open>Tokens\<close>

definition hash_token :: "auth_settings \<Rightarrow> string \<Rightarrow> string" where
  "hash_token st token = sha256_hex (app_session_secret st @ '':'' @ token)"

definition bearer_token :: "auth_request \<Rightarrow> string option" where
  "bearer_token request =
     (if startswith (req_authorization request) ''Bearer ''
      then nonempty (strip (drop (length ''Bearer '') (req_authorization request))) else None)"

definition request_token :: "auth_request \<Rightarrow> string option" where
  "request_token request =
     (if truthy_str (req_session_cookie request) then req_session_cookie request else bearer_token request)"

section \<open>The current user\<close>

definition get_current_user ::
    "('a identity_db_scheme, 'b) auth_services_scheme \<Rightarrow> auth_settings \<Rightarrow> auth_request
      \<Rightarrow> ('a identity_db_scheme, current_user option) eff" where
  "get_current_user sv st request =
     (case request_token request of
        None \<Rightarrow> ereturn None
      | Some token \<Rightarrow>
          ebind (rv_now sv) (\<lambda>now.
          ebind (get_active_app_session now (hash_token st token)) (\<lambda>session.
          case session of
            None \<Rightarrow> ereturn None
          | Some s \<Rightarrow> ebind (eget (\<lambda>db. find_user db (as_user_id s))) (\<lambda>found.
              ereturn (case found of
                  None \<Rightarrow> None
                | Some u \<Rightarrow> if access_enabled u then Some (user_view u) else None)))))"

definition require_current_user ::
    "('a identity_db_scheme, 'b) auth_services_scheme \<Rightarrow> auth_settings \<Rightarrow> auth_request
      \<Rightarrow> ('a identity_db_scheme, current_user) eff" where
  "require_current_user sv st request =
     ebind (get_current_user sv st request) (\<lambda>user.
       case user of None \<Rightarrow> http 401 ''Authentication required'' | Some u \<Rightarrow> ereturn u)"

section \<open>Connection state\<close>

record google_auth_state =
  gs_available :: bool
  gs_connected :: bool
  gs_connect_url :: "string option"
  gs_can_send_mail :: bool
  gs_missing_scopes :: "string list"
  gs_contact_photos_available :: bool
  gs_missing_optional_scopes :: "string list"
  gs_reauth_required :: bool
  gs_error :: "string option"

text \<open>The defaults of the response model.\<close>

definition auth_state :: "bool \<Rightarrow> bool \<Rightarrow> string option \<Rightarrow> google_auth_state" where
  "auth_state available connected url =
     \<lparr>gs_available = available, gs_connected = connected, gs_connect_url = url, gs_can_send_mail = False,
      gs_missing_scopes = [], gs_contact_photos_available = False, gs_missing_optional_scopes = [],
      gs_reauth_required = False, gs_error = None\<rparr>"

definition gmail_full_scope :: string where
  "gmail_full_scope = ''https://mail.google.com/''"

definition google_contacts_read_scope :: string where
  "google_contacts_read_scope = ''https://www.googleapis.com/auth/contacts.readonly''"

definition scope_state :: "string \<Rightarrow> bool \<Rightarrow> string list \<Rightarrow> string list \<Rightarrow> google_auth_state" where
  "scope_state connect_url has_token missing optional =
     (let reauth = has_token \<and> missing \<noteq> [] in
      (auth_state True has_token (if \<not> has_token \<or> reauth then Some connect_url else None))
        \<lparr>gs_can_send_mail := has_token \<and> missing = [], gs_missing_scopes := (if has_token then missing else []),
         gs_contact_photos_available := has_token \<and> optional = [], gs_missing_optional_scopes := optional,
         gs_reauth_required := reauth,
         gs_error := (if reauth then Some ''Google needs full mail permission. Please sign in with Google again.'' else None)\<rparr>)"

definition granted_state ::
    "('a identity_db_scheme, 'b) auth_services_scheme \<Rightarrow> string \<Rightarrow> bool \<Rightarrow> string
      \<Rightarrow> ('a identity_db_scheme, google_auth_state) eff" where
  "granted_state sv connect_url has_token user =
     (if \<not> has_token then ereturn (scope_state connect_url has_token [gmail_full_scope] [])
      else ebind (au_missing_scopes sv user [gmail_full_scope]) (\<lambda>missing.
           ebind (au_missing_scopes sv user [google_contacts_read_scope]) (\<lambda>optional.
           ereturn (scope_state connect_url has_token missing optional))))"

definition auth_state_for_request ::
    "('a identity_db_scheme, 'b) auth_services_scheme \<Rightarrow> auth_settings \<Rightarrow> auth_request \<Rightarrow> bool
      \<Rightarrow> ('a identity_db_scheme, google_auth_state) eff" where
  "auth_state_for_request sv st request verify =
     (let connect_url = backend_origin st @ ''/auth/google'' in
      if \<not> google_configured st then ereturn (auth_state False False None)
      else ebind (get_current_user sv st request) (\<lambda>user.
      case user of
        None \<Rightarrow> ereturn (auth_state True False (Some connect_url))
      | Some u \<Rightarrow>
          ebind (eget (\<lambda>db. get_google_oauth_token db (cu_id u) None \<noteq> None)) (\<lambda>has_token.
          if \<not> (verify \<and> has_token) then granted_state sv connect_url has_token (cu_id u)
          else ebind (etry (ebind (au_check_credentials sv (cu_id u)) (\<lambda>status. ereturn (Some status)))
                  (\<lambda>e. if e = UserMailWorkBlocked then ereturn None else eraise e)) (\<lambda>status.
               case status of
                 None \<Rightarrow> ereturn ((auth_state True False (Some connect_url))
                   \<lparr>gs_reauth_required := True, gs_error := Some ''Google is disconnected. Please sign in with Google again.''\<rparr>)
               | Some s \<Rightarrow>
                   if \<not> cs_connected s
                   then ereturn ((auth_state True False (Some connect_url))
                     \<lparr>gs_reauth_required := cs_reauth_required s \<or> cs_has_stored_tokens s, gs_error := cs_error s\<rparr>)
                   else granted_state sv connect_url has_token (cu_id u)))))"

section \<open>Users and sessions\<close>

definition is_email_allowed :: "'a identity_db_scheme \<Rightarrow> auth_settings \<Rightarrow> string \<Rightarrow> bool" where
  "is_email_allowed db st email \<longleftrightarrow>
     (let normalized = lower (strip email) in
      registration_mode st = ''open''
      \<or> (app_env st = ''local'' \<and> env_allowed_emails st = [])
      \<or> normalized \<in> set (env_allowed_emails st)
      \<or> is_allowed_email db normalized = Some True)"

definition create_or_update_user ::
    "('a identity_db_scheme, 'b) auth_services_scheme \<Rightarrow> auth_settings \<Rightarrow> string option \<Rightarrow> string option \<Rightarrow> string \<Rightarrow> int
      \<Rightarrow> ('a identity_db_scheme, user_row) eff" where
  "create_or_update_user sv st email name google_sub epoch =
     (let address = lower (strip (str_or_empty email)); verified = strip google_sub in
      if address = '''' then http 400 ''Google profile did not include an email''
      else if verified = '''' then http 400 ''Google identity could not be verified''
      else ebind (eget (\<lambda>db. is_email_allowed db st address)) (\<lambda>allowed.
      if \<not> allowed then http 403 ''This Google account is not allowed''
      else ebind (rv_now sv) (\<lambda>now. ebind (rv_id sv) (\<lambda>fresh_id.
        etry (upsert_user now fresh_id address verified name True (Some epoch))
          (\<lambda>e. if e = identity_conflict
               then http 409 ''This email is already linked to a different Google identity. Contact support to re-link it safely.''
               else eraise e)))))"

definition web_session_days :: int where
  "web_session_days = 30"

definition mobile_session_days :: int where
  "mobile_session_days = 90"

definition issue_session ::
    "('a identity_db_scheme, 'b) auth_services_scheme \<Rightarrow> auth_settings \<Rightarrow> user_row \<Rightarrow> string
      \<Rightarrow> ('a identity_db_scheme, issued_session) eff" where
  "issue_session sv st user platform =
     ebind (au_token sv) (\<lambda>token. ebind (rv_now sv) (\<lambda>now. ebind (rv_id sv) (\<lambda>fresh_id.
       let expires = now + days (if platform \<in> {''ios'', ''macos''} then mobile_session_days else web_session_days) in
       ebind (create_app_session now fresh_id (usr_id user) (hash_token st token) platform expires) (\<lambda>_.
       ereturn \<lparr>is_token = token, is_expires_at = expires, is_user = user_view user\<rparr>))))"

definition revoke_request_session ::
    "('a identity_db_scheme, 'b) auth_services_scheme \<Rightarrow> auth_settings \<Rightarrow> auth_request \<Rightarrow> ('a identity_db_scheme, unit) eff" where
  "revoke_request_session sv st request =
     (case request_token request of
        None \<Rightarrow> ereturn ()
      | Some token \<Rightarrow> ebind (rv_now sv) (\<lambda>now. ebind (revoke_app_session now (hash_token st token)) (\<lambda>_. ereturn ())))"

section \<open>Mobile login\<close>

definition mobile_login_code_minutes :: int where
  "mobile_login_code_minutes = 5"

definition create_mobile_code ::
    "('a identity_db_scheme, 'b) auth_services_scheme \<Rightarrow> auth_settings \<Rightarrow> string \<Rightarrow> ('a identity_db_scheme, string) eff" where
  "create_mobile_code sv st user =
     ebind (au_token sv) (\<lambda>code. ebind (rv_now sv) (\<lambda>now.
     ebind (create_mobile_login_code now (hash_token st code) user (now + seconds (mobile_login_code_minutes * 60)))
       (\<lambda>_. ereturn code)))"

text \<open>RFC 7636: the S256 challenge of a verifier; a verifier that is not ASCII has none.\<close>

definition mobile_exchange_code_challenge :: "string \<Rightarrow> string option" where
  "mobile_exchange_code_challenge verifier =
     (if is_ascii verifier then Some (rstrip_pads (urlsafe_b64encode (map char_of (sha256 verifier)))) else None)"

definition exchange_mobile_code ::
    "('a identity_db_scheme, 'b) auth_services_scheme \<Rightarrow> auth_settings \<Rightarrow> string \<Rightarrow> string \<Rightarrow> string
      \<Rightarrow> ('a identity_db_scheme, issued_session) eff" where
  "exchange_mobile_code sv st code handoff verifier =
     (case mobile_exchange_code_challenge verifier of
        None \<Rightarrow> eraise (ValueError ''UnicodeEncodeError'')
      | Some challenge \<Rightarrow>
          ebind (rv_now sv) (\<lambda>now.
          ebind (consume_bound_mobile_login_code now handoff challenge (hash_token st code)) (\<lambda>login_code.
          case login_code of
            None \<Rightarrow> http 401 ''Invalid or expired login code''
          | Some c \<Rightarrow>
              ebind (eget (\<lambda>db. find_user db (lc_user_id c))) (\<lambda>found.
              case found of
                None \<Rightarrow> http 401 ''Authentication required''
              | Some u \<Rightarrow> if access_enabled u then issue_session sv st u ''macos'' else http 401 ''Authentication required''))))"

section \<open>Stored Google credentials\<close>

definition save_user_google_tokens ::
    "('a identity_db_scheme, 'b) auth_services_scheme \<Rightarrow> string \<Rightarrow> (string \<times> json) list \<Rightarrow> int \<Rightarrow> ('a identity_db_scheme, unit) eff" where
  "save_user_google_tokens sv user tokens epoch =
     ebind (rv_encrypt sv tokens) (\<lambda>encrypted. ebind (rv_now sv) (\<lambda>now.
     ebind (upsert_google_oauth_token now user encrypted (Some epoch) None) (\<lambda>_. ereturn ())))"

definition load_user_google_tokens ::
    "('a identity_db_scheme, 'b) auth_services_scheme \<Rightarrow> string \<Rightarrow> ('a identity_db_scheme, (string \<times> json) list option) eff" where
  "load_user_google_tokens sv user =
     ebind (eget (\<lambda>db. get_google_oauth_token db user None)) (\<lambda>token.
       case token of
         None \<Rightarrow> ereturn None
       | Some t \<Rightarrow> (case rv_decrypt sv (token_json_encrypted t) of Inl e \<Rightarrow> eraise e | Inr tokens \<Rightarrow> ereturn (Some tokens)))"

end
