(* ===== verification/Auth_Routes.thy ===== *)
theory Auth_Routes
  imports Auth_Service Thread_Actions
begin

text \<open>
  The routes of \<open>backend/app/api/routes/auth_google.py\<close> that end or begin the use of a Google
  identity: sign out, disconnect, deletion of the mail data and of the account, the callback
  of an OAuth flow and the handoff to a native client; with \<open>delete_user_mail_data\<close> of
  \<open>db/mail_groups.py\<close>.

  A route returns a status or a response, or raises \<open>HTTPException\<close>. Cookies, pages and
  query encoding are left out: a redirect carries its parameters. The exchange of an OAuth
  code with Google, the start and stop of a Gmail watch, and \<open>urlparse\<close> with \<open>parse_qs\<close> are
  services.
\<close>

section \<open>Deletion of the mail data\<close>

text \<open>
  The tables of this development in the order of \<open>USER_MAIL_DATA_DELETE_ORDER\<close>; the other
  tables of that list are not modelled. The statements of the mail tables see the rows of
  the account that the connection shows; \<open>background_jobs\<close> has no such policy, and the events of
  a job fall with it.
\<close>

definition user_sends :: "'a send_db_scheme \<Rightarrow> string \<Rightarrow> send_row \<Rightarrow> bool" where
  "user_sends db user r \<longleftrightarrow> ps_user_id r = user \<and> row_visible db (begin_connection db) user (ps_gmail_account_id r)"

definition delete_mail_rows :: "string \<Rightarrow> 'a action_db_scheme \<Rightarrow> 'a action_db_scheme" where
  "delete_mail_rows user db =
     (let conn = begin_connection db;
          jobs = filter (\<lambda>r. bj_user_id r = Some user) (background_jobs db) in
      db\<lparr>gmail_pending_sends := delete_where (user_sends db user) (gmail_pending_sends db),
         gmail_pending_thread_actions := delete_where (own_action db conn user) (gmail_pending_thread_actions db),
         reconcile_seen := delete_where (own_seen db conn user) (reconcile_seen db),
         initial_window_entries := delete_where (own_window db conn user) (initial_window_entries db),
         mail_group_members := delete_where (own_member db conn user) (mail_group_members db),
         mail_groups := delete_where (own_group db conn user) (mail_groups db),
         gmail_messages := delete_where (own_message db conn user) (gmail_messages db),
         gmail_import_states := delete_where (own_import db conn user) (gmail_import_states db),
         background_jobs := delete_where (\<lambda>r. bj_user_id r = Some user) (background_jobs db),
         background_job_events := delete_where (\<lambda>e. ev_job_id e \<in> set (map bj_id jobs)) (background_job_events db)\<rparr>)"

definition requested_row :: "instant \<Rightarrow> user_row \<Rightarrow> user_row" where
  "requested_row now u =
     u\<lparr>google_data_delete_requested_at := coalesce (google_data_delete_requested_at u) (Some now), usr_updated_at := now\<rparr>"

definition deleted_row :: "instant \<Rightarrow> user_row \<Rightarrow> user_row" where
  "deleted_row now u = u\<lparr>google_data_deleted_at := Some now, usr_updated_at := now\<rparr>"

definition delete_user_mail_data :: "instant \<Rightarrow> string \<Rightarrow> 'a action_db_scheme \<Rightarrow> 'a action_db_scheme" where
  "delete_user_mail_data now user db =
     set_google_guard now user (deleted_row now)
       (delete_mail_rows user (set_google_guard now user (requested_row now) db))"

section \<open>Services\<close>

record url_parts =
  url_scheme :: string
  url_netloc :: string
  url_path :: string
  url_query :: "(string \<times> string list) list"

record callback_result =
  cr_redirect_to :: "string option"
  cr_tokens :: "(string \<times> json) list"
  cr_email :: "string option"
  cr_display_name :: "string option"
  cr_google_sub :: string
  cr_started_epoch :: int

record 's route_services = "'s auth_services" +
  rt_stop_watch :: "string \<Rightarrow> ('s, unit) eff"
  rt_ensure_watch :: "string \<Rightarrow> ('s, unit) eff"
  rt_exchange :: "string \<Rightarrow> oauth_login_row \<Rightarrow> ('s, (string \<times> json) list) eff"
  rt_userinfo :: "string \<Rightarrow> ('s, json) eff"
  rt_url :: "string \<Rightarrow> url_parts"

section \<open>Signing out\<close>

definition auth_logout ::
    "('a identity_db_scheme, 'b) auth_services_scheme \<Rightarrow> auth_settings \<Rightarrow> auth_request \<Rightarrow> ('a identity_db_scheme, int) eff" where
  "auth_logout sv st request = ebind (revoke_request_session sv st request) (\<lambda>_. ereturn 204)"

definition auth_revoke_sessions ::
    "('a identity_db_scheme, 'b) auth_services_scheme \<Rightarrow> auth_settings \<Rightarrow> auth_request \<Rightarrow> ('a identity_db_scheme, int) eff" where
  "auth_revoke_sessions sv st request =
     ebind (require_current_user sv st request) (\<lambda>user.
     ebind (rv_now sv) (\<lambda>now. ebind (revoke_user_app_sessions now (cu_id user)) (\<lambda>_. ereturn 204)))"

section \<open>Giving up a Google connection\<close>

definition disconnect_now ::
    "('a action_db_scheme, 'b) auth_services_scheme \<Rightarrow> string \<Rightarrow> ('a action_db_scheme, unit) eff" where
  "disconnect_now sv user = ebind (rv_now sv) (\<lambda>now. eupdate (mark_google_disconnected now user))"

definition cancel_jobs_now ::
    "('a action_db_scheme, 'b) auth_services_scheme \<Rightarrow> string \<Rightarrow> ('a action_db_scheme, unit) eff" where
  "cancel_jobs_now sv user = ebind (rv_now sv) (\<lambda>now. ebind (cancel_user_jobs now user) (\<lambda>_. ereturn ()))"

definition delete_data_now ::
    "('a action_db_scheme, 'b) auth_services_scheme \<Rightarrow> string \<Rightarrow> ('a action_db_scheme, unit) eff" where
  "delete_data_now sv user = ebind (rv_now sv) (\<lambda>now. eupdate (delete_user_mail_data now user))"

definition revoke_sessions_now ::
    "('a action_db_scheme, 'b) auth_services_scheme \<Rightarrow> string \<Rightarrow> ('a action_db_scheme, unit) eff" where
  "revoke_sessions_now sv user = ebind (rv_now sv) (\<lambda>now. ebind (revoke_user_app_sessions now user) (\<lambda>_. ereturn ()))"

definition prepare_google_token_revocation_or_fail ::
    "('a action_db_scheme, 'b) auth_services_scheme \<Rightarrow> string \<Rightarrow> string \<Rightarrow> ('a action_db_scheme, unit) eff" where
  "prepare_google_token_revocation_or_fail sv user subject_hash =
     etry (ebind (revoke_or_enqueue_stored_google_token sv user subject_hash) (\<lambda>_. ereturn ()))
       (\<lambda>_. ebind (disconnect_now sv user) (\<lambda>_. ebind (cancel_jobs_now sv user) (\<lambda>_.
          http 503 ''Google authorization cleanup could not be secured. Please try again.'')))"

text \<open>
  The common frame of the three routes: the user, both locks in their global order, the
  barrier, the end of the watch, and the secured revocation; then \<open>rest\<close> under the locks.
\<close>

definition give_up_grant ::
    "('a action_db_scheme, 'b) route_services_scheme \<Rightarrow> string \<Rightarrow> string \<Rightarrow> ('a action_db_scheme, unit) eff
      \<Rightarrow> ('a action_db_scheme, unit) eff" where
  "give_up_grant sv user h rest =
     exclusive_google_subject_lock h
       (ebind (rv_now sv) (\<lambda>now. ebind (record_google_subject_revocation now h) (\<lambda>_.
        exclusive_user_mail_lock user
          (ebind (etry (rt_stop_watch sv user) (\<lambda>_. ereturn ())) (\<lambda>_.
           ebind (prepare_google_token_revocation_or_fail sv user h) (\<lambda>_. rest))))))"

definition with_revoked_grant ::
    "('a action_db_scheme, 'b) route_services_scheme \<Rightarrow> auth_settings \<Rightarrow> auth_request
      \<Rightarrow> (string \<Rightarrow> ('a action_db_scheme, unit) eff) \<Rightarrow> ('a action_db_scheme, int) eff" where
  "with_revoked_grant sv st request rest =
     ebind (require_current_user sv st request) (\<lambda>user.
     ebind (eget (\<lambda>db. find_user db (cu_id user))) (\<lambda>stored.
     case stored of
       None \<Rightarrow> http 404 ''Account not found''
     | Some u \<Rightarrow> (case google_subject_tombstone_hash (usr_google_sub u) of
           Inl e \<Rightarrow> eraise e
         | Inr h \<Rightarrow> ebind (give_up_grant sv (cu_id user) h (rest (cu_id user))) (\<lambda>_. ereturn 204))))"

definition auth_delete_google_data ::
    "('a action_db_scheme, 'b) route_services_scheme \<Rightarrow> auth_settings \<Rightarrow> auth_request \<Rightarrow> ('a action_db_scheme, int) eff" where
  "auth_delete_google_data sv st request =
     with_revoked_grant sv st request (\<lambda>user.
       ebind (disconnect_now sv user) (\<lambda>_. ebind (cancel_jobs_now sv user) (\<lambda>_.
       ebind (delete_google_oauth_token user None) (\<lambda>_. delete_data_now sv user))))"

definition auth_google_disconnect ::
    "('a action_db_scheme, 'b) route_services_scheme \<Rightarrow> auth_settings \<Rightarrow> auth_request \<Rightarrow> bool \<Rightarrow> bool
      \<Rightarrow> ('a action_db_scheme, int) eff" where
  "auth_google_disconnect sv st request delete_data revoke_all =
     with_revoked_grant sv st request (\<lambda>user.
       ebind (disconnect_now sv user) (\<lambda>_. ebind (cancel_jobs_now sv user) (\<lambda>_.
       ebind (delete_google_oauth_token user None) (\<lambda>_.
       ebind (if delete_data then delete_data_now sv user else ereturn ()) (\<lambda>_.
       if revoke_all then revoke_sessions_now sv user else ereturn ())))))"

text \<open>Every row of the user falls with the user, whatever account it belongs to: cascades bypass row security.\<close>

definition cascade_user :: "string \<Rightarrow> 'a action_db_scheme \<Rightarrow> 'a action_db_scheme" where
  "cascade_user user db =
     (let jobs = filter (\<lambda>r. bj_user_id r = Some user) (background_jobs db) in
      db\<lparr>gmail_pending_sends := delete_where (\<lambda>r. ps_user_id r = user) (gmail_pending_sends db),
         gmail_pending_thread_actions := delete_where (\<lambda>r. pa_user_id r = user) (gmail_pending_thread_actions db),
         reconcile_seen := delete_where (\<lambda>r. sn_user_id r = user) (reconcile_seen db),
         initial_window_entries := delete_where (\<lambda>r. iw_user_id r = user) (initial_window_entries db),
         mail_group_members := delete_where (\<lambda>r. mm_user_id r = user) (mail_group_members db),
         mail_groups := delete_where (\<lambda>r. mg_user_id r = user) (mail_groups db),
         gmail_messages := delete_where (\<lambda>r. gm_user_id r = user) (gmail_messages db),
         gmail_import_states := delete_where (\<lambda>r. is_user_id r = user) (gmail_import_states db),
         background_jobs := delete_where (\<lambda>r. bj_user_id r = Some user) (background_jobs db),
         background_job_events := delete_where (\<lambda>e. ev_job_id e \<in> set (map bj_id jobs)) (background_job_events db)\<rparr>)"

definition delete_account_now ::
    "('a action_db_scheme, 'b) auth_services_scheme \<Rightarrow> string \<Rightarrow> ('a action_db_scheme, unit) eff" where
  "delete_account_now sv user =
     ebind (rv_now sv) (\<lambda>now.
     ebind (delete_user_account_with_google_subject_tombstone now user) (\<lambda>gone.
     if gone then eupdate (cascade_user user) else http 404 ''Account not found''))"

definition auth_delete_account ::
    "('a action_db_scheme, 'b) route_services_scheme \<Rightarrow> auth_settings \<Rightarrow> auth_request \<Rightarrow> ('a action_db_scheme, int) eff" where
  "auth_delete_account sv st request =
     with_revoked_grant sv st request (\<lambda>user.
       ebind (cancel_jobs_now sv user) (\<lambda>_. ebind (delete_data_now sv user) (\<lambda>_.
       ebind (revoke_sessions_now sv user) (\<lambda>_. delete_account_now sv user))))"

end
