(* ===== verification/Oauth_Callback.thy ===== *)
theory Oauth_Callback
  imports Auth_Routes
begin

text \<open>
  The end of an OAuth flow in \<open>backend/app/api/routes/auth_google.py\<close>: the callback with the
  exchange of the code, the login or the linking of a Gmail account, the ownership of the new
  grant on every way out, and the handoff to a native client.

  The local variables that the callback assigns while exceptions may pass are fields of the
  state: \<open>callback_db\<close> is the database with \<open>unpersisted_google_tokens\<close>,
  \<open>unpersisted_google_subject_hash\<close>, \<open>callback_user_id\<close> and
  \<open>oauth_login_session_delete_attempted\<close>.
\<close>

section \<open>State and responses\<close>

record callback_db = action_db +
  cb_tokens :: "(string \<times> json) list option"
  cb_subject_hash :: "string option"
  cb_user_id :: "string option"
  cb_delete_attempted :: bool

datatype auth_response =
    To_url string
  | To_handoff_page string
  | To_native_client "(string \<times> string) list"
  | Signed_in issued_session

datatype callback_flow = Respond auth_response | Proceed callback_result user_row

definition google_sign_in_failed :: string where
  "google_sign_in_failed = ''Google sign-in failed. Please try again.''"

section \<open>Redirect targets\<close>

definition is_word_char :: "char \<Rightarrow> bool" where
  "is_word_char c \<longleftrightarrow>
     (let n = of_char c :: nat in
      (65 \<le> n \<and> n \<le> 90) \<or> (97 \<le> n \<and> n \<le> 122) \<or> (48 \<le> n \<and> n \<le> 57) \<or> n = 95 \<or> n = 45)"

definition valid_handoff_id :: "string \<Rightarrow> bool" where
  "valid_handoff_id s \<longleftrightarrow> list_all is_word_char s \<and> 32 \<le> length s \<and> length s \<le> 128"

definition valid_code_challenge :: "string \<Rightarrow> bool" where
  "valid_code_challenge s \<longleftrightarrow> list_all is_word_char s \<and> length s = 43"

definition query_values :: "url_parts \<Rightarrow> string \<Rightarrow> string list" where
  "query_values url key = (case map_of (url_query url) key of None \<Rightarrow> [] | Some vs \<Rightarrow> vs)"

definition mobile_handoff_context ::
    "('s, 'b) route_services_scheme \<Rightarrow> auth_settings \<Rightarrow> string \<Rightarrow> (string \<times> string) option" where
  "mobile_handoff_context sv st redirect_to =
     (let parsed = rt_url sv redirect_to; expected = rt_url sv (backend_origin st @ ''/auth/mobile/complete'') in
      if url_scheme parsed \<noteq> url_scheme expected \<or> url_netloc parsed \<noteq> url_netloc expected
         \<or> url_path parsed \<noteq> url_path expected then None
      else case (query_values parsed ''handoff_id'', query_values parsed ''code_challenge'') of
        ([h], [c]) \<Rightarrow>
          if valid_handoff_id (strip h) \<and> valid_code_challenge (strip c) then Some (strip h, strip c) else None
      | _ \<Rightarrow> None)"

definition is_mobile_handoff_redirect :: "('s, 'b) route_services_scheme \<Rightarrow> auth_settings \<Rightarrow> string \<Rightarrow> bool" where
  "is_mobile_handoff_redirect sv st redirect_to \<longleftrightarrow> mobile_handoff_context sv st redirect_to \<noteq> None"

definition native_link_completion ::
    "auth_settings \<Rightarrow> oauth_login_row option \<Rightarrow> string \<Rightarrow> string option \<Rightarrow> string option \<Rightarrow> auth_response option" where
  "native_link_completion st session status account error =
     (case session of
        None \<Rightarrow> None
      | Some s \<Rightarrow>
          if ol_intent s \<noteq> ''link'' \<or> ol_redirect_to s \<noteq> Some (mobile_redirect_uri st) then None
          else Some (To_native_client ([(''status'', status)]
            @ (if truthy_str account then [(''gmail_account_id'', str_or_empty account)] else [])
            @ (if truthy_str error then [(''error'', str_or_empty error)] else []))))"

definition mobile_handoff_ttl_seconds :: int where
  "mobile_handoff_ttl_seconds = 5 * 60"

definition persist_terminal_mobile_handoff ::
    "('a identity_db_scheme, 'b) route_services_scheme \<Rightarrow> auth_settings \<Rightarrow> string option \<Rightarrow> string \<Rightarrow> string
      \<Rightarrow> ('a identity_db_scheme, auth_response option) eff" where
  "persist_terminal_mobile_handoff sv st redirect_to status error =
     (case redirect_to of
        None \<Rightarrow> ereturn None
      | Some url \<Rightarrow> (case mobile_handoff_context sv st url of
            None \<Rightarrow> ereturn None
          | Some (handoff, challenge) \<Rightarrow>
              ebind (rv_now sv) (\<lambda>now.
              ebind (create_mobile_oauth_handoff now handoff None (now + seconds mobile_handoff_ttl_seconds) None (Some challenge)
                  status (Some error)) (\<lambda>_.
              ereturn (Some (To_handoff_page handoff))))))"

section \<open>Starting a flow\<close>

definition oauth_session_minutes :: int where
  "oauth_session_minutes = 15"

text \<open>\<open>get_google_auth_url\<close>: the state and the verifier are random; the URL names the state.\<close>

definition get_google_auth_url ::
    "('a identity_db_scheme, 'b) auth_services_scheme \<Rightarrow> (string \<Rightarrow> string) \<Rightarrow> string option \<Rightarrow> string \<Rightarrow> string option
      \<Rightarrow> ('a identity_db_scheme, string) eff" where
  "get_google_auth_url sv url redirect_to intent user =
     ebind (au_token sv) (\<lambda>verifier. ebind (au_token sv) (\<lambda>state. ebind (rv_now sv) (\<lambda>now.
     ebind (save_oauth_login_session now state verifier redirect_to (now + seconds (oauth_session_minutes * 60)) intent user)
       (\<lambda>_. ereturn (url state)))))"

definition auth_google ::
    "('a identity_db_scheme, 'b) route_services_scheme \<Rightarrow> auth_settings \<Rightarrow> (string \<Rightarrow> string) \<Rightarrow> string option
      \<Rightarrow> ('a identity_db_scheme, auth_response) eff" where
  "auth_google sv st url redirect_to =
     (if \<not> google_configured st then http 500 ''Google OAuth is not configured in backend/.env''
      else if (case redirect_to of None \<Rightarrow> False | Some r \<Rightarrow> \<not> is_mobile_handoff_redirect sv st r)
      then http 400 ''Unsupported OAuth redirect target''
      else ebind (get_google_auth_url sv url redirect_to ''login'' None) (\<lambda>target. ereturn (To_url target)))"

section \<open>The exchange with Google\<close>

text \<open>\<open>fetch_google_account_identity_from_credentials\<close> of \<open>services/integrations/google.py\<close>\<close>

definition identity_of :: "json \<Rightarrow> (string \<times> string option \<times> string) option" where
  "identity_of payload =
     (case payload of
        JObj fs \<Rightarrow>
          (let google_sub = strip (json_str_or_empty (jget fs ''sub'')); email = lower (strip (json_str_or_empty (jget fs ''email''))) in
           if google_sub = '''' \<or> email = '''' \<or> jget fs ''email_verified'' \<noteq> JBool True then None
           else Some (email, nonempty (strip (json_str_or_empty (jor (jget fs ''given_name'') (jget fs ''name'')))), google_sub))
      | _ \<Rightarrow> None)"

definition fetch_google_account_identity ::
    "('s, 'b) route_services_scheme \<Rightarrow> (string \<times> json) list \<Rightarrow> ('s, (string \<times> string option \<times> string) option) eff" where
  "fetch_google_account_identity sv tokens =
     (if \<not> truthy (jget tokens ''token'') then ereturn None
      else etry (ebind (rt_userinfo sv (json_str_or_empty (jget tokens ''token''))) (\<lambda>payload. ereturn (identity_of payload)))
        (\<lambda>e. if is_os_error e \<or> (case e of ValueError _ \<Rightarrow> True | _ \<Rightarrow> False) then ereturn None else eraise e))"

text \<open>\<open>handle_google_callback\<close> of \<open>services/integrations/google.py\<close>\<close>

definition handle_google_callback ::
    "('a identity_db_scheme, 'b) route_services_scheme \<Rightarrow> string \<Rightarrow> string option \<Rightarrow> ('a identity_db_scheme, callback_result) eff" where
  "handle_google_callback sv code state =
     ebind (case state of
         None \<Rightarrow> ereturn None
       | Some s \<Rightarrow> ebind (rv_now sv) (\<lambda>now. eget (\<lambda>db. get_oauth_login_session db s now))) (\<lambda>session.
     case session of
       None \<Rightarrow> eraise (RuntimeError ''Missing OAuth session. Start again from /auth/google.'')
     | Some s \<Rightarrow>
         if ol_state s \<noteq> '''' \<and> state \<noteq> Some (ol_state s)
         then ebind (delete_oauth_login_session (str_or_empty state)) (\<lambda>_.
              eraise (RuntimeError ''OAuth state mismatch. Start again from /auth/google.''))
         else if ol_code_verifier s = ''''
         then ebind (delete_oauth_login_session (if truthy_str state then str_or_empty state else ol_state s)) (\<lambda>_.
              eraise (RuntimeError ''Missing OAuth code verifier. Start again from /auth/google.''))
         else ebind (rt_exchange sv code s) (\<lambda>tokens.
              etry (ebind (fetch_google_account_identity sv tokens) (\<lambda>identity.
                  case identity of
                    None \<Rightarrow> eraise (RuntimeError ''Google account identity could not be verified. Please try again.'')
                  | Some (email, name, sub) \<Rightarrow>
                      ereturn \<lparr>cr_redirect_to = ol_redirect_to s, cr_tokens = tokens, cr_email = Some email, cr_display_name = name,
                        cr_google_sub = sub, cr_started_epoch = ol_started_epoch s\<rparr>))
                (\<lambda>e. ebind (revoke_google_token_payload sv tokens) (\<lambda>_. eraise e))))"

section \<open>Ownership of the new grant\<close>

definition set_tokens :: "(string \<times> json) list option \<Rightarrow> (callback_db, unit) eff" where
  "set_tokens tokens = eupdate (cb_tokens_update (\<lambda>_. tokens))"

definition set_callback_user :: "string option \<Rightarrow> (callback_db, unit) eff" where
  "set_callback_user user = eupdate (cb_user_id_update (\<lambda>_. user))"

definition use_state :: "string option \<Rightarrow> (callback_db, unit) eff" where
  "use_state state =
     (if \<not> truthy_str state then ereturn ()
      else ebind (eupdate (cb_delete_attempted_update (\<lambda>_. True))) (\<lambda>_. delete_oauth_login_session (str_or_empty state)))"

definition disconnect_callback_google_connection ::
    "('a action_db_scheme, 'b) auth_services_scheme \<Rightarrow> string \<Rightarrow> ('a action_db_scheme, unit) eff" where
  "disconnect_callback_google_connection sv user =
     exclusive_user_mail_lock user
       (ebind (delete_google_oauth_token user None) (\<lambda>_. ebind (disconnect_now sv user) (\<lambda>_. cancel_jobs_now sv user)))"

definition disconnect_if_known ::
    "('a action_db_scheme, 'b) auth_services_scheme \<Rightarrow> string option \<Rightarrow> ('a action_db_scheme, unit) eff" where
  "disconnect_if_known sv user =
     (case user of None \<Rightarrow> ereturn () | Some u \<Rightarrow> disconnect_callback_google_connection sv u)"

definition cleanup_unpersisted_callback_grant ::
    "('a action_db_scheme, 'b) auth_services_scheme \<Rightarrow> string \<Rightarrow> (string \<times> json) list \<Rightarrow> string option
      \<Rightarrow> ('a action_db_scheme, unit) eff" where
  "cleanup_unpersisted_callback_grant sv subject_hash tokens user =
     ebind (etry (disconnect_if_known sv user) (\<lambda>_. ereturn ())) (\<lambda>_.
     ebind (etry (revoke_google_token_payload sv tokens) (\<lambda>_. ereturn False)) (\<lambda>resolved.
     if \<not> resolved then ereturn ()
     else etry (ebind (rv_now sv) (\<lambda>now. ebind (record_google_subject_revocation now subject_hash) (\<lambda>_. ereturn ())))
            (\<lambda>_. ereturn ())))"

definition queue_callback_grant_cleanup ::
    "('a job_db_scheme, 'b) auth_services_scheme \<Rightarrow> string \<Rightarrow> (string \<times> json) list \<Rightarrow> ('a job_db_scheme, bool) eff" where
  "queue_callback_grant_cleanup sv subject_hash tokens =
     etry (ebind (enqueue_google_token_revocation_payload sv subject_hash tokens) (\<lambda>_. ereturn True)) (\<lambda>_. ereturn False)"

definition queue_callback_grant_cleanup_or_revoke ::
    "('a job_db_scheme, 'b) auth_services_scheme \<Rightarrow> string \<Rightarrow> (string \<times> json) list \<Rightarrow> ('a job_db_scheme, unit) eff" where
  "queue_callback_grant_cleanup_or_revoke sv subject_hash tokens =
     ebind (queue_callback_grant_cleanup sv subject_hash tokens) (\<lambda>queued.
     if queued then ereturn () else ebind (revoke_google_token_payload sv tokens) (\<lambda>_. ereturn ()))"

text \<open>The inner \<open>finally\<close>, under the subject lock.\<close>

definition release_login_grant ::
    "(callback_db, 'b) auth_services_scheme \<Rightarrow> string \<Rightarrow> (callback_db, unit) eff" where
  "release_login_grant sv subject_hash =
     ebind (eget (\<lambda>db. (cb_tokens db, cb_user_id db))) (\<lambda>(tokens, user).
     case tokens of
       None \<Rightarrow> ereturn ()
     | Some t \<Rightarrow>
         efinally
           (etry (ebind (revoke_or_enqueue_google_token_payload sv subject_hash t (disconnect_if_known sv user)) (\<lambda>_. ereturn ()))
              (\<lambda>_. cleanup_unpersisted_callback_grant sv subject_hash t user))
           (set_tokens None))"

text \<open>The outer \<open>finally\<close>: the grant of a callback that never entered the subject lock.\<close>

definition release_callback_grant :: "(callback_db, 'b) auth_services_scheme \<Rightarrow> (callback_db, unit) eff" where
  "release_callback_grant sv =
     ebind (eget (\<lambda>db. (cb_tokens db, cb_subject_hash db, cb_user_id db))) (\<lambda>(tokens, subject, user).
     case (tokens, subject) of
       (Some t, Some h) \<Rightarrow>
         ebind (etry (exclusive_google_subject_lock h (cleanup_unpersisted_callback_grant sv h t user))
             (\<lambda>e. if e = AdvisoryLockUnavailable then ebind (queue_callback_grant_cleanup sv h t) (\<lambda>_. ereturn ())
                  else queue_callback_grant_cleanup_or_revoke sv h t)) (\<lambda>_.
         set_tokens None)
     | _ \<Rightarrow> ereturn ())"

section \<open>Linking a Gmail account\<close>

definition require_fresh_grant ::
    "string \<Rightarrow> int \<Rightarrow> string \<Rightarrow> string \<Rightarrow> ('a job_db_scheme, unit) eff" where
  "require_fresh_grant subject_hash epoch stale pending =
     ebind (eget (\<lambda>db. oauth_session_is_after_google_subject_deletion db subject_hash epoch)) (\<lambda>fresh.
     if \<not> fresh then eraise (RuntimeError stale)
     else ebind (has_active_google_token_revocation subject_hash) (\<lambda>active.
       if active then eraise (RuntimeError pending) else ereturn ()))"

definition link_now ::
    "('a identity_db_scheme, 'b) auth_services_scheme \<Rightarrow> auth_settings \<Rightarrow> string \<Rightarrow> string \<Rightarrow> callback_result
      \<Rightarrow> ('a identity_db_scheme, account_row) eff" where
  "link_now sv st user email result =
     ebind (rv_encrypt sv (cr_tokens result)) (\<lambda>encrypted. ebind (rv_now sv) (\<lambda>now. ebind (rv_id sv) (\<lambda>fresh_id.
       link_gmail_account now fresh_id user email (cr_google_sub result) (cr_display_name result) encrypted
         (cr_started_epoch result) (multi_gmail_max_accounts st))))"

definition respond_linked ::
    "auth_settings \<Rightarrow> oauth_login_row \<Rightarrow> string \<Rightarrow> string option \<Rightarrow> string option \<Rightarrow> ('s, callback_flow) eff" where
  "respond_linked st session status account error =
     (case native_link_completion st (Some session) status account error of
        None \<Rightarrow> eraise (RuntimeError ''Gmail link redirect is invalid'')
      | Some r \<Rightarrow> ereturn (Respond r))"

definition merge_required :: string where
  "merge_required = ''This Gmail is already linked to another Electronic Mail account. Account merge is required.''"

definition link_callback ::
    "(callback_db, 'b) auth_services_scheme \<Rightarrow> auth_settings \<Rightarrow> oauth_login_row \<Rightarrow> string option \<Rightarrow> string \<Rightarrow> callback_result
      \<Rightarrow> (callback_db, callback_flow) eff" where
  "link_callback sv st session state subject_hash result =
     (case ol_initiating_user_id session of
        None \<Rightarrow> eraise (RuntimeError ''Gmail link session has no app user'')
      | Some user \<Rightarrow>
          ebind (eget (\<lambda>db. multi_gmail_enabled st \<and> multi_gmail_verified_backup_id st \<noteq> ''''
              \<and> multi_account_migration_verified db user)) (\<lambda>enabled.
          if \<not> enabled then eraise (RuntimeError ''Adding Gmail accounts is not enabled for this inbox'')
          else ebind (use_state state) (\<lambda>_.
          ebind (require_fresh_grant subject_hash (cr_started_epoch result) ''OAuth session predates account deletion''
            ''Previous Google authorization cleanup is still pending'') (\<lambda>_.
          ebind (eget (\<lambda>db. get_gmail_account_by_google_subject db (cr_google_sub result))) (\<lambda>collision.
          case collision of
            Some a \<Rightarrow>
              if acc_user_id a \<noteq> user
              then ebind (link_now sv st (acc_user_id a)
                       (if truthy_str (cr_email result) then str_or_empty (cr_email result) else acc_email a) result) (\<lambda>_.
                   ebind (set_tokens None) (\<lambda>_.
                   respond_linked st session ''failed'' None (Some merge_required)))
              else ebind (link_now sv st user (str_or_empty (cr_email result)) result) (\<lambda>linked.
                   ebind (set_tokens None) (\<lambda>_. respond_linked st session ''linked'' (Some (acc_id linked)) None))
          | None \<Rightarrow>
              ebind (link_now sv st user (str_or_empty (cr_email result)) result) (\<lambda>linked.
              ebind (set_tokens None) (\<lambda>_. respond_linked st session ''linked'' (Some (acc_id linked)) None)))))))"

section \<open>Signing in\<close>

text \<open>\<open>enqueue_first_run\<close> of \<open>services/mail_groups.py\<close>\<close>

definition first_batch_size :: int where
  "first_batch_size = 25"

definition enqueue_first_run ::
    "('a job_db_scheme, 'b) auth_services_scheme \<Rightarrow> string \<Rightarrow> ('a job_db_scheme, string) eff" where
  "enqueue_first_run sv user =
     ebind (rv_now sv) (\<lambda>now. ebind (rv_id sv) (\<lambda>i db.
       let account = (if truthy_str (active_gmail_account db) then str_or_empty (active_gmail_account db) else user) in
       ebind (enqueue_job (background_jobs db) now i
         ((job_request_of ''gmail_import_batch'')
           \<lparr>rq_queue := ''critical'', rq_user_id := Some user, rq_gmail_account_id := Some account,
            rq_dedupe_key := Some (''first-run:'' @ user @ '':'' @ account), rq_priority := 100,
            rq_payload := [(''user_id'', JStr user), (''gmail_account_id'', JStr account), (''batch_size'', JInt first_batch_size),
              (''first_run'', JBool True)]\<rparr>))
         (\<lambda>job. ereturn (bj_id job)) db))"

definition reconnect_primary ::
    "(callback_db, 'b) route_services_scheme \<Rightarrow> string \<Rightarrow> callback_result \<Rightarrow> (callback_db, unit) eff" where
  "reconnect_primary sv user result =
     ebind (exclusive_user_mail_lock user
       (ebind (rv_encrypt sv (cr_tokens result)) (\<lambda>encrypted. ebind (rv_now sv) (\<lambda>now.
        ebind (reconnect_google_oauth_token now user encrypted (cr_started_epoch result) None) (\<lambda>_. set_tokens None))))) (\<lambda>_.
     ebind (rt_ensure_watch sv user) (\<lambda>_.
     etry (ebind (enqueue_first_run sv user) (\<lambda>_. ereturn ())) (\<lambda>_. ereturn ())))"

definition sign_in ::
    "(callback_db, 'b) route_services_scheme \<Rightarrow> auth_settings \<Rightarrow> string option \<Rightarrow> string \<Rightarrow> callback_result
      \<Rightarrow> user_row option \<Rightarrow> account_row option \<Rightarrow> (callback_db, user_row) eff" where
  "sign_in sv st state subject_hash result existing_user existing_account =
     ebind (use_state state) (\<lambda>_.
     ebind (require_fresh_grant subject_hash (cr_started_epoch result)
       ''OAuth session predates account deletion. Start again from /auth/google.''
       ''Previous Google authorization cleanup is still pending. Please try again later.'') (\<lambda>_.
     ebind (case (existing_account, existing_user) of
         (Some a, Some u) \<Rightarrow>
           if acc_id a \<noteq> primary_gmail_account_id u
           then ebind (link_now sv st (usr_id u)
                    (if truthy_str (cr_email result) then str_or_empty (cr_email result) else acc_email a) result) (\<lambda>_.
                ebind (set_tokens None) (\<lambda>_. ereturn u))
           else create_or_update_user sv st (cr_email result) (cr_display_name result) (cr_google_sub result) (cr_started_epoch result)
       | _ \<Rightarrow> create_or_update_user sv st (cr_email result) (cr_display_name result) (cr_google_sub result) (cr_started_epoch result)) (\<lambda>user.
     ebind (set_callback_user (Some (usr_id user))) (\<lambda>_.
     let primary = (if primary_gmail_account_id user = '''' then usr_id user else primary_gmail_account_id user) in
     ebind (if (case existing_account of None \<Rightarrow> True | Some a \<Rightarrow> acc_id a = primary)
            then reconnect_primary sv (usr_id user) result else ereturn ()) (\<lambda>_.
     ereturn user)))))"

definition login_callback ::
    "(callback_db, 'b) route_services_scheme \<Rightarrow> auth_settings \<Rightarrow> string option \<Rightarrow> string \<Rightarrow> callback_result
      \<Rightarrow> (callback_db, callback_flow) eff" where
  "login_callback sv st state subject_hash result =
     ebind (eget (\<lambda>db. get_user_by_google_subject db (cr_google_sub result))) (\<lambda>existing_user.
     ebind (eget (\<lambda>db. case existing_user of
         None \<Rightarrow> None
       | Some u \<Rightarrow> if usr_google_sub u \<noteq> cr_google_sub result then get_gmail_account_by_google_subject db (cr_google_sub result)
                  else None)) (\<lambda>existing_account.
     ebind (set_callback_user (map_option usr_id existing_user)) (\<lambda>_.
     ebind (efinally (sign_in sv st state subject_hash result existing_user existing_account)
              (release_login_grant sv subject_hash)) (\<lambda>user.
     ereturn (Proceed result user)))))"

section \<open>The callback\<close>

definition exchange_and_sign_in ::
    "(callback_db, 'b) route_services_scheme \<Rightarrow> auth_settings \<Rightarrow> oauth_login_row option \<Rightarrow> string \<Rightarrow> string option
      \<Rightarrow> (callback_db, callback_flow) eff" where
  "exchange_and_sign_in sv st session code state =
     ebind (handle_google_callback sv code state) (\<lambda>result.
     ebind (set_tokens (Some (cr_tokens result))) (\<lambda>_.
     case google_subject_tombstone_hash (cr_google_sub result) of
       Inl e \<Rightarrow> eraise e
     | Inr h \<Rightarrow>
         ebind (eupdate (cb_subject_hash_update (\<lambda>_. Some h))) (\<lambda>_.
         exclusive_google_subject_lock h
           (case session of
              None \<Rightarrow> login_callback sv st state h result
            | Some s \<Rightarrow> if ol_intent s = ''link'' then link_callback sv st s state h result
                else login_callback sv st state h result))))"

definition restart_phrase :: string where
  "restart_phrase = ''Start again from /auth/google''"

definition asks_for_restart :: "exn \<Rightarrow> bool" where
  "asks_for_restart e =
     (case e of RuntimeError s \<Rightarrow> list_ex (\<lambda>i. startswith (drop i s) restart_phrase) [0..<length s] | _ \<Rightarrow> False)"

definition forget_state :: "string option \<Rightarrow> (callback_db, unit) eff" where
  "forget_state state =
     ebind (eget cb_delete_attempted) (\<lambda>attempted.
       if truthy_str state \<and> \<not> attempted then delete_oauth_login_session (str_or_empty state) else ereturn ())"

text \<open>The \<open>except\<close> clauses.\<close>

definition answer_failure ::
    "(callback_db, 'b) route_services_scheme \<Rightarrow> auth_settings \<Rightarrow> oauth_login_row option \<Rightarrow> string option \<Rightarrow> exn
      \<Rightarrow> (callback_db, callback_flow) eff" where
  "answer_failure sv st session state e =
     ebind (forget_state state) (\<lambda>_.
     let redirect_to = (case session of None \<Rightarrow> None | Some s \<Rightarrow> ol_redirect_to s);
         limited = e \<in> {OtherError ''GmailAccountLimitError'', OtherError ''GmailAccountOwnershipConflictError''} in
     if limited
     then (case native_link_completion st session ''failed'' None (Some ''Unable to link this Google account.'') of
         Some r \<Rightarrow> ereturn (Respond r) | None \<Rightarrow> http 409 ''Unable to link this Google account.'')
     else ebind (persist_terminal_mobile_handoff sv st redirect_to ''failed'' google_sign_in_failed) (\<lambda>terminal.
     case terminal of
       Some r \<Rightarrow> ereturn (Respond r)
     | None \<Rightarrow> (case e of
           HTTPException status detail \<Rightarrow> eraise e
         | _ \<Rightarrow> (case native_link_completion st session ''failed'' None (Some ''Gmail account could not be added. Please try again.'') of
               Some r \<Rightarrow> ereturn (Respond r)
             | None \<Rightarrow> if asks_for_restart e then ereturn (Respond (To_url ''/auth/google'')) else http 400 google_sign_in_failed))))"

text \<open>After a sign-in: a one-time code for a native client, or a session for the browser.\<close>

definition finish_sign_in ::
    "('a identity_db_scheme, 'b) route_services_scheme \<Rightarrow> auth_settings \<Rightarrow> callback_result \<Rightarrow> user_row
      \<Rightarrow> ('a identity_db_scheme, auth_response) eff" where
  "finish_sign_in sv st result user =
     (case cr_redirect_to result of
        Some url \<Rightarrow> (case mobile_handoff_context sv st url of
            Some (handoff, challenge) \<Rightarrow>
              ebind (create_mobile_code sv st (usr_id user)) (\<lambda>code.
              ebind (rv_encrypt sv [(''login_code'', JStr code)]) (\<lambda>encrypted. ebind (rv_now sv) (\<lambda>now.
              ebind (create_mobile_oauth_handoff now handoff (Some encrypted) (now + seconds mobile_handoff_ttl_seconds)
                (Some (hash_token st code)) (Some challenge) ''ready'' None) (\<lambda>_.
              ereturn (To_handoff_page handoff)))))
          | None \<Rightarrow> ebind (issue_session sv st user ''web'') (\<lambda>issued. ereturn (Signed_in issued)))
      | None \<Rightarrow> ebind (issue_session sv st user ''web'') (\<lambda>issued. ereturn (Signed_in issued)))"

text \<open>An answer of Google without a code.\<close>

definition refuse_callback ::
    "('a identity_db_scheme, 'b) route_services_scheme \<Rightarrow> auth_settings \<Rightarrow> oauth_login_row option \<Rightarrow> string option
      \<Rightarrow> string \<Rightarrow> string \<Rightarrow> string \<Rightarrow> ('a identity_db_scheme, auth_response) eff" where
  "refuse_callback sv st session state status error detail =
     ebind (if truthy_str state then delete_oauth_login_session (str_or_empty state) else ereturn ()) (\<lambda>_.
     case native_link_completion st session status None (Some error) of
       Some r \<Rightarrow> ereturn r
     | None \<Rightarrow>
         ebind (persist_terminal_mobile_handoff sv st (case session of None \<Rightarrow> None | Some s \<Rightarrow> ol_redirect_to s) status error)
           (\<lambda>terminal. case terminal of Some r \<Rightarrow> ereturn r | None \<Rightarrow> http 400 detail))"

definition auth_google_callback ::
    "(callback_db, 'b) route_services_scheme \<Rightarrow> auth_settings \<Rightarrow> string option \<Rightarrow> string option \<Rightarrow> string option
      \<Rightarrow> (callback_db, auth_response) eff" where
  "auth_google_callback sv st code state error =
     ebind (if truthy_str state
            then ebind (rv_now sv) (\<lambda>now. eget (\<lambda>db. get_oauth_login_session db (str_or_empty state) now)) else ereturn None) (\<lambda>session.
     case (error, code) of
       (Some problem, _) \<Rightarrow>
         (let cancelled = problem = ''access_denied'' in
          refuse_callback sv st session state (if cancelled then ''cancelled'' else ''failed'')
            (if cancelled then ''Google sign-in was cancelled.'' else google_sign_in_failed) ''Google OAuth did not complete'')
     | (None, None) \<Rightarrow> refuse_callback sv st session state ''failed'' google_sign_in_failed ''Missing OAuth code''
     | (None, Some c) \<Rightarrow>
         ebind (eupdate (\<lambda>db. db\<lparr>cb_tokens := None, cb_subject_hash := None, cb_user_id := None, cb_delete_attempted := False\<rparr>)) (\<lambda>_.
         ebind (efinally (etry (exchange_and_sign_in sv st session c state) (answer_failure sv st session state))
                  (release_callback_grant sv)) (\<lambda>flow.
         case flow of
           Respond r \<Rightarrow> ereturn r
         | Proceed result user \<Rightarrow> finish_sign_in sv st result user)))"

section \<open>The native client\<close>

text \<open>\<open>_read_handoff\<close>: status, code and error.\<close>

definition read_handoff ::
    "('a identity_db_scheme, 'b) auth_services_scheme \<Rightarrow> string
      \<Rightarrow> ('a identity_db_scheme, (string \<times> string option \<times> string option) option) eff" where
  "read_handoff sv handoff =
     ebind (rv_now sv) (\<lambda>now. eget (\<lambda>db.
       let incomplete = Some (''failed'', None, Some ''Google sign-in did not complete.'') in
       case get_mobile_oauth_handoff db handoff now of
         None \<Rightarrow> None
       | Some h \<Rightarrow>
           if ho_status h \<noteq> ''ready'' then Some (ho_status h, None, ho_error h)
           else if \<not> truthy_str (ho_login_code_encrypted h) then incomplete
           else (case rv_decrypt sv (str_or_empty (ho_login_code_encrypted h)) of
               Inl _ \<Rightarrow> incomplete
             | Inr fs \<Rightarrow> (let code = strip (json_str_or_empty (jget fs ''login_code'')) in
                 if code \<noteq> '''' then Some (''ready'', Some code, None) else incomplete))))"

text \<open>\<open>auth_mobile_handoff\<close>: the status code, and the status, code and error of the answer.\<close>

definition auth_mobile_handoff ::
    "('a identity_db_scheme, 'b) auth_services_scheme \<Rightarrow> string
      \<Rightarrow> ('a identity_db_scheme, int \<times> string \<times> string option \<times> string option) eff" where
  "auth_mobile_handoff sv handoff =
     ebind (read_handoff sv handoff) (\<lambda>found.
     case found of
       None \<Rightarrow> ereturn (202, ''pending'', None, None)
     | Some (status, code, error) \<Rightarrow>
         if status = ''ready'' \<and> truthy_str code
         then ebind (note_mobile_oauth_handoff_delivery handoff) (\<lambda>_. ereturn (200, ''ready'', code, None))
         else ereturn (200, status, None, Some (if truthy_str error then str_or_empty error else ''Google sign-in did not complete.'')))"

text \<open>\<open>auth_mobile_complete\<close>: the parameters of the link back to the native client; none for an expired handoff.\<close>

definition auth_mobile_complete ::
    "('a identity_db_scheme, 'b) auth_services_scheme \<Rightarrow> string
      \<Rightarrow> ('a identity_db_scheme, (string \<times> string) list option) eff" where
  "auth_mobile_complete sv handoff =
     ebind (read_handoff sv handoff) (\<lambda>found.
     ereturn (case found of
         None \<Rightarrow> None
       | Some (status, code, error) \<Rightarrow>
           if status = ''ready'' \<and> truthy_str code then Some [(''status'', ''ready''), (''handoff_id'', handoff)]
           else Some [(''status'', status),
             (''error'', if truthy_str error then str_or_empty error else ''Google sign-in did not complete.''),
             (''handoff_id'', handoff)]))"

end
