(* ===== verification/Revocation_Safety.thy ===== *)
theory Revocation_Safety
  imports Google_Revocation Job_Invariants Sync_Client
begin

text \<open>
  A grant that the backend gives up is never lost: before Google is asked to revoke it, a
  job on the queue holds it, and the job ends only with Google's answer.
\<close>

section \<open>The job of a credential\<close>

definition revocation_job :: "string \<Rightarrow> job_row \<Rightarrow> bool" where
  "revocation_job key r \<longleftrightarrow>
     bj_kind r = ''google_token_revoke'' \<and> bj_dedupe_key r = Some key \<and> bj_user_id r = None"

text \<open>Revocations belong to no user: nothing that ends or deletes the jobs of a user touches them.\<close>

definition system_revocations :: "'a job_db_scheme \<Rightarrow> bool" where
  "system_revocations db \<longleftrightarrow>
     list_all (\<lambda>r. bj_kind r = ''google_token_revoke'' \<longrightarrow> bj_user_id r = None) (background_jobs db)"

text \<open>The job waits or runs.\<close>

definition tracked :: "string \<Rightarrow> string \<Rightarrow> 'a job_db_scheme \<Rightarrow> bool" where
  "tracked key i db \<longleftrightarrow> list_ex (\<lambda>r. bj_id r = i \<and> revocation_job key r \<and> active_job r) (background_jobs db)"

text \<open>The job waits, runs, or is done.\<close>

definition recorded :: "string \<Rightarrow> 'a job_db_scheme \<Rightarrow> bool" where
  "recorded key db \<longleftrightarrow>
     list_ex (\<lambda>r. revocation_job key r \<and> (active_job r \<or> bj_status r = Succeeded)) (background_jobs db)"

lemma tracked_recorded: "tracked key i db \<Longrightarrow> recorded key db"
  by (auto simp: tracked_def recorded_def list_ex_iff)

lemma blind_jobs: "lock_blind (tracked key i)" "lock_blind (recorded key)"
  by (simp_all add: lock_blind_def tracked_def recorded_def)

lemma newest_active_properties:
  assumes "newest_active account kind dedupe rows = Some r"
  shows "r \<in> set rows" "bj_kind r = kind" "bj_dedupe_key r = dedupe" "active_job r"
  using newest_active_in [OF assms] by (auto simp: same_dedupe_def)

lemma tracked_row:
  "r \<in> set (background_jobs db) \<Longrightarrow> revocation_job key r \<Longrightarrow> active_job r \<Longrightarrow> i = bj_id r \<Longrightarrow> tracked key i db"
  by (auto simp: tracked_def list_ex_iff)

text \<open>What an enqueue returns is on the queue.\<close>

lemma enqueued_is_tracked:
  assumes "enqueue_job (background_jobs db) now i (revocation_request h c e) db = (Inr job, db')"
    and system: "system_revocations db"
  shows "tracked (revocation_dedupe_key h c) (bj_id job) db'"
proof -
  let ?key = "revocation_dedupe_key h c" and ?rq = "revocation_request h c e"
  note request = revocation_request_def job_request_of_def
  have key: "truthy_str (Some ?key)" by (simp add: truthy_str_def revocation_dedupe_key_def)
  have found: "tracked ?key (bj_id r) s" if "newest_active account ''google_token_revoke'' (Some ?key) (background_jobs db) = Some r"
      "background_jobs s = background_jobs db" for account r s
    using newest_active_properties [OF that(1)] that(2) system
    by (auto simp: tracked_def list_ex_iff revocation_job_def system_revocations_def list_all_iff)
  have woken: "tracked ?key (bj_id r) s" if "newest_active account ''google_token_revoke'' (Some ?key) (background_jobs db) = Some r"
      "background_jobs s = update_where (\<lambda>x. bj_id x = bj_id r) (wake_row now d p) (background_jobs db)" for account r s d p
  proof -
    have "wake_row now d p r \<in> set (background_jobs s)"
      using newest_active_properties(1) [OF that(1)] unfolding that(2) by (auto simp: in_update_where)
    from tracked_row [OF this] show ?thesis
      using newest_active_properties [OF that(1)] system
      by (simp add: wake_row_def revocation_job_def active_job_def system_revocations_def list_all_iff)
  qed
  have same: "bj_id z = bj_id r" if "row_first (returning (\<lambda>x. bj_id x = bj_id r) (wake_row now d p) rows) = Some z" for z r d p rows
    using row_first_in [OF that] by (auto simp: returning_def wake_row_def)
  have existing: "tracked ?key (bj_id job) db'" if "newest_active account ''google_token_revoke'' (Some ?key) (background_jobs db) = Some r"
      "dedupe_existing now 0 ?rq r db = (Inr job, db')" for account r
  proof (cases "bj_status r = Queued")
    case True
    with that(2) have "bj_id job = bj_id r"
      "background_jobs db' = update_where (\<lambda>x. bj_id x = bj_id r) (wake_row now 0 100) (background_jobs db)"
      by (auto simp: dedupe_existing_def request Let_def split: option.splits dest: same)
    with woken [OF that(1)] show ?thesis by simp
  next
    case False
    with that(2) have "job = r" "db' = db" by (simp_all add: dedupe_existing_def)
    with found [OF that(1) refl] show ?thesis by simp
  qed
  have inserted: "tracked ?key (bj_id job) db'" if "insert_job now i account 0 ?rq db = (Inr job, db')" for account
    using that found
    by (auto simp: insert_job_def request Let_def key split: if_splits option.splits)
      (auto simp: tracked_def new_job_row_def revocation_job_def active_job_def)
  have facts: "rq_user_id ?rq = None" "rq_dedupe_key ?rq = Some ?key" "rq_kind ?rq = ''google_token_revoke''"
    "max 0 (rq_run_after_seconds ?rq) = 0" "?key \<noteq> ''''" by (simp_all add: request revocation_dedupe_key_def)
  from assms(1) show ?thesis
    by (auto simp: enqueue_job_def enqueue_body_def Let_def facts key etransaction_apply
        intro: existing inserted split: option.splits outcome_splits)
qed

section \<open>Settling keeps the record\<close>

definition keeps_revocation :: "('s \<Rightarrow> bool) \<Rightarrow> ('s, 'b) revocation_services_scheme \<Rightarrow> bool" where
  "keeps_revocation P sv \<longleftrightarrow> (\<forall>t. epreserves P (rv_post sv t)) \<and> (\<forall>fs. epreserves P (rv_encrypt sv fs))
     \<and> epreserves P (rv_now sv) \<and> epreserves P (rv_id sv)"

lemma revocation_calls:
  assumes "keeps_revocation P sv"
  shows "epreserves P (rv_post sv t)" "epreserves P (rv_encrypt sv fs)" "epreserves P (rv_now sv)" "epreserves P (rv_id sv)"
  using assms by (simp_all add: keeps_revocation_def)

lemma outcome_keeps: "keeps_revocation P sv \<Longrightarrow> epreserves P (revoke_google_token_payload_outcome sv tokens)"
  unfolding revoke_google_token_payload_outcome_def by (intro preserve_intros revocation_calls)

lemma recorded_update:
  assumes "recorded key db" and "background_jobs db' = update_where p (end_row now Succeeded) (background_jobs db)"
  shows "recorded key db'"
proof -
  from assms(1) obtain r where r: "r \<in> set (background_jobs db)" "revocation_job key r" "active_job r \<or> bj_status r = Succeeded"
    by (auto simp: recorded_def list_ex_iff)
  let ?r = "if p r then end_row now Succeeded r else r"
  have "?r \<in> set (background_jobs db')" unfolding assms(2) in_update_where using r(1) by blast
  moreover have "revocation_job key ?r" "active_job ?r \<or> bj_status ?r = Succeeded"
    using r(2,3) by (auto simp: revocation_job_def end_row_def)
  ultimately show ?thesis unfolding recorded_def list_ex_iff by blast
qed

lemma subject_recorded: "epreserves (recorded key) (complete_google_token_revocations_for_subject now h)"
  unfolding epreserves_def
proof (intro allI impI)
  fix db :: "'a job_db_scheme" assume old: "recorded key db"
  have "background_jobs (snd (complete_google_token_revocations_for_subject now h db))
      = update_where (pending_revocation (strip h)) (end_row now Succeeded) (background_jobs db)" if "strip h \<noteq> ''''"
    using that by (simp add: complete_google_token_revocations_for_subject_def Let_def fold_insert_event)
  then show "recorded key (snd (complete_google_token_revocations_for_subject now h db))"
    using recorded_update [OF old] old
    by (cases "strip h = ''''") (auto simp: complete_google_token_revocations_for_subject_def)
qed

lemma job_recorded: "epreserves (recorded key) (complete_google_token_revocation_job now i)"
  unfolding epreserves_def
proof (intro allI impI)
  fix db :: "'a job_db_scheme" assume old: "recorded key db"
  have "recorded key (insert_event t j Succeeded_event None d (update_jobs p (end_row now Succeeded) db))" for t j d p
    by (rule recorded_update [OF old]) simp
  then show "recorded key (snd (complete_google_token_revocation_job now i db))"
    using old by (simp add: complete_google_token_revocation_job_def Let_def split: option.split)
qed

lemma barrier_recorded: "epreserves (recorded key) (record_google_subject_revocation now h)"
  by (simp add: epreserves_def record_google_subject_revocation_def recorded_def Let_def)

lemmas settled_recorded = subject_recorded job_recorded barrier_recorded

lemma settle_keeps: "keeps_revocation (recorded key) sv \<Longrightarrow> epreserves (recorded key) (settle_revocation sv h i outcome)"
  unfolding settle_revocation_def by (intro preserve_intros revocation_calls settled_recorded)

text \<open>A revocation that is still to be retried has its job on the queue.\<close>

abbreviation revocation_result :: "string \<Rightarrow> string \<Rightarrow> bool \<Rightarrow> 'a job_db_scheme \<Rightarrow> bool" where
  "revocation_result key i done db \<equiv> recorded key db \<and> (\<not> done \<longrightarrow> tracked key i db)"

lemma locked_result:
  assumes "keeps_revocation (recorded key) sv" and "keeps_revocation (tracked key i) sv"
  shows "ehoare (tracked key i) (revoke_locked sv h tokens i) (revocation_result key i) (\<lambda>_. recorded key)"
proof -
  have asked: "ehoare (tracked key i) (revoke_google_token_payload_outcome sv tokens) (\<lambda>_. tracked key i) (\<lambda>_. recorded key)"
    using ehoare_preserves [OF outcome_keeps [OF assms(2)]] by (rule ehoare_weaken) (auto intro: tracked_recorded)
  have settled: "ehoare (tracked key i) (ebind (settle_revocation sv h i outcome) (\<lambda>_. ereturn True))
      (revocation_result key i) (\<lambda>_. recorded key)" for outcome
    by (rule ehoare_bind [of _ _ "\<lambda>_. recorded key"], rule ehoare_weaken [OF ehoare_preserves [OF settle_keeps [OF assms(1)]]])
      (auto intro: tracked_recorded ehoare_return)
  show ?thesis
    unfolding revoke_locked_def
    by (rule ehoare_bind [of _ _ "\<lambda>_. tracked key i"])
      (auto intro!: ehoare_get ehoare_return ehoare_raise ehoare_if ehoare_bind [OF asked] settled intro: tracked_recorded)
qed

section \<open>A grant that is given up\<close>

text \<open>The user has this primary credential.\<close>

definition grant_at :: "string \<Rightarrow> token_row \<Rightarrow> 'a job_db_scheme \<Rightarrow> bool" where
  "grant_at user t db \<longleftrightarrow> get_google_oauth_token db user None = Some t \<and> system_revocations db"

definition keeps_grants :: "string \<Rightarrow> string \<Rightarrow> token_row \<Rightarrow> ('a job_db_scheme, 'b) revocation_services_scheme \<Rightarrow> bool" where
  "keeps_grants key user t sv \<longleftrightarrow>
     keeps_revocation (grant_at user t) sv \<and> keeps_revocation (recorded key) sv \<and> (\<forall>i. keeps_revocation (tracked key i) sv)"

definition grant_key :: "string \<Rightarrow> (string \<times> json) list \<Rightarrow> string" where
  "grant_key h tokens = revocation_dedupe_key (strip h) (google_credential tokens)"

lemma enqueue_tracks:
  assumes "keeps_grants (grant_key h tokens) user t sv"
  shows "ehoare (grant_at user t) (enqueue_google_token_revocation_job sv h tokens e)
      (\<lambda>(g, job). tracked (grant_key h tokens) (bj_id job)) (\<lambda>_ _. True)"
proof -
  have kept: "keeps_revocation (grant_at user t) sv" using assms by (simp add: keeps_grants_def)
  have call: "ehoare (grant_at user t) m (\<lambda>_. grant_at user t) (\<lambda>_ _. True)" if "epreserves (grant_at user t) m"
    for m :: "('a job_db_scheme, 'c) eff" using ehoare_preserves [OF that] by (rule ehoare_weaken) simp_all
  have "ehoare (grant_at user t)
      (\<lambda>db. enqueue_job (background_jobs db) now i (revocation_request (strip h) (google_credential tokens) e) db)
      (\<lambda>job. tracked (grant_key h tokens) (bj_id job)) (\<lambda>_ _. True)" for now i
    by (rule ehoareI) (use enqueued_is_tracked in \<open>auto simp: grant_at_def grant_key_def\<close>)
  then have "ehoare (grant_at user t)
      (ebind (\<lambda>db. enqueue_job (background_jobs db) now i (revocation_request (strip h) (google_credential tokens) e) db)
        (\<lambda>job. ereturn (strip h, job)))
      (\<lambda>(g, job). tracked (grant_key h tokens) (bj_id job)) (\<lambda>_ _. True)" for now i
    by (rule ehoare_bind) (auto intro: ehoare_return)
  from ehoare_bind [OF call [OF revocation_calls(3) [OF kept]] ehoare_bind [OF call [OF revocation_calls(4) [OF kept]] this]]
  show ?thesis
    unfolding enqueue_google_token_revocation_job_def Let_def
    by (intro ehoare_if) (auto intro: ehoare_raise)
qed

lemma given_up_result:
  assumes keeps: "keeps_grants (grant_key h tokens) user t sv" and "rv_decrypt sv (token_json_encrypted t) = Inr tokens"
  shows "ehoare (grant_at user t) (revoke_or_enqueue_stored_google_token sv user h)
      (\<lambda>done s. recorded (grant_key h tokens) s \<and> (\<not> done \<longrightarrow> (\<exists>i. tracked (grant_key h tokens) i s))) (\<lambda>_ _. True)"
proof -
  let ?key = "grant_key h tokens" and ?Q = "\<lambda>done s. recorded (grant_key h tokens) s \<and> (\<not> done \<longrightarrow> (\<exists>i. tracked (grant_key h tokens) i s))"
  have locked: "ehoare (tracked ?key i) (exclusive_google_subject_lock g (revoke_locked sv g tokens i)) ?Q (\<lambda>_ _. True)" for g i
    unfolding exclusive_google_subject_lock_def
  proof (rule ehoare_scope)
    have "keeps_revocation (recorded ?key) sv" "keeps_revocation (tracked ?key i) sv" using keeps by (simp_all add: keeps_grants_def)
    from locked_result [OF this] show "ehoare (tracked ?key i) (revoke_locked sv g tokens i) ?Q (\<lambda>_ _. True)"
      by (rule ehoare_weaken) auto
  qed (simp_all add: blind_jobs lock_blind_def recorded_def tracked_def)
  have "ehoare (grant_at user t) (revoke_tracked_google_token_payload sv h tokens e (ereturn ())) ?Q (\<lambda>_ _. True)" for e
    unfolding revoke_tracked_google_token_payload_def
    by (rule ehoare_bind [OF enqueue_tracks [OF keeps]])
      (auto intro!: locked ehoare_bind [of _ "ereturn ()" "\<lambda>_. tracked _ _"] ehoare_return split: prod.split)
  then have some: "ehoare (\<lambda>s. grant_at user t s \<and> found = Some t) (case found of
      None \<Rightarrow> ereturn True
    | Some x \<Rightarrow> (case rv_decrypt sv (token_json_encrypted x) of Inl _ \<Rightarrow> eraise (RuntimeError ''Stored Google credentials could not be prepared for revocation'')
        | Inr tokens \<Rightarrow> revoke_tracked_google_token_payload sv h tokens (token_json_encrypted x) (ereturn ()))) ?Q (\<lambda>_ _. True)" for found
    using assms(2) by (cases "found = Some t") (auto simp: ehoare_def)
  show ?thesis
    unfolding revoke_or_enqueue_stored_google_token_def
    by (rule ehoare_bind [OF ehoare_get some]) (simp add: grant_at_def)
qed

end
