(* ===== verification/Auth_Safety.thy ===== *)
theory Auth_Safety
  imports Auth_Routes Revocation_Safety Action_Safety
begin

text \<open>
  The ends of a Google connection: no grant is given up before a job records it, deletion
  leaves nothing of the account behind, and what it leaves of linked accounts.
\<close>

section \<open>The frame of the routes\<close>





section \<open>No grant is lost\<close>


lemma guard_jobs [simp]:
  "background_jobs (set_google_guard now user f db) = background_jobs db"
  by (simp add: set_google_guard_def guard_set_trigger_def tombstone_user_def record_google_subject_revocation_def Let_def split: option.split)






section \<open>What a deletion leaves\<close>


text \<open>The scope of a statement depends on the users and on the connection only.\<close>

lemmas scope_defs = user_sends_def own_action_def own_seen_def own_window_def own_member_def own_group_def own_message_def
  own_import_def owned_def row_visible_def scoped_account_def

lemma primary_account_update:
  assumes "\<And>u. usr_id (f u) = usr_id u \<and> primary_gmail_account_id (f u) = primary_gmail_account_id u"
  shows "map_option primary_gmail_account_id (select_first (\<lambda>u. usr_id u = user) (update_where p f us))
    = map_option primary_gmail_account_id (select_first (\<lambda>u. usr_id u = user) us)"
  by (induction us) (simp_all add: assms)

lemma guard_update_frame:
  assumes "\<And>u. usr_id (f u) = usr_id u \<and> primary_gmail_account_id (f u) = primary_gmail_account_id u"
  shows "primary_account (set_google_guard now user f db) = primary_account db"
    "begin_connection (set_google_guard now user f db) = begin_connection db"
    "google_oauth_tokens (set_google_guard now user f db) = google_oauth_tokens db"
    "users (set_google_guard now user f db) = update_where (\<lambda>u. usr_id u = user) f (users db)"
  by (simp_all add: fun_eq_iff primary_account_def begin_connection_def set_google_guard_def guard_set_trigger_def tombstone_user_def
      record_google_subject_revocation_def Let_def primary_account_update assms split: option.split)

lemma data_rows_frame: "usr_id (requested_row now u) = usr_id u \<and> primary_gmail_account_id (requested_row now u) = primary_gmail_account_id u"
  "usr_id (deleted_row now u) = usr_id u \<and> primary_gmail_account_id (deleted_row now u) = primary_gmail_account_id u"
  by (simp_all add: requested_row_def deleted_row_def)

lemmas data_frame = guard_update_frame [OF data_rows_frame(1)] guard_update_frame [OF data_rows_frame(2)]

lemma delete_rows_frame:
  "primary_account (delete_mail_rows user db) = primary_account db" "begin_connection (delete_mail_rows user db) = begin_connection db"
  "google_oauth_tokens (delete_mail_rows user db) = google_oauth_tokens db" "users (delete_mail_rows user db) = users db"
  by (simp_all add: fun_eq_iff delete_mail_rows_def Let_def primary_account_def begin_connection_def)

lemma same_scope:
  assumes "primary_account s = primary_account db"
  shows "own_action s = own_action db" "own_seen s = own_seen db" "own_window s = own_window db" "own_member s = own_member db"
    "own_group s = own_group db" "own_message s = own_message db" "own_import s = own_import db"
    "begin_connection s = begin_connection db \<Longrightarrow> user_sends s = user_sends db"
  by (simp_all add: fun_eq_iff scope_defs assms)

lemma guarded_tables [simp]:
  "gmail_pending_sends (set_google_guard now user f db) = gmail_pending_sends db"
  "gmail_pending_thread_actions (set_google_guard now user f db) = gmail_pending_thread_actions db"
  by (simp_all add: set_google_guard_def guard_set_trigger_def tombstone_user_def record_google_subject_revocation_def Let_def split: option.split)

lemma deleted_tables:
  fixes db :: "'a action_db_scheme"
  defines "conn \<equiv> begin_connection db"
  shows "gmail_pending_sends (delete_user_mail_data now user db) = delete_where (user_sends db user) (gmail_pending_sends db)"
    "gmail_pending_thread_actions (delete_user_mail_data now user db) = delete_where (own_action db conn user) (gmail_pending_thread_actions db)"
    "reconcile_seen (delete_user_mail_data now user db) = delete_where (own_seen db conn user) (reconcile_seen db)"
    "initial_window_entries (delete_user_mail_data now user db) = delete_where (own_window db conn user) (initial_window_entries db)"
    "mail_group_members (delete_user_mail_data now user db) = delete_where (own_member db conn user) (mail_group_members db)"
    "mail_groups (delete_user_mail_data now user db) = delete_where (own_group db conn user) (mail_groups db)"
    "gmail_messages (delete_user_mail_data now user db) = delete_where (own_message db conn user) (gmail_messages db)"
    "gmail_import_states (delete_user_mail_data now user db) = delete_where (own_import db conn user) (gmail_import_states db)"
    "background_jobs (delete_user_mail_data now user db) = delete_where (\<lambda>r. bj_user_id r = Some user) (background_jobs db)"
  unfolding conn_def
  by (simp_all add: delete_user_mail_data_def delete_mail_rows_def Let_def data_frame same_scope [OF data_frame(1)])

lemma filter_delete_where [simp]: "filter p (delete_where p rows) = []"
  by (auto simp: filter_empty_conv in_delete_where)






text \<open>
  The counterpart of the erasure: the rows of the other accounts of the user, and their
  credentials, stay when the Google data is deleted, though the user is marked as deleted.
\<close>

definition linked_rows :: "string \<Rightarrow> string \<Rightarrow> 'a action_db_scheme \<Rightarrow> message_row list \<times> token_row list" where
  "linked_rows user account db =
     (filter (\<lambda>m. gm_user_id m = user \<and> gm_gmail_account_id m = account) (gmail_messages db),
      filter (\<lambda>t. tok_user_id t = user \<and> tok_gmail_account_id t = account) (google_oauth_tokens db))"

lemma filter_kept: "(\<And>r. r \<in> set rows \<Longrightarrow> q r \<Longrightarrow> \<not> p r) \<Longrightarrow> filter q (delete_where p rows) = filter q rows"
  by (induction rows) (auto simp: delete_where_def)

lemma linked_rows_survive:
  assumes "scoped_account db (begin_connection db) user \<noteq> Some account" and "primary_account db user \<noteq> Some account"
  shows "linked_rows user account (delete_user_mail_data now user (snd (delete_google_oauth_token user None db)))
    = linked_rows user account db"
proof -
  have messages: "filter (\<lambda>m. gm_user_id m = user \<and> gm_gmail_account_id m = account) (delete_where (own_message s c user) ms)
      = filter (\<lambda>m. gm_user_id m = user \<and> gm_gmail_account_id m = account) ms"
    if "scoped_account s c user \<noteq> Some account" for s :: "'a action_db_scheme" and c ms
    by (rule filter_kept) (use that in \<open>auto simp: own_message_def owned_def row_visible_def\<close>)
  have tokens: "filter (\<lambda>t. tok_user_id t = user \<and> tok_gmail_account_id t = account) (delete_where (own_token db user None) ts)
      = filter (\<lambda>t. tok_user_id t = user \<and> tok_gmail_account_id t = account) ts" for ts
    by (rule filter_kept) (use assms(2) in \<open>auto simp: own_token_def\<close>)
  have frame: "primary_account (snd (delete_google_oauth_token user None db)) = primary_account db"
    "begin_connection (snd (delete_google_oauth_token user None db)) = begin_connection db"
    by (simp_all add: fun_eq_iff delete_google_oauth_token_def primary_account_def begin_connection_def)
  have rows: "gmail_messages (snd (delete_google_oauth_token user None db)) = gmail_messages db"
    "google_oauth_tokens (snd (delete_google_oauth_token user None db)) = delete_where (own_token db user None) (google_oauth_tokens db)"
    by (simp_all add: delete_google_oauth_token_def)
  show ?thesis
    by (simp add: linked_rows_def deleted_tables rows frame same_scope [OF frame(1)] messages [OF assms(1)])
      (simp add: delete_user_mail_data_def data_frame delete_rows_frame rows tokens)
qed

section \<open>Sessions\<close>

definition current_view :: "'a identity_db_scheme \<Rightarrow> string \<Rightarrow> current_user option" where
  "current_view db user =
     (case find_user db user of None \<Rightarrow> None | Some u \<Rightarrow> if access_enabled u then Some (user_view u) else None)"

lemma issued_row:
  assumes "issue_session sv st user platform db = (Inr s, db')"
  obtains row before where
    "app_sessions db' = before @ [row]" "list_all (\<lambda>r. as_token_hash r \<noteq> hash_token st (is_token s)) before"
    "as_user_id row = usr_id user" "as_token_hash row = hash_token st (is_token s)" "as_expires_at row = is_expires_at s"
    "as_revoked_at row = None"
    "is_expires_at s = as_created_at row + days (if platform \<in> {''ios'', ''macos''} then mobile_session_days else web_session_days)"
  using assms unfolding issue_session_def
  by (fastforce simp: ebind_apply create_app_session_def Let_def list_all_iff list_ex_iff split: outcome_splits if_splits)

lemma looked_up:
  assumes "rv_now sv = eget clock" and "request_token request = Some token"
  shows "fst (get_current_user sv st request db) = Inr
    (case select_first (session_active (clock db) (hash_token st token)) (app_sessions db) of
       None \<Rightarrow> None | Some r \<Rightarrow> current_view db (as_user_id r))"
  using assms by (simp add: get_current_user_def ebind_apply get_active_app_session_def current_view_def find_user_def split: option.split)

lemma select_first_append: "list_all (\<lambda>r. \<not> p r) rows \<Longrightarrow> select_first p (rows @ [r]) = (if p r then Some r else None)"
  by (induction rows) simp_all

text \<open>C39: a token that \<open>issue_session\<close> returns authenticates exactly its user: until it expires, after 30 days in a
  browser and 90 days in a native client, a request with the token is a request of that user, as long as the user
  exists and is enabled; afterwards it is nobody's. After a logout with the token it is nobody's at once, at any time.\<close>

theorem issued_session_authenticates:
  assumes issued: "issue_session sv st user platform db = (Inr s, db')"
    and clock: "rv_now sv = eget clock" and token: "request_token request = Some (is_token s)"
  shows "fst (get_current_user sv st request db')
      = Inr (if clock db' < is_expires_at s then current_view db' (usr_id user) else None)
    \<and> is_expires_at s = as_created_at (last (app_sessions db')) + days (if platform \<in> {''ios'', ''macos''} then 90 else 30)
    \<and> fst (get_current_user sv st request (snd (auth_logout sv st request db'))) = Inr None"
proof (intro conjI)
  obtain row before where row: "app_sessions db' = before @ [row]"
    "list_all (\<lambda>r. as_token_hash r \<noteq> hash_token st (is_token s)) before"
    "as_user_id row = usr_id user" "as_token_hash row = hash_token st (is_token s)" "as_expires_at row = is_expires_at s"
    "as_revoked_at row = None"
    "is_expires_at s = as_created_at row + days (if platform \<in> {''ios'', ''macos''} then mobile_session_days else web_session_days)"
    by (rule issued_row [OF issued]) (rule that)
  show "is_expires_at s = as_created_at (last (app_sessions db')) + days (if platform \<in> {''ios'', ''macos''} then 90 else 30)"
    using row(1,7) by (simp add: mobile_session_days_def web_session_days_def split: if_splits)
  have "list_all (\<lambda>r. \<not> session_active now (hash_token st (is_token s)) r) before" for now
    using row(2) by (auto simp: list_all_iff session_active_def)
  note found = select_first_append [OF this]
  show "fst (get_current_user sv st request db')
      = Inr (if clock db' < is_expires_at s then current_view db' (usr_id user) else None)"
    by (simp add: looked_up [OF clock token] row(1) found) (simp add: session_active_def row(3-6))
  have "app_sessions (snd (auth_logout sv st request db'))
      = update_where (\<lambda>r. as_token_hash r = hash_token st (is_token s) \<and> as_revoked_at r = None)
          (\<lambda>r. r\<lparr>as_revoked_at := Some (clock db')\<rparr>) (app_sessions db')"
    by (simp add: auth_logout_def revoke_request_session_def token clock ebind_apply revoke_app_session_def revoke_sessions_def Let_def)
  then have "select_first (session_active now (hash_token st (is_token s))) (app_sessions (snd (auth_logout sv st request db'))) = None" for now
    by (auto simp: select_first_None update_where_def session_active_def)
  then show "fst (get_current_user sv st request (snd (auth_logout sv st request db'))) = Inr None"
    by (simp add: looked_up [OF clock token])
qed

section \<open>Witnesses\<close>

text \<open>A user with a session, a Google credential, and services that ask Google in vain.\<close>

definition plain_settings :: auth_settings where
  "plain_settings = \<lparr>google_configured = True, backend_origin = ''https://b'', mobile_redirect_uri = ''app://x'',
     app_session_secret = ''k'', registration_mode = ''open'', app_env = ''local'', env_allowed_emails = [],
     multi_gmail_enabled = False, multi_gmail_verified_backup_id = '''', multi_gmail_max_accounts = 5\<rparr>"

definition offline_services :: "'s route_services" where
  "offline_services =
     \<lparr>rv_post = (\<lambda>_. eraise (HttpError None)), rv_decrypt = (\<lambda>_. Inr [(''refresh_token'', JStr ''r'')]),
      rv_encrypt = (\<lambda>_. ereturn ''e''), rv_now = ereturn 50, rv_id = ereturn ''i1'', au_token = ereturn ''token'',
      au_check_credentials = (\<lambda>_. ereturn \<lparr>cs_connected = True, cs_has_stored_tokens = True, cs_reauth_required = False, cs_error = None\<rparr>),
      au_missing_scopes = (\<lambda>_ _. ereturn []), rt_stop_watch = (\<lambda>_. ereturn ()), rt_ensure_watch = (\<lambda>_. ereturn ()),
      rt_exchange = (\<lambda>_ _. eraise (HttpError None)), rt_userinfo = (\<lambda>_. ereturn JNull),
      rt_url = (\<lambda>s. \<lparr>url_scheme = s, url_netloc = '''', url_path = '''', url_query = []\<rparr>)\<rparr>"

definition session_cookie :: auth_request where
  "session_cookie = \<lparr>req_session_cookie = Some ''token'', req_authorization = ''''\<rparr>"









definition offline_job :: job_row where
  "offline_job = new_job_row 50 ''i1'' None 0 (revocation_request (strip (subject_key ''g1'')) ''r'' ''t'')"




lemma offline_calls: "rv_now offline_services = ereturn 50" "rt_stop_watch offline_services user = ereturn ()"
  by (simp_all add: offline_services_def)


lemma offline_job_unowned: "bj_user_id offline_job = None"
  by (simp add: offline_job_def new_job_row_def revocation_request_def job_request_of_def)













theorem issued_session_authenticates_witness:
  "\<exists>s db'. issue_session offline_services plain_settings sample_user ''web'' (sample_action_db []) = (Inr s, db')
     \<and> fst (get_current_user offline_services plain_settings session_cookie db') = Inr (Some (user_view sample_user))"
proof -
  obtain s db' where run: "issue_session offline_services plain_settings sample_user ''web'' (sample_action_db []) = (Inr s, db')"
    and s: "is_token s = ''token''" "50 < is_expires_at s" "current_view db' ''u1'' = Some (user_view sample_user)"
    by (simp add: issue_session_def offline_services_def ebind_apply create_app_session_def find_user_def sample_action_simps Let_def
        current_view_def days_def web_session_days_def)
  have "request_token session_cookie = Some (is_token s)" by (simp add: request_token_def session_cookie_def truthy_str_def s)
  from issued_session_authenticates [OF run, of "\<lambda>_. 50", OF _ this] run s show ?thesis
    by (auto simp: offline_calls fun_eq_iff sample_user_def)
qed

end
