(* ===== verification/Oauth_Safety.thy ===== *)
theory Oauth_Safety
  imports Oauth_Callback Auth_Safety
begin

text \<open>
  The state of an OAuth flow is used once: whatever a callback does, no later callback with
  its state signs anyone in.
\<close>

section \<open>What a callback may change\<close>




text \<open>An operation that changes neither preserves every such predicate.\<close>

definition flow_frame :: "(callback_db, 'a) eff \<Rightarrow> bool" where
  "flow_frame m \<longleftrightarrow> (\<forall>db. set (oauth_login_sessions (snd (m db))) \<subseteq> set (oauth_login_sessions db)
     \<and> cb_delete_attempted (snd (m db)) = cb_delete_attempted db \<and> mobile_login_codes (snd (m db)) = mobile_login_codes db)"


named_theorems flow_frames "operations that leave the flows alone"

lemma identity_frames [flow_frames]:
  "flow_frame (record_google_subject_revocation now h)"
  "flow_frame (delete_google_oauth_token user account)"
  "flow_frame (delete_oauth_login_session state)"
  "flow_frame (has_active_google_token_revocation h)"
  "flow_frame (write_token now epoch user owner token)"
  "flow_frame (clear_guards now epoch user)"
  "flow_frame (insert_user epoch new is_new)"
  "flow_frame (attach_account now i user email google_sub name n)"
  "flow_frame (create_mobile_oauth_handoff now handoff encrypted expires hash challenge status error)"

  "flow_frame (create_app_session now i user token_hash platform expires)"
  by (auto simp: flow_frame_def record_google_subject_revocation_def delete_google_oauth_token_def delete_oauth_login_session_def
      in_delete_where has_active_google_token_revocation_def write_token_def clear_guards_def insert_user_def attach_account_def
      create_mobile_oauth_handoff_def create_app_session_def Let_def split: option.splits)

lemma events_frame:
  "oauth_login_sessions (fold (\<lambda>i. insert_event now i kind message metadata) ids db) = oauth_login_sessions db"
  "mobile_login_codes (fold (\<lambda>i. insert_event now i kind message metadata) ids db) = mobile_login_codes db"
  "cb_delete_attempted (fold (\<lambda>i. insert_event now i kind message metadata) ids c) = cb_delete_attempted c"
  by (induction ids arbitrary: db c) (simp_all add: insert_event_def)

lemma job_frames [flow_frames]:
  "flow_frame (cancel_user_jobs now user)"
  "flow_frame (complete_google_token_revocations_for_subject now h)"
  "flow_frame (complete_google_token_revocation_job now i)"
  by (simp_all add: flow_frame_def cancel_user_jobs_def complete_google_token_revocations_for_subject_def
      complete_google_token_revocation_job_def Let_def events_frame insert_event_def update_jobs_def split: option.splits)





section \<open>Everything but the use of the state\<close>




section \<open>The use of the state\<close>













section \<open>The callback\<close>



















end
