(* ===== verification/Spec2Isabelle.thy ===== *)
theory Spec2Isabelle
  imports Job_Outcomes Retry_Policy Send_Safety Scan_Safety Action_Safety Fetch_Laws Body_Client Identity_Safety Rate_Limit Worker_Safety Oauth_Safety
begin

text \<open>
  A model of the mail backend of this repository (\<open>src/backend/app\<close>, Python) and the
  theorems that make it correct. Paths below are relative to \<open>src/backend/app\<close>.

  \<^bold>\<open>The program.\<close> A user links Gmail accounts. A web process answers requests and a
  pool of worker processes runs background jobs; both work on one PostgreSQL
  database. A mail is written by the user, stored durably, and delivered by a
  request or a job. A mailbox action (archive, star, ..) changes the local labels at
  once and is performed by a job. The Gmail mailbox is cached: an importer follows
  Gmail's history, and from time to time scans the whole message list. Everything
  that touches mail of a user respects a durable guard and advisory locks, so that
  deleting an account never races with mail work.

  \<^bold>\<open>How it is modelled.\<close> Rows of a table are records, a table is a list of rows in
  the order of insertion, and the database is a record of tables that each component
  extends by its own: \<open>guard_db\<close> (users, tokens, linked accounts, held locks),
  \<open>job_db\<close>, \<open>send_db\<close>, \<open>mail_db\<close>, \<open>action_db\<close>. A service function is a state
  transformer \<open>('s, 'a) eff\<close> that ends with a value or an exception and the state it
  left (\<open>Mail_Prelude\<close>); \<open>etransaction\<close> is rollback on an exception, \<open>etry\<close> is
  \<open>except\<close>, \<open>efinally\<close> is \<open>finally\<close>. A statement that PostgreSQL runs atomically is one
  function on the tables. The transaction time, fresh uuids and the answers of
  services outside the repository (Gmail, the MIME serializer, the date parser) are
  arguments. Concurrency is interleaving: transactions of other processes are
  arbitrary steps between the transactions of an operation.

  \<^bold>\<open>Theories, sources and theorems.\<close>

  \<^item> \<open>Mail_Prelude\<close>, \<open>Py_Encoding\<close>: effects and their rules (\<open>epreserves\<close>, \<open>ehoare\<close>),
    rows and tables, Python strings; JSON, SHA-256 and base64 of the standard library.

  \<^item> \<open>Mail_Guard\<close> (\<open>db/user_mail_guard.py\<close>, \<open>db/account_scope.py\<close>): durable guard and
    advisory locks. Lock scopes are balanced on every exit, and while a destructive
    scope holds the exclusive lock no guarded work of the user runs.

  \<^item> \<open>Job_Queue\<close> (\<open>db/jobs.py\<close>): the job table and all queue operations, including the
    lost race of \<open>enqueue_job\<close>. \<open>Job_Invariants\<close>: the locale \<open>job_change\<close> states what an
    update of the table must respect, every statement interprets it; every operation
    preserves the table invariant. \<open>Job_Lifecycle\<close>: the queue as a step relation, its
    reachable states, ended jobs stay ended, lost leases are fenced, which job a claim
    takes. \<open>Job_Outcomes\<close>: retry and dead-letter decisions, deduplication, cancellation,
    queue health, and the unbounded reclaim of expired leases.

  \<^item> \<open>Retry_Policy\<close> (\<open>workers/retry_policy.py\<close>): walking the chain of causes of an
    exception, which may be cyclic, and the delay before a Gmail job runs again.

  \<^item> \<open>Keyed_Submission\<close>: the locale of create-or-get operations, where a client id names
    one row; interpreted for the two send interfaces and the mailbox actions.

  \<^item> \<open>Send_Store\<close>, \<open>Send_Identity\<close> (\<open>db/mail_groups.py\<close>, \<open>db/account_mail.py\<close>): durable
    sends and the immutability of their content. \<open>Error_Safety\<close>
    (\<open>core/error_safety.py\<close>): error categories. \<open>Send_Delivery\<close>, \<open>Send_Safety\<close>
    (\<open>services/mailbox_sends.py\<close>): delivery by requests, retries and workers; Gmail
    accepts a message at most once, an ambiguous attempt is only searched for.

  \<^item> \<open>Mailbox_State\<close>, \<open>Message_Store\<close>, \<open>Import_State\<close>, \<open>Reconciliation\<close>
    (\<open>db/mail_groups.py\<close>): cached messages, the import state with its trigger and its
    initial window, and the durable scan of the provider's list. \<open>Mailbox_Runs\<close>:
    sequences of these operations. \<open>Mailbox_Change\<close>: the locales \<open>mailbox_writes\<close>,
    \<open>seen_writes\<close>, \<open>scan_starts\<close>, \<open>scan_resets\<close>, \<open>message_deletes\<close>, \<open>scan_finals\<close>,
    \<open>mailbox_frame\<close> and \<open>mailbox_invariant\<close>, which say what a predicate has to tolerate so
    that every operation preserves it; they are interpreted for the table invariant,
    the order of message contents, the history cursor and the seen identities.
    \<open>Message_Laws\<close>: metadata merges in any order, and a cached message only advances.
    \<open>Mailbox_Invariants\<close>: keys, positions and counters. \<open>Scan_Mirror\<close>: an abstract
    specification of a scan, its refinement by the tables, and what a whole scan
    leaves. \<open>Scan_Safety\<close>: the history cursor and seen messages under interleaving.

  \<^item> \<open>Action_Labels\<close>, \<open>Thread_Actions\<close>, \<open>Action_Safety\<close> (\<open>services/mailbox_actions.py\<close> and
    its table in \<open>db/mail_groups.py\<close>): optimistic label changes and their undoing, the
    durable action, its run and its rollback; a finished action is not performed
    again, a failed one is recorded, a resubmitted one changes nothing.

  \<^item> \<open>Py_Json\<close>, \<open>Py_Md5\<close>: \<open>json.loads\<close>, urlsafe base64 and MD5 of the standard library,
    the parsers inverse to the writers. \<open>Body_Status\<close>
    (\<open>services/email_extraction.py\<close>): whether a full payload has a readable body, and the
    projection that replaces the payload in storage and keeps its attachments.

  \<^item> \<open>Gmail_Cursor\<close>, \<open>Gmail_Fetch\<close>, \<open>Gmail_Sync\<close>, \<open>Gmail_Backfill\<close>, \<open>Gmail_Bodies\<close>
    (\<open>services/gmail_importer.py\<close>): durable listing cursors, list pages, the history
    traversal, batched fetches, and the jobs over them: first run, recent sync, delta
    sync, full reconciliation, mailbox backfill, body fetch, body backfill and the
    hydration of search matches. Gmail is a record of effects, which may also stand for
    what other processes commit during a call. \<open>Fetch_Laws\<close>: the traversal covers every
    page, a batched fetch equals single requests, the window search ends.
    \<open>Sync_Client\<close>, \<open>Body_Client\<close>: the locales \<open>sync_client\<close> and \<open>scan_client\<close> state what a
    predicate on the tables has to tolerate so that every synchronisation job preserves
    it; interpreted for the invariant of the tables and for the presence of a single
    message. A body download accounts for every message.

  \<^item> \<open>Identity_Store\<close>, \<open>Identity_Safety\<close> (\<open>db/repository.py\<close> with the triggers of the
    migrations): users, linked accounts, credentials, app sessions, OAuth flows, login codes,
    handoffs, and the tombstones and epochs that order revocations and flows. Once an identity
    is revoked, no flow that began before brings it back; a login code is redeemed once.

  \<^item> \<open>Google_Revocation\<close>, \<open>Revocation_Safety\<close> (\<open>services/integrations/google.py\<close>): Google's
    answer to a revocation, and the job that records a credential before Google is asked.
    \<open>Auth_Service\<close> (\<open>services/auth.py\<close>): the current user, sessions, login codes.
    \<open>Auth_Routes\<close>, \<open>Auth_Safety\<close> (\<open>api/routes/auth_google.py\<close>, \<open>delete_user_mail_data\<close> of
    \<open>db/mail_groups.py\<close>): sign out, disconnect, deletion of the mail data and of the account;
    no grant is given up before a job records it, what a deletion erases, what it leaves of
    linked accounts, and how long a session authenticates. \<open>Oauth_Callback\<close>, \<open>Oauth_Safety\<close>:
    the callback with its clauses of \<open>except\<close> and \<open>finally\<close> and the handoff to a native client;
    \<open>flow_stable\<close> names the predicates that everything but the use of the state preserves, so
    the state of a flow is used once, however a callback ends.

  \<^item> \<open>Rate_Limit\<close> (\<open>core/rate_limit.py\<close>): rules, request identities, the limiter of a process
    and the fall back from shared buckets; the limiter decides as a sliding window.

  \<^item> \<open>Worker\<close>, \<open>Worker_Safety\<close> (\<open>workers/main.py\<close>, \<open>cleanup_old_jobs\<close> of \<open>db/jobs.py\<close>): a worker
    cycle, from the claim over the dispatch of every kind of job to its settlement. The locales
    \<open>worker_client\<close> and \<open>queue_property\<close> compose the lemmas of all components: a cycle keeps the
    tables consistent and gives every lease back.

  \<^bold>\<open>Bounds and fuel.\<close> Most recursions are structural, or have a measure (the chain of
  exceptions: the objects not seen yet). The JSON parser takes the length of its text
  as fuel, enough by \<open>json_loads_dumps\<close>. The search for the recent window, a loop
  without a bound in the code, takes fuel \<open>sy_pages\<close>, and \<open>initial_window_search_ends\<close>
  says how much is enough. Text is ASCII. Times
  are microseconds. Integers of the database are unbounded, except that the delay of
  a retry is computed with the bound the code has.

  \<^bold>\<open>Not modelled.\<close> The clients (TypeScript, Swift), deployment scripts, configuration, logging,
  and migrations other than the triggers named in the theories. HTTP routes other than those of
  OAuth: they validate a request and call the functions modelled here. HTML sanitizing, remote
  images, MIME parsing, avatars and language-model prompts: their behaviour lies in libraries
  and services. Drafts (\<open>services/mailbox_drafts.py\<close>), the inbox projection with its matters and todos
  (\<open>db/ai_inbox.py\<close>, \<open>services/ai_inbox.py\<close>, most of \<open>services/mail_groups.py\<close>), mailbox listings
  and search, the refresh of the thread order, push notifications and the delivery of events are
  left out; where a modelled operation calls them, they are arguments that a theorem constrains
  by what they preserve. Of \<open>services/integrations/google.py\<close> the loading and refresh of
  credentials and the single Gmail requests are left out. Tables that no modelled function reads
  (drafts, matters, todos, devices) are not part of the state; the deletions
  of \<open>delete_user_mail_data\<close> and of an account are modelled on the tables that are.
\<close>

end
